(* ===== verification/Prelude.thy ===== *)
theory Prelude
  imports Main "HOL-Library.Char_ord" "HOL-Library.List_Lexorder" "HOL-Library.Product_Lexorder"
begin

text \<open>
  Shared material of the development: the collections the component theories fill, the types
  that name the values of the Go code, and the generic lemmas on lists that carry the proofs
  about tables.  Rows of a table are a list in insertion order; an update maps over the list and
  an insert appends, so positions are stable and \<^term>\<open>list_all2\<close> relates the rows before and
  after a statement.
\<close>

named_theorems tx_simps \<open>inversion of successful runs of database programs\<close>
named_theorems keeps_intros \<open>a database program keeps a store relation\<close>
named_theorems op_defs \<open>definitions of store operations, for evaluation of witnesses\<close>

text \<open>A Go \<open>time.Time\<close> in UTC is the number of nanoseconds since the Unix epoch.\<close>

type_synonym time = int

text \<open>The zero \<open>time.Time\<close>: 1 January of year 1.\<close>

definition zero_time :: time where
  "zero_time = - 62135596800 * 1000000000"

abbreviation seconds :: "int \<Rightarrow> time" where
  "seconds n \<equiv> n * 1000000000"

text \<open>
  The error values the persistence layer returns.  \<open>ErrConstraint\<close> is a violated constraint of
  the schema, \<open>ErrIO\<close> any failure of the engine or a cancelled context, \<open>ErrMsg\<close> an error
  made with \<open>errors.New\<close>.  Wrapping with \<open>%w\<close> keeps the wrapped value, as \<open>errors.Is\<close> sees it.
\<close>

datatype err =
    ErrNotFound
  | ErrConflict
  | ErrExpired
  | ErrInvalidDeviceCredential
  | ErrConstraint
  | ErrIO
  | ErrMsg string

text \<open>
  JSON documents.  \<open>JNum\<close> is a number the code writes with \<open>json.Marshal\<close>, \<open>JLit\<close> the text of a
  number it has read.
\<close>

datatype json = JNull | JBool bool | JNum int | JLit string | JStr string | JArr "json list"
  | JObj "(string \<times> json) list"

subsection \<open>Lists as tables\<close>

text \<open>\<open>ORDER BY k DESC\<close>, rows with equal keys in table order.\<close>

definition sort_key_desc :: "('a \<Rightarrow> 'k::linorder) \<Rightarrow> 'a list \<Rightarrow> 'a list" where
  "sort_key_desc k xs = rev (sort_key k (rev xs))"

lemma set_sort_key_desc [simp]: "set (sort_key_desc k xs) = set xs"
  by (simp add: sort_key_desc_def)

text \<open>\<open>UPDATE ... SET f WHERE p\<close> on one table.\<close>

definition upd_rows :: "('a \<Rightarrow> bool) \<Rightarrow> ('a \<Rightarrow> 'a) \<Rightarrow> 'a list \<Rightarrow> 'a list" where
  "upd_rows p f xs = map (\<lambda>x. if p x then f x else x) xs"

definition count_rows :: "('a \<Rightarrow> bool) \<Rightarrow> 'a list \<Rightarrow> nat" where
  "count_rows p xs = length (filter p xs)"

lemma length_upd_rows [simp]: "length (upd_rows p f xs) = length xs"
  by (simp add: upd_rows_def)

lemma upd_rows_Nil [simp]: "upd_rows p f [] = []"
  by (simp add: upd_rows_def)

lemma upd_rows_Cons [simp]:
  "upd_rows p f (x # xs) = (if p x then f x else x) # upd_rows p f xs"
  by (simp add: upd_rows_def)

lemma set_upd_rows: "set (upd_rows p f xs) = (\<lambda>x. if p x then f x else x) ` set xs"
  by (simp add: upd_rows_def)

lemma list_all2_upd_rows:
  assumes "\<And>x. x \<in> set xs \<Longrightarrow> Q x x" and "\<And>x. x \<in> set xs \<Longrightarrow> p x \<Longrightarrow> Q x (f x)"
  shows "list_all2 Q xs (upd_rows p f xs)"
  using assms by (induction xs) auto

lemma count_rows_eq_0: "count_rows p xs = 0 \<longleftrightarrow> (\<forall>x\<in>set xs. \<not> p x)"
  by (simp add: count_rows_def filter_empty_conv)

lemma upd_rows_none: "\<forall>x\<in>set xs. \<not> p x \<Longrightarrow> upd_rows p f xs = xs"
  by (induction xs) auto

lemma map_upd_rows_same:
  assumes "\<And>x. p x \<Longrightarrow> g (f x) = g x"
  shows "map g (upd_rows p f xs) = map g xs"
  using assms by (induction xs) auto

lemma find_upd_rows:
  assumes "\<And>x. p x \<Longrightarrow> q (f x) = q x"
  shows "find q (upd_rows p f xs) = map_option (\<lambda>x. if p x then f x else x) (find q xs)"
  using assms by (induction xs) auto

lemma find_SomeD: "find p xs = Some x \<Longrightarrow> x \<in> set xs \<and> p x"
  by (induction xs) (auto split: if_splits)

lemma find_None_set: "find p xs = None \<longleftrightarrow> (\<forall>x\<in>set xs. \<not> p x)"
  by (induction xs) auto

lemma find_append: "find p (xs @ ys) = (case find p xs of None \<Rightarrow> find p ys | Some x \<Rightarrow> Some x)"
  by (induction xs) auto

lemma find_distinct:
  assumes "distinct (map g xs)" and "x \<in> set xs"
  shows "find (\<lambda>y. g y = g x) xs = Some x"
  using assms by (induction xs) (auto simp: image_iff)

lemma find_list_all2:
  assumes "list_all2 Q xs ys" and "\<And>x y. Q x y \<Longrightarrow> p y = p x" and "find p xs = Some x"
  shows "\<exists>y. find p ys = Some y \<and> Q x y"
  using assms by (induction xs ys rule: list_all2_induct) (auto split: if_splits)

lemma find_list_all2_None:
  assumes "list_all2 Q xs ys" and "\<And>x y. Q x y \<Longrightarrow> p y = p x" and "find p xs = None"
  shows "find p ys = None"
  using assms by (induction xs ys rule: list_all2_induct) (auto split: if_splits)

lemma list_all2_setD: "list_all2 Q xs ys \<Longrightarrow> x \<in> set xs \<Longrightarrow> \<exists>y\<in>set ys. Q x y"
  by (induction xs ys rule: list_all2_induct) auto

lemma list_all2_setD2: "list_all2 Q xs ys \<Longrightarrow> y \<in> set ys \<Longrightarrow> \<exists>x\<in>set xs. Q x y"
  by (induction xs ys rule: list_all2_induct) auto

lemma count_rows_find1:
  assumes "distinct (map g xs)" and "\<And>x. p x \<Longrightarrow> g x = k"
  shows "count_rows p xs \<le> 1"
  using assms
proof (induction xs)
  case Nil
  then show ?case by (simp add: count_rows_def)
next
  case (Cons x xs)
  show ?case
  proof (cases "p x")
    case True
    with Cons.prems have "\<forall>y\<in>set xs. \<not> p y" by auto
    then have "count_rows p xs = 0" by (simp add: count_rows_eq_0)
    with True show ?thesis by (simp add: count_rows_def)
  next
    case False
    with Cons show ?thesis by (simp add: count_rows_def)
  qed
qed

subsection \<open>Sums\<close>

lemma case_sum_Inr_iff:
  "(case r of Inl e \<Rightarrow> Inl (f e) | Inr x \<Rightarrow> g x) = Inr y \<longleftrightarrow> (\<exists>x. r = Inr x \<and> g x = Inr y)"
  by (cases r) auto

end
