(* ===== verification/Task_Model.thy ===== *)
theory Task_Model
  imports Prelude
begin

text \<open>
  \<open>core/tasks/model.go\<close>: the status of a task, the task record and the declared status
  transitions.  A \<open>Status\<close> is a string type with thirteen constants; the tables only ever hold
  these, so it is a datatype.  Optional pointers are options; the raw JSON fields keep their bytes.
\<close>

datatype Status =
    StatusCreated
  | StatusQueued
  | StatusAssigned
  | StatusRunning
  | StatusWaitingForChildren
  | StatusWaitingForApproval
  | StatusBlocked
  | StatusCompleted
  | StatusPartiallyCompleted
  | StatusFailed
  | StatusCancelRequested
  | StatusCancelled
  | StatusTimedOut

fun status_text :: "Status \<Rightarrow> string" where
  "status_text StatusCreated = ''CREATED''"
| "status_text StatusQueued = ''QUEUED''"
| "status_text StatusAssigned = ''ASSIGNED''"
| "status_text StatusRunning = ''RUNNING''"
| "status_text StatusWaitingForChildren = ''WAITING_FOR_CHILDREN''"
| "status_text StatusWaitingForApproval = ''WAITING_FOR_APPROVAL''"
| "status_text StatusBlocked = ''BLOCKED''"
| "status_text StatusCompleted = ''COMPLETED''"
| "status_text StatusPartiallyCompleted = ''PARTIALLY_COMPLETED''"
| "status_text StatusFailed = ''FAILED''"
| "status_text StatusCancelRequested = ''CANCEL_REQUESTED''"
| "status_text StatusCancelled = ''CANCELLED''"
| "status_text StatusTimedOut = ''TIMED_OUT''"

record Artifact =
  af_ID :: string
  af_Name :: string
  af_MediaType :: string
  af_URI :: string
  af_SHA256 :: string
  af_SizeBytes :: int
  af_Description :: string

record Task =
  t_ID :: string
  t_ParentTaskID :: "string option"
  t_RootTaskID :: string
  t_ConversationID :: string
  t_Goal :: string
  t_TaskType :: string
  t_Input :: string
  t_AssignedAgentID :: string
  t_AllowedTools :: "string list"
  t_ApprovalPolicy :: string
  t_Status :: Status
  t_Progress :: int
  t_ProgressMessage :: string
  t_CreatedAt :: time
  t_StartedAt :: "time option"
  t_FinishedAt :: "time option"
  t_RetryCount :: int
  t_MaxRetries :: int
  t_TimeoutSeconds :: int
  t_Error :: string
  t_Result :: string
  t_UserFacingSummary :: string
  t_Artifacts :: "Artifact list"
  t_CorrelationID :: string
  t_CausationID :: "string option"
  t_IdempotencyKey :: string
  t_Version :: int
  t_Priority :: int
  t_Dismissed :: bool

record Dependency =
  dep_TaskID :: string
  dep_DependsOnTaskID :: string

fun transitions :: "Status \<Rightarrow> Status list" where
  "transitions StatusCreated = [StatusQueued, StatusWaitingForApproval, StatusCancelled]"
| "transitions StatusQueued = [StatusAssigned, StatusCancelRequested, StatusTimedOut]"
| "transitions StatusAssigned = [StatusRunning, StatusQueued, StatusCancelRequested]"
| "transitions StatusRunning =
     [StatusWaitingForChildren, StatusWaitingForApproval, StatusCompleted,
      StatusPartiallyCompleted, StatusFailed, StatusCancelRequested, StatusTimedOut]"
| "transitions StatusWaitingForChildren =
     [StatusRunning, StatusCompleted, StatusPartiallyCompleted, StatusFailed, StatusCancelRequested]"
| "transitions StatusWaitingForApproval = [StatusQueued, StatusCancelled, StatusTimedOut]"
| "transitions StatusBlocked = [StatusQueued, StatusCancelled]"
| "transitions StatusCancelRequested = [StatusCancelled, StatusCompleted, StatusFailed]"
| "transitions _ = []"

definition CanTransition :: "Status \<Rightarrow> Status \<Rightarrow> bool" where
  "CanTransition from to = (if from = to then True else to \<in> set (transitions from))"

definition ValidateTransition :: "Status \<Rightarrow> Status \<Rightarrow> err + unit" where
  "ValidateTransition from to =
    (if \<not> CanTransition from to then Inl (ErrMsg ''invalid task transition'') else Inr ())"

fun Terminal :: "Status \<Rightarrow> bool" where
  "Terminal StatusCompleted = True"
| "Terminal StatusPartiallyCompleted = True"
| "Terminal StatusFailed = True"
| "Terminal StatusCancelled = True"
| "Terminal StatusTimedOut = True"
| "Terminal _ = False"

subsection \<open>The declared state machine\<close>

lemma Terminal_absorbing: "Terminal s \<Longrightarrow> CanTransition s s' \<longleftrightarrow> s' = s"
  by (cases s) (auto simp: CanTransition_def)

lemma CanTransition_refl [simp]: "CanTransition s s"
  by (simp add: CanTransition_def)

inductive status_path :: "Status \<Rightarrow> Status \<Rightarrow> bool" where
  here: "status_path s s"
| step: "CanTransition s t \<Longrightarrow> status_path t u \<Longrightarrow> status_path s u"

inductive_cases status_pathE: "status_path s u"

lemma status_path_closed:
  assumes "status_path s u" and "s \<in> A" and "\<And>a b. a \<in> A \<Longrightarrow> CanTransition a b \<Longrightarrow> b \<in> A"
  shows "u \<in> A"
  using assms by (induction rule: status_path.induct) auto

lemma status_path_cancelled:
  assumes "\<not> Terminal s"
  shows "status_path s StatusCancelled"
proof -
  have direct: "status_path a StatusCancelled" if "CanTransition a StatusCancelled" for a
    using that by (blast intro: status_path.intros)
  have two: "status_path a StatusCancelled" if "CanTransition a StatusCancelRequested" for a
    using that by (rule status_path.step) (simp add: direct CanTransition_def)
  have "CanTransition s StatusCancelled \<or> CanTransition s StatusCancelRequested"
    using assms by (cases s) (auto simp: CanTransition_def)
  then show ?thesis by (blast intro: direct two)
qed

lemma status_path_from_terminal: "status_path s u \<Longrightarrow> Terminal s \<Longrightarrow> u = s"
  by (induction rule: status_path.induct) (auto simp: Terminal_absorbing)

text \<open>
  The terminal statuses are exactly the dead ends of the declared transitions: from a terminal
  status no other status can be reached, and every other status still has a way on (it can be
  cancelled).
\<close>

theorem terminal_iff_stuck: "Terminal s \<longleftrightarrow> {u. status_path s u} = {s}"
proof (cases "Terminal s")
  case True
  then show ?thesis
    by (auto intro: status_path.here dest: status_path_from_terminal)
next
  case False
  then have "status_path s StatusCancelled" and "s \<noteq> StatusCancelled"
    by (auto intro: status_path_cancelled)
  then have "{u. status_path s u} \<noteq> {s}" by (metis mem_Collect_eq singletonD)
  with False show ?thesis by simp
qed

end
