(* ===== verification/Dialog_Model.thy ===== *)
theory Dialog_Model
  imports Prelude
begin

text \<open>
  \<open>core/conversation/dialog.go\<close>: the states of a voice dialog and the transitions it may take.
\<close>

datatype DialogState =
    StateIdle | StateRinging | StateConnecting | StateListening | StateTranscribing | StateThinking
  | StateDelegating | StateWaitingForResult | StateSpeaking | StateInterrupted
  | StateWaitingForApproval | StateReconnecting | StateFailed | StateEnded

fun allowedTransitions :: "DialogState \<Rightarrow> DialogState list" where
  "allowedTransitions StateIdle = [StateRinging, StateConnecting, StateEnded]"
| "allowedTransitions StateRinging = [StateConnecting, StateEnded, StateFailed]"
| "allowedTransitions StateConnecting = [StateListening, StateReconnecting, StateFailed, StateEnded]"
| "allowedTransitions StateListening = [StateTranscribing, StateThinking, StateReconnecting, StateEnded]"
| "allowedTransitions StateTranscribing =
     [StateListening, StateThinking, StateReconnecting, StateFailed, StateEnded]"
| "allowedTransitions StateThinking =
     [StateDelegating, StateSpeaking, StateWaitingForApproval, StateFailed, StateEnded]"
| "allowedTransitions StateDelegating =
     [StateWaitingForResult, StateWaitingForApproval, StateSpeaking, StateFailed, StateEnded]"
| "allowedTransitions StateWaitingForResult =
     [StateListening, StateSpeaking, StateWaitingForApproval, StateFailed, StateEnded]"
| "allowedTransitions StateSpeaking = [StateInterrupted, StateListening, StateEnded, StateReconnecting]"
| "allowedTransitions StateInterrupted = [StateListening, StateThinking, StateReconnecting, StateEnded]"
| "allowedTransitions StateWaitingForApproval =
     [StateDelegating, StateWaitingForResult, StateListening, StateFailed, StateEnded]"
| "allowedTransitions StateReconnecting = [StateListening, StateSpeaking, StateFailed, StateEnded]"
| "allowedTransitions StateFailed = [StateReconnecting, StateEnded]"
| "allowedTransitions StateEnded = []"

definition CanTransitionDialog :: "DialogState \<Rightarrow> DialogState \<Rightarrow> bool" where
  "CanTransitionDialog from to \<longleftrightarrow> from = to \<or> to \<in> set (allowedTransitions from)"

definition ValidateTransitionDialog :: "DialogState \<Rightarrow> DialogState \<Rightarrow> err + unit" where
  "ValidateTransitionDialog from to =
     (if \<not> CanTransitionDialog from to then Inl (ErrMsg ''invalid dialog transition'') else Inr ())"

inductive dialog_path :: "DialogState \<Rightarrow> DialogState \<Rightarrow> bool" where
  stay: "dialog_path s s"
| move: "dialog_path s t \<Longrightarrow> CanTransitionDialog t u \<Longrightarrow> dialog_path s u"

lemma dialog_path_trans: "dialog_path s t \<Longrightarrow> dialog_path t u \<Longrightarrow> dialog_path s u"
  by (rotate_tac 1, induction rule: dialog_path.induct) (auto intro: dialog_path.move)

lemma dialog_ended: "dialog_path s u \<Longrightarrow> s = StateEnded \<Longrightarrow> u = StateEnded"
  by (induction rule: dialog_path.induct) (auto simp: CanTransitionDialog_def)

lemma dialog_started: "dialog_path s u \<Longrightarrow> u = StateIdle \<Longrightarrow> s = StateIdle"
proof (induction rule: dialog_path.induct)
  case (move s t u)
  then have "t = StateIdle" by (cases t) (auto simp: CanTransitionDialog_def)
  with move show ?case by simp
qed simp

text \<open>The ways into the conversation from any live state.\<close>

lemma dialog_live:
  assumes "s \<noteq> StateEnded"
  shows "dialog_path s StateListening"
proof -
  have step: "dialog_path s u" if "dialog_path s t" "u \<in> set (allowedTransitions t)" for t u
    using that by (auto intro: dialog_path.move simp: CanTransitionDialog_def)
  have direct: "dialog_path s StateListening" if "StateListening \<in> set (allowedTransitions s)"
    using step [OF dialog_path.stay that] .
  have via: "dialog_path s StateListening"
    if "t \<in> set (allowedTransitions s)" "StateListening \<in> set (allowedTransitions t)" for t
    using step [OF step [OF dialog_path.stay that(1)] that(2)] .
  show ?thesis
    using assms
  proof (cases s)
    case StateIdle then show ?thesis by (intro via [of StateConnecting]) simp_all
  next
    case StateRinging then show ?thesis by (intro via [of StateConnecting]) simp_all
  next
    case StateThinking then show ?thesis by (intro via [of StateSpeaking]) simp_all
  next
    case StateDelegating then show ?thesis by (intro via [of StateSpeaking]) simp_all
  next
    case StateFailed then show ?thesis by (intro via [of StateReconnecting]) simp_all
  next
    case StateListening then show ?thesis by (simp add: dialog_path.stay)
  qed (intro direct, simp)+
qed

text \<open>
  A call is never stuck.  A state other than \<open>ENDED\<close> can be ended at once and can still get back
  to listening; \<open>ENDED\<close> is final and no state leads back to \<open>IDLE\<close>.
\<close>

theorem dialog_never_stuck:
  "(s \<noteq> StateEnded \<longleftrightarrow> dialog_path s StateListening) \<and> CanTransitionDialog s StateEnded \<and>
   (dialog_path s StateIdle \<longleftrightarrow> s = StateIdle)"
proof (intro conjI)
  show "s \<noteq> StateEnded \<longleftrightarrow> dialog_path s StateListening"
    using dialog_live dialog_ended by blast
  show "CanTransitionDialog s StateEnded" by (cases s) (simp_all add: CanTransitionDialog_def)
  show "dialog_path s StateIdle \<longleftrightarrow> s = StateIdle"
    using dialog_started dialog_path.stay by blast
qed

end
