(* ===== verification/Timestamps.thy ===== *)
theory Timestamps
  imports Prelude
begin

text \<open>
  The timestamps of \<open>core/persistence/store.go\<close>.  Every time column is \<open>TEXT\<close> holding
  \<open>value.UTC().Format(time.RFC3339Nano)\<close>: the calendar date and the time of day, then the
  fraction of the second with its trailing zeros cut off and without a point when it is zero.
  The tables of the model hold the instant itself; wherever a SQL statement compares or sorts a
  time column it compares these texts, with the byte order of SQLite's \<open>BINARY\<close> collation,
  which is the order of \<^typ>\<open>string\<close> set up in the prelude.
\<close>

subsection \<open>The text of an instant\<close>

text \<open>The civil date of a day number (0 is 1970-01-01) in the proleptic Gregorian calendar.\<close>

definition civil_from_days :: "int \<Rightarrow> int \<times> int \<times> int" where
  "civil_from_days days =
    (let z = days + 719468;
         era = z div 146097;
         doe = z - era * 146097;
         yoe = (doe - doe div 1460 + doe div 36524 - doe div 146096) div 365;
         doy = doe - (365 * yoe + yoe div 4 - yoe div 100);
         mp = (5 * doy + 2) div 153;
         d = doy - (153 * mp + 2) div 5 + 1;
         m = (if mp < 10 then mp + 3 else mp - 9)
     in (yoe + era * 400 + (if m \<le> 2 then 1 else 0), m, d))"

definition digit_char :: "int \<Rightarrow> char" where
  "digit_char n = char_of (48 + nat (n mod 10))"

text \<open>Exactly \<open>k\<close> decimal digits, zero padded.\<close>

fun pad :: "nat \<Rightarrow> int \<Rightarrow> string" where
  "pad 0 n = []"
| "pad (Suc k) n = pad k (n div 10) @ [digit_char n]"

definition strip_zeros :: "string \<Rightarrow> string" where
  "strip_zeros s = rev (dropWhile (\<lambda>c. c = CHR ''0'') (rev s))"

definition fraction_text :: "int \<Rightarrow> string" where
  "fraction_text ns = (if ns = 0 then [] else CHR ''.'' # strip_zeros (pad 9 ns))"

definition seconds_text :: "int \<Rightarrow> string" where
  "seconds_text secs =
    (let (y, m, d) = civil_from_days (secs div 86400); sod = secs mod 86400
     in pad 4 y @ ''-'' @ pad 2 m @ ''-'' @ pad 2 d @ ''T'' @ pad 2 (sod div 3600) @ '':'' @
        pad 2 (sod div 60 mod 60) @ '':'' @ pad 2 (sod mod 60))"

definition formatTime :: "time \<Rightarrow> string" where
  "formatTime t = seconds_text (t div 1000000000) @ fraction_text (t mod 1000000000) @ ''Z''"

definition optionalTime :: "time option \<Rightarrow> string option" where
  "optionalTime t = map_option formatTime t"

subsection \<open>Comparing texts within a second\<close>

lemma length_pad [simp]: "length (pad k n) = k"
  by (induction k arbitrary: n) auto

text \<open>
  Two instants of the same second share the prefix, so their texts compare as the fractions do.
\<close>

lemma append_less_same: "(xs @ ys < xs @ zs) = (ys < (zs :: string))"
  by (induction xs) auto

lemma append_le_same: "(xs @ ys \<le> xs @ zs) = (ys \<le> (zs :: string))"
  by (induction xs) auto

lemma formatTime_same_second:
  assumes "s div 1000000000 = t div 1000000000"
  shows "(formatTime s \<le> formatTime t) =
    (fraction_text (s mod 1000000000) @ ''Z'' \<le> fraction_text (t mod 1000000000) @ ''Z'')"
  using assms by (simp add: formatTime_def append_le_same)

lemma char_less_code: "(c < d) = ((of_char c :: nat) < of_char d)"
  by (simp add: less_char_def)

text \<open>
  A whole second sorts after every fraction of it: the text of the former has \<open>Z\<close> where the
  latter has the point.
\<close>

lemma whole_second_last:
  assumes "s div 1000000000 = t div 1000000000" and "s mod 1000000000 = 0" and "t mod 1000000000 \<noteq> 0"
  shows "formatTime t < formatTime s"
  using assms by (simp add: formatTime_def append_less_same fraction_text_def char_less_code)

end
