(* ===== verification/Database.thy ===== *)
theory Database
  imports Prelude
begin

text \<open>
  How the persistence layer talks to its database, for a store type \<open>'s\<close> that a later theory
  fixes.  A database program is a function of the \<open>world\<close>: the committed tables, the clock
  that \<open>time.Now\<close> reads, the identifiers that \<open>ids.New\<close> draws, and the statements at which the
  engine fails.  The three streams are arbitrary functions, so a theorem about a program holds
  for every clock, every choice of identifiers and every pattern of engine failures.
  A program that fails outside a transaction leaves what it has already written; \<open>run_tx\<close>
  is \<open>BeginTx\<close> with the deferred \<open>Rollback\<close> of the code and puts the tables back.
\<close>

record 's world =
  db :: 's
  clock :: "nat \<Rightarrow> time"
  ticks :: nat
  uuids :: "nat \<Rightarrow> string"
  drawn :: nat
  fault :: "nat \<Rightarrow> bool"
  stmts :: nat

type_synonym ('s, 'a) tx = "'s world \<Rightarrow> (err + 'a) \<times> 's world"

definition tx_return :: "'a \<Rightarrow> ('s, 'a) tx" where
  "tx_return a = (\<lambda>w. (Inr a, w))"

definition tx_throw :: "err \<Rightarrow> ('s, 'a) tx" where
  "tx_throw e = (\<lambda>w. (Inl e, w))"

definition tx_bind :: "('s, 'a) tx \<Rightarrow> ('a \<Rightarrow> ('s, 'b) tx) \<Rightarrow> ('s, 'b) tx" where
  "tx_bind m f = (\<lambda>w. case m w of (Inl e, w') \<Rightarrow> (Inl e, w') | (Inr a, w') \<Rightarrow> f a w')"

text \<open>Run a call and look at its error instead of returning it.\<close>

definition attempt :: "('s, 'a) tx \<Rightarrow> ('s, err + 'a) tx" where
  "attempt m = (\<lambda>w. (Inr (fst (m w)), snd (m w)))"

lemma attempt_code [code]: "attempt m = (\<lambda>w. case m w of (r, w') \<Rightarrow> (Inr r, w'))"
  by (auto simp: attempt_def split: prod.splits)

text \<open>\<open>time.Now().UTC()\<close> and \<open>ids.New()\<close>.\<close>

definition tx_now :: "('s, time) tx" where
  "tx_now = (\<lambda>w. (Inr (clock w (ticks w)), w\<lparr>ticks := Suc (ticks w)\<rparr>))"

definition tx_uuid :: "('s, string) tx" where
  "tx_uuid = (\<lambda>w. (Inr (uuids w (drawn w)), w\<lparr>drawn := Suc (drawn w)\<rparr>))"

text \<open>
  One SQL statement: it may fail in the engine, violate a constraint, or give a result and new
  tables.  \<open>query\<close> is a \<open>SELECT\<close>, \<open>execute\<close> an \<open>UPDATE\<close> or \<open>DELETE\<close> with its
  \<open>RowsAffected\<close>.
\<close>

definition stmt :: "('s \<Rightarrow> err + 'a \<times> 's) \<Rightarrow> ('s, 'a) tx" where
  "stmt f = (\<lambda>w.
     let w1 = w\<lparr>stmts := Suc (stmts w)\<rparr> in
     if fault w (stmts w) then (Inl ErrIO, w1)
     else case f (db w) of Inl e \<Rightarrow> (Inl e, w1) | Inr (a, s) \<Rightarrow> (Inr a, w1\<lparr>db := s\<rparr>))"

definition query :: "('s \<Rightarrow> 'a) \<Rightarrow> ('s, 'a) tx" where
  "query g = stmt (\<lambda>s. Inr (g s, s))"

definition execute :: "('s \<Rightarrow> nat \<times> 's) \<Rightarrow> ('s, nat) tx" where
  "execute u = stmt (\<lambda>s. Inr (u s))"

definition insert_stmt :: "('s \<Rightarrow> err + 's) \<Rightarrow> ('s, unit) tx" where
  "insert_stmt f = stmt (\<lambda>s. case f s of Inl e \<Rightarrow> Inl e | Inr s' \<Rightarrow> Inr ((), s'))"

text \<open>\<open>QueryRow\<close> and its \<open>sql.ErrNoRows\<close>.\<close>

definition query_row :: "('s \<Rightarrow> 'a option) \<Rightarrow> ('s, 'a) tx" where
  "query_row g = stmt (\<lambda>s. case g s of None \<Rightarrow> Inl ErrNotFound | Some a \<Rightarrow> Inr (a, s))"

text \<open>
  A transaction body ends with \<open>Commit\<close> and a result, or returns a result without committing,
  which the deferred rollback turns into no change.
\<close>

datatype 'a tx_end = Commit 'a | Abandon 'a

definition run_tx :: "('s, 'a tx_end) tx \<Rightarrow> ('s, 'a) tx" where
  "run_tx m = (\<lambda>w. case stmt (\<lambda>s. Inr ((), s)) w of
      (Inl e, w1) \<Rightarrow> (Inl e, w1)
    | (Inr _, w1) \<Rightarrow> (case m w1 of
          (Inl e, w2) \<Rightarrow> (Inl e, w2\<lparr>db := db w\<rparr>)
        | (Inr (Abandon a), w2) \<Rightarrow> (Inr a, w2\<lparr>db := db w\<rparr>)
        | (Inr (Commit a), w2) \<Rightarrow> (case stmt (\<lambda>s. Inr ((), s)) w2 of
              (Inl e, w3) \<Rightarrow> (Inl e, w3\<lparr>db := db w\<rparr>)
            | (Inr _, w3) \<Rightarrow> (Inr a, w3))))"

definition with_tx :: "('s, 'a) tx \<Rightarrow> ('s, 'a) tx" where
  "with_tx m = run_tx (tx_bind m (\<lambda>a. tx_return (Commit a)))"

text \<open>\<open>for _, x := range xs\<close> with an early return on the first error.\<close>

fun for_each :: "'x list \<Rightarrow> ('x \<Rightarrow> ('s, unit) tx) \<Rightarrow> ('s, unit) tx" where
  "for_each [] f = tx_return ()"
| "for_each (x # xs) f = tx_bind (f x) (\<lambda>_. for_each xs f)"

text \<open>\<open>if changed != 1 \<open>{\<close> return e \<open>}\<close>\<close>\<close>

definition require :: "bool \<Rightarrow> err \<Rightarrow> ('s, unit) tx" where
  "require b e = (if b then tx_return () else tx_throw e)"

definition tx_when :: "bool \<Rightarrow> ('s, unit) tx \<Rightarrow> ('s, unit) tx" where
  "tx_when b m = (if b then m else tx_return ())"

lemmas tx_eval = tx_return_def tx_throw_def tx_bind_def attempt_def tx_now_def tx_uuid_def
  stmt_def query_def execute_def insert_stmt_def query_row_def run_tx_def with_tx_def
  require_def tx_when_def

subsection \<open>What a successful run did\<close>

lemma tx_return_Inr [tx_simps]: "tx_return a w = (Inr b, w') \<longleftrightarrow> b = a \<and> w' = w"
  by (auto simp: tx_return_def)

lemma tx_throw_Inr [tx_simps]: "tx_throw e w = (Inr b, w') \<longleftrightarrow> False"
  by (simp add: tx_throw_def)

lemma tx_bind_Inr [tx_simps]:
  "tx_bind m f w = (Inr b, w') \<longleftrightarrow> (\<exists>a w1. m w = (Inr a, w1) \<and> f a w1 = (Inr b, w'))"
  by (auto simp: tx_bind_def split: prod.splits sum.splits)

lemma attempt_Inr [tx_simps]: "attempt m w = (Inr r, w') \<longleftrightarrow> m w = (r, w')"
  by (cases "m w") (auto simp: attempt_def)

lemma require_Inr [tx_simps]: "require b e w = (Inr u, w') \<longleftrightarrow> b \<and> w' = w"
  by (auto simp: require_def tx_simps)

lemma tx_when_Inr [tx_simps]:
  "tx_when b m w = (Inr u, w') \<longleftrightarrow> (if b then m w = (Inr u, w') else w' = w)"
  by (auto simp: tx_when_def tx_simps)

text \<open>The branches of a program, as alternatives.\<close>

lemma tx_cases:
  "case_sum f g r w = (Inr b, w') \<longleftrightarrow>
     (\<exists>e. r = Inl e \<and> f e w = (Inr b, w')) \<or> (\<exists>a. r = Inr a \<and> g a w = (Inr b, w'))"
  "case_option m h x w = (Inr b, w') \<longleftrightarrow>
     x = None \<and> m w = (Inr b, w') \<or> (\<exists>a. x = Some a \<and> h a w = (Inr b, w'))"
  "(if c then m else n) w = (Inr b, w') \<longleftrightarrow> c \<and> m w = (Inr b, w') \<or> \<not> c \<and> n w = (Inr b, w')"
  by (auto split: sum.splits option.splits)

lemma stmt_InrD: "stmt f w = (Inr a, w') \<Longrightarrow> f (db w) = Inr (a, db w')"
  by (auto simp: stmt_def Let_def split: if_splits sum.splits)

lemma query_InrD: "query g w = (Inr a, w') \<Longrightarrow> a = g (db w) \<and> db w' = db w"
  by (auto simp: query_def dest!: stmt_InrD)

lemma execute_InrD: "execute u w = (Inr n, w') \<Longrightarrow> u (db w) = (n, db w')"
  by (auto simp: execute_def dest!: stmt_InrD)

lemma insert_stmt_InrD: "insert_stmt f w = (Inr u, w') \<Longrightarrow> f (db w) = Inr (db w')"
  by (auto simp: insert_stmt_def dest!: stmt_InrD split: sum.splits)

lemma query_row_InrD: "query_row g w = (Inr a, w') \<Longrightarrow> g (db w) = Some a \<and> db w' = db w"
  by (auto simp: query_row_def dest!: stmt_InrD split: option.splits)

lemma query_row_clock: "query_row g w = (Inr a, w') \<Longrightarrow> clock w' = clock w \<and> ticks w' = ticks w"
  by (auto simp: query_row_def stmt_def Let_def split: if_splits option.splits)

lemma tx_now_InrD: "tx_now w = (Inr t, w') \<Longrightarrow> t = clock w (ticks w) \<and> db w' = db w"
  by (auto simp: tx_now_def)

lemma tx_uuid_InrD: "tx_uuid w = (Inr i, w') \<Longrightarrow> i = uuids w (drawn w) \<and> db w' = db w"
  by (auto simp: tx_uuid_def)

lemmas tx_dests = query_InrD execute_InrD insert_stmt_InrD query_row_InrD tx_now_InrD tx_uuid_InrD

lemma fst_Inr_iff: "fst r = Inr a \<longleftrightarrow> (\<exists>w'. r = (Inr a, w'))"
  by (cases r) auto

text \<open>A committed transaction is a run of its body from the same tables.\<close>

lemma run_tx_InrE:
  assumes "run_tx m w = (Inr a, w')"
  obtains (commit) w1 w2 where "db w1 = db w" "m w1 = (Inr (Commit a), w2)" "db w' = db w2"
    | (abandon) w1 w2 where "db w1 = db w" "m w1 = (Inr (Abandon a), w2)" "db w' = db w"
  using assms
  by (auto simp: run_tx_def stmt_def Let_def split: prod.splits sum.splits if_splits tx_end.splits)
     (metis world.select_convs(1) world.surjective world.update_convs(7))+

lemma with_tx_InrE:
  assumes "with_tx m w = (Inr a, w')"
  obtains w1 w2 where "db w1 = db w" "m w1 = (Inr a, w2)" "db w' = db w2"
  using assms unfolding with_tx_def
  by (elim run_tx_InrE) (auto simp: tx_simps)

text \<open>A loop that ran to its end has done its work for every element, when no pass undoes another.\<close>

lemma for_each_establishes:
  assumes "for_each xs f w = (Inr u, w')"
    and "\<And>x v v' a. x \<in> set xs \<Longrightarrow> f x v = (Inr a, v') \<Longrightarrow> P x (db v')"
    and "\<And>x y v v' a. f x v = (Inr a, v') \<Longrightarrow> P y (db v) \<Longrightarrow> P y (db v')"
  shows "\<forall>x\<in>set xs. P x (db w')"
  using assms(1,2)
proof (induction xs arbitrary: w)
  case (Cons x xs)
  from Cons.prems(1) obtain w1 where f: "f x w = (Inr (), w1)" and rest: "for_each xs f w1 = (Inr u, w')"
    by (auto simp: tx_bind_Inr)
  from Cons.IH [OF rest] Cons.prems(2) have "\<forall>y\<in>set xs. P y (db w')" by (meson list.set_intros(2))
  moreover have "P x (db w1)" using Cons.prems(2) f by (meson list.set_intros(1))
  then have "P x (db w')" using rest
  proof (induction xs arbitrary: w1)
    case (Cons z zs)
    from Cons.prems(2) obtain w2 where "f z w1 = (Inr (), w2)" "for_each zs f w2 = (Inr u, w')"
      by (auto simp: tx_bind_Inr)
    with Cons.IH assms(3) Cons.prems(1) show ?case by blast
  qed (simp add: tx_return_Inr)
  ultimately show ?case by simp
qed simp

subsection \<open>Store relations that every statement keeps\<close>

text \<open>
  \<open>keeps R m\<close>: whatever the result of \<open>m\<close>, an error included, the tables before and after are
  related by \<open>R\<close>.
\<close>

definition keeps :: "('s \<Rightarrow> 's \<Rightarrow> bool) \<Rightarrow> ('s, 'a) tx \<Rightarrow> bool" where
  "keeps R m \<longleftrightarrow> (\<forall>w. R (db w) (db (snd (m w))))"

lemma keepsD: "keeps R m \<Longrightarrow> m w = (r, w') \<Longrightarrow> R (db w) (db w')"
  by (metis keeps_def snd_conv)

text \<open>
  The contract: a relation between stores that a program may not leave is reflexive and
  transitive.  Inside the locale the program constructors keep the relation, so that the proof for
  a whole operation is a proof about each of its statements.
\<close>

locale store_relation =
  fixes R :: "'s \<Rightarrow> 's \<Rightarrow> bool"
  assumes R_refl: "R s s"
    and R_trans: "R s t \<Longrightarrow> R t u \<Longrightarrow> R s u"
begin

lemma keeps_return: "keeps R (tx_return a)"
  by (simp add: keeps_def tx_return_def R_refl)

lemma keeps_throw: "keeps R (tx_throw e)"
  by (simp add: keeps_def tx_throw_def R_refl)

lemma keeps_now: "keeps R tx_now"
  by (simp add: keeps_def tx_now_def R_refl)

lemma keeps_uuid: "keeps R tx_uuid"
  by (simp add: keeps_def tx_uuid_def R_refl)

lemma keeps_bind:
  assumes "keeps R m" and "\<And>a. keeps R (f a)"
  shows "keeps R (tx_bind m f)"
  unfolding keeps_def
proof
  fix w
  obtain r w1 where m: "m w = (r, w1)" by (cases "m w")
  from assms(1) m have 1: "R (db w) (db w1)" by (rule keepsD)
  show "R (db w) (db (snd (tx_bind m f w)))"
  proof (cases r)
    case (Inl e)
    with m 1 show ?thesis by (simp add: tx_bind_def)
  next
    case (Inr a)
    from assms(2) have "R (db w1) (db (snd (f a w1)))" by (simp add: keeps_def)
    with Inr m 1 show ?thesis by (auto simp: tx_bind_def intro: R_trans)
  qed
qed

lemma keeps_attempt: "keeps R m \<Longrightarrow> keeps R (attempt m)"
  by (simp add: keeps_def attempt_def)

lemma keeps_stmt:
  assumes "\<And>s a s'. f s = Inr (a, s') \<Longrightarrow> R s s'"
  shows "keeps R (stmt f)"
  using assms by (auto simp: keeps_def stmt_def Let_def R_refl split: sum.splits)

lemma keeps_query: "keeps R (query g)"
  unfolding query_def by (rule keeps_stmt) (auto simp: R_refl)

lemma keeps_query_row: "keeps R (query_row g)"
  unfolding query_row_def by (rule keeps_stmt) (auto simp: R_refl split: option.splits)

lemma keeps_execute:
  assumes "\<And>s. R s (snd (u s))"
  shows "keeps R (execute u)"
  unfolding execute_def by (rule keeps_stmt) (metis Inr_inject assms snd_conv)

lemma keeps_insert:
  assumes "\<And>s s'. f s = Inr s' \<Longrightarrow> R s s'"
  shows "keeps R (insert_stmt f)"
  unfolding insert_stmt_def by (rule keeps_stmt) (auto split: sum.splits intro: assms)

lemma keeps_run_tx:
  assumes "keeps R m"
  shows "keeps R (run_tx m)"
  unfolding keeps_def
proof
  fix w :: "'s world"
  let ?w1 = "w\<lparr>stmts := Suc (stmts w)\<rparr>"
  obtain r w2 where m: "m ?w1 = (r, w2)" by (cases "m ?w1")
  from assms m have 1: "R (db ?w1) (db w2)" by (rule keepsD)
  show "R (db w) (db (snd (run_tx m w)))"
    using m 1
    by (auto simp: run_tx_def stmt_def Let_def R_refl split: sum.splits tx_end.splits)
qed

lemma keeps_with_tx: "keeps R m \<Longrightarrow> keeps R (with_tx m)"
  unfolding with_tx_def by (intro keeps_run_tx keeps_bind keeps_return)

lemma keeps_require: "keeps R (require b e)"
  by (simp add: require_def keeps_return keeps_throw)

lemma keeps_when: "(b \<Longrightarrow> keeps R m) \<Longrightarrow> keeps R (tx_when b m)"
  by (simp add: tx_when_def keeps_return)

lemma keeps_for_each:
  assumes "\<And>x. x \<in> set xs \<Longrightarrow> keeps R (f x)"
  shows "keeps R (for_each xs f)"
  using assms by (induction xs) (auto intro!: keeps_return keeps_bind)

lemma keeps_if: "(b \<Longrightarrow> keeps R m) \<Longrightarrow> (\<not> b \<Longrightarrow> keeps R n) \<Longrightarrow> keeps R (if b then m else n)"
  by simp

lemma keeps_case_option:
  "(x = None \<Longrightarrow> keeps R m) \<Longrightarrow> (\<And>a. x = Some a \<Longrightarrow> keeps R (n a)) \<Longrightarrow>
   keeps R (case x of None \<Rightarrow> m | Some a \<Rightarrow> n a)"
  by (cases x) auto

lemma keeps_case_sum:
  "(\<And>e. x = Inl e \<Longrightarrow> keeps R (m e)) \<Longrightarrow> (\<And>a. x = Inr a \<Longrightarrow> keeps R (n a)) \<Longrightarrow>
   keeps R (case x of Inl e \<Rightarrow> m e | Inr a \<Rightarrow> n a)"
  by (cases x) auto

lemma keeps_case_prod:
  "(\<And>a b. x = (a, b) \<Longrightarrow> keeps R (m a b)) \<Longrightarrow> keeps R (case x of (a, b) \<Rightarrow> m a b)"
  by (cases x) auto

lemma keeps_Let: "(\<And>a. a = x \<Longrightarrow> keeps R (m a)) \<Longrightarrow> keeps R (let a = x in m a)"
  by simp

lemmas keeps_prog = keeps_return keeps_throw keeps_now keeps_uuid keeps_bind keeps_attempt
  keeps_query keeps_query_row keeps_run_tx keeps_with_tx keeps_require keeps_when keeps_for_each
  keeps_if keeps_case_option keeps_case_sum keeps_case_prod keeps_Let

end

text \<open>
  Rollback, stated once for all operations: the unchanged store is a store relation, so a program
  of reads keeps it, and a transaction that returns an error keeps it whatever its body writes.
\<close>

interpretation unchanged: store_relation "(=) :: 's \<Rightarrow> 's \<Rightarrow> bool"
  by unfold_locales auto

lemma run_tx_rollback: "run_tx m w = (Inl e, w') \<Longrightarrow> db w' = db w"
  by (auto simp: run_tx_def stmt_def Let_def split: prod.splits sum.splits if_splits tx_end.splits)

lemma with_tx_rollback: "with_tx m w = (Inl e, w') \<Longrightarrow> db w' = db w"
  unfolding with_tx_def by (rule run_tx_rollback)

end
