(* ===== verification/Schema.thy ===== *)
theory Schema
  imports Task_Model Dialog_Model Timestamps Database
begin

text \<open>
  The records of the core packages and the tables of \<open>core/persistence/migrations\<close>.  A row is the
  Go record it is scanned into: an empty string stands for the \<open>NULL\<close> that \<open>nullableString\<close> and
  \<open>nullableRaw\<close> write (\<open>conversation_id\<close>, \<open>result_json\<close>, \<open>output_json\<close>).  The insert
  functions check the constraints the schema declares (primary and unique keys, foreign keys,
  checks) and are the only way rows enter a table.
\<close>

subsection \<open>Records of the core packages\<close>

datatype Risk = RiskReadOnly | RiskLow | RiskStateChanging | RiskDestructive | RiskPrivileged
  | RiskExternalCommunication | RiskSecretAccess | RiskOther string

fun risk_text :: "Risk \<Rightarrow> string" where
  "risk_text RiskReadOnly = ''READ_ONLY''"
| "risk_text RiskLow = ''LOW''"
| "risk_text RiskStateChanging = ''STATE_CHANGING''"
| "risk_text RiskDestructive = ''DESTRUCTIVE''"
| "risk_text RiskPrivileged = ''PRIVILEGED''"
| "risk_text RiskExternalCommunication = ''EXTERNAL_COMMUNICATION''"
| "risk_text RiskSecretAccess = ''SECRET_ACCESS''"
| "risk_text (RiskOther s) = s"

datatype ApprovalStatus = ApprovalPending | ApprovalApproved | ApprovalDenied | ApprovalExpired | ApprovalConsumed

record Approval =
  ap_ID :: string
  ap_TaskID :: string
  ap_ToolName :: string
  ap_ToolArguments :: string
  ap_RequestedScopes :: "string list"
  ap_Risk :: Risk
  ap_Reason :: string
  ap_Status :: ApprovalStatus
  ap_RequestedAt :: time
  ap_ExpiresAt :: time
  ap_DecidedAt :: "time option"
  ap_DecidedBy :: string
  ap_ConsumedAt :: "time option"
  ap_CorrelationID :: string

record Conversation =
  cv_ID :: string
  cv_ExternalKey :: string
  cv_Title :: string
  cv_TranscriptRetention :: bool
  cv_CreatedAt :: time
  cv_UpdatedAt :: time

datatype TurnRole = RoleUser | RoleAssistant | RoleSystem

record Turn =
  tu_ID :: string
  tu_ConversationID :: string
  tu_Role :: TurnRole
  tu_Text :: string
  tu_Final :: bool
  tu_CorrelationID :: string
  tu_CreatedAt :: time

datatype DeliveryStatus = DeliveryPending | DeliveryDelivering | DeliveryDelivered | DeliveryFailed

record Target =
  tg_Kind :: string
  tg_ConnectorID :: string
  tg_DeviceID :: string
  tg_ChannelID :: string
  tg_ThreadID :: string
  tg_CallbackURL :: string
  tg_VoiceSession :: string

record Delivery =
  dl_ID :: string
  dl_TaskID :: string
  dl_Target :: Target
  dl_Priority :: int
  dl_Status :: DeliveryStatus
  dl_AttemptCount :: int
  dl_LastError :: string
  dl_IdempotencyKey :: string
  dl_CreatedAt :: time
  dl_DeliveredAt :: "time option"
  dl_CorrelationID :: string

record Invocation =
  in_ID :: string
  in_TaskID :: string
  in_ToolName :: string
  in_Input :: string
  in_Risk :: Risk
  in_Status :: string
  in_StartedAt :: "time option"
  in_FinishedAt :: "time option"
  in_ExitCode :: "int option"
  in_Output :: string
  in_Error :: string
  in_CorrelationID :: string
  in_IdempotencyKey :: string

record AuditEntry =
  au_ID :: string
  au_OccurredAt :: time
  au_ActorKind :: string
  au_ActorID :: string
  au_Action :: string
  au_ResourceKind :: string
  au_ResourceID :: string
  au_Decision :: string
  au_Details :: "json option"
  au_CorrelationID :: string
  au_TaskID :: string
  au_ConversationID :: string
  au_ConnectorID :: string

datatype TrustLevel = TrustUntrusted | TrustKnown | TrustTrusted | TrustLocal | TrustOther string

record Source =
  so_Kind :: string
  so_ConnectorID :: string
  so_InstanceID :: string

record Actor =
  ac_ID :: string
  ac_DisplayName :: string

record ReplyTarget =
  rt_ConnectorID :: string
  rt_ChannelID :: string
  rt_ThreadID :: string

record Envelope =
  ev_ID :: string
  ev_Type :: string
  ev_Version :: int
  ev_Source :: Source
  ev_Actor :: Actor
  ev_OccurredAt :: time
  ev_ReceivedAt :: time
  ev_ConversationKey :: string
  ev_CorrelationID :: string
  ev_CausationID :: "string option"
  ev_IdempotencyKey :: string
  ev_TrustLevel :: TrustLevel
  ev_ReplyTarget :: ReplyTarget
  ev_Payload :: string

datatype EventProcessing = EventPending | EventProcessed | EventFailed

text \<open>A row of \<open>events\<close>: the envelope and its processing columns.\<close>

record EventRow =
  er_Event :: Envelope
  er_Status :: EventProcessing
  er_Error :: "string option"
  er_ProcessedAt :: "time option"

record ArtifactRow =
  ar_ID :: string
  ar_TaskID :: string

record VoiceSession =
  vs_ID :: string
  vs_ConversationID :: string
  vs_DeviceID :: string
  vs_State :: DialogState
  vs_Transport :: string
  vs_Interrupted :: bool
  vs_StartedAt :: time
  vs_EndedAt :: "time option"
  vs_CorrelationID :: string
  vs_Direction :: string
  vs_Muted :: bool
  vs_PushToTalk :: bool
  vs_AudioRoute :: string

record Device =
  de_ID :: string
  de_Name :: string
  de_Platform :: string
  de_Capabilities :: string
  de_CreatedAt :: time
  de_LastSeenAt :: "time option"
  de_RevokedAt :: "time option"
  de_KeyVersion :: int

text \<open>A row of \<open>devices\<close>: the device and the credential columns that are never listed.\<close>

record DeviceRow =
  dv_Device :: Device
  dv_CredentialHash :: string
  dv_PendingHash :: "string option"
  dv_PendingVersion :: "int option"
  dv_PendingExpires :: "time option"

abbreviation dv_ID :: "DeviceRow \<Rightarrow> string" where
  "dv_ID d \<equiv> de_ID (dv_Device d)"

abbreviation dv_revoked :: "DeviceRow \<Rightarrow> time option" where
  "dv_revoked d \<equiv> de_RevokedAt (dv_Device d)"

abbreviation dv_version :: "DeviceRow \<Rightarrow> int" where
  "dv_version d \<equiv> de_KeyVersion (dv_Device d)"

record PairingRow =
  ps_ID :: string
  ps_CodeHash :: string
  ps_ExpiresAt :: time
  ps_ConsumedAt :: "time option"
  ps_CreatedAt :: time

record SettingRow =
  se_Key :: string
  se_Value :: json
  se_UpdatedAt :: time

record NonceRow =
  no_ConnectorID :: string
  no_Nonce :: string
  no_ReceivedAt :: time

record ActionRow =
  da_RequestID :: string
  da_Status :: string
  da_Result :: "json option"
  da_CreatedAt :: time
  da_CompletedAt :: "time option"

subsection \<open>The store\<close>

record store =
  tasks :: "Task list"
  task_dependencies :: "Dependency list"
  approvals :: "Approval list"
  conversations :: "Conversation list"
  turns :: "Turn list"
  events :: "EventRow list"
  deliveries :: "Delivery list"
  tool_invocations :: "Invocation list"
  artifacts :: "ArtifactRow list"
  audit_entries :: "AuditEntry list"
  devices :: "DeviceRow list"
  pairing_sessions :: "PairingRow list"
  voice_sessions :: "VoiceSession list"
  settings :: "SettingRow list"
  webhook_replay_nonces :: "NonceRow list"
  desktop_action_results :: "ActionRow list"

type_synonym 'a db_op = "(store, 'a) tx"

definition empty_store :: store where
  "empty_store = \<lparr>tasks = [], task_dependencies = [], approvals = [], conversations = [],
     turns = [], events = [], deliveries = [], tool_invocations = [], artifacts = [],
     audit_entries = [], devices = [], pairing_sessions = [], voice_sessions = [], settings = [],
     webhook_replay_nonces = [], desktop_action_results = []\<rparr>"

definition task_ids :: "store \<Rightarrow> string list" where
  "task_ids s = map t_ID (tasks s)"

definition conversation_ids :: "store \<Rightarrow> string list" where
  "conversation_ids s = map cv_ID (conversations s)"

definition find_task :: "string \<Rightarrow> store \<Rightarrow> Task option" where
  "find_task i s = find (\<lambda>t. t_ID t = i) (tasks s)"

definition find_conversation :: "string \<Rightarrow> store \<Rightarrow> Conversation option" where
  "find_conversation i s = find (\<lambda>c. cv_ID c = i) (conversations s)"

definition find_approval :: "string \<Rightarrow> store \<Rightarrow> Approval option" where
  "find_approval i s = find (\<lambda>a. ap_ID a = i) (approvals s)"

definition find_device :: "string \<Rightarrow> store \<Rightarrow> DeviceRow option" where
  "find_device i s = find (\<lambda>d. dv_ID d = i) (devices s)"

definition find_voice :: "string \<Rightarrow> store \<Rightarrow> VoiceSession option" where
  "find_voice i s = find (\<lambda>v. vs_ID v = i) (voice_sessions s)"

definition find_invocation :: "string \<Rightarrow> store \<Rightarrow> Invocation option" where
  "find_invocation i s = find (\<lambda>v. in_ID v = i) (tool_invocations s)"

text \<open>Identifiers of the tasks of one graph: \<open>SELECT id FROM tasks WHERE root_task_id = ?\<close>\<close>

definition graph_ids :: "string \<Rightarrow> store \<Rightarrow> string list" where
  "graph_ids root s = map t_ID (filter (\<lambda>t. t_RootTaskID t = root) (tasks s))"

subsection \<open>Inserting rows\<close>

definition task_constraints :: "store \<Rightarrow> Task \<Rightarrow> bool" where
  "task_constraints s t \<longleftrightarrow>
     t_ID t \<notin> set (task_ids s) \<and>
     t_IdempotencyKey t \<notin> set (map t_IdempotencyKey (tasks s)) \<and>
     (case t_ParentTaskID t of None \<Rightarrow> True | Some p \<Rightarrow> p = t_ID t \<or> p \<in> set (task_ids s)) \<and>
     (t_ConversationID t = [] \<or> t_ConversationID t \<in> set (conversation_ids s)) \<and>
     0 \<le> t_Progress t \<and> t_Progress t \<le> 100 \<and>
     - 100 \<le> t_Priority t \<and> t_Priority t \<le> 100"

definition insert_task_row :: "Task \<Rightarrow> store \<Rightarrow> err + store" where
  "insert_task_row t s =
    (if task_constraints s t then Inr (s\<lparr>tasks := tasks s @ [t]\<rparr>) else Inl ErrConstraint)"

definition insert_dependency_row :: "bool \<Rightarrow> Dependency \<Rightarrow> store \<Rightarrow> err + store" where
  "insert_dependency_row or_ignore d s =
    (if d \<in> set (task_dependencies s) \<or> dep_TaskID d = dep_DependsOnTaskID d
     then (if or_ignore then Inr s else Inl ErrConstraint)
     else if dep_TaskID d \<notin> set (task_ids s) \<or> dep_DependsOnTaskID d \<notin> set (task_ids s)
     then Inl ErrConstraint
     else Inr (s\<lparr>task_dependencies := task_dependencies s @ [d]\<rparr>))"

text \<open>The columns \<open>decided_at\<close>, \<open>decided_by\<close> and \<open>consumed_at\<close> take their defaults.\<close>

definition insert_approval_row :: "Approval \<Rightarrow> store \<Rightarrow> err + store" where
  "insert_approval_row a s =
    (if ap_ID a \<in> set (map ap_ID (approvals s)) \<or> ap_TaskID a \<notin> set (task_ids s)
     then Inl ErrConstraint
     else Inr (s\<lparr>approvals := approvals s @
       [a\<lparr>ap_DecidedAt := None, ap_DecidedBy := [], ap_ConsumedAt := None\<rparr>]\<rparr>))"

definition insert_turn_row :: "Turn \<Rightarrow> store \<Rightarrow> err + store" where
  "insert_turn_row t s =
    (if tu_ID t \<in> set (map tu_ID (turns s)) then Inr s
     else if tu_ConversationID t \<notin> set (conversation_ids s) then Inl ErrConstraint
     else Inr (s\<lparr>turns := turns s @ [t]\<rparr>))"

definition insert_delivery_row :: "bool \<Rightarrow> Delivery \<Rightarrow> store \<Rightarrow> err + store" where
  "insert_delivery_row or_ignore d s =
    (if dl_ID d \<in> set (map dl_ID (deliveries s)) \<or>
        dl_IdempotencyKey d \<in> set (map dl_IdempotencyKey (deliveries s))
     then (if or_ignore then Inr s else Inl ErrConstraint)
     else if dl_TaskID d \<notin> set (task_ids s) then Inl ErrConstraint
     else Inr (s\<lparr>deliveries := deliveries s @ [d]\<rparr>))"

text \<open>The columns \<open>finished_at\<close>, \<open>exit_code\<close>, \<open>output_json\<close> and \<open>error\<close> take their defaults.\<close>

definition insert_invocation_row :: "Invocation \<Rightarrow> store \<Rightarrow> err + store" where
  "insert_invocation_row v s =
    (if in_ID v \<in> set (map in_ID (tool_invocations s)) \<or>
        in_IdempotencyKey v \<in> set (map in_IdempotencyKey (tool_invocations s)) \<or>
        in_TaskID v \<notin> set (task_ids s)
     then Inl ErrConstraint
     else Inr (s\<lparr>tool_invocations := tool_invocations s @
       [v\<lparr>in_FinishedAt := None, in_ExitCode := None, in_Output := [], in_Error := []\<rparr>]\<rparr>))"

definition insert_audit_row :: "AuditEntry \<Rightarrow> store \<Rightarrow> err + store" where
  "insert_audit_row e s =
    (if au_ID e \<in> set (map au_ID (audit_entries s)) then Inl ErrConstraint
     else Inr (s\<lparr>audit_entries := audit_entries s @ [e]\<rparr>))"

definition same_event_source :: "Source \<Rightarrow> string \<Rightarrow> EventRow \<Rightarrow> bool" where
  "same_event_source src key r \<longleftrightarrow>
     so_Kind (ev_Source (er_Event r)) = so_Kind src \<and>
     so_ConnectorID (ev_Source (er_Event r)) = so_ConnectorID src \<and>
     so_InstanceID (ev_Source (er_Event r)) = so_InstanceID src \<and>
     ev_IdempotencyKey (er_Event r) = key"

definition insert_event_row :: "Envelope \<Rightarrow> store \<Rightarrow> err + store" where
  "insert_event_row e s =
    (if ev_ID e \<in> set (map (ev_ID \<circ> er_Event) (events s)) \<or>
        list_ex (same_event_source (ev_Source e) (ev_IdempotencyKey e)) (events s)
     then Inl ErrConstraint
     else Inr (s\<lparr>events := events s @
       [\<lparr>er_Event = e, er_Status = EventPending, er_Error = None, er_ProcessedAt = None\<rparr>]\<rparr>))"

definition insert_device_row :: "DeviceRow \<Rightarrow> store \<Rightarrow> err + store" where
  "insert_device_row d s =
    (if dv_ID d \<in> set (map dv_ID (devices s)) then Inl ErrConstraint
     else Inr (s\<lparr>devices := devices s @ [d]\<rparr>))"

definition insert_pairing_row :: "PairingRow \<Rightarrow> store \<Rightarrow> err + store" where
  "insert_pairing_row p s =
    (if ps_ID p \<in> set (map ps_ID (pairing_sessions s)) \<or>
        ps_CodeHash p \<in> set (map ps_CodeHash (pairing_sessions s)) then Inl ErrConstraint
     else Inr (s\<lparr>pairing_sessions := pairing_sessions s @ [p]\<rparr>))"

text \<open>The partial unique index \<open>idx_voice_one_active_device\<close> of the second migration.\<close>

definition active_voice :: "VoiceSession \<Rightarrow> bool" where
  "active_voice v \<longleftrightarrow> vs_State v \<notin> set [StateEnded, StateFailed]"

definition active_devices :: "VoiceSession list \<Rightarrow> string list" where
  "active_devices vs = map vs_DeviceID (filter (\<lambda>v. active_voice v \<and> vs_DeviceID v \<noteq> []) vs)"

definition insert_voice_row :: "VoiceSession \<Rightarrow> store \<Rightarrow> err + store" where
  "insert_voice_row v s =
    (if vs_ID v \<in> set (map vs_ID (voice_sessions s)) \<or>
        vs_ConversationID v \<notin> set (conversation_ids s) \<or>
        vs_DeviceID v \<noteq> [] \<and> vs_DeviceID v \<notin> set (map dv_ID (devices s)) \<or>
        \<not> distinct (active_devices (voice_sessions s @ [v])) then Inl ErrConstraint
     else Inr (s\<lparr>voice_sessions := voice_sessions s @ [v]\<rparr>))"

definition insert_setting_row :: "SettingRow \<Rightarrow> store \<Rightarrow> err + store" where
  "insert_setting_row r s =
    (if se_Key r \<in> set (map se_Key (settings s)) then Inl ErrConstraint
     else Inr (s\<lparr>settings := settings s @ [r]\<rparr>))"

definition nonce_key :: "NonceRow \<Rightarrow> string \<times> string" where
  "nonce_key n = (no_ConnectorID n, no_Nonce n)"

definition insert_nonce_row :: "NonceRow \<Rightarrow> store \<Rightarrow> err + store" where
  "insert_nonce_row n s =
    (if nonce_key n \<in> set (map nonce_key (webhook_replay_nonces s)) then Inl ErrConstraint
     else Inr (s\<lparr>webhook_replay_nonces := webhook_replay_nonces s @ [n]\<rparr>))"

definition insert_action_row :: "ActionRow \<Rightarrow> store \<Rightarrow> err + store" where
  "insert_action_row a s =
    (if da_RequestID a \<in> set (map da_RequestID (desktop_action_results s)) then Inl ErrConstraint
     else Inr (s\<lparr>desktop_action_results := desktop_action_results s @ [a]\<rparr>))"

lemmas insert_access_defs = insert_device_row_def insert_pairing_row_def insert_voice_row_def
  insert_setting_row_def insert_nonce_row_def insert_action_row_def

lemma insert_access_Inr [tx_simps]:
  "insert_device_row d s = Inr s' \<longleftrightarrow>
     dv_ID d \<notin> set (map dv_ID (devices s)) \<and> s' = s\<lparr>devices := devices s @ [d]\<rparr>"
  "insert_pairing_row p s = Inr s' \<longleftrightarrow>
     ps_ID p \<notin> set (map ps_ID (pairing_sessions s)) \<and>
     ps_CodeHash p \<notin> set (map ps_CodeHash (pairing_sessions s)) \<and>
     s' = s\<lparr>pairing_sessions := pairing_sessions s @ [p]\<rparr>"
  "insert_setting_row r s = Inr s' \<longleftrightarrow>
     se_Key r \<notin> set (map se_Key (settings s)) \<and> s' = s\<lparr>settings := settings s @ [r]\<rparr>"
  "insert_nonce_row n s = Inr s' \<longleftrightarrow>
     nonce_key n \<notin> set (map nonce_key (webhook_replay_nonces s)) \<and>
     s' = s\<lparr>webhook_replay_nonces := webhook_replay_nonces s @ [n]\<rparr>"
  "insert_action_row a s = Inr s' \<longleftrightarrow>
     da_RequestID a \<notin> set (map da_RequestID (desktop_action_results s)) \<and>
     s' = s\<lparr>desktop_action_results := desktop_action_results s @ [a]\<rparr>"
  by (auto simp: insert_access_defs)

lemmas insert_row_defs = insert_task_row_def insert_dependency_row_def insert_approval_row_def
  insert_turn_row_def insert_delivery_row_def insert_invocation_row_def insert_audit_row_def
  insert_event_row_def

lemma insert_row_Inr [tx_simps]:
  "insert_task_row t s = Inr s' \<longleftrightarrow> task_constraints s t \<and> s' = s\<lparr>tasks := tasks s @ [t]\<rparr>"
  "insert_dependency_row b d' s = Inr s' \<longleftrightarrow>
     (if d' \<in> set (task_dependencies s) \<or> dep_TaskID d' = dep_DependsOnTaskID d' then b \<and> s' = s
      else dep_TaskID d' \<in> set (task_ids s) \<and> dep_DependsOnTaskID d' \<in> set (task_ids s) \<and>
        s' = s\<lparr>task_dependencies := task_dependencies s @ [d']\<rparr>)"
  "insert_approval_row a s = Inr s' \<longleftrightarrow>
     ap_ID a \<notin> set (map ap_ID (approvals s)) \<and> ap_TaskID a \<in> set (task_ids s) \<and>
     s' = s\<lparr>approvals := approvals s @
       [a\<lparr>ap_DecidedAt := None, ap_DecidedBy := [], ap_ConsumedAt := None\<rparr>]\<rparr>"
  "insert_turn_row u s = Inr s' \<longleftrightarrow>
     (if tu_ID u \<in> set (map tu_ID (turns s)) then s' = s
      else tu_ConversationID u \<in> set (conversation_ids s) \<and> s' = s\<lparr>turns := turns s @ [u]\<rparr>)"
  "insert_delivery_row b d s = Inr s' \<longleftrightarrow>
     (if dl_ID d \<in> set (map dl_ID (deliveries s)) \<or>
         dl_IdempotencyKey d \<in> set (map dl_IdempotencyKey (deliveries s)) then b \<and> s' = s
      else dl_TaskID d \<in> set (task_ids s) \<and> s' = s\<lparr>deliveries := deliveries s @ [d]\<rparr>)"
  "insert_invocation_row v s = Inr s' \<longleftrightarrow>
     in_ID v \<notin> set (map in_ID (tool_invocations s)) \<and>
     in_IdempotencyKey v \<notin> set (map in_IdempotencyKey (tool_invocations s)) \<and>
     in_TaskID v \<in> set (task_ids s) \<and> s' = s\<lparr>tool_invocations := tool_invocations s @
       [v\<lparr>in_FinishedAt := None, in_ExitCode := None, in_Output := [], in_Error := []\<rparr>]\<rparr>"
  "insert_audit_row e s = Inr s' \<longleftrightarrow>
     au_ID e \<notin> set (map au_ID (audit_entries s)) \<and> s' = s\<lparr>audit_entries := audit_entries s @ [e]\<rparr>"
  by (auto simp: insert_row_defs)

subsection \<open>Updating rows\<close>

definition update_tasks :: "(store \<Rightarrow> Task \<Rightarrow> bool) \<Rightarrow> (Task \<Rightarrow> Task) \<Rightarrow> store \<Rightarrow> nat \<times> store" where
  "update_tasks p f s = (count_rows (p s) (tasks s), s\<lparr>tasks := upd_rows (p s) f (tasks s)\<rparr>)"

definition update_approvals :: "(store \<Rightarrow> Approval \<Rightarrow> bool) \<Rightarrow> (Approval \<Rightarrow> Approval) \<Rightarrow> store \<Rightarrow> nat \<times> store" where
  "update_approvals p f s =
    (count_rows (p s) (approvals s), s\<lparr>approvals := upd_rows (p s) f (approvals s)\<rparr>)"

definition update_invocations :: "(store \<Rightarrow> Invocation \<Rightarrow> bool) \<Rightarrow> (Invocation \<Rightarrow> Invocation) \<Rightarrow> store \<Rightarrow> nat \<times> store" where
  "update_invocations p f s =
    (count_rows (p s) (tool_invocations s), s\<lparr>tool_invocations := upd_rows (p s) f (tool_invocations s)\<rparr>)"

definition update_deliveries :: "(store \<Rightarrow> Delivery \<Rightarrow> bool) \<Rightarrow> (Delivery \<Rightarrow> Delivery) \<Rightarrow> store \<Rightarrow> nat \<times> store" where
  "update_deliveries p f s =
    (count_rows (p s) (deliveries s), s\<lparr>deliveries := upd_rows (p s) f (deliveries s)\<rparr>)"

definition update_events :: "(store \<Rightarrow> EventRow \<Rightarrow> bool) \<Rightarrow> (EventRow \<Rightarrow> EventRow) \<Rightarrow> store \<Rightarrow> nat \<times> store" where
  "update_events p f s = (count_rows (p s) (events s), s\<lparr>events := upd_rows (p s) f (events s)\<rparr>)"

definition update_conversations :: "(store \<Rightarrow> Conversation \<Rightarrow> bool) \<Rightarrow> (Conversation \<Rightarrow> Conversation) \<Rightarrow> store \<Rightarrow> nat \<times> store" where
  "update_conversations p f s =
    (count_rows (p s) (conversations s), s\<lparr>conversations := upd_rows (p s) f (conversations s)\<rparr>)"

definition update_devices :: "(store \<Rightarrow> DeviceRow \<Rightarrow> bool) \<Rightarrow> (DeviceRow \<Rightarrow> DeviceRow) \<Rightarrow> store \<Rightarrow> nat \<times> store" where
  "update_devices p f s = (count_rows (p s) (devices s), s\<lparr>devices := upd_rows (p s) f (devices s)\<rparr>)"

definition update_pairings :: "(store \<Rightarrow> PairingRow \<Rightarrow> bool) \<Rightarrow> (PairingRow \<Rightarrow> PairingRow) \<Rightarrow> store \<Rightarrow> nat \<times> store" where
  "update_pairings p f s =
    (count_rows (p s) (pairing_sessions s), s\<lparr>pairing_sessions := upd_rows (p s) f (pairing_sessions s)\<rparr>)"

definition update_actions :: "(store \<Rightarrow> ActionRow \<Rightarrow> bool) \<Rightarrow> (ActionRow \<Rightarrow> ActionRow) \<Rightarrow> store \<Rightarrow> nat \<times> store" where
  "update_actions p f s = (count_rows (p s) (desktop_action_results s),
     s\<lparr>desktop_action_results := upd_rows (p s) f (desktop_action_results s)\<rparr>)"

text \<open>An update of voice sessions is checked against the partial unique index.\<close>

definition update_voices :: "(store \<Rightarrow> VoiceSession \<Rightarrow> bool) \<Rightarrow> (VoiceSession \<Rightarrow> VoiceSession) \<Rightarrow> store \<Rightarrow> err + nat \<times> store" where
  "update_voices p f s =
    (let vs = upd_rows (p s) f (voice_sessions s)
     in if distinct (active_devices vs) then Inr (count_rows (p s) (voice_sessions s), s\<lparr>voice_sessions := vs\<rparr>)
        else Inl ErrConstraint)"

definition delete_nonces :: "(store \<Rightarrow> NonceRow \<Rightarrow> bool) \<Rightarrow> store \<Rightarrow> nat \<times> store" where
  "delete_nonces p s = (count_rows (p s) (webhook_replay_nonces s),
     s\<lparr>webhook_replay_nonces := filter (\<lambda>n. \<not> p s n) (webhook_replay_nonces s)\<rparr>)"

definition delete_audit :: "(store \<Rightarrow> AuditEntry \<Rightarrow> bool) \<Rightarrow> store \<Rightarrow> nat \<times> store" where
  "delete_audit p s =
    (count_rows (p s) (audit_entries s), s\<lparr>audit_entries := filter (\<lambda>e. \<not> p s e) (audit_entries s)\<rparr>)"

definition delete_turns :: "(store \<Rightarrow> Turn \<Rightarrow> bool) \<Rightarrow> store \<Rightarrow> nat \<times> store" where
  "delete_turns p s = (count_rows (p s) (turns s), s\<lparr>turns := filter (\<lambda>t. \<not> p s t) (turns s)\<rparr>)"

definition delete_artifacts :: "(store \<Rightarrow> ArtifactRow \<Rightarrow> bool) \<Rightarrow> store \<Rightarrow> nat \<times> store" where
  "delete_artifacts p s =
    (count_rows (p s) (artifacts s), s\<lparr>artifacts := filter (\<lambda>t. \<not> p s t) (artifacts s)\<rparr>)"

lemmas update_defs = update_tasks_def update_approvals_def update_invocations_def
  update_deliveries_def update_events_def update_conversations_def delete_turns_def
  delete_artifacts_def

text \<open>A statement on one table leaves the others.\<close>

lemma update_tasks_frame [simp]:
  "task_dependencies (snd (update_tasks p f s)) = task_dependencies s"
  "approvals (snd (update_tasks p f s)) = approvals s"
  "conversations (snd (update_tasks p f s)) = conversations s"
  "turns (snd (update_tasks p f s)) = turns s"
  "events (snd (update_tasks p f s)) = events s"
  "deliveries (snd (update_tasks p f s)) = deliveries s"
  "tool_invocations (snd (update_tasks p f s)) = tool_invocations s"
  "artifacts (snd (update_tasks p f s)) = artifacts s"
  "audit_entries (snd (update_tasks p f s)) = audit_entries s"
  by (simp_all add: update_tasks_def)

lemma update_approvals_frame [simp]:
  "tasks (snd (update_approvals p f s)) = tasks s"
  "task_dependencies (snd (update_approvals p f s)) = task_dependencies s"
  "conversations (snd (update_approvals p f s)) = conversations s"
  "turns (snd (update_approvals p f s)) = turns s"
  "events (snd (update_approvals p f s)) = events s"
  "deliveries (snd (update_approvals p f s)) = deliveries s"
  "tool_invocations (snd (update_approvals p f s)) = tool_invocations s"
  "artifacts (snd (update_approvals p f s)) = artifacts s"
  "audit_entries (snd (update_approvals p f s)) = audit_entries s"
  by (simp_all add: update_approvals_def)

lemma update_invocations_frame [simp]:
  "tasks (snd (update_invocations p f s)) = tasks s"
  "task_dependencies (snd (update_invocations p f s)) = task_dependencies s"
  "approvals (snd (update_invocations p f s)) = approvals s"
  "conversations (snd (update_invocations p f s)) = conversations s"
  "turns (snd (update_invocations p f s)) = turns s"
  "events (snd (update_invocations p f s)) = events s"
  "deliveries (snd (update_invocations p f s)) = deliveries s"
  "artifacts (snd (update_invocations p f s)) = artifacts s"
  "audit_entries (snd (update_invocations p f s)) = audit_entries s"
  by (simp_all add: update_invocations_def)

lemma update_deliveries_frame [simp]:
  "tasks (snd (update_deliveries p f s)) = tasks s"
  "task_dependencies (snd (update_deliveries p f s)) = task_dependencies s"
  "approvals (snd (update_deliveries p f s)) = approvals s"
  "conversations (snd (update_deliveries p f s)) = conversations s"
  "turns (snd (update_deliveries p f s)) = turns s"
  "events (snd (update_deliveries p f s)) = events s"
  "tool_invocations (snd (update_deliveries p f s)) = tool_invocations s"
  "artifacts (snd (update_deliveries p f s)) = artifacts s"
  "audit_entries (snd (update_deliveries p f s)) = audit_entries s"
  by (simp_all add: update_deliveries_def)

lemma update_events_frame [simp]:
  "tasks (snd (update_events p f s)) = tasks s"
  "task_dependencies (snd (update_events p f s)) = task_dependencies s"
  "approvals (snd (update_events p f s)) = approvals s"
  "conversations (snd (update_events p f s)) = conversations s"
  "turns (snd (update_events p f s)) = turns s"
  "deliveries (snd (update_events p f s)) = deliveries s"
  "tool_invocations (snd (update_events p f s)) = tool_invocations s"
  "artifacts (snd (update_events p f s)) = artifacts s"
  "audit_entries (snd (update_events p f s)) = audit_entries s"
  by (simp_all add: update_events_def)

lemma update_conversations_frame [simp]:
  "tasks (snd (update_conversations p f s)) = tasks s"
  "task_dependencies (snd (update_conversations p f s)) = task_dependencies s"
  "approvals (snd (update_conversations p f s)) = approvals s"
  "turns (snd (update_conversations p f s)) = turns s"
  "events (snd (update_conversations p f s)) = events s"
  "deliveries (snd (update_conversations p f s)) = deliveries s"
  "tool_invocations (snd (update_conversations p f s)) = tool_invocations s"
  "artifacts (snd (update_conversations p f s)) = artifacts s"
  "audit_entries (snd (update_conversations p f s)) = audit_entries s"
  by (simp_all add: update_conversations_def)

lemma delete_turns_frame [simp]:
  "tasks (snd (delete_turns p s)) = tasks s"
  "task_dependencies (snd (delete_turns p s)) = task_dependencies s"
  "approvals (snd (delete_turns p s)) = approvals s"
  "conversations (snd (delete_turns p s)) = conversations s"
  "events (snd (delete_turns p s)) = events s"
  "deliveries (snd (delete_turns p s)) = deliveries s"
  "tool_invocations (snd (delete_turns p s)) = tool_invocations s"
  "artifacts (snd (delete_turns p s)) = artifacts s"
  "audit_entries (snd (delete_turns p s)) = audit_entries s"
  by (simp_all add: delete_turns_def)

lemma delete_artifacts_frame [simp]:
  "tasks (snd (delete_artifacts p s)) = tasks s"
  "task_dependencies (snd (delete_artifacts p s)) = task_dependencies s"
  "approvals (snd (delete_artifacts p s)) = approvals s"
  "conversations (snd (delete_artifacts p s)) = conversations s"
  "turns (snd (delete_artifacts p s)) = turns s"
  "events (snd (delete_artifacts p s)) = events s"
  "deliveries (snd (delete_artifacts p s)) = deliveries s"
  "tool_invocations (snd (delete_artifacts p s)) = tool_invocations s"
  "audit_entries (snd (delete_artifacts p s)) = audit_entries s"
  by (simp_all add: delete_artifacts_def)

text \<open>\<open>status IN (...)\<close> over the five terminal statuses, as the queries spell it.\<close>

lemma Terminal_in:
  "Terminal st \<longleftrightarrow> st \<in> set [StatusCompleted, StatusPartiallyCompleted, StatusFailed, StatusCancelled, StatusTimedOut]"
  by (cases st) auto

end
