(* ===== verification/Task_Steps.thy ===== *)
theory Task_Steps
  imports Schema
begin

text \<open>
  The state machine that the store really runs on one row of \<open>tasks\<close>: one rule per \<open>UPDATE tasks\<close>
  statement of \<open>core/persistence\<close>, its \<open>WHERE\<close> clause as the premises and its \<open>SET\<close> clause
  as the function of the same name.  The label says which statement it is.  Every operation of the
  store is later shown to change rows by steps with its own labels only, so a fact about single
  steps becomes a fact about whole operations.
\<close>

definition expiredContentMarker :: string where
  "expiredContentMarker = ''[expired by retention policy]''"

definition retentionDisabledMarker :: string where
  "retentionDisabledMarker = ''[transcript retention disabled]''"

subsection \<open>The SET clauses\<close>

definition set_retry :: "string \<Rightarrow> Task \<Rightarrow> Task" where
  "set_retry message t = t\<lparr>t_Status := StatusQueued, t_Progress := 0, t_ProgressMessage := message,
     t_StartedAt := None, t_FinishedAt := None, t_Error := [], t_Result := [],
     t_UserFacingSummary := [], t_Artifacts := [], t_RetryCount := t_RetryCount t + 1,
     t_Version := t_Version t + 1\<rparr>"

definition set_guard :: "Task \<Rightarrow> Task" where
  "set_guard t = t\<lparr>t_ProgressMessage := ''Waiting for retried graph dependencies'',
     t_Version := t_Version t + 1\<rparr>"

definition set_claim :: "Task \<Rightarrow> Task" where
  "set_claim t = t\<lparr>t_Status := StatusAssigned, t_Version := t_Version t + 1\<rparr>"

definition set_start :: "time \<Rightarrow> Task \<Rightarrow> Task" where
  "set_start now t = t\<lparr>t_Status := StatusRunning,
     t_StartedAt := (case t_StartedAt t of None \<Rightarrow> Some now | Some x \<Rightarrow> Some x),
     t_Progress := (if t_Progress t < 1 then 1 else t_Progress t), t_Version := t_Version t + 1\<rparr>"

definition set_progress :: "int \<Rightarrow> string \<Rightarrow> Task \<Rightarrow> Task" where
  "set_progress percent message t = t\<lparr>t_Progress := percent, t_ProgressMessage := message,
     t_Version := t_Version t + 1\<rparr>"

definition set_complete :: "Status \<Rightarrow> string \<Rightarrow> string \<Rightarrow> time \<Rightarrow> Artifact list \<Rightarrow> Task \<Rightarrow> Task" where
  "set_complete status resultJSON summary now arts t = t\<lparr>t_Status := status, t_Progress := 100,
     t_ProgressMessage := ''Complete'', t_Result := resultJSON, t_UserFacingSummary := summary,
     t_FinishedAt := Some now, t_Artifacts := arts, t_Version := t_Version t + 1\<rparr>"

definition set_fail :: "Status \<Rightarrow> string \<Rightarrow> time \<Rightarrow> Task \<Rightarrow> Task" where
  "set_fail status errorText now t = t\<lparr>t_Status := status, t_Error := errorText,
     t_FinishedAt := Some now, t_Version := t_Version t + 1\<rparr>"

definition set_requeue :: "string \<Rightarrow> Task \<Rightarrow> Task" where
  "set_requeue errorText t = t\<lparr>t_Status := StatusQueued, t_Progress := 0,
     t_ProgressMessage := ''Transient failure; bounded retry queued'', t_StartedAt := None,
     t_Error := errorText, t_RetryCount := t_RetryCount t + 1, t_Version := t_Version t + 1\<rparr>"

definition set_priority :: "int \<Rightarrow> Task \<Rightarrow> Task" where
  "set_priority priority t = t\<lparr>t_Priority := priority, t_Version := t_Version t + 1\<rparr>"

definition set_dismissed :: "Task \<Rightarrow> Task" where
  "set_dismissed t = t\<lparr>t_Dismissed := True, t_Version := t_Version t + 1\<rparr>"

definition set_cancelled :: "time \<Rightarrow> Task \<Rightarrow> Task" where
  "set_cancelled now t = t\<lparr>t_Status := StatusCancelled, t_FinishedAt := Some now,
     t_Version := t_Version t + 1\<rparr>"

definition set_cancel_requested :: "Task \<Rightarrow> Task" where
  "set_cancel_requested t = t\<lparr>t_Status := StatusCancelRequested, t_Version := t_Version t + 1\<rparr>"

definition set_recover_cancelled :: "time \<Rightarrow> Task \<Rightarrow> Task" where
  "set_recover_cancelled now t = t\<lparr>t_Status := StatusCancelled, t_FinishedAt := Some now,
     t_ProgressMessage := ''Cancellation recovered after restart'', t_Version := t_Version t + 1\<rparr>"

definition set_recovered :: "Task \<Rightarrow> Task" where
  "set_recovered t = t\<lparr>t_Status := StatusQueued, t_ProgressMessage := ''Recovered after restart'',
     t_RetryCount := t_RetryCount t + 1, t_Version := t_Version t + 1\<rparr>"

definition set_decided :: "Status \<Rightarrow> time option \<Rightarrow> Task \<Rightarrow> Task" where
  "set_decided status finishedAt t = t\<lparr>t_Status := status, t_FinishedAt := finishedAt,
     t_Version := t_Version t + 1\<rparr>"

definition set_scrubbed :: "Task \<Rightarrow> Task" where
  "set_scrubbed t = t\<lparr>t_Goal := retentionDisabledMarker, t_Input := ''{}'', t_ProgressMessage := [],
     t_Error := [], t_Result := [], t_UserFacingSummary := retentionDisabledMarker, t_Artifacts := []\<rparr>"

definition set_swept :: "Task \<Rightarrow> Task" where
  "set_swept t = t\<lparr>t_Goal := expiredContentMarker, t_Input := ''{}'', t_ProgressMessage := [],
     t_Error := [], t_Result := [], t_UserFacingSummary := expiredContentMarker, t_Artifacts := []\<rparr>"

lemmas set_defs = set_swept_def set_retry_def set_guard_def set_claim_def set_start_def set_progress_def
  set_complete_def set_fail_def set_requeue_def set_priority_def set_dismissed_def
  set_cancelled_def set_cancel_requested_def set_recover_cancelled_def set_recovered_def
  set_decided_def set_scrubbed_def

subsection \<open>The row steps\<close>

datatype label = LRetry | LGuard | LClaim | LStart | LProgress | LComplete | LFail | LRequeue
  | LPriority | LDismiss | LCancel | LCancelRequest | LMarkCancelled | LUncertain
  | LRecoverCancelled | LExhausted | LRecovered | LExpire | LApprove | LDeny | LScrub | LSweep

definition explicitRetryStatus :: "Status \<Rightarrow> bool" where
  "explicitRetryStatus status \<longleftrightarrow>
     status \<in> set [StatusFailed, StatusTimedOut, StatusCancelled, StatusPartiallyCompleted]"

inductive row_step :: "label \<Rightarrow> Task \<Rightarrow> Task \<Rightarrow> bool" where
  retry: "\<not> t_Dismissed t \<Longrightarrow> t_Goal t \<noteq> expiredContentMarker \<Longrightarrow> t_TaskType t \<noteq> ''shell'' \<Longrightarrow>
     t_RetryCount t < t_MaxRetries t \<Longrightarrow> explicitRetryStatus (t_Status t) \<Longrightarrow>
     row_step LRetry t (set_retry message t)"
| guard: "t_Status t = StatusQueued \<Longrightarrow> t_TaskType t = ''synthesis'' \<Longrightarrow> \<not> t_Dismissed t \<Longrightarrow>
     t_Goal t \<noteq> expiredContentMarker \<Longrightarrow> row_step LGuard t (set_guard t)"
| claim: "t_Status t = StatusQueued \<Longrightarrow> row_step LClaim t (set_claim t)"
| start: "t_Status t = StatusAssigned \<Longrightarrow> row_step LStart t (set_start now t)"
| progress: "t_Status t \<in> {StatusRunning, StatusWaitingForChildren, StatusCancelRequested} \<Longrightarrow>
     0 \<le> percent \<Longrightarrow> percent \<le> 99 \<Longrightarrow> row_step LProgress t (set_progress percent message t)"
| complete: "t_Status t \<in> {StatusRunning, StatusWaitingForChildren, StatusCancelRequested, StatusAssigned} \<Longrightarrow>
     status \<in> {StatusCompleted, StatusPartiallyCompleted} \<Longrightarrow>
     row_step LComplete t (set_complete status resultJSON summary now arts t)"
| fail: "\<not> Terminal (t_Status t) \<Longrightarrow> status \<in> {StatusFailed, StatusTimedOut} \<Longrightarrow>
     row_step LFail t (set_fail status errorText now t)"
| requeue: "t_Status t = StatusRunning \<Longrightarrow> t_TaskType t \<noteq> ''shell'' \<Longrightarrow>
     t_RetryCount t < t_MaxRetries t \<Longrightarrow> row_step LRequeue t (set_requeue errorText t)"
| priority: "\<not> t_Dismissed t \<Longrightarrow> - 100 \<le> p \<Longrightarrow> p \<le> 100 \<Longrightarrow> row_step LPriority t (set_priority p t)"
| dismiss: "\<not> t_Dismissed t \<Longrightarrow> Terminal (t_Status t) \<Longrightarrow> row_step LDismiss t (set_dismissed t)"
| cancel: "t_Status t \<in> {StatusCreated, StatusQueued, StatusWaitingForApproval, StatusBlocked} \<Longrightarrow>
     row_step LCancel t (set_cancelled now t)"
| cancel_request: "t_Status t \<in> {StatusAssigned, StatusRunning, StatusWaitingForChildren} \<Longrightarrow>
     row_step LCancelRequest t (set_cancel_requested t)"
| mark_cancelled: "t_Status t = StatusCancelRequested \<Longrightarrow> row_step LMarkCancelled t (set_cancelled now t)"
| uncertain: "t_TaskType t = ''shell'' \<Longrightarrow>
     t_Status t \<in> {StatusAssigned, StatusRunning, StatusCancelRequested} \<Longrightarrow>
     row_step LUncertain t (set_fail StatusFailed errorText now t)"
| recover_cancelled: "t_Status t = StatusCancelRequested \<Longrightarrow>
     row_step LRecoverCancelled t (set_recover_cancelled now t)"
| exhausted: "t_Status t \<in> {StatusAssigned, StatusRunning} \<Longrightarrow> t_MaxRetries t \<le> t_RetryCount t \<Longrightarrow>
     row_step LExhausted t (set_fail StatusFailed errorText now t)"
| recovered: "t_Status t \<in> {StatusAssigned, StatusRunning} \<Longrightarrow> t_RetryCount t < t_MaxRetries t \<Longrightarrow>
     row_step LRecovered t (set_recovered t)"
| expire: "t_Status t = StatusWaitingForApproval \<Longrightarrow>
     row_step LExpire t (set_fail StatusTimedOut ''approval expired'' now t)"
| approve: "t_Status t = StatusWaitingForApproval \<Longrightarrow>
     row_step LApprove t (set_decided StatusQueued None t)"
| deny: "t_Status t = StatusWaitingForApproval \<Longrightarrow>
     row_step LDeny t (set_decided StatusCancelled (Some now) t)"
| scrub: "row_step LScrub t (set_scrubbed t)"
| sweep: "Terminal (t_Status t) \<Longrightarrow> row_step LSweep t (set_swept t)"

inductive_cases row_stepE: "row_step l t t'"

text \<open>Runs of row steps with labels from a set.\<close>

inductive row_steps :: "label set \<Rightarrow> Task \<Rightarrow> Task \<Rightarrow> bool" for L where
  refl: "row_steps L t t"
| step: "row_steps L t u \<Longrightarrow> l \<in> L \<Longrightarrow> row_step l u v \<Longrightarrow> row_steps L t v"

lemma row_steps_single: "l \<in> L \<Longrightarrow> row_step l t u \<Longrightarrow> row_steps L t u"
  by (blast intro: row_steps.intros)

lemma row_steps_trans:
  assumes "row_steps L t u" and "row_steps L u v"
  shows "row_steps L t v"
  using assms(2,1) by (induction rule: row_steps.induct) (auto intro: row_steps.intros)

lemma row_steps_mono: "row_steps L t u \<Longrightarrow> L \<subseteq> M \<Longrightarrow> row_steps M t u"
  by (induction rule: row_steps.induct) (auto intro: row_steps.intros)

text \<open>
  A relation on rows that is reflexive, transitive and contains the steps with labels \<open>L\<close>
  contains their runs.
\<close>

lemma row_steps_rel:
  assumes "row_steps L t u" and "\<And>l t u. l \<in> L \<Longrightarrow> row_step l t u \<Longrightarrow> Q t u"
    and "\<And>t. Q t t" and "\<And>t u v. Q t u \<Longrightarrow> Q u v \<Longrightarrow> Q t v"
  shows "Q t u"
  using assms(1) by (induction rule: row_steps.induct) (blast intro: assms(2-4))+

subsection \<open>What no step changes\<close>

definition same_identity :: "Task \<Rightarrow> Task \<Rightarrow> bool" where
  "same_identity t u \<longleftrightarrow> t_ID u = t_ID t \<and> t_ParentTaskID u = t_ParentTaskID t \<and>
     t_RootTaskID u = t_RootTaskID t \<and> t_ConversationID u = t_ConversationID t \<and>
     t_TaskType u = t_TaskType t \<and> t_AssignedAgentID u = t_AssignedAgentID t \<and>
     t_AllowedTools u = t_AllowedTools t \<and> t_ApprovalPolicy u = t_ApprovalPolicy t \<and>
     t_CreatedAt u = t_CreatedAt t \<and> t_MaxRetries u = t_MaxRetries t \<and>
     t_TimeoutSeconds u = t_TimeoutSeconds t \<and> t_CorrelationID u = t_CorrelationID t \<and>
     t_CausationID u = t_CausationID t \<and> t_IdempotencyKey u = t_IdempotencyKey t"

lemma row_step_identity: "row_step l t u \<Longrightarrow> same_identity t u"
  by (induction rule: row_step.induct) (simp_all add: same_identity_def set_defs)

lemma row_steps_identity: "row_steps L t u \<Longrightarrow> same_identity t u"
  by (erule row_steps_rel) (auto dest: row_step_identity simp: same_identity_def)

lemmas row_steps_fields = row_steps_identity [unfolded same_identity_def]

definition row_bounds :: "Task \<Rightarrow> bool" where
  "row_bounds t \<longleftrightarrow> 0 \<le> t_Progress t \<and> t_Progress t \<le> 100 \<and> - 100 \<le> t_Priority t \<and> t_Priority t \<le> 100"

lemma row_step_bounds: "row_step l t u \<Longrightarrow> row_bounds t \<Longrightarrow> row_bounds u"
  by (induction rule: row_step.induct) (auto simp: row_bounds_def set_defs)

lemma row_steps_bounds: "row_steps L t u \<Longrightarrow> row_bounds t \<Longrightarrow> row_bounds u"
  by (induction rule: row_steps.induct) (auto dest: row_step_bounds)

subsection \<open>Versions, retries, terminal rows\<close>

definition version_guards :: "Task \<Rightarrow> Task \<Rightarrow> bool" where
  "version_guards t u \<longleftrightarrow> t_Version t \<le> t_Version u \<and>
     (t_Version u = t_Version t \<longrightarrow> t_Status u = t_Status t \<and> t_RetryCount u = t_RetryCount t \<and>
        t_Dismissed u = t_Dismissed t \<and> t_Priority u = t_Priority t)"

lemma row_step_version: "row_step l t u \<Longrightarrow> version_guards t u"
  by (induction rule: row_step.induct) (auto simp: version_guards_def set_defs)

lemma row_steps_version: "row_steps L t u \<Longrightarrow> version_guards t u"
  by (erule row_steps_rel) (auto dest: row_step_version simp: version_guards_def)

definition retries_bounded :: "Task \<Rightarrow> Task \<Rightarrow> bool" where
  "retries_bounded t u \<longleftrightarrow> t_RetryCount t \<le> t_RetryCount u \<and>
     t_RetryCount u \<le> max (t_RetryCount t) (t_MaxRetries t)"

lemma row_step_retries: "row_step l t u \<Longrightarrow> retries_bounded t u"
  by (induction rule: row_step.induct) (auto simp: retries_bounded_def set_defs)

lemma row_steps_retries: "row_steps L t u \<Longrightarrow> retries_bounded t u"
proof (induction rule: row_steps.induct)
  case (refl t)
  then show ?case by (simp add: retries_bounded_def)
next
  case (step t u l v)
  from step.hyps(1) have "t_MaxRetries u = t_MaxRetries t" by (simp add: row_steps_fields)
  with step.IH row_step_retries [OF step.hyps(3)] show ?case
    by (auto simp: retries_bounded_def)
qed

lemma row_step_terminal:
  "row_step l t u \<Longrightarrow> Terminal (t_Status t) \<Longrightarrow> l \<noteq> LRetry \<Longrightarrow> t_Status u = t_Status t"
  by (induction rule: row_step.induct) (auto simp: set_defs)

lemma row_steps_terminal:
  "row_steps L t u \<Longrightarrow> LRetry \<notin> L \<Longrightarrow> Terminal (t_Status t) \<Longrightarrow> t_Status u = t_Status t"
  by (induction rule: row_steps.induct) (auto dest: row_step_terminal)

text \<open>
  A shell row that waits for its approval, or has ended, is made runnable by nothing but an
  approval.
\<close>

definition shell_closed :: "Task \<Rightarrow> bool" where
  "shell_closed t \<longleftrightarrow> t_TaskType t = ''shell'' \<and>
     (t_Status t = StatusWaitingForApproval \<or> Terminal (t_Status t))"

lemma row_step_shell: "row_step l t u \<Longrightarrow> shell_closed t \<Longrightarrow> l \<noteq> LApprove \<Longrightarrow> shell_closed u"
  by (induction rule: row_step.induct) (auto simp: shell_closed_def set_defs explicitRetryStatus_def)

lemma row_steps_shell: "row_steps L t u \<Longrightarrow> LApprove \<notin> L \<Longrightarrow> shell_closed t \<Longrightarrow> shell_closed u"
  by (induction rule: row_steps.induct) (auto dest: row_step_shell)

text \<open>A row that has left the queue comes back to it only by a retry, a requeue or a recovery.\<close>

definition left_queue :: "Task \<Rightarrow> bool" where
  "left_queue t \<longleftrightarrow> t_Status t \<noteq> StatusQueued \<and> t_Status t \<noteq> StatusWaitingForApproval"

lemma row_step_left_queue:
  "row_step l t u \<Longrightarrow> left_queue t \<Longrightarrow> l \<notin> {LRetry, LRequeue, LRecovered} \<Longrightarrow> left_queue u"
  by (induction rule: row_step.induct) (auto simp: left_queue_def set_defs)

lemma row_steps_left_queue:
  "row_steps L t u \<Longrightarrow> L \<inter> {LRetry, LRequeue, LRecovered} = {} \<Longrightarrow> left_queue t \<Longrightarrow> left_queue u"
  by (induction rule: row_steps.induct) (auto dest: row_step_left_queue)

end
