(* ===== verification/Store_Relations.thy ===== *)
theory Store_Relations
  imports Task_Steps
begin

text \<open>
  What every statement of the persistence layer keeps.  \<open>wf_store\<close> is the conjunction of the
  constraints the schema declares.  \<open>evolves L\<close> relates the stores before and after a program:
  every task row went through row steps with labels in \<open>L\<close>, every approval and every tool
  invocation followed its own life cycle, rows of these tables were appended but never removed, and
  a well-formed store stayed well-formed.
\<close>

subsection \<open>Tables that only grow\<close>

definition grows :: "('r \<Rightarrow> 'r \<Rightarrow> bool) \<Rightarrow> 'r list \<Rightarrow> 'r list \<Rightarrow> bool" where
  "grows Q xs xs' \<longleftrightarrow> (\<exists>ys zs. xs' = ys @ zs \<and> list_all2 Q xs ys)"

lemma grows_keys:
  assumes "grows Q xs ys" and "\<And>x y. Q x y \<Longrightarrow> g y = g x"
  shows "g ` set xs \<subseteq> g ` set ys"
proof
  fix k assume "k \<in> g ` set xs"
  then obtain x where x: "x \<in> set xs" "k = g x" by blast
  from assms(1) obtain us vs where "ys = us @ vs" "list_all2 Q xs us" by (auto simp: grows_def)
  with list_all2_setD [OF this(2) x(1)] obtain y where "y \<in> set ys" "Q x y" by auto
  with assms(2) x(2) show "k \<in> g ` set ys" by (metis imageI)
qed

locale row_order =
  fixes Q :: "'r \<Rightarrow> 'r \<Rightarrow> bool"
  assumes Q_refl: "Q t t"
    and Q_trans: "Q t u \<Longrightarrow> Q u v \<Longrightarrow> Q t v"
begin

lemma list_refl: "list_all2 Q xs xs"
  by (simp add: list_all2_same Q_refl)

lemma grows_refl: "grows Q xs xs"
  unfolding grows_def by (metis append_Nil2 list_refl)

lemma grows_append: "grows Q xs (xs @ zs)"
  unfolding grows_def by (metis list_refl)

lemma grows_upd: "(\<And>t. p t \<Longrightarrow> Q t (f t)) \<Longrightarrow> grows Q xs (upd_rows p f xs)"
  unfolding grows_def by (metis append_Nil2 list_all2_upd_rows Q_refl)

lemma grows_trans:
  assumes "grows Q xs ys" and "grows Q ys zs"
  shows "grows Q xs zs"
proof -
  from assms(1) obtain ys1 ys2 where ys: "ys = ys1 @ ys2" "list_all2 Q xs ys1"
    by (auto simp: grows_def)
  from assms(2) obtain zs1 zs2 where zs: "zs = zs1 @ zs2" "list_all2 Q ys zs1"
    by (auto simp: grows_def)
  from zs(2) ys(1) obtain us vs where "zs1 = us @ vs" "list_all2 Q ys1 us"
    by (auto simp: list_all2_append1)
  with ys(2) have "list_all2 Q xs us"
    by (blast intro: list_all2_trans [of Q Q Q, rotated 1] Q_trans)
  with \<open>zs1 = us @ vs\<close> zs(1) show ?thesis by (auto simp: grows_def)
qed

lemma grows_find:
  assumes "grows Q xs ys" and "\<And>x y. Q x y \<Longrightarrow> g y = g x" and "find (\<lambda>x. g x = k) xs = Some x"
  shows "\<exists>y. find (\<lambda>x. g x = k) ys = Some y \<and> Q x y"
proof -
  from assms(1) obtain us vs where "ys = us @ vs" "list_all2 Q xs us"
    by (auto simp: grows_def)
  moreover from this(2) assms(2,3) have "\<exists>y. find (\<lambda>x. g x = k) us = Some y \<and> Q x y"
    by (intro find_list_all2) auto
  ultimately show ?thesis by (auto simp: find_append)
qed

end

subsection \<open>Life cycles of approvals and invocations\<close>

definition approval_evolves :: "Approval \<Rightarrow> Approval \<Rightarrow> bool" where
  "approval_evolves a b \<longleftrightarrow> ap_ID b = ap_ID a \<and> ap_TaskID b = ap_TaskID a \<and>
     ap_ExpiresAt b = ap_ExpiresAt a \<and> (ap_Status a \<noteq> ApprovalPending \<longrightarrow> ap_Status b = ap_Status a)"

definition invocation_evolves :: "Invocation \<Rightarrow> Invocation \<Rightarrow> bool" where
  "invocation_evolves a b \<longleftrightarrow> in_ID b = in_ID a \<and> in_TaskID b = in_TaskID a \<and>
     in_IdempotencyKey b = in_IdempotencyKey a \<and>
     (in_Status a \<noteq> ''STARTED'' \<longrightarrow> in_Status b = in_Status a)"

text \<open>
  A revoked device keeps its credential columns for ever; a device gets a new credential only with a
  higher key version.
\<close>

definition device_evolves :: "DeviceRow \<Rightarrow> DeviceRow \<Rightarrow> bool" where
  "device_evolves a b \<longleftrightarrow> dv_ID b = dv_ID a \<and> dv_version a \<le> dv_version b \<and>
     (dv_version b = dv_version a \<longrightarrow> dv_CredentialHash b = dv_CredentialHash a) \<and>
     (dv_revoked a \<noteq> None \<longrightarrow> dv_revoked b = dv_revoked a \<and> dv_version b = dv_version a \<and>
        dv_PendingHash b = dv_PendingHash a)"

definition pairing_evolves :: "PairingRow \<Rightarrow> PairingRow \<Rightarrow> bool" where
  "pairing_evolves a b \<longleftrightarrow> ps_ID b = ps_ID a \<and> ps_CodeHash b = ps_CodeHash a \<and>
     ps_ExpiresAt b = ps_ExpiresAt a \<and> (ps_ConsumedAt a \<noteq> None \<longrightarrow> b = a)"

definition voice_evolves :: "VoiceSession \<Rightarrow> VoiceSession \<Rightarrow> bool" where
  "voice_evolves a b \<longleftrightarrow> vs_ID b = vs_ID a \<and> vs_ConversationID b = vs_ConversationID a \<and>
     vs_DeviceID b = vs_DeviceID a \<and> dialog_path (vs_State a) (vs_State b)"

definition action_evolves :: "ActionRow \<Rightarrow> ActionRow \<Rightarrow> bool" where
  "action_evolves a b \<longleftrightarrow> da_RequestID b = da_RequestID a \<and> (da_Status a \<noteq> ''STARTED'' \<longrightarrow> b = a)"

interpretation task_order: row_order "row_steps L" for L
  by unfold_locales (auto intro: row_steps.refl row_steps_trans)

interpretation approval_order: row_order approval_evolves
  by unfold_locales (auto simp: approval_evolves_def)

interpretation invocation_order: row_order invocation_evolves
  by unfold_locales (auto simp: invocation_evolves_def)

interpretation device_order: row_order device_evolves
  by unfold_locales (auto simp: device_evolves_def)

interpretation pairing_order: row_order pairing_evolves
  by unfold_locales (auto simp: pairing_evolves_def)

interpretation voice_order: row_order voice_evolves
  by unfold_locales (auto simp: voice_evolves_def intro: dialog_path.stay dialog_path_trans)

interpretation action_order: row_order action_evolves
  by unfold_locales (auto simp: action_evolves_def)

subsection \<open>Well-formed stores\<close>

definition event_key :: "EventRow \<Rightarrow> string \<times> string \<times> string \<times> string" where
  "event_key r = (so_Kind (ev_Source (er_Event r)), so_ConnectorID (ev_Source (er_Event r)),
     so_InstanceID (ev_Source (er_Event r)), ev_IdempotencyKey (er_Event r))"

definition task_row_ok :: "string list \<Rightarrow> string list \<Rightarrow> Task \<Rightarrow> bool" where
  "task_row_ok tids cids t \<longleftrightarrow> set_option (t_ParentTaskID t) \<subseteq> set tids \<and>
     (t_ConversationID t = [] \<or> t_ConversationID t \<in> set cids) \<and> row_bounds t"

definition wf_tasks :: "Task list \<Rightarrow> string list \<Rightarrow> bool" where
  "wf_tasks ts cids \<longleftrightarrow> distinct (map t_ID ts) \<and> distinct (map t_IdempotencyKey ts) \<and>
     (\<forall>t\<in>set ts. task_row_ok (map t_ID ts) cids t)"

definition wf_dependencies :: "Dependency list \<Rightarrow> string list \<Rightarrow> bool" where
  "wf_dependencies ds tids \<longleftrightarrow> distinct ds \<and>
     (\<forall>d\<in>set ds. dep_TaskID d \<noteq> dep_DependsOnTaskID d \<and>
        dep_TaskID d \<in> set tids \<and> dep_DependsOnTaskID d \<in> set tids)"

definition wf_approvals :: "Approval list \<Rightarrow> string list \<Rightarrow> bool" where
  "wf_approvals as tids \<longleftrightarrow> distinct (map ap_ID as) \<and> set (map ap_TaskID as) \<subseteq> set tids"

definition wf_deliveries :: "Delivery list \<Rightarrow> string list \<Rightarrow> bool" where
  "wf_deliveries ds tids \<longleftrightarrow> distinct (map dl_ID ds) \<and> distinct (map dl_IdempotencyKey ds) \<and>
     set (map dl_TaskID ds) \<subseteq> set tids"

definition wf_invocations :: "Invocation list \<Rightarrow> string list \<Rightarrow> bool" where
  "wf_invocations vs tids \<longleftrightarrow> distinct (map in_ID vs) \<and> distinct (map in_IdempotencyKey vs) \<and>
     set (map in_TaskID vs) \<subseteq> set tids"

definition wf_conversations :: "Conversation list \<Rightarrow> bool" where
  "wf_conversations cs \<longleftrightarrow> distinct (map cv_ID cs) \<and> distinct (map cv_ExternalKey cs)"

definition wf_turns :: "Turn list \<Rightarrow> string list \<Rightarrow> bool" where
  "wf_turns ts cids \<longleftrightarrow> distinct (map tu_ID ts) \<and> (\<forall>t\<in>set ts. tu_ConversationID t \<in> set cids)"

definition wf_events :: "EventRow list \<Rightarrow> bool" where
  "wf_events es \<longleftrightarrow> distinct (map (ev_ID \<circ> er_Event) es) \<and> distinct (map event_key es)"

definition wf_voices :: "VoiceSession list \<Rightarrow> string list \<Rightarrow> string list \<Rightarrow> bool" where
  "wf_voices vs cids dids \<longleftrightarrow> distinct (map vs_ID vs) \<and> distinct (active_devices vs) \<and>
     (\<forall>v\<in>set vs. vs_ConversationID v \<in> set cids \<and> (vs_DeviceID v = [] \<or> vs_DeviceID v \<in> set dids))"

definition wf_pairings :: "PairingRow list \<Rightarrow> bool" where
  "wf_pairings ps \<longleftrightarrow> distinct (map ps_ID ps) \<and> distinct (map ps_CodeHash ps)"

text \<open>
  The columns of a prepared credential are set and cleared together, and it carries the next key
  version.
\<close>

definition device_ok :: "DeviceRow \<Rightarrow> bool" where
  "device_ok d \<longleftrightarrow> 1 \<le> dv_version d \<and>
     (case (dv_PendingHash d, dv_PendingVersion d, dv_PendingExpires d) of
        (None, None, None) \<Rightarrow> True | (Some _, Some v, Some _) \<Rightarrow> v = dv_version d + 1 | _ \<Rightarrow> False)"

definition device_ids :: "store \<Rightarrow> string list" where
  "device_ids s = map dv_ID (devices s)"

definition wf_store :: "store \<Rightarrow> bool" where
  "wf_store s \<longleftrightarrow> wf_tasks (tasks s) (conversation_ids s) \<and>
     wf_dependencies (task_dependencies s) (task_ids s) \<and>
     wf_approvals (approvals s) (task_ids s) \<and> wf_deliveries (deliveries s) (task_ids s) \<and>
     wf_invocations (tool_invocations s) (task_ids s) \<and> wf_conversations (conversations s) \<and>
     wf_turns (turns s) (conversation_ids s) \<and> wf_events (events s) \<and>
     distinct (map au_ID (audit_entries s)) \<and> distinct (device_ids s) \<and>
     (\<forall>d\<in>set (devices s). device_ok d) \<and> wf_pairings (pairing_sessions s) \<and>
     wf_voices (voice_sessions s) (conversation_ids s) (device_ids s) \<and>
     distinct (map se_Key (settings s)) \<and> distinct (map nonce_key (webhook_replay_nonces s)) \<and>
     distinct (map da_RequestID (desktop_action_results s))"

lemmas wf_table_defs = wf_tasks_def wf_dependencies_def wf_approvals_def wf_deliveries_def
  wf_invocations_def wf_conversations_def wf_turns_def wf_events_def wf_voices_def wf_pairings_def

text \<open>A table's predicate does not see the other tables.\<close>

lemma id_frames [simp]:
  "task_ids (s\<lparr>task_dependencies := a\<rparr>) = task_ids s" "task_ids (s\<lparr>approvals := b\<rparr>) = task_ids s"
  "task_ids (s\<lparr>conversations := c\<rparr>) = task_ids s" "task_ids (s\<lparr>turns := d\<rparr>) = task_ids s"
  "task_ids (s\<lparr>events := e\<rparr>) = task_ids s" "task_ids (s\<lparr>deliveries := f\<rparr>) = task_ids s"
  "task_ids (s\<lparr>tool_invocations := g\<rparr>) = task_ids s" "task_ids (s\<lparr>artifacts := h\<rparr>) = task_ids s"
  "task_ids (s\<lparr>audit_entries := i\<rparr>) = task_ids s"
  "conversation_ids (s\<lparr>tasks := t\<rparr>) = conversation_ids s"
  "conversation_ids (s\<lparr>task_dependencies := a\<rparr>) = conversation_ids s"
  "conversation_ids (s\<lparr>approvals := b\<rparr>) = conversation_ids s"
  "conversation_ids (s\<lparr>turns := d\<rparr>) = conversation_ids s"
  "conversation_ids (s\<lparr>events := e\<rparr>) = conversation_ids s"
  "conversation_ids (s\<lparr>deliveries := f\<rparr>) = conversation_ids s"
  "conversation_ids (s\<lparr>tool_invocations := g\<rparr>) = conversation_ids s"
  "conversation_ids (s\<lparr>artifacts := h\<rparr>) = conversation_ids s"
  "conversation_ids (s\<lparr>audit_entries := i\<rparr>) = conversation_ids s"
  "task_ids (s\<lparr>devices := j\<rparr>) = task_ids s" "task_ids (s\<lparr>pairing_sessions := k\<rparr>) = task_ids s"
  "task_ids (s\<lparr>voice_sessions := l\<rparr>) = task_ids s" "task_ids (s\<lparr>settings := m\<rparr>) = task_ids s"
  "task_ids (s\<lparr>webhook_replay_nonces := n\<rparr>) = task_ids s"
  "task_ids (s\<lparr>desktop_action_results := o1\<rparr>) = task_ids s"
  "conversation_ids (s\<lparr>devices := j\<rparr>) = conversation_ids s"
  "conversation_ids (s\<lparr>pairing_sessions := k\<rparr>) = conversation_ids s"
  "conversation_ids (s\<lparr>voice_sessions := l\<rparr>) = conversation_ids s"
  "conversation_ids (s\<lparr>settings := m\<rparr>) = conversation_ids s"
  "conversation_ids (s\<lparr>webhook_replay_nonces := n\<rparr>) = conversation_ids s"
  "conversation_ids (s\<lparr>desktop_action_results := o1\<rparr>) = conversation_ids s"
  by (simp_all add: task_ids_def conversation_ids_def)

lemma device_id_frames [simp]:
  "device_ids (s\<lparr>tasks := t\<rparr>) = device_ids s" "device_ids (s\<lparr>task_dependencies := a\<rparr>) = device_ids s"
  "device_ids (s\<lparr>approvals := b\<rparr>) = device_ids s" "device_ids (s\<lparr>conversations := c\<rparr>) = device_ids s"
  "device_ids (s\<lparr>turns := d\<rparr>) = device_ids s" "device_ids (s\<lparr>events := e\<rparr>) = device_ids s"
  "device_ids (s\<lparr>deliveries := f\<rparr>) = device_ids s" "device_ids (s\<lparr>tool_invocations := g\<rparr>) = device_ids s"
  "device_ids (s\<lparr>artifacts := h\<rparr>) = device_ids s" "device_ids (s\<lparr>audit_entries := i\<rparr>) = device_ids s"
  "device_ids (s\<lparr>pairing_sessions := k\<rparr>) = device_ids s" "device_ids (s\<lparr>voice_sessions := l\<rparr>) = device_ids s"
  "device_ids (s\<lparr>settings := m\<rparr>) = device_ids s" "device_ids (s\<lparr>webhook_replay_nonces := n\<rparr>) = device_ids s"
  "device_ids (s\<lparr>desktop_action_results := o1\<rparr>) = device_ids s"
  by (simp_all add: device_ids_def)

lemma wf_empty_store: "wf_store empty_store"
  by (simp add: wf_store_def wf_table_defs empty_store_def task_ids_def conversation_ids_def
      device_ids_def active_devices_def)

lemma wf_store_task_ids: "wf_store s \<Longrightarrow> distinct (map t_ID (tasks s))"
  by (simp add: wf_store_def wf_tasks_def)

lemma find_task_in: "wf_store s \<Longrightarrow> t \<in> set (tasks s) \<Longrightarrow> find_task (t_ID t) s = Some t"
  unfolding find_task_def by (rule find_distinct) (auto dest: wf_store_task_ids)

subsection \<open>Statements on one row\<close>

definition put_task :: "string \<Rightarrow> (Task \<Rightarrow> Task) \<Rightarrow> store \<Rightarrow> store" where
  "put_task i f s = s\<lparr>tasks := upd_rows (\<lambda>t. t_ID t = i) f (tasks s)\<rparr>"

lemma find_put_task:
  assumes "\<And>t. t_ID (f t) = t_ID t"
  shows "find_task j (put_task i f s) = (if j = i then map_option f (find_task i s) else find_task j s)"
proof -
  have "find_task j (put_task i f s) = map_option (\<lambda>t. if t_ID t = i then f t else t) (find_task j s)"
    unfolding find_task_def put_task_def using assms by (simp add: find_upd_rows)
  then show ?thesis by (cases "find_task j s") (auto simp: find_task_def dest: find_SomeD)
qed

lemma find_task_ID: "find_task i s = Some t \<Longrightarrow> t_ID t = i \<and> t \<in> set (tasks s)"
  by (auto simp: find_task_def dest: find_SomeD)

text \<open>In a table with a key, an update guarded by the key that changed one row changed that row.\<close>

lemma upd_rows_key:
  assumes "distinct (map g xs)" and "x \<in> set xs" and "q x"
  shows "upd_rows (\<lambda>y. g y = g x \<and> q y) f xs = upd_rows (\<lambda>y. g y = g x) f xs"
proof -
  have "y = x" if "y \<in> set xs" "g y = g x" for y
    using assms(1,2) that by (auto simp: distinct_map inj_on_def)
  with assms(3) show ?thesis by (auto simp: upd_rows_def)
qed

lemma update_one_task:
  assumes "wf_store s" and "update_tasks (\<lambda>s t. t_ID t = i \<and> p s t) f s = (1, s')"
  shows "\<exists>t. find_task i s = Some t \<and> p s t \<and> s' = put_task i f s"
proof -
  from assms(2) have "count_rows (\<lambda>t. t_ID t = i \<and> p s t) (tasks s) \<noteq> 0"
    by (simp add: update_tasks_def)
  then obtain t where t: "t \<in> set (tasks s)" "t_ID t = i" "p s t"
    by (auto simp: count_rows_eq_0)
  with assms upd_rows_key [of t_ID "tasks s" t "p s" f] wf_store_task_ids [OF assms(1)]
  have "s' = put_task i f s" by (auto simp: update_tasks_def put_task_def)
  with t find_task_in [OF assms(1) t(1)] show ?thesis by auto
qed

lemma update_one_task_ex:
  assumes "wf_store s" and "find_task i s = Some t" and "p s t"
  shows "update_tasks (\<lambda>s t. t_ID t = i \<and> p s t) f s = (1, put_task i f s)"
proof -
  from assms(2) have t: "t \<in> set (tasks s)" "t_ID t = i" by (auto dest: find_task_ID)
  have "count_rows (\<lambda>t. t_ID t = i \<and> p s t) (tasks s) \<le> 1"
    by (rule count_rows_find1 [OF wf_store_task_ids [OF assms(1)]]) auto
  moreover have "count_rows (\<lambda>t. t_ID t = i \<and> p s t) (tasks s) \<noteq> 0"
    using t assms(3) by (auto simp: count_rows_eq_0)
  ultimately show ?thesis
    using upd_rows_key [of t_ID "tasks s" t "p s" f] t assms(1,3)
    by (auto simp: update_tasks_def put_task_def wf_store_task_ids)
qed

subsection \<open>How a store evolves\<close>

definition evolves :: "label set \<Rightarrow> store \<Rightarrow> store \<Rightarrow> bool" where
  "evolves L s s' \<longleftrightarrow> grows (row_steps L) (tasks s) (tasks s') \<and>
     grows approval_evolves (approvals s) (approvals s') \<and>
     grows invocation_evolves (tool_invocations s) (tool_invocations s') \<and>
     grows pairing_evolves (pairing_sessions s) (pairing_sessions s') \<and>
     grows voice_evolves (voice_sessions s) (voice_sessions s') \<and>
     grows action_evolves (desktop_action_results s) (desktop_action_results s') \<and>
     (wf_store s \<longrightarrow> wf_store s' \<and> grows device_evolves (devices s) (devices s'))"

lemmas grows_refls = task_order.grows_refl approval_order.grows_refl invocation_order.grows_refl
  device_order.grows_refl pairing_order.grows_refl voice_order.grows_refl action_order.grows_refl
lemmas grows_appends = task_order.grows_append approval_order.grows_append invocation_order.grows_append
  device_order.grows_append pairing_order.grows_append voice_order.grows_append action_order.grows_append
lemmas grows_transs = task_order.grows_trans approval_order.grows_trans invocation_order.grows_trans
  device_order.grows_trans pairing_order.grows_trans voice_order.grows_trans action_order.grows_trans

interpretation evo: store_relation "evolves L" for L
proof unfold_locales
  fix s show "evolves L s s" by (simp add: evolves_def grows_refls)
next
  fix s t u assume "evolves L s t" and "evolves L t u"
  then show "evolves L s u" unfolding evolves_def by (blast intro: grows_transs)
qed

lemma grows_mono: "grows Q xs ys \<Longrightarrow> (\<And>x y. Q x y \<Longrightarrow> Q' x y) \<Longrightarrow> grows Q' xs ys"
  unfolding grows_def by (blast intro: list_all2_mono)

lemma evolves_mono: "evolves L s s' \<Longrightarrow> L \<subseteq> M \<Longrightarrow> evolves M s s'"
  unfolding evolves_def by (blast intro: grows_mono row_steps_mono)

lemma keeps_mono: "keeps (evolves L) m \<Longrightarrow> L \<subseteq> M \<Longrightarrow> keeps (evolves M) m"
  unfolding keeps_def by (blast intro: evolves_mono)

lemma evolves_find_task:
  assumes "evolves L s s'" and "find_task i s = Some t"
  shows "\<exists>t'. find_task i s' = Some t' \<and> row_steps L t t'"
  using assms unfolding evolves_def find_task_def
  by (intro task_order.grows_find [where g = t_ID]) (auto simp: row_steps_fields)

lemma evolves_find_approval:
  assumes "evolves L s s'" and "find_approval i s = Some a"
  shows "\<exists>a'. find_approval i s' = Some a' \<and> approval_evolves a a'"
  using assms unfolding evolves_def find_approval_def
  by (intro approval_order.grows_find [where g = ap_ID]) (auto simp: approval_evolves_def)

lemma evolves_find_invocation:
  assumes "evolves L s s'" and "find_invocation i s = Some v"
  shows "\<exists>v'. find_invocation i s' = Some v' \<and> invocation_evolves v v'"
  using assms unfolding evolves_def find_invocation_def
  by (intro invocation_order.grows_find [where g = in_ID]) (auto simp: invocation_evolves_def)

lemma evolves_find_device:
  assumes "evolves L s s'" and "wf_store s" and "find_device i s = Some d"
  shows "\<exists>d'. find_device i s' = Some d' \<and> device_evolves d d'"
  using assms unfolding evolves_def find_device_def
  by (intro device_order.grows_find [where g = dv_ID]) (auto simp: device_evolves_def)

lemma evolves_find_voice:
  assumes "evolves L s s'" and "find_voice i s = Some v"
  shows "\<exists>v'. find_voice i s' = Some v' \<and> voice_evolves v v'"
  using assms unfolding evolves_def find_voice_def
  by (intro voice_order.grows_find [where g = vs_ID]) (auto simp: voice_evolves_def)

subsection \<open>Statements\<close>

lemma upd_tasks_ids:
  assumes step: "\<And>t. p t \<Longrightarrow> row_steps L t (f t)"
  shows "map t_ID (upd_rows p f ts) = map t_ID ts"
    and "map t_IdempotencyKey (upd_rows p f ts) = map t_IdempotencyKey ts"
  by (intro map_upd_rows_same; simp add: row_steps_fields [OF step])+

lemma wf_upd_tasks:
  assumes "wf_tasks ts cids" and step: "\<And>t. p t \<Longrightarrow> row_steps L t (f t)"
  shows "wf_tasks (upd_rows p f ts) cids"
proof -
  have "task_row_ok tids cids t \<Longrightarrow> p t \<Longrightarrow> task_row_ok tids cids (f t)" for tids t
    using row_steps_fields [OF step] row_steps_bounds [OF step] by (simp add: task_row_ok_def)
  with assms(1) show ?thesis
    by (auto simp: wf_tasks_def upd_tasks_ids [OF step] set_upd_rows)
qed

lemma evolves_upd_tasks:
  assumes step: "\<And>t. p s t \<Longrightarrow> row_steps L t (f t)"
  shows "evolves L s (snd (update_tasks p f s))"
proof -
  have "task_ids (snd (update_tasks p f s)) = task_ids s"
    by (simp add: task_ids_def update_tasks_def upd_tasks_ids(1) [OF step])
  then show ?thesis
    using wf_upd_tasks [of "tasks s" "conversation_ids s" "p s" L f] step
    by (auto simp: evolves_def update_tasks_def wf_store_def task_order.grows_upd grows_refls)
qed

lemma update_tasks_in: "update_tasks p f s = update_tasks (\<lambda>s t. p s t \<and> t \<in> set (tasks s)) f s"
  by (auto simp: update_tasks_def upd_rows_def count_rows_def intro!: arg_cong [of _ _ length] filter_cong)

lemma keeps_upd_tasks_in:
  assumes "\<And>s t. p s t \<Longrightarrow> t \<in> set (tasks s) \<Longrightarrow> row_steps L t (f t)"
  shows "keeps (evolves L) (execute (update_tasks p f))"
proof (rule evo.keeps_execute)
  show "evolves L s (snd (update_tasks p f s))" for s
    unfolding update_tasks_in [of p] by (rule evolves_upd_tasks) (use assms in blast)
qed

lemma evolves_upd_approvals:
  assumes "\<And>a. p s a \<Longrightarrow> approval_evolves a (f a)"
  shows "evolves L s (snd (update_approvals p f s))"
proof -
  have "map ap_ID (upd_rows (p s) f (approvals s)) = map ap_ID (approvals s)"
    "map ap_TaskID (upd_rows (p s) f (approvals s)) = map ap_TaskID (approvals s)"
    using assms by (auto intro!: map_upd_rows_same simp: approval_evolves_def)
  with assms show ?thesis
    by (simp add: evolves_def update_approvals_def approval_order.grows_upd grows_refls
        wf_store_def wf_approvals_def del: set_map)
qed

lemma evolves_upd_invocations:
  assumes "\<And>v. p s v \<Longrightarrow> invocation_evolves v (f v)"
  shows "evolves L s (snd (update_invocations p f s))"
proof -
  have "map in_ID (upd_rows (p s) f (tool_invocations s)) = map in_ID (tool_invocations s)"
    "map in_TaskID (upd_rows (p s) f (tool_invocations s)) = map in_TaskID (tool_invocations s)"
    "map in_IdempotencyKey (upd_rows (p s) f (tool_invocations s)) = map in_IdempotencyKey (tool_invocations s)"
    using assms by (auto intro!: map_upd_rows_same simp: invocation_evolves_def)
  with assms show ?thesis
    by (simp add: evolves_def update_invocations_def invocation_order.grows_upd grows_refls
        wf_store_def wf_invocations_def del: set_map)
qed

lemma evolves_upd_deliveries:
  assumes "\<And>d. p s d \<Longrightarrow> dl_ID (f d) = dl_ID d \<and> dl_TaskID (f d) = dl_TaskID d \<and>
    dl_IdempotencyKey (f d) = dl_IdempotencyKey d"
  shows "evolves L s (snd (update_deliveries p f s))"
proof -
  have "map dl_ID (upd_rows (p s) f (deliveries s)) = map dl_ID (deliveries s)"
    "map dl_TaskID (upd_rows (p s) f (deliveries s)) = map dl_TaskID (deliveries s)"
    "map dl_IdempotencyKey (upd_rows (p s) f (deliveries s)) = map dl_IdempotencyKey (deliveries s)"
    using assms by (auto intro!: map_upd_rows_same)
  then show ?thesis
    by (simp add: evolves_def update_deliveries_def grows_refls wf_store_def wf_deliveries_def
        del: set_map)
qed

lemma evolves_upd_events:
  assumes "\<And>r. p s r \<Longrightarrow> ev_ID (er_Event (f r)) = ev_ID (er_Event r) \<and> event_key (f r) = event_key r"
  shows "evolves L s (snd (update_events p f s))"
proof -
  have "map (ev_ID \<circ> er_Event) (upd_rows (p s) f (events s)) = map (ev_ID \<circ> er_Event) (events s)"
    "map event_key (upd_rows (p s) f (events s)) = map event_key (events s)"
    using assms by (auto intro!: map_upd_rows_same)
  then show ?thesis
    by (simp add: evolves_def update_events_def grows_refls wf_store_def wf_events_def)
qed

lemma evolves_upd_conversations:
  assumes "\<And>c. p s c \<Longrightarrow> cv_ID (f c) = cv_ID c \<and> cv_ExternalKey (f c) = cv_ExternalKey c"
  shows "evolves L s (snd (update_conversations p f s))"
proof -
  have ids: "map cv_ID (upd_rows (p s) f (conversations s)) = map cv_ID (conversations s)"
    "map cv_ExternalKey (upd_rows (p s) f (conversations s)) = map cv_ExternalKey (conversations s)"
    using assms by (auto intro!: map_upd_rows_same)
  then have "conversation_ids (s\<lparr>conversations := upd_rows (p s) f (conversations s)\<rparr>) = conversation_ids s"
    by (simp add: conversation_ids_def)
  with ids show ?thesis
    by (simp add: evolves_def update_conversations_def grows_refls wf_store_def wf_conversations_def)
qed

lemma evolves_del_turns: "evolves L s (snd (delete_turns p s))"
  by (simp add: evolves_def delete_turns_def grows_refls wf_store_def wf_turns_def distinct_map_filter)

lemma evolves_del_artifacts: "evolves L s (snd (delete_artifacts p s))"
  by (simp add: evolves_def delete_artifacts_def grows_refls wf_store_def)

lemma evolves_del_audit: "evolves L s (snd (delete_audit p s))"
  by (simp add: evolves_def delete_audit_def grows_refls wf_store_def distinct_map_filter)

lemma evolves_del_nonces: "evolves L s (snd (delete_nonces p s))"
  by (simp add: evolves_def delete_nonces_def grows_refls wf_store_def distinct_map_filter)

lemma evolves_upd_devices:
  assumes step: "\<And>d. p s d \<Longrightarrow> device_ok d \<Longrightarrow> device_evolves d (f d) \<and> device_ok (f d)"
  shows "evolves L s (snd (update_devices p f s))"
proof -
  let ?s' = "s\<lparr>devices := upd_rows (p s) f (devices s)\<rparr>"
  have "wf_store ?s' \<and> grows device_evolves (devices s) (devices ?s')" if wf: "wf_store s"
  proof -
    have ok: "\<forall>d\<in>set (devices s). device_ok d" using wf by (simp add: wf_store_def)
    then have rows: "list_all2 device_evolves (devices s) (devices ?s')"
      using step by (auto simp: upd_rows_def list_all2_map2 device_order.Q_refl intro!: list.rel_refl_strong)
    then have "device_ids ?s' = device_ids s"
      by (simp add: device_ids_def upd_rows_def) (use ok step in \<open>auto simp: device_evolves_def\<close>)
    moreover have "\<forall>d\<in>set (devices ?s'). device_ok d" using ok step by (auto simp: upd_rows_def)
    ultimately show ?thesis
      using wf rows by (auto simp: wf_store_def grows_def)
  qed
  then show ?thesis by (simp add: evolves_def update_devices_def grows_refls)
qed

lemma evolves_upd_pairings:
  assumes "\<And>d. p s d \<Longrightarrow> pairing_evolves d (f d)"
  shows "evolves L s (snd (update_pairings p f s))"
proof -
  have "map ps_ID (upd_rows (p s) f (pairing_sessions s)) = map ps_ID (pairing_sessions s)"
    "map ps_CodeHash (upd_rows (p s) f (pairing_sessions s)) = map ps_CodeHash (pairing_sessions s)"
    using assms by (auto intro!: map_upd_rows_same simp: pairing_evolves_def)
  with assms show ?thesis
    by (simp add: evolves_def update_pairings_def pairing_order.grows_upd grows_refls wf_store_def wf_pairings_def)
qed

lemma evolves_upd_actions:
  assumes "\<And>d. p s d \<Longrightarrow> action_evolves d (f d)"
  shows "evolves L s (snd (update_actions p f s))"
proof -
  have "map da_RequestID (upd_rows (p s) f (desktop_action_results s)) = map da_RequestID (desktop_action_results s)"
    using assms by (auto intro!: map_upd_rows_same simp: action_evolves_def)
  with assms show ?thesis
    by (simp add: evolves_def update_actions_def action_order.grows_upd grows_refls wf_store_def)
qed

lemma evolves_upd_voices:
  assumes "update_voices p f s = Inr (n, s')" and "\<And>v. p s v \<Longrightarrow> voice_evolves v (f v)"
  shows "evolves L s s'"
proof -
  let ?vs = "upd_rows (p s) f (voice_sessions s)"
  from assms(1) have s': "s' = s\<lparr>voice_sessions := ?vs\<rparr>" and one: "distinct (active_devices ?vs)"
    by (auto simp: update_voices_def Let_def split: if_splits)
  have ids: "map vs_ID ?vs = map vs_ID (voice_sessions s)"
    using assms(2) by (auto intro!: map_upd_rows_same simp: voice_evolves_def)
  have "wf_voices ?vs cids dids" if "wf_voices (voice_sessions s) cids dids" for cids dids
    using that one ids assms(2) by (fastforce simp: wf_voices_def set_upd_rows voice_evolves_def)
  with assms(2) show ?thesis
    by (simp add: evolves_def s' voice_order.grows_upd grows_refls wf_store_def)
qed

lemma wf_ins_task:
  assumes "wf_store s" and "task_constraints s t"
  shows "wf_store (s\<lparr>tasks := tasks s @ [t]\<rparr>)"
proof -
  have ids: "task_ids (s\<lparr>tasks := tasks s @ [t]\<rparr>) = task_ids s @ [t_ID t]"
    by (simp add: task_ids_def)
  have "wf_tasks (tasks s @ [t]) (conversation_ids s)"
    using assms by (auto simp: wf_store_def wf_tasks_def task_constraints_def task_row_ok_def
        row_bounds_def task_ids_def split: option.splits)
  moreover have "wf_dependencies (task_dependencies s) (task_ids s @ [t_ID t])"
    "wf_approvals (approvals s) (task_ids s @ [t_ID t])"
    "wf_deliveries (deliveries s) (task_ids s @ [t_ID t])"
    "wf_invocations (tool_invocations s) (task_ids s @ [t_ID t])"
    using assms(1) by (auto simp: wf_store_def wf_dependencies_def wf_approvals_def
        wf_deliveries_def wf_invocations_def)
  ultimately show ?thesis using assms(1) ids by (simp add: wf_store_def)
qed

lemma evolves_ins_task: "insert_task_row t s = Inr s' \<Longrightarrow> evolves L s s'"
  by (auto simp: insert_task_row_def evolves_def grows_refls grows_appends wf_ins_task split: if_splits)

lemmas evolves_ins_simps = evolves_def insert_row_defs grows_refls grows_appends wf_store_def

lemma evolves_ins_dependency: "insert_dependency_row b d s = Inr s' \<Longrightarrow> evolves L s s'"
  by (auto simp: evolves_ins_simps wf_dependencies_def split: if_splits)

lemma evolves_ins_approval: "insert_approval_row a s = Inr s' \<Longrightarrow> evolves L s s'"
  by (auto simp: evolves_ins_simps wf_approvals_def image_subset_iff split: if_splits)

lemma evolves_ins_turn: "insert_turn_row t s = Inr s' \<Longrightarrow> evolves L s s'"
  by (auto simp: evolves_ins_simps wf_turns_def split: if_splits)

lemma evolves_ins_delivery: "insert_delivery_row b d s = Inr s' \<Longrightarrow> evolves L s s'"
  by (auto simp: evolves_ins_simps wf_deliveries_def image_subset_iff split: if_splits)

lemma evolves_ins_invocation: "insert_invocation_row v s = Inr s' \<Longrightarrow> evolves L s s'"
  by (auto simp: evolves_ins_simps wf_invocations_def image_subset_iff split: if_splits)

lemma evolves_ins_audit: "insert_audit_row e s = Inr s' \<Longrightarrow> evolves L s s'"
  by (auto simp: evolves_ins_simps split: if_splits)

lemma evolves_ins_device: "insert_device_row d s = Inr s' \<Longrightarrow> device_ok d \<Longrightarrow> evolves L s s'"
  by (auto simp: evolves_def insert_device_row_def grows_refls grows_appends wf_store_def wf_voices_def
      device_ids_def split: if_splits)

lemma evolves_ins_pairing: "insert_pairing_row d s = Inr s' \<Longrightarrow> evolves L s s'"
  by (auto simp: evolves_def insert_pairing_row_def grows_refls grows_appends wf_store_def wf_pairings_def
      split: if_splits)

lemma evolves_ins_voice: "insert_voice_row d s = Inr s' \<Longrightarrow> evolves L s s'"
  by (auto simp: evolves_def insert_voice_row_def grows_refls grows_appends wf_store_def wf_voices_def
      device_ids_def split: if_splits)

lemma evolves_ins_setting: "insert_setting_row d s = Inr s' \<Longrightarrow> evolves L s s'"
  by (auto simp: evolves_def insert_setting_row_def grows_refls wf_store_def split: if_splits)

lemma evolves_ins_nonce: "insert_nonce_row d s = Inr s' \<Longrightarrow> evolves L s s'"
  by (auto simp: evolves_def insert_nonce_row_def grows_refls wf_store_def split: if_splits)

lemma evolves_ins_action: "insert_action_row d s = Inr s' \<Longrightarrow> evolves L s s'"
  by (auto simp: evolves_def insert_action_row_def grows_refls grows_appends wf_store_def split: if_splits)

lemma evolves_ins_event: "insert_event_row e s = Inr s' \<Longrightarrow> evolves L s s'"
  by (auto simp: evolves_ins_simps wf_events_def event_key_def same_event_source_def list_ex_iff
      split: if_splits) blast

lemmas keeps_inserts =
  evo.keeps_insert [OF evolves_ins_task] evo.keeps_insert [OF evolves_ins_dependency]
  evo.keeps_insert [OF evolves_ins_approval] evo.keeps_insert [OF evolves_ins_turn]
  evo.keeps_insert [OF evolves_ins_delivery] evo.keeps_insert [OF evolves_ins_invocation]
  evo.keeps_insert [OF evolves_ins_audit] evo.keeps_insert [OF evolves_ins_event]
  evo.keeps_insert [OF evolves_ins_pairing]
  evo.keeps_insert [OF evolves_ins_voice] evo.keeps_insert [OF evolves_ins_setting]
  evo.keeps_insert [OF evolves_ins_nonce] evo.keeps_insert [OF evolves_ins_action]

lemmas keeps_updates =
  evo.keeps_execute [OF evolves_upd_tasks] evo.keeps_execute [OF evolves_upd_approvals]
  evo.keeps_execute [OF evolves_upd_invocations] evo.keeps_execute [OF evolves_upd_deliveries]
  evo.keeps_execute [OF evolves_upd_events] evo.keeps_execute [OF evolves_upd_conversations]
  evo.keeps_execute [OF evolves_del_turns] evo.keeps_execute [OF evolves_del_artifacts]
  evo.keeps_execute [OF evolves_upd_devices] evo.keeps_execute [OF evolves_upd_pairings]
  evo.keeps_execute [OF evolves_upd_actions] evo.keeps_execute [OF evolves_del_audit]
  evo.keeps_execute [OF evolves_del_nonces]

lemma keeps_ins_device: "device_ok d \<Longrightarrow> keeps (evolves L) (insert_stmt (insert_device_row d))"
  by (rule evo.keeps_insert) (rule evolves_ins_device)

lemma keeps_upd_voices:
  "(\<And>s v. p s v \<Longrightarrow> voice_evolves v (f v)) \<Longrightarrow> keeps (evolves L) (stmt (update_voices p f))"
  by (rule evo.keeps_stmt) (auto intro: evolves_upd_voices)

lemmas keeps_rules = keeps_ins_device keeps_upd_voices evo.keeps_prog keeps_inserts keeps_updates

end
