(* ===== verification/Dialog_Store.thy ===== *)
theory Dialog_Store
  imports Store_Relations
begin

text \<open>
  Audit entries (\<open>core/persistence/observability.go\<close>), conversations, turns and the transcript
  retention policy with its scrub (\<open>core/persistence/conversations.go\<close>), and delivery records
  (\<open>core/persistence/deliveries.go\<close>).
\<close>

definition clampLimit :: "int \<Rightarrow> nat" where
  "clampLimit limit = (if limit < 1 \<or> limit > 1000 then 100 else nat limit)"

subsection \<open>Audit entries\<close>

definition insertAuditEntry :: "AuditEntry \<Rightarrow> unit db_op" where
  "insertAuditEntry entry =
     insert_stmt (insert_audit_row
       (if au_Details entry = None then entry\<lparr>au_Details := Some (JObj [])\<rparr> else entry))"

definition AddAuditEntry :: "AuditEntry \<Rightarrow> unit db_op" where
  "AddAuditEntry entry = insertAuditEntry entry"

definition ListAuditEntries :: "int \<Rightarrow> AuditEntry list db_op" where
  "ListAuditEntries limit =
     query (\<lambda>s. take (clampLimit limit) (sort_key_desc (formatTime \<circ> au_OccurredAt) (audit_entries s)))"

subsection \<open>Conversations and turns\<close>

text \<open>\<open>INSERT ... ON CONFLICT(external_key) DO UPDATE\<close>\<close>

definition upsert_conversation :: "Conversation \<Rightarrow> store \<Rightarrow> err + store" where
  "upsert_conversation c s =
    (if cv_ExternalKey c \<in> set (map cv_ExternalKey (conversations s))
     then Inr (snd (update_conversations (\<lambda>_ r. cv_ExternalKey r = cv_ExternalKey c)
       (\<lambda>r. r\<lparr>cv_UpdatedAt := cv_UpdatedAt c,
          cv_Title := (if cv_TranscriptRetention r \<and> cv_Title r = expiredContentMarker
                       then cv_Title c else cv_Title r)\<rparr>) s))
     else if cv_ID c \<in> set (conversation_ids s) then Inl ErrConstraint
     else Inr (s\<lparr>conversations := conversations s @ [c]\<rparr>))"

definition GetConversation :: "string \<Rightarrow> Conversation db_op" where
  "GetConversation i = query_row (find_conversation i)"

definition GetConversationByExternalKey :: "string \<Rightarrow> Conversation db_op" where
  "GetConversationByExternalKey key =
     query_row (\<lambda>s. find (\<lambda>c. cv_ExternalKey c = key) (conversations s))"

definition GetOrCreateConversation :: "string \<Rightarrow> string \<Rightarrow> bool \<Rightarrow> string \<Rightarrow> Conversation db_op" where
  "GetOrCreateConversation externalKey title retain i =
     tx_bind tx_now (\<lambda>now.
     tx_bind (insert_stmt (upsert_conversation
       \<lparr>cv_ID = i, cv_ExternalKey = externalKey, cv_Title = title, cv_TranscriptRetention = retain,
        cv_CreatedAt = now, cv_UpdatedAt = now\<rparr>)) (\<lambda>_.
     GetConversationByExternalKey externalKey))"

definition insertTurn :: "Turn \<Rightarrow> bool \<Rightarrow> unit db_op" where
  "insertTurn turn retain =
     insert_stmt (insert_turn_row
       (turn\<lparr>tu_Text := (if \<not> retain then retentionDisabledMarker else tu_Text turn)\<rparr>))"

definition AddTurn :: "Turn \<Rightarrow> bool \<Rightarrow> unit db_op" where
  "AddTurn turn retain = insertTurn turn retain"

definition ListTurns :: "string \<Rightarrow> int \<Rightarrow> Turn list db_op" where
  "ListTurns conversationID limit =
     query (\<lambda>s. sort_key (formatTime \<circ> tu_CreatedAt)
       (take (clampLimit limit) (sort_key_desc (formatTime \<circ> tu_CreatedAt)
         (filter (\<lambda>t. tu_ConversationID t = conversationID) (turns s)))))"

subsection \<open>Deliveries\<close>

definition insertDelivery :: "Delivery \<Rightarrow> bool \<Rightarrow> unit db_op" where
  "insertDelivery item ignoreDuplicate = insert_stmt (insert_delivery_row ignoreDuplicate item)"

definition CreateDelivery :: "Delivery \<Rightarrow> bool db_op" where
  "CreateDelivery item =
     tx_bind (attempt (insertDelivery item False)) (\<lambda>r. case r of
       Inr _ \<Rightarrow> tx_return False
     | Inl e \<Rightarrow> tx_bind (attempt (query (\<lambda>s.
           count_rows (\<lambda>d. dl_IdempotencyKey d = dl_IdempotencyKey item) (deliveries s)))) (\<lambda>n.
         case n of Inr k \<Rightarrow> if k > 0 then tx_return True else tx_throw e | Inl _ \<Rightarrow> tx_throw e))"

subsection \<open>Scrubbing a task graph\<close>

definition empty_target :: Target where
  "empty_target = \<lparr>tg_Kind = [], tg_ConnectorID = [], tg_DeviceID = [], tg_ChannelID = [],
     tg_ThreadID = [], tg_CallbackURL = [], tg_VoiceSession = []\<rparr>"

definition scrub_payloads :: "string \<Rightarrow> store \<Rightarrow> nat \<times> store" where
  "scrub_payloads externalKey =
     update_events (\<lambda>_ r. ev_ConversationKey (er_Event r) = externalKey)
       (\<lambda>r. r\<lparr>er_Event := (er_Event r)\<lparr>ev_Payload := ''{}''\<rparr>\<rparr>)"

definition graph_terminal :: "string \<Rightarrow> store \<Rightarrow> bool" where
  "graph_terminal root s \<longleftrightarrow>
     \<not> list_ex (\<lambda>t. t_RootTaskID t = root \<and> \<not> Terminal (t_Status t)) (tasks s)"

definition terminalTaskGraphSafeToScrub :: "string \<Rightarrow> bool db_op" where
  "terminalTaskGraphSafeToScrub rootTaskID = query (graph_terminal rootTaskID)"

definition scrubTerminalTaskGraphContent :: "string \<Rightarrow> unit db_op" where
  "scrubTerminalTaskGraphContent root =
     tx_bind (execute (delete_artifacts (\<lambda>s r. ar_TaskID r \<in> set (graph_ids root s)))) (\<lambda>_.
     tx_bind (execute (update_invocations (\<lambda>s v. in_TaskID v \<in> set (graph_ids root s))
       (\<lambda>v. v\<lparr>in_Input := ''{}'', in_Output := [], in_Error := []\<rparr>))) (\<lambda>_.
     tx_bind (execute (update_approvals
       (\<lambda>s a. ap_TaskID a \<in> set (graph_ids root s) \<and>
          ap_Status a \<in> set [ApprovalDenied, ApprovalExpired, ApprovalConsumed])
       (\<lambda>a. a\<lparr>ap_ToolArguments := ''{}'', ap_RequestedScopes := [], ap_Reason := retentionDisabledMarker\<rparr>))) (\<lambda>_.
     tx_bind (execute (update_deliveries
       (\<lambda>s d. dl_TaskID d \<in> set (graph_ids root s) \<and> dl_Status d \<in> set [DeliveryDelivered, DeliveryFailed])
       (\<lambda>d. d\<lparr>dl_Target := empty_target, dl_LastError := []\<rparr>))) (\<lambda>_.
     tx_bind (execute (update_tasks (\<lambda>_ t. t_RootTaskID t = root) set_scrubbed)) (\<lambda>_.
     tx_return ())))))"

text \<open>The conversation row that \<open>tasks t JOIN conversations c ON c.id = t.conversation_id\<close> finds.\<close>

definition conversation_of_task :: "string \<Rightarrow> store \<Rightarrow> Conversation option" where
  "conversation_of_task i s = (case find_task i s of None \<Rightarrow> None
    | Some t \<Rightarrow> if t_ConversationID t = [] then None else find_conversation (t_ConversationID t) s)"

definition ScrubTerminalTaskGraph :: "string \<Rightarrow> unit db_op" where
  "ScrubTerminalTaskGraph rootTaskID = run_tx (
     tx_bind (query (conversation_of_task rootTaskID)) (\<lambda>row. case row of
       None \<Rightarrow> tx_return (Abandon ())
     | Some c \<Rightarrow>
         if cv_TranscriptRetention c then tx_return (Abandon ())
         else tx_bind (terminalTaskGraphSafeToScrub rootTaskID) (\<lambda>safe.
           if \<not> safe then tx_return (Abandon ())
           else tx_bind (execute (scrub_payloads (cv_ExternalKey c))) (\<lambda>_.
             tx_bind (scrubTerminalTaskGraphContent rootTaskID) (\<lambda>_.
             tx_return (Commit ()))))))"

definition non_retained_terminal_roots :: "store \<Rightarrow> string list" where
  "non_retained_terminal_roots s =
     remdups (map t_RootTaskID (filter (\<lambda>t.
       t_ConversationID t \<noteq> [] \<and>
       (case find_conversation (t_ConversationID t) s of None \<Rightarrow> False
          | Some c \<Rightarrow> \<not> cv_TranscriptRetention c) \<and>
       graph_terminal (t_RootTaskID t) s) (tasks s)))"

definition ScrubTerminalNonRetainedTaskGraphs :: "unit db_op" where
  "ScrubTerminalNonRetainedTaskGraphs =
     tx_bind (query non_retained_terminal_roots) (\<lambda>roots. for_each roots ScrubTerminalTaskGraph)"

subsection \<open>The retention policy\<close>

definition scrubTerminalConversationTasks :: "string \<Rightarrow> unit db_op" where
  "scrubTerminalConversationTasks conversationID =
     tx_bind (query (\<lambda>s. remdups (map t_RootTaskID
       (filter (\<lambda>t. t_ConversationID t \<noteq> [] \<and> t_ConversationID t = conversationID) (tasks s))))) (\<lambda>roots.
     for_each roots (\<lambda>root.
       tx_bind (terminalTaskGraphSafeToScrub root) (\<lambda>safe.
       tx_when safe (scrubTerminalTaskGraphContent root))))"

definition disableTranscriptRetentionTx :: "string \<Rightarrow> string \<Rightarrow> time \<Rightarrow> unit db_op" where
  "disableTranscriptRetentionTx conversationID externalKey updatedAt =
     tx_bind (execute (delete_turns (\<lambda>_ t. tu_ConversationID t = conversationID))) (\<lambda>_.
     tx_bind (execute (update_conversations (\<lambda>_ c. cv_ID c = conversationID)
       (\<lambda>c. c\<lparr>cv_TranscriptRetention := False, cv_Title := retentionDisabledMarker,
          cv_UpdatedAt := updatedAt\<rparr>))) (\<lambda>changed.
     tx_bind (require (changed = 1) ErrNotFound) (\<lambda>_.
     tx_bind (execute (scrub_payloads externalKey)) (\<lambda>_.
     scrubTerminalConversationTasks conversationID))))"

definition setTranscriptRetentionTx :: "string \<Rightarrow> bool \<Rightarrow> time \<Rightarrow> unit db_op" where
  "setTranscriptRetentionTx conversationID enabled updatedAt =
     tx_bind (query_row (\<lambda>s. map_option cv_ExternalKey (find_conversation conversationID s))) (\<lambda>externalKey.
     if enabled then
       tx_bind (execute (update_conversations (\<lambda>_ c. cv_ID c = conversationID)
         (\<lambda>c. c\<lparr>cv_TranscriptRetention := True, cv_UpdatedAt := updatedAt\<rparr>))) (\<lambda>changed.
       require (changed = 1) ErrNotFound)
     else disableTranscriptRetentionTx conversationID externalKey updatedAt)"

definition setTranscriptRetention :: "string \<Rightarrow> bool \<Rightarrow> AuditEntry option \<Rightarrow> unit db_op" where
  "setTranscriptRetention conversationID enabled entry = with_tx (
     tx_bind tx_now (\<lambda>now.
     tx_bind (setTranscriptRetentionTx conversationID enabled now) (\<lambda>_.
     case entry of None \<Rightarrow> tx_return () | Some e \<Rightarrow> insertAuditEntry e)))"

definition SetTranscriptRetention :: "string \<Rightarrow> bool \<Rightarrow> unit db_op" where
  "SetTranscriptRetention conversationID enabled = setTranscriptRetention conversationID enabled None"

definition SetTranscriptRetentionWithAudit :: "string \<Rightarrow> bool \<Rightarrow> AuditEntry \<Rightarrow> unit db_op" where
  "SetTranscriptRetentionWithAudit conversationID enabled entry =
     setTranscriptRetention conversationID enabled (Some entry)"

definition DeleteTranscript :: "string \<Rightarrow> unit db_op" where
  "DeleteTranscript conversationID = SetTranscriptRetention conversationID False"

subsection \<open>How these operations evolve the store\<close>

lemma evolves_upsert: "upsert_conversation c s = Inr s' \<Longrightarrow> evolves L s s'"
proof -
  assume ins: "upsert_conversation c s = Inr s'"
  show ?thesis
  proof (cases "cv_ExternalKey c \<in> set (map cv_ExternalKey (conversations s))")
    case True
    with ins show ?thesis
      by (auto simp: upsert_conversation_def intro!: evolves_upd_conversations)
  next
    case False
    with ins have new: "cv_ID c \<notin> set (conversation_ids s)"
      and s': "s' = s\<lparr>conversations := conversations s @ [c]\<rparr>"
      by (auto simp: upsert_conversation_def split: if_splits)
    have "wf_store s'" if "wf_store s"
      using that False new
      by (auto simp: s' wf_store_def wf_conversations_def wf_turns_def wf_tasks_def task_row_ok_def wf_voices_def
          conversation_ids_def)
    then show ?thesis by (simp add: evolves_def s' grows_refls)
  qed
qed

lemma keeps_scrub_payloads: "keeps (evolves L) (execute (scrub_payloads k))"
  unfolding scrub_payloads_def by (rule keeps_updates) (simp add: event_key_def)

lemma keeps_insertAuditEntry: "keeps (evolves L) (insertAuditEntry e)"
  unfolding insertAuditEntry_def by (rule keeps_inserts)

lemma keeps_insertTurn: "keeps (evolves L) (insertTurn t b)"
  unfolding insertTurn_def by (rule keeps_inserts)

lemma keeps_insertDelivery: "keeps (evolves L) (insertDelivery d b)"
  unfolding insertDelivery_def by (rule keeps_inserts)

lemma keeps_scrub_content:
  "LScrub \<in> L \<Longrightarrow> keeps (evolves L) (scrubTerminalTaskGraphContent root)"
  unfolding scrubTerminalTaskGraphContent_def
  by (intro keeps_rules)
     (auto simp: invocation_evolves_def approval_evolves_def intro: row_steps_single row_step.scrub)

lemma keeps_safe: "keeps (evolves L) (terminalTaskGraphSafeToScrub root)"
  unfolding terminalTaskGraphSafeToScrub_def by (rule keeps_rules)

lemmas keeps_dialog = keeps_scrub_payloads keeps_insertAuditEntry keeps_insertTurn
  keeps_insertDelivery keeps_scrub_content keeps_safe

lemma keeps_ScrubTerminalTaskGraph:
  "LScrub \<in> L \<Longrightarrow> keeps (evolves L) (ScrubTerminalTaskGraph root)"
  unfolding ScrubTerminalTaskGraph_def by (intro keeps_rules keeps_dialog)

lemma keeps_ScrubTerminalNonRetained:
  "LScrub \<in> L \<Longrightarrow> keeps (evolves L) ScrubTerminalNonRetainedTaskGraphs"
  unfolding ScrubTerminalNonRetainedTaskGraphs_def
  by (intro keeps_rules keeps_ScrubTerminalTaskGraph)

lemma keeps_disable:
  "LScrub \<in> L \<Longrightarrow> keeps (evolves L) (disableTranscriptRetentionTx c k u)"
  unfolding disableTranscriptRetentionTx_def scrubTerminalConversationTasks_def
  by (intro keeps_rules keeps_dialog) auto

lemma keeps_setTranscriptRetention:
  "LScrub \<in> L \<Longrightarrow> keeps (evolves L) (setTranscriptRetention c b e)"
  unfolding setTranscriptRetention_def setTranscriptRetentionTx_def
  by (intro keeps_rules keeps_dialog keeps_disable) auto

lemma keeps_GetOrCreateConversation: "keeps (evolves L) (GetOrCreateConversation k t r i)"
  unfolding GetOrCreateConversation_def GetConversationByExternalKey_def
  by (intro keeps_rules evo.keeps_insert) (rule evolves_upsert)

lemma keeps_CreateDelivery: "keeps (evolves L) (CreateDelivery d)"
  unfolding CreateDelivery_def by (intro keeps_rules keeps_dialog)

subsection \<open>What a scrub leaves alone\<close>

text \<open>
  A scrub replaces the content of task rows and nothing else in them, keeps the status of every
  approval and invocation, and the rows of these tables.
\<close>

definition scrubbed_row :: "Task \<Rightarrow> Task \<Rightarrow> bool" where
  "scrubbed_row t u \<longleftrightarrow> u = t \<or> u = set_scrubbed t"

definition scrub_rel :: "store \<Rightarrow> store \<Rightarrow> bool" where
  "scrub_rel s s' \<longleftrightarrow> list_all2 scrubbed_row (tasks s) (tasks s') \<and>
     map (\<lambda>a. (ap_ID a, ap_TaskID a, ap_Status a)) (approvals s') =
       map (\<lambda>a. (ap_ID a, ap_TaskID a, ap_Status a)) (approvals s) \<and>
     map (\<lambda>v. (in_ID v, in_TaskID v, in_Status v)) (tool_invocations s') =
       map (\<lambda>v. (in_ID v, in_TaskID v, in_Status v)) (tool_invocations s)"

lemma scrubbed_row_trans: "scrubbed_row t u \<Longrightarrow> scrubbed_row u v \<Longrightarrow> scrubbed_row t v"
  by (auto simp: scrubbed_row_def set_scrubbed_def)

interpretation scrub_order: row_order scrubbed_row
  by unfold_locales (auto simp: scrubbed_row_def set_scrubbed_def)

interpretation scr: store_relation scrub_rel
  by unfold_locales
     (auto simp: scrub_rel_def scrub_order.list_refl intro: list_all2_trans [of scrubbed_row scrubbed_row scrubbed_row, rotated 1]
        scrubbed_row_trans)

lemma scrub_rel_frame:
  "tasks s' = tasks s \<Longrightarrow> approvals s' = approvals s \<Longrightarrow> tool_invocations s' = tool_invocations s \<Longrightarrow> scrub_rel s s'"
  by (simp add: scrub_rel_def scrub_order.list_refl)

lemma scr_scrub_content: "keeps scrub_rel (scrubTerminalTaskGraphContent root)"
  unfolding scrubTerminalTaskGraphContent_def
proof (intro scr.keeps_prog scr.keeps_execute, goal_cases)
  case (1 s)
  then show ?case by (rule scrub_rel_frame) simp_all
next
  case (2 s)
  then show ?case
    by (auto simp: scrub_rel_def update_invocations_def scrub_order.list_refl intro!: map_upd_rows_same)
next
  case (3 s)
  then show ?case
    by (auto simp: scrub_rel_def update_approvals_def scrub_order.list_refl intro!: map_upd_rows_same)
next
  case (4 s)
  then show ?case by (rule scrub_rel_frame) simp_all
next
  case (5 s)
  then show ?case
    by (auto simp: scrub_rel_def update_tasks_def scrubbed_row_def intro!: list_all2_upd_rows)
qed

lemma scr_ScrubTerminalTaskGraph: "keeps scrub_rel (ScrubTerminalTaskGraph root)"
  unfolding ScrubTerminalTaskGraph_def terminalTaskGraphSafeToScrub_def scrub_payloads_def
  by (intro scr.keeps_prog scr.keeps_execute scr_scrub_content) (auto intro: scrub_rel_frame)

lemma scr_ScrubTerminalNonRetained: "keeps scrub_rel ScrubTerminalNonRetainedTaskGraphs"
  unfolding ScrubTerminalNonRetainedTaskGraphs_def
  by (intro scr.keeps_prog scr_ScrubTerminalTaskGraph)

end
