(* ===== verification/Utf8.thy ===== *)
theory Utf8
  imports Prelude
begin

text \<open>
  The parts of the packages \<open>strings\<close> and \<open>unicode/utf8\<close> that the code uses on byte strings: a
  \<open>string\<close> is a list of bytes, read as runes by UTF-8 decoding in which an ill-formed sequence
  stands for one invalid byte at a time.
\<close>

definition byte :: "char \<Rightarrow> nat" where
  "byte c = of_char c"

text \<open>How many bytes a rune has, by its first byte, and the range of its second byte.\<close>

definition rune_need :: "nat \<Rightarrow> nat" where
  "rune_need b = (if b < 128 then 1 else if 194 \<le> b \<and> b \<le> 223 then 2
     else if 224 \<le> b \<and> b \<le> 239 then 3 else if 240 \<le> b \<and> b \<le> 244 then 4 else 0)"

definition second_ok :: "nat \<Rightarrow> nat \<Rightarrow> bool" where
  "second_ok b c \<longleftrightarrow> (if b = 224 then 160 \<le> c \<and> c \<le> 191 else if b = 237 then 128 \<le> c \<and> c \<le> 159
     else if b = 240 then 144 \<le> c \<and> c \<le> 191 else if b = 244 then 128 \<le> c \<and> c \<le> 143
     else 128 \<le> c \<and> c \<le> 191)"

definition continuation :: "char \<Rightarrow> bool" where
  "continuation c \<longleftrightarrow> 128 \<le> byte c \<and> byte c \<le> 191"

text \<open>The length of the well-formed rune at the head, 0 when there is none.\<close>

fun rune_len :: "string \<Rightarrow> nat" where
  "rune_len [] = 0"
| "rune_len (a # r) = (let n = rune_need (byte a) in
     if n \<le> 1 then n
     else if n \<le> Suc (length r) \<and> second_ok (byte a) (byte (hd r)) \<and>
       list_all continuation (take (n - 2) (tl r)) then n else 0)"

function chunks :: "string \<Rightarrow> (bool \<times> string) list" where
  "chunks [] = []"
| "chunks (a # r) = (let n = rune_len (a # r) in
     if n = 0 then (False, [a]) # chunks r
     else (True, take n (a # r)) # chunks (drop n (a # r)))"
  by pat_completeness auto

termination
  by (relation "measure length") auto

definition ValidString :: "string \<Rightarrow> bool" where
  "ValidString s \<longleftrightarrow> list_all fst (chunks s)"

text \<open>\<open>unicode.IsSpace\<close> on a decoded rune, by its encoding.\<close>

definition IsSpace :: "bool \<times> string \<Rightarrow> bool" where
  "IsSpace c \<longleftrightarrow> fst c \<and> (let b = map byte (snd c) in
     b \<in> set [[9], [10], [11], [12], [13], [32], [194, 133], [194, 160], [225, 154, 128],
       [226, 128, 168], [226, 128, 169], [226, 128, 175], [226, 129, 159], [227, 128, 128]] \<or>
     (length b = 3 \<and> b ! 0 = 226 \<and> b ! 1 = 128 \<and> 128 \<le> b ! 2 \<and> b ! 2 \<le> 138))"

definition chunk_text :: "(bool \<times> string) list \<Rightarrow> string" where
  "chunk_text cs = concat (map snd cs)"

definition TrimSpace :: "string \<Rightarrow> string" where
  "TrimSpace s = chunk_text (rev (dropWhile IsSpace (rev (dropWhile IsSpace (chunks s)))))"

text \<open>\<open>strings.ToValidUTF8\<close>: a run of invalid bytes becomes one replacement.\<close>

fun replace_invalid :: "bool \<Rightarrow> string \<Rightarrow> (bool \<times> string) list \<Rightarrow> string" where
  "replace_invalid in_run rep [] = []"
| "replace_invalid in_run rep ((True, c) # cs) = c @ replace_invalid False rep cs"
| "replace_invalid in_run rep ((False, c) # cs) =
     (if in_run then [] else rep) @ replace_invalid True rep cs"

definition ToValidUTF8 :: "string \<Rightarrow> string \<Rightarrow> string" where
  "ToValidUTF8 s rep = replace_invalid False rep (chunks s)"

text \<open>\<open>strings.Fields\<close>: the maximal runs without spaces.\<close>

fun field_runs :: "(bool \<times> string) list \<Rightarrow> (bool \<times> string) list \<Rightarrow> string list" where
  "field_runs acc [] = (if acc = [] then [] else [chunk_text acc])"
| "field_runs acc (c # cs) =
     (if IsSpace c then (if acc = [] then field_runs [] cs else chunk_text acc # field_runs [] cs)
      else field_runs (acc @ [c]) cs)"

definition Fields :: "string \<Rightarrow> string list" where
  "Fields s = field_runs [] (chunks s)"

fun Join :: "string list \<Rightarrow> string \<Rightarrow> string" where
  "Join [] sep = []"
| "Join [x] sep = x"
| "Join (x # y # xs) sep = x @ sep @ Join (y # xs) sep"

subsection \<open>Well-formed strings\<close>

lemma rune_len_bound: "rune_len s \<le> length s"
  by (cases s) (auto simp: Let_def rune_need_def)

lemma rune_len_append: "rune_len s \<noteq> 0 \<Longrightarrow> rune_len (s @ t) = rune_len s"
proof (cases s)
  case (Cons a r)
  assume n: "rune_len s \<noteq> 0"
  show ?thesis
  proof (cases "rune_need (byte a) \<le> 1")
    case True
    then show ?thesis by (simp add: Cons Let_def)
  next
    case False
    with n Cons have "rune_need (byte a) \<le> Suc (length r)" and ok: "rune_len s = rune_need (byte a)"
      by (auto simp: Let_def split: if_splits)
    moreover from this False have "r \<noteq> []" by auto
    ultimately show ?thesis using False n
      by (auto simp: Cons Let_def split: if_splits)
  qed
qed simp

lemma chunks_append: "ValidString s \<Longrightarrow> chunks (s @ t) = chunks s @ chunks t"
proof (induction s rule: chunks.induct)
  case 1
  then show ?case by simp
next
  case (2 a r)
  let ?n = "rune_len (a # r)"
  from "2.prems" have n: "?n \<noteq> 0"
    by (auto simp: ValidString_def Let_def split: if_splits)
  with "2.prems" have "ValidString (drop ?n (a # r))"
    by (simp add: ValidString_def Let_def del: rune_len.simps drop_Cons)
  with "2.IH"(2) [OF refl n] have IH: "chunks (drop ?n (a # r) @ t) = chunks (drop ?n (a # r)) @ chunks t"
    by blast
  have len: "?n \<le> length (a # r)" by (rule rune_len_bound)
  have app: "rune_len (a # (r @ t)) = ?n"
    using rune_len_append [OF n, of t] by simp
  have "chunks ((a # r) @ t) = (True, take ?n ((a # r) @ t)) # chunks (drop ?n ((a # r) @ t))"
    using n app by (simp add: Let_def del: rune_len.simps)
  also have "\<dots> = (True, take ?n (a # r)) # chunks (drop ?n (a # r) @ t)"
    using len by (simp del: rune_len.simps append_Cons)
  also have "\<dots> = chunks (a # r) @ chunks t"
    using IH n by (simp add: Let_def del: rune_len.simps)
  finally show ?case .
qed

lemma ValidString_Nil [simp]: "ValidString []"
  by (simp add: ValidString_def)

lemma ValidString_append: "ValidString s \<Longrightarrow> ValidString t \<Longrightarrow> ValidString (s @ t)"
  using chunks_append [of s t] by (simp add: ValidString_def)

text \<open>Each chunk marked well-formed is a well-formed string on its own.\<close>

lemma rune_len_take: "rune_len s = n \<Longrightarrow> n \<noteq> 0 \<Longrightarrow> rune_len (take n s) = n"
proof (cases s)
  case (Cons a r)
  assume n: "rune_len s = n" "n \<noteq> 0"
  show ?thesis
  proof (cases "rune_need (byte a) \<le> 1")
    case True
    with n Cons have "n = 1" by (auto simp: Let_def split: if_splits)
    with True n show ?thesis by (simp add: Cons Let_def)
  next
    case False
    with n Cons have ok: "n = rune_need (byte a)" "n \<le> Suc (length r)"
      "second_ok (byte a) (byte (hd r))" "list_all continuation (take (n - 2) (tl r))"
      by (auto simp: Let_def split: if_splits)
    then obtain m where m: "n = Suc (Suc m)" using False by (metis One_nat_def Suc_le_eq not0_implies_Suc not_less_eq_eq n(2) le_Suc_eq)
    then obtain b q where r: "r = b # q" using ok(2) by (cases r) auto
    from ok(1) m have need: "rune_need (byte a) = Suc (Suc m)" by simp
    from ok(2-4) show ?thesis unfolding Cons r m by (simp add: need min_def)
  qed
qed simp

lemma chunks_rune:
  assumes "rune_len s = n" and "n \<noteq> 0"
  shows "chunks (take n s) = [(True, take n s)]"
proof -
  from assms have len: "rune_len (take n s) = n" by (rule rune_len_take)
  from assms have "take n s \<noteq> []" by (cases s) auto
  then obtain a r where ar: "take n s = a # r" by (cases "take n s") auto
  then have "length (a # r) \<le> n" by (metis length_take min.cobounded2)
  with len assms(2) show ?thesis unfolding ar by (simp add: Let_def del: rune_len.simps)
qed

lemma chunks_valid: "(True, c) \<in> set (chunks s) \<Longrightarrow> ValidString c"
proof (induction s rule: chunks.induct)
  case (2 a r)
  let ?n = "rune_len (a # r)"
  show ?case
  proof (cases "?n = 0")
    case True
    with 2 show ?thesis by (simp add: Let_def del: rune_len.simps)
  next
    case False
    with "2.prems" have "c = take ?n (a # r) \<or> (True, c) \<in> set (chunks (drop ?n (a # r)))"
      by (simp add: Let_def del: rune_len.simps drop_Cons take_Cons)
    then show ?thesis
      using "2.IH"(2) [OF refl False] chunks_rune [OF refl False] by (auto simp: ValidString_def)
  qed
qed simp

lemma chunk_text_valid: "list_all (\<lambda>c. ValidString (snd c)) cs \<Longrightarrow> ValidString (chunk_text cs)"
  by (induction cs) (auto simp: chunk_text_def intro: ValidString_append)

lemma replace_invalid_valid:
  assumes "ValidString rep" and "\<And>c. (True, c) \<in> set cs \<Longrightarrow> ValidString c"
  shows "ValidString (replace_invalid b rep cs)"
  using assms by (induction b rep cs rule: replace_invalid.induct) (auto intro: ValidString_append)

lemma ToValidUTF8_valid: "ValidString rep \<Longrightarrow> ValidString (ToValidUTF8 s rep)"
  unfolding ToValidUTF8_def by (rule replace_invalid_valid) (auto dest: chunks_valid)

lemma field_runs_valid:
  "list_all (\<lambda>c. ValidString (snd c)) acc \<Longrightarrow> list_all (\<lambda>c. ValidString (snd c)) cs \<Longrightarrow>
   list_all ValidString (field_runs acc cs)"
  by (induction acc cs rule: field_runs.induct) (auto intro: chunk_text_valid)

lemma Fields_valid:
  assumes "ValidString s"
  shows "list_all ValidString (Fields s)"
proof -
  have "ValidString (snd c)" if "c \<in> set (chunks s)" for c
  proof -
    from that assms have "fst c" by (auto simp: ValidString_def list_all_iff)
    then have "c = (True, snd c)" by (simp add: prod_eq_iff)
    with that show ?thesis by (metis chunks_valid)
  qed
  then show ?thesis unfolding Fields_def by (intro field_runs_valid) (auto simp: list_all_iff)
qed

lemma Join_valid: "list_all ValidString xs \<Longrightarrow> ValidString sep \<Longrightarrow> ValidString (Join xs sep)"
  by (induction xs sep rule: Join.induct) (auto intro!: ValidString_append)

end
