(* ===== verification/Sample_Data.thy ===== *)
theory Sample_Data
  imports Store_Relations
begin

text \<open>
  Small stores on which the properties are applied at concrete inputs: a task, an approval and a
  conversation with plausible fields, and a world whose clock advances one second per reading,
  whose identifiers are all different and whose engine does not fail.
\<close>

definition sample_time :: time where
  "sample_time = 1767323045000000000"

definition sample_task :: "string \<Rightarrow> Task" where
  "sample_task i = \<lparr>t_ID = i, t_ParentTaskID = None, t_RootTaskID = i, t_ConversationID = [],
     t_Goal = ''goal'', t_TaskType = ''research'', t_Input = ''{}'', t_AssignedAgentID = ''agent'',
     t_AllowedTools = [], t_ApprovalPolicy = ''never'', t_Status = StatusQueued, t_Progress = 0,
     t_ProgressMessage = [], t_CreatedAt = sample_time, t_StartedAt = None, t_FinishedAt = None,
     t_RetryCount = 0, t_MaxRetries = 2, t_TimeoutSeconds = 60, t_Error = [], t_Result = [],
     t_UserFacingSummary = [], t_Artifacts = [], t_CorrelationID = i, t_CausationID = None,
     t_IdempotencyKey = i, t_Version = 1, t_Priority = 0, t_Dismissed = False\<rparr>"

definition sample_approval :: "string \<Rightarrow> string \<Rightarrow> Approval" where
  "sample_approval i taskID = \<lparr>ap_ID = i, ap_TaskID = taskID, ap_ToolName = ''shell'',
     ap_ToolArguments = ''{}'', ap_RequestedScopes = [], ap_Risk = RiskStateChanging,
     ap_Reason = ''reason'', ap_Status = ApprovalPending, ap_RequestedAt = sample_time,
     ap_ExpiresAt = sample_time + seconds 600, ap_DecidedAt = None, ap_DecidedBy = [],
     ap_ConsumedAt = None, ap_CorrelationID = i\<rparr>"

definition sample_conversation :: "string \<Rightarrow> bool \<Rightarrow> Conversation" where
  "sample_conversation i retain = \<lparr>cv_ID = i, cv_ExternalKey = i, cv_Title = ''title'',
     cv_TranscriptRetention = retain, cv_CreatedAt = sample_time, cv_UpdatedAt = sample_time\<rparr>"

definition sample_turn :: "string \<Rightarrow> string \<Rightarrow> Turn" where
  "sample_turn i conversationID = \<lparr>tu_ID = i, tu_ConversationID = conversationID,
     tu_Role = RoleAssistant, tu_Text = ''answer'', tu_Final = True, tu_CorrelationID = i,
     tu_CreatedAt = sample_time\<rparr>"

definition sample_delivery :: "string \<Rightarrow> string \<Rightarrow> Delivery" where
  "sample_delivery i taskID = \<lparr>dl_ID = i, dl_TaskID = taskID,
     dl_Target = \<lparr>tg_Kind = ''local'', tg_ConnectorID = [], tg_DeviceID = [], tg_ChannelID = [],
       tg_ThreadID = [], tg_CallbackURL = [], tg_VoiceSession = []\<rparr>,
     dl_Priority = 0, dl_Status = DeliveryPending, dl_AttemptCount = 0, dl_LastError = [],
     dl_IdempotencyKey = i, dl_CreatedAt = sample_time, dl_DeliveredAt = None, dl_CorrelationID = i\<rparr>"

definition sample_world :: "store \<Rightarrow> store world" where
  "sample_world s = \<lparr>db = s, clock = (\<lambda>n. sample_time + seconds (int n)), ticks = 0,
     uuids = (\<lambda>n. CHR ''u'' # replicate n CHR ''x''), drawn = 0, fault = (\<lambda>_. False), stmts = 0\<rparr>"

lemma sample_world_sel [simp]: "db (sample_world s) = s" "fault (sample_world s) = (\<lambda>_. False)"
  by (simp_all add: sample_world_def)

lemma run_Inr: "\<not> isl (fst r) \<Longrightarrow> r = (Inr (projr (fst r)), snd r)"
  by (cases r) simp

end
