(* ===== verification/Task_Records.thy ===== *)
theory Task_Records
  imports Dialog_Store Utf8 Sample_Data
begin

text \<open>
  The first part of \<open>core/persistence/tasks.go\<close>: inserting and reading task rows, task graphs and
  their dependencies, the audit entries that go with task operations, and the bounded error text
  of a failed task.
\<close>

subsection \<open>Reading\<close>

definition GetTask :: "string \<Rightarrow> Task db_op" where
  "GetTask i = query_row (find_task i)"

definition GetTaskByIdempotencyKey :: "string \<Rightarrow> Task db_op" where
  "GetTaskByIdempotencyKey key = query_row (\<lambda>s. find (\<lambda>t. t_IdempotencyKey t = key) (tasks s))"

definition listed :: "Status list \<Rightarrow> Task \<Rightarrow> bool" where
  "listed statuses t \<longleftrightarrow> \<not> t_Dismissed t \<and> (statuses = [] \<or> t_Status t \<in> set statuses)"

definition ListTasks :: "Status list \<Rightarrow> int \<Rightarrow> Task list db_op" where
  "ListTasks statuses limit = query (\<lambda>s. take (clampLimit limit)
     (sort_key_desc (\<lambda>t. (t_Priority t, formatTime (t_CreatedAt t))) (filter (listed statuses) (tasks s))))"

text \<open>\<open>COALESCE(t.finished_at, t.started_at, t.created_at)\<close>\<close>

definition recency :: "Task \<Rightarrow> string" where
  "recency t = (case t_FinishedAt t of Some f \<Rightarrow> formatTime f
     | None \<Rightarrow> (case t_StartedAt t of Some b \<Rightarrow> formatTime b | None \<Rightarrow> formatTime (t_CreatedAt t)))"

definition ListTasksByRecency :: "Status list \<Rightarrow> int \<Rightarrow> Task list db_op" where
  "ListTasksByRecency statuses limit = query (\<lambda>s. take (clampLimit limit)
     (sort_key_desc recency (filter (listed statuses) (tasks s))))"

definition GetTaskGraph :: "string \<Rightarrow> (Task list \<times> Dependency list) db_op" where
  "GetTaskGraph rootID =
     tx_bind (query (\<lambda>s. sort_key (formatTime \<circ> t_CreatedAt)
       (filter (\<lambda>t. t_RootTaskID t = rootID) (tasks s)))) (\<lambda>taskList.
     tx_bind (query (\<lambda>s. filter (\<lambda>d. dep_TaskID d \<in> set (graph_ids rootID s)) (task_dependencies s))) (\<lambda>deps.
     tx_return (taskList, deps)))"

subsection \<open>Inserting\<close>

definition insertTask :: "Task \<Rightarrow> unit db_op" where
  "insertTask task = insert_stmt (insert_task_row
     (if t_Version task = 0 then task\<lparr>t_Version := 1\<rparr> else task))"

definition CreateTask :: "Task \<Rightarrow> (Task \<times> bool) db_op" where
  "CreateTask task =
     tx_bind (attempt (insertTask task)) (\<lambda>r. case r of
       Inr _ \<Rightarrow> tx_return (task, False)
     | Inl e \<Rightarrow> tx_bind (attempt (GetTaskByIdempotencyKey (t_IdempotencyKey task))) (\<lambda>l. case l of
         Inr existing \<Rightarrow> tx_return (existing, True)
       | Inl _ \<Rightarrow> tx_throw e))"

definition insert_graph_node :: "Task \<Rightarrow> Task \<Rightarrow> unit db_op" where
  "insert_graph_node root task =
     tx_bind (require (t_RootTaskID task = t_ID root)
       (ErrMsg ''all graph nodes must reference the first task as root'')) (\<lambda>_.
     insertTask task)"

definition insert_graph_dependency :: "Dependency \<Rightarrow> unit db_op" where
  "insert_graph_dependency d =
     tx_bind (require (dep_TaskID d \<noteq> dep_DependsOnTaskID d)
       (ErrMsg ''task cannot depend on itself'')) (\<lambda>_.
     insert_stmt (insert_dependency_row False d))"

definition CreateTaskGraph :: "Task list \<Rightarrow> Dependency list \<Rightarrow> (Task \<times> bool) db_op" where
  "CreateTaskGraph taskList deps = (case taskList of
     [] \<Rightarrow> tx_throw (ErrMsg ''task graph requires at least one task'')
   | root # _ \<Rightarrow>
       tx_bind (attempt (GetTaskByIdempotencyKey (t_IdempotencyKey root))) (\<lambda>r. case r of
         Inr existing \<Rightarrow> tx_return (existing, True)
       | Inl e \<Rightarrow> if e \<noteq> ErrNotFound then tx_throw e
           else with_tx (
             tx_bind (for_each taskList (insert_graph_node root)) (\<lambda>_.
             tx_bind (for_each deps insert_graph_dependency) (\<lambda>_.
             tx_return (root, False))))))"

definition AddTaskDependency :: "string \<Rightarrow> string \<Rightarrow> unit db_op" where
  "AddTaskDependency taskID dependsOn =
     (if taskID = dependsOn then tx_throw (ErrMsg ''task cannot depend on itself'')
      else insert_stmt (insert_dependency_row True
        \<lparr>dep_TaskID = taskID, dep_DependsOnTaskID = dependsOn\<rparr>))"

subsection \<open>Audit entries of task operations\<close>

definition empty_audit :: AuditEntry where
  "empty_audit = \<lparr>au_ID = [], au_OccurredAt = zero_time, au_ActorKind = [], au_ActorID = [],
     au_Action = [], au_ResourceKind = [], au_ResourceID = [], au_Decision = [], au_Details = None,
     au_CorrelationID = [], au_TaskID = [], au_ConversationID = [], au_ConnectorID = []\<rparr>"

definition completionAuditAction :: "Task \<Rightarrow> string" where
  "completionAuditAction task =
     (if t_TaskType task = ''shell'' then ''tool.task_completed'' else ''agent.completed'')"

definition taskTerminalAudit :: "Task \<Rightarrow> string \<Rightarrow> string \<Rightarrow> string \<Rightarrow> string \<Rightarrow> json \<Rightarrow> AuditEntry db_op" where
  "taskTerminalAudit task action resourceKind resourceID decision details =
     tx_bind tx_uuid (\<lambda>i.
     tx_bind tx_now (\<lambda>now.
     tx_return (empty_audit\<lparr>au_ID := i, au_OccurredAt := now, au_ActorKind := ''agent'',
       au_ActorID := t_AssignedAgentID task, au_Action := action, au_ResourceKind := resourceKind,
       au_ResourceID := resourceID, au_Decision := decision, au_Details := Some details,
       au_CorrelationID := t_CorrelationID task, au_TaskID := t_ID task,
       au_ConversationID := t_ConversationID task\<rparr>)))"

definition normalizeTaskControlAudit :: "Task \<Rightarrow> AuditEntry \<Rightarrow> AuditEntry db_op" where
  "normalizeTaskControlAudit task entry =
     tx_bind (if au_ID entry = [] then tx_uuid else tx_return (au_ID entry)) (\<lambda>i.
     tx_bind (if au_OccurredAt entry = zero_time then tx_now else tx_return (au_OccurredAt entry)) (\<lambda>at.
     tx_return (entry\<lparr>au_ID := i, au_OccurredAt := at,
       au_ResourceKind := (if au_ResourceKind entry = [] then ''task'' else au_ResourceKind entry),
       au_ResourceID := t_ID task,
       au_Decision := (if au_Decision entry = [] then ''ALLOW'' else au_Decision entry),
       au_Details := (if au_Details entry = None then Some (JObj []) else au_Details entry),
       au_CorrelationID := (if au_CorrelationID entry = [] then t_CorrelationID task
         else au_CorrelationID entry),
       au_TaskID := t_ID task, au_ConversationID := t_ConversationID task\<rparr>)))"

text \<open>Setting a key of a decoded object; \<open>json.Marshal\<close> writes the keys in order.\<close>

definition addTaskGraphAuditDetail :: "AuditEntry \<Rightarrow> string \<Rightarrow> AuditEntry" where
  "addTaskGraphAuditDetail entry rootTaskID = (case au_Details entry of
     Some (JObj kvs) \<Rightarrow> entry\<lparr>au_Details := Some (JObj (sort_key fst
       (filter (\<lambda>kv. fst kv \<noteq> ''root_task_id'') kvs @ [(''root_task_id'', JStr rootTaskID)])))\<rparr>
   | _ \<Rightarrow> entry)"

definition systemTaskControlAudit :: "string \<Rightarrow> (string \<times> json) list \<Rightarrow> AuditEntry" where
  "systemTaskControlAudit action details = empty_audit\<lparr>au_ActorKind := ''system'', au_ActorID := ''core'',
     au_Action := action, au_ResourceKind := ''task'', au_Decision := ''ALLOW'',
     au_Details := Some (JObj (sort_key fst details))\<rparr>"

subsection \<open>The bounded error text\<close>

definition maxPersistedTaskErrorBytes :: nat where
  "maxPersistedTaskErrorBytes = 2048"

text \<open>The runes U+FFFD and U+2026 as bytes.\<close>

definition replacement_rune :: string where
  "replacement_rune = [CHR 0xEF, CHR 0xBF, CHR 0xBD]"

definition ellipsis_rune :: string where
  "ellipsis_rune = [CHR 0xE2, CHR 0x80, CHR 0xA6]"

text \<open>\<open>for limit > 0 && !utf8.ValidString(value[:limit])\<close>\<close>

fun valid_limit :: "nat \<Rightarrow> string \<Rightarrow> nat" where
  "valid_limit 0 v = 0"
| "valid_limit (Suc n) v = (if ValidString (take (Suc n) v) then Suc n else valid_limit n v)"

definition boundedTaskError :: "string \<Rightarrow> string" where
  "boundedTaskError value0 =
     (let value1 = ToValidUTF8 (TrimSpace value0) replacement_rune;
          value = Join (Fields value1) '' ''
      in if value = [] then ''unknown task failure''
         else if length value \<le> maxPersistedTaskErrorBytes then value
         else take (valid_limit (maxPersistedTaskErrorBytes - length ellipsis_rune) value) value
           @ ellipsis_rune)"

lemma valid_limit_le: "valid_limit n v \<le> n"
  by (induction n) (auto intro: le_SucI)

lemma valid_limit_valid: "ValidString (take (valid_limit n v) v)"
  by (induction n) auto

lemma runes_valid:
  "ValidString replacement_rune" "ValidString ellipsis_rune" "ValidString '' ''"
  "ValidString ''unknown task failure''"
  by code_simp+

text \<open>
  Whatever bytes an error carries, the text stored in the task row is well-formed UTF-8, not
  empty and at most 2048 bytes long.
\<close>

theorem boundedTaskError_ok:
  "ValidString (boundedTaskError e) \<and> boundedTaskError e \<noteq> [] \<and> length (boundedTaskError e) \<le> 2048"
proof -
  let ?v = "Join (Fields (ToValidUTF8 (TrimSpace e) replacement_rune)) '' ''"
  have v: "ValidString ?v"
    by (intro Join_valid Fields_valid ToValidUTF8_valid runes_valid)
  have cut: "ValidString (take (valid_limit n ?v) ?v @ ellipsis_rune)" for n
    by (intro ValidString_append valid_limit_valid runes_valid)
  have len: "length (take (valid_limit 2045 ?v) ?v) \<le> 2045"
    using valid_limit_le [of 2045 ?v] by simp
  have sizes: "length ellipsis_rune = 3" "ellipsis_rune \<noteq> []" by (simp_all add: ellipsis_rune_def)
  show ?thesis
    using v cut [of 2045] len sizes runes_valid(4)
    by (auto simp: boundedTaskError_def Let_def maxPersistedTaskErrorBytes_def simp del: length_take)
qed

subsection \<open>How these operations evolve the store\<close>

lemma keeps_insertTask: "keeps (evolves L) (insertTask t)"
  unfolding insertTask_def by (rule keeps_inserts)

lemma keeps_GetTask: "keeps (evolves L) (GetTask i)"
  unfolding GetTask_def by (rule keeps_rules)

lemma keeps_GetTaskByIdempotencyKey: "keeps (evolves L) (GetTaskByIdempotencyKey i)"
  unfolding GetTaskByIdempotencyKey_def by (rule keeps_rules)

lemma keeps_taskTerminalAudit: "keeps (evolves L) (taskTerminalAudit t a k i d j)"
  unfolding taskTerminalAudit_def by (intro keeps_rules)

lemma keeps_normalize: "keeps (evolves L) (normalizeTaskControlAudit t e)"
  unfolding normalizeTaskControlAudit_def by (intro keeps_rules)

lemmas keeps_records = keeps_insertTask keeps_GetTask keeps_GetTaskByIdempotencyKey
  keeps_taskTerminalAudit keeps_normalize

lemma keeps_CreateTask: "keeps (evolves L) (CreateTask t)"
  unfolding CreateTask_def by (intro keeps_rules keeps_records)

lemma keeps_CreateTaskGraph: "keeps (evolves L) (CreateTaskGraph ts ds)"
  unfolding CreateTaskGraph_def insert_graph_node_def insert_graph_dependency_def
  by (cases ts) (simp_all, (intro keeps_rules keeps_records)+)

lemma keeps_AddTaskDependency: "keeps (evolves L) (AddTaskDependency a b)"
  unfolding AddTaskDependency_def by (intro keeps_rules)

subsection \<open>Programs that leave the work tables\<close>

definition same_work :: "store \<Rightarrow> store \<Rightarrow> bool" where
  "same_work s s' \<longleftrightarrow> tasks s' = tasks s \<and> task_dependencies s' = task_dependencies s \<and>
     approvals s' = approvals s \<and> tool_invocations s' = tool_invocations s \<and>
     conversations s' = conversations s"

interpretation quiet: store_relation same_work
  by unfold_locales (auto simp: same_work_def)

lemma quiet_insertAuditEntry: "keeps same_work (insertAuditEntry e)"
  unfolding insertAuditEntry_def
  by (rule quiet.keeps_insert) (auto simp: same_work_def tx_simps)

lemma quiet_audits:
  "keeps same_work (taskTerminalAudit t a k i d j)" "keeps same_work (normalizeTaskControlAudit t e)"
  unfolding taskTerminalAudit_def normalizeTaskControlAudit_def by (intro quiet.keeps_prog)+

lemma same_work_find: "same_work s s' \<Longrightarrow> find_task i s' = find_task i s"
  by (simp add: same_work_def find_task_def)

end
