(* ===== verification/Task_Queue.thy ===== *)
theory Task_Queue
  imports Task_Records
begin

text \<open>
  The work queue of \<open>core/persistence/tasks.go\<close>: claiming, starting, reporting progress,
  completing, failing and requeueing a task, its priority and its dismissal.
\<close>

subsection \<open>Claiming\<close>

text \<open>The \<open>WHERE\<close> clause of \<open>ClaimNextTask\<close>.\<close>

definition blocked :: "store \<Rightarrow> Task \<Rightarrow> bool" where
  "blocked s t \<longleftrightarrow> list_ex (\<lambda>d. dep_TaskID d = t_ID t \<and>
     list_ex (\<lambda>u. t_ID u = dep_DependsOnTaskID d \<and> \<not> Terminal (t_Status u)) (tasks s))
     (task_dependencies s)"

definition runnable :: "store \<Rightarrow> Task \<Rightarrow> bool" where
  "runnable s t \<longleftrightarrow> t_Status t = StatusQueued \<and> \<not> t_Dismissed t \<and> \<not> blocked s t"

text \<open>\<open>ORDER BY t.priority DESC, t.created_at\<close>\<close>

definition queue_key :: "Task \<Rightarrow> int \<times> string" where
  "queue_key t = (- t_Priority t, formatTime (t_CreatedAt t))"

definition next_runnable :: "store \<Rightarrow> Task option" where
  "next_runnable s = (case sort_key queue_key (filter (runnable s) (tasks s)) of
     [] \<Rightarrow> None | t # _ \<Rightarrow> Some t)"

definition ClaimNextTask :: "Task db_op" where
  "ClaimNextTask = with_tx (
     tx_bind (query_row next_runnable) (\<lambda>task.
     tx_bind (execute (update_tasks (\<lambda>_ t. t_ID t = t_ID task \<and> t_Status t = StatusQueued \<and>
       t_Version t = t_Version task) set_claim)) (\<lambda>changed.
     tx_bind (require (changed = 1) ErrConflict) (\<lambda>_.
     tx_return (task\<lparr>t_Status := StatusAssigned, t_Version := t_Version task + 1\<rparr>)))))"

subsection \<open>Running\<close>

definition StartTask :: "string \<Rightarrow> int \<Rightarrow> Task db_op" where
  "StartTask i version =
     tx_bind tx_now (\<lambda>now.
     tx_bind (execute (update_tasks (\<lambda>_ t. t_ID t = i \<and> t_Status t = StatusAssigned \<and>
       t_Version t = version) (set_start now))) (\<lambda>changed.
     tx_bind (require (changed = 1) ErrConflict) (\<lambda>_.
     GetTask i)))"

definition UpdateTaskProgress :: "string \<Rightarrow> int \<Rightarrow> string \<Rightarrow> Task db_op" where
  "UpdateTaskProgress i percent message =
     (if percent < 0 \<or> percent > 99
      then tx_throw (ErrMsg ''running task progress must be between 0 and 99'')
      else
     tx_bind (execute (update_tasks (\<lambda>_ t. t_ID t = i \<and>
       t_Status t \<in> set [StatusRunning, StatusWaitingForChildren, StatusCancelRequested])
       (set_progress percent message))) (\<lambda>changed.
     tx_bind (require (changed = 1) ErrConflict) (\<lambda>_.
     GetTask i)))"

subsection \<open>Completing\<close>

definition completable :: "string \<Rightarrow> store \<Rightarrow> Task \<Rightarrow> bool" where
  "completable i s t \<longleftrightarrow> t_ID t = i \<and>
     t_Status t \<in> set [StatusRunning, StatusWaitingForChildren, StatusCancelRequested, StatusAssigned]"

definition persisted_details :: json where
  "persisted_details = JObj [(''result'', JStr ''persisted'')]"

definition completion_status :: "bool \<Rightarrow> Status" where
  "completion_status partial = (if partial then StatusPartiallyCompleted else StatusCompleted)"

definition CompleteTaskWithArtifacts :: "string \<Rightarrow> string \<Rightarrow> string \<Rightarrow> bool \<Rightarrow> Artifact list \<Rightarrow> Task db_op" where
  "CompleteTaskWithArtifacts i resultJSON summary partial arts =
     (let status = completion_status partial in
     tx_bind (with_tx (
       tx_bind (query_row (find_task i)) (\<lambda>current.
       tx_bind tx_now (\<lambda>now.
       tx_bind (execute (update_tasks (completable i) (set_complete status resultJSON summary now arts))) (\<lambda>changed.
       tx_bind (require (changed = 1) ErrConflict) (\<lambda>_.
       tx_bind (taskTerminalAudit current (completionAuditAction current) ''task'' (t_ID current)
         (status_text status) persisted_details) (\<lambda>entry.
       insertAuditEntry entry))))))) (\<lambda>_.
     GetTask i))"

definition CompleteTask :: "string \<Rightarrow> string \<Rightarrow> string \<Rightarrow> bool \<Rightarrow> Task db_op" where
  "CompleteTask i resultJSON summary partial = CompleteTaskWithArtifacts i resultJSON summary partial []"

record CompletionOutcome =
  co_Turn :: "Turn option"
  co_Delivery :: "Delivery option"
  co_Artifacts :: "Artifact list"

fun delivery_status_text :: "DeliveryStatus \<Rightarrow> string" where
  "delivery_status_text DeliveryPending = ''PENDING''"
| "delivery_status_text DeliveryDelivering = ''DELIVERING''"
| "delivery_status_text DeliveryDelivered = ''DELIVERED''"
| "delivery_status_text DeliveryFailed = ''FAILED''"

definition outcome_turn :: "Task \<Rightarrow> Turn option \<Rightarrow> unit db_op" where
  "outcome_turn current turn = (case turn of None \<Rightarrow> tx_return () | Some t \<Rightarrow>
     tx_bind (require (\<not> (tu_ConversationID t = [] \<or> tu_ConversationID t \<noteq> t_ConversationID current))
       (ErrMsg ''completion turn does not match task conversation'')) (\<lambda>_.
     tx_bind (query_row (\<lambda>s. map_option cv_TranscriptRetention
       (find_conversation (t_ConversationID current) s))) (\<lambda>retain.
     insertTurn t retain)))"

definition outcome_delivery :: "string \<Rightarrow> Delivery option \<Rightarrow> unit db_op" where
  "outcome_delivery i item = (case item of None \<Rightarrow> tx_return () | Some d \<Rightarrow>
     tx_bind (require (dl_TaskID d = i) (ErrMsg ''completion delivery does not match task'')) (\<lambda>_.
     insertDelivery d True))"

definition outcome_delivery_audit :: "Task \<Rightarrow> Delivery option \<Rightarrow> unit db_op" where
  "outcome_delivery_audit current item = (case item of None \<Rightarrow> tx_return () | Some d \<Rightarrow>
     tx_bind (taskTerminalAudit current ''delivery.created'' ''delivery'' (dl_ID d)
       (delivery_status_text (dl_Status d))
       (JObj [(''target'', JStr ''connector''), (''content'', JStr ''redacted'')])) (\<lambda>entry.
     insertAuditEntry (entry\<lparr>au_ConnectorID := tg_ConnectorID (dl_Target d)\<rparr>)))"

definition scrub_if_not_retained :: "Task \<Rightarrow> unit db_op" where
  "scrub_if_not_retained current = tx_when (t_ConversationID current \<noteq> []) (
     tx_bind (query_row (find_conversation (t_ConversationID current))) (\<lambda>c.
     tx_when (\<not> cv_TranscriptRetention c) (
       tx_bind (execute (scrub_payloads (cv_ExternalKey c))) (\<lambda>_.
       tx_bind (terminalTaskGraphSafeToScrub (t_RootTaskID current)) (\<lambda>safe.
       tx_when safe (scrubTerminalTaskGraphContent (t_RootTaskID current)))))))"

definition complete_with_outcome :: "string \<Rightarrow> string \<Rightarrow> string \<Rightarrow> Status \<Rightarrow> CompletionOutcome \<Rightarrow> unit db_op" where
  "complete_with_outcome i resultJSON summary status outcome =
     tx_bind (query_row (find_task i)) (\<lambda>current.
     tx_bind (require (t_ID current = t_RootTaskID current)
       (ErrMsg ''completion outcome is only valid for a root task'')) (\<lambda>_.
     tx_bind tx_now (\<lambda>now.
     tx_bind (execute (update_tasks (completable i)
       (set_complete status resultJSON summary now (co_Artifacts outcome)))) (\<lambda>changed.
     tx_bind (require (changed = 1) ErrConflict) (\<lambda>_.
     tx_bind (outcome_turn current (co_Turn outcome)) (\<lambda>_.
     tx_bind (outcome_delivery i (co_Delivery outcome)) (\<lambda>_.
     tx_bind (taskTerminalAudit current (completionAuditAction current) ''task'' (t_ID current)
       (status_text status) persisted_details) (\<lambda>entry.
     tx_bind (insertAuditEntry entry) (\<lambda>_.
     tx_bind (outcome_delivery_audit current (co_Delivery outcome)) (\<lambda>_.
     scrub_if_not_retained current))))))))))"

definition CompleteTaskWithOutcome :: "string \<Rightarrow> string \<Rightarrow> string \<Rightarrow> bool \<Rightarrow> CompletionOutcome \<Rightarrow> Task db_op" where
  "CompleteTaskWithOutcome i resultJSON summary partial outcome =
     tx_bind (with_tx (complete_with_outcome i resultJSON summary (completion_status partial) outcome)) (\<lambda>_.
     GetTask i)"

subsection \<open>Failing and retrying\<close>

definition FailTask :: "string \<Rightarrow> string option \<Rightarrow> bool \<Rightarrow> Task db_op" where
  "FailTask i taskErr timedOut =
     (let status = (if timedOut then StatusTimedOut else StatusFailed);
          errorText = (case taskErr of None \<Rightarrow> ''unknown task failure'' | Some e \<Rightarrow> boundedTaskError e) in
     tx_bind (with_tx (
       tx_bind (query_row (find_task i)) (\<lambda>current.
       tx_bind tx_now (\<lambda>now.
       tx_bind (execute (update_tasks (\<lambda>_ t. t_ID t = i \<and> \<not> Terminal (t_Status t))
         (set_fail status errorText now))) (\<lambda>changed.
       tx_bind (require (changed = 1) ErrConflict) (\<lambda>_.
       tx_bind (taskTerminalAudit current
         (if t_TaskType current = ''shell'' then ''tool.task_failed'' else ''agent.failed'')
         ''task'' (t_ID current) (status_text status)
         (JObj [(''error'', JStr ''redacted; inspect task error with authorization'')])) (\<lambda>entry.
       insertAuditEntry entry))))))) (\<lambda>_.
     GetTask i))"

definition RequeueTaskForAutomaticRetry :: "string \<Rightarrow> string option \<Rightarrow> Task db_op" where
  "RequeueTaskForAutomaticRetry i runErr =
     (let errorText = (case runErr of None \<Rightarrow> ''transient agent failure'' | Some e \<Rightarrow> boundedTaskError e) in
     tx_bind (with_tx (
       tx_bind (query_row (find_task i)) (\<lambda>current.
       tx_bind (execute (update_tasks (\<lambda>_ t. t_ID t = i \<and> t_Status t = StatusRunning \<and>
         t_TaskType t \<noteq> ''shell'' \<and> t_RetryCount t < t_MaxRetries t) (set_requeue errorText))) (\<lambda>changed.
       tx_bind (require (changed = 1) ErrConflict) (\<lambda>_.
       tx_bind (taskTerminalAudit current ''agent.retry_scheduled'' ''task'' (t_ID current) ''RETRY''
         (JObj [(''error'', JStr ''redacted''), (''bounded'', JBool True)])) (\<lambda>entry.
       insertAuditEntry entry)))))) (\<lambda>_.
     GetTask i))"

subsection \<open>Priority and dismissal\<close>

definition control_audit :: "Task \<Rightarrow> AuditEntry option \<Rightarrow> unit db_op" where
  "control_audit current audit = (case audit of None \<Rightarrow> tx_return () | Some a \<Rightarrow>
     tx_bind (normalizeTaskControlAudit current a) insertAuditEntry)"

definition setTaskPriority :: "string \<Rightarrow> int \<Rightarrow> AuditEntry option \<Rightarrow> Task db_op" where
  "setTaskPriority i priority audit =
     (if priority < -100 \<or> priority > 100
      then tx_throw (ErrMsg ''task priority must be between -100 and 100'')
      else with_tx (
     tx_bind (query_row (find_task i)) (\<lambda>current.
     tx_bind (execute (update_tasks (\<lambda>_ t. t_ID t = i \<and> t_Version t = t_Version current \<and>
       \<not> t_Dismissed t) (set_priority priority))) (\<lambda>changed.
     tx_bind (require (changed = 1) ErrNotFound) (\<lambda>_.
     let updated = current\<lparr>t_Priority := priority, t_Version := t_Version current + 1\<rparr> in
     tx_bind (control_audit updated audit) (\<lambda>_.
     tx_return updated))))))"

definition SetTaskPriority :: "string \<Rightarrow> int \<Rightarrow> Task db_op" where
  "SetTaskPriority i priority = setTaskPriority i priority (Some (systemTaskControlAudit
     ''task.priority.set'' [(''source'', JStr ''core''), (''priority'', JNum priority)]))"

definition SetTaskPriorityWithAudit :: "string \<Rightarrow> int \<Rightarrow> AuditEntry \<Rightarrow> Task db_op" where
  "SetTaskPriorityWithAudit i priority audit = setTaskPriority i priority (Some audit)"

definition dismissTask :: "string \<Rightarrow> AuditEntry option \<Rightarrow> Task db_op" where
  "dismissTask i audit = with_tx (
     tx_bind (query_row (find_task i)) (\<lambda>current.
     tx_bind (execute (update_tasks (\<lambda>_ t. t_ID t = i \<and> t_Version t = t_Version current \<and>
       \<not> t_Dismissed t \<and> Terminal (t_Status t)) set_dismissed)) (\<lambda>changed.
     tx_bind (require (changed = 1) ErrConflict) (\<lambda>_.
     let updated = current\<lparr>t_Dismissed := True, t_Version := t_Version current + 1\<rparr> in
     tx_bind (control_audit updated audit) (\<lambda>_.
     tx_return updated)))))"

definition DismissTask :: "string \<Rightarrow> Task db_op" where
  "DismissTask i = dismissTask i (Some (systemTaskControlAudit
     ''task.dismiss'' [(''source'', JStr ''core''), (''dismissed'', JBool True)]))"

definition DismissTaskWithAudit :: "string \<Rightarrow> AuditEntry \<Rightarrow> Task db_op" where
  "DismissTaskWithAudit i audit = dismissTask i (Some audit)"

subsection \<open>How these operations evolve the store\<close>

lemma keeps_control_audit: "keeps (evolves L) (control_audit t a)"
  unfolding control_audit_def by (intro keeps_rules keeps_dialog keeps_records)

lemma keeps_ClaimNextTask: "LClaim \<in> L \<Longrightarrow> keeps (evolves L) ClaimNextTask"
  unfolding ClaimNextTask_def
  by (intro keeps_rules) (auto intro: row_steps_single row_step.intros)

lemma keeps_StartTask: "LStart \<in> L \<Longrightarrow> keeps (evolves L) (StartTask i v)"
  unfolding StartTask_def
  by (intro keeps_rules keeps_records) (auto intro: row_steps_single row_step.intros)

lemma keeps_UpdateTaskProgress: "LProgress \<in> L \<Longrightarrow> keeps (evolves L) (UpdateTaskProgress i p m)"
  unfolding UpdateTaskProgress_def
  by (intro keeps_rules keeps_records) (auto intro!: row_steps_single row_step.progress)

lemma keeps_complete_update:
  assumes "LComplete \<in> L"
  shows "keeps (evolves L) (execute (update_tasks (completable i) (set_complete (completion_status p) r m now a)))"
  using assms
  by (intro keeps_updates) (auto simp: completable_def completion_status_def intro!: row_steps_single row_step.complete)

lemma keeps_CompleteTaskWithArtifacts:
  "LComplete \<in> L \<Longrightarrow> keeps (evolves L) (CompleteTaskWithArtifacts i r m p a)"
  unfolding CompleteTaskWithArtifacts_def Let_def
  by (intro keeps_complete_update keeps_rules keeps_records keeps_dialog)

lemma keeps_CompleteTaskWithOutcome:
  "LComplete \<in> L \<Longrightarrow> LScrub \<in> L \<Longrightarrow> keeps (evolves L) (CompleteTaskWithOutcome i r m p out)"
  unfolding CompleteTaskWithOutcome_def complete_with_outcome_def outcome_turn_def
    outcome_delivery_def outcome_delivery_audit_def scrub_if_not_retained_def
  by (intro keeps_complete_update keeps_rules keeps_records keeps_dialog)

lemma keeps_FailTask: "LFail \<in> L \<Longrightarrow> keeps (evolves L) (FailTask i e b)"
  unfolding FailTask_def
  by (intro keeps_rules keeps_records keeps_dialog) (auto intro!: row_steps_single row_step.fail)

lemma keeps_Requeue: "LRequeue \<in> L \<Longrightarrow> keeps (evolves L) (RequeueTaskForAutomaticRetry i e)"
  unfolding RequeueTaskForAutomaticRetry_def
  by (intro keeps_rules keeps_records keeps_dialog) (auto intro!: row_steps_single row_step.requeue)

lemma keeps_setTaskPriority: "LPriority \<in> L \<Longrightarrow> keeps (evolves L) (setTaskPriority i p a)"
  unfolding setTaskPriority_def
  by (intro keeps_rules keeps_control_audit) (auto intro!: row_steps_single row_step.priority)

lemma keeps_dismissTask: "LDismiss \<in> L \<Longrightarrow> keeps (evolves L) (dismissTask i a)"
  unfolding dismissTask_def
  by (intro keeps_rules keeps_control_audit) (auto intro!: row_steps_single row_step.dismiss)

subsection \<open>What a claim returns\<close>

lemma next_runnable_Some:
  assumes "next_runnable s = Some t"
  shows "t \<in> set (tasks s)" and "runnable s t"
    and "u \<in> set (tasks s) \<Longrightarrow> runnable s u \<Longrightarrow> queue_key t \<le> queue_key u"
proof -
  let ?q = "sort_key queue_key (filter (runnable s) (tasks s))"
  from assms obtain ts where q: "?q = t # ts"
    by (auto simp: next_runnable_def split: list.splits)
  then have "t \<in> set ?q" by simp
  then show "t \<in> set (tasks s)" and "runnable s t" by auto
  have "sorted (map queue_key (t # ts))" using sorted_sort_key [of queue_key] q by metis
  moreover assume "u \<in> set (tasks s)" and "runnable s u"
  then have "u \<in> set ?q" by simp
  then have "u \<in> set (t # ts)" by (simp only: q)
  ultimately show "queue_key t \<le> queue_key u" by auto
qed

lemma next_runnable_None: "next_runnable s = None \<longleftrightarrow> (\<forall>u\<in>set (tasks s). \<not> runnable s u)"
proof -
  let ?q = "sort_key queue_key (filter (runnable s) (tasks s))"
  have "next_runnable s = None \<longleftrightarrow> ?q = []"
    by (auto simp: next_runnable_def split: list.splits)
  also have "\<dots> \<longleftrightarrow> set ?q = {}" by (simp only: set_empty)
  finally show ?thesis by auto
qed

lemma set_claim_ID [simp]: "t_ID (set_claim t) = t_ID t"
  by (simp add: set_claim_def)

lemma set_claim_record: "t\<lparr>t_Status := StatusAssigned, t_Version := t_Version t + 1\<rparr> = set_claim t"
  by (simp add: set_claim_def)

lemma claim_InrD:
  assumes "wf_store (db w)" and "ClaimNextTask w = (Inr t, w')"
  shows "\<exists>u. next_runnable (db w) = Some u \<and> t = set_claim u \<and>
    db w' = put_task (t_ID u) set_claim (db w)"
proof -
  from assms(2) obtain u w1 where u: "next_runnable (db w) = Some u"
    and upd: "update_tasks (\<lambda>_ x. t_ID x = t_ID u \<and> t_Status x = StatusQueued \<and>
      t_Version x = t_Version u) set_claim (db w) = (1, db w')" and t: "t = set_claim u"
    unfolding ClaimNextTask_def
    by (elim with_tx_InrE) (auto simp: tx_simps set_claim_record dest!: tx_dests)
  from update_one_task [OF assms(1) upd] u t show ?thesis by auto
qed

text \<open>
  A claim hands out a queued, undismissed task whose dependencies have all ended, one with the
  highest priority and, among those, the oldest creation text; it is marked \<open>ASSIGNED\<close> with a new
  version, the returned task is the stored row, and nothing else in the store changes.
\<close>

theorem claim_highest_priority:
  assumes "wf_store (db w)" and "ClaimNextTask w = (Inr t, w')"
  shows "\<exists>u. find_task (t_ID t) (db w) = Some u \<and> runnable (db w) u \<and>
    (\<forall>v\<in>set (tasks (db w)). runnable (db w) v \<longrightarrow> queue_key u \<le> queue_key v) \<and>
    t = u\<lparr>t_Status := StatusAssigned, t_Version := t_Version u + 1\<rparr> \<and>
    find_task (t_ID t) (db w') = Some t \<and>
    db w' = put_task (t_ID t) (\<lambda>_. t) (db w)"
proof -
  from claim_InrD [OF assms] obtain u where u: "next_runnable (db w) = Some u"
    and t: "t = set_claim u" and w': "db w' = put_task (t_ID u) set_claim (db w)" by blast
  note row = next_runnable_Some [OF u]
  from assms(1) row(1) have find: "find_task (t_ID t) (db w) = Some u"
    by (simp add: t find_task_in)
  have "upd_rows (\<lambda>x. t_ID x = t_ID u) set_claim (tasks (db w)) =
    upd_rows (\<lambda>x. t_ID x = t_ID u) (\<lambda>_. t) (tasks (db w))"
    using find_task_in [OF assms(1)] find
    by (auto simp: upd_rows_def t) (metis option.inject)
  then have "db w' = put_task (t_ID t) (\<lambda>_. t) (db w)"
    by (simp add: w' put_task_def t)
  moreover have "find_task (t_ID t) (db w') = Some t"
    using find by (simp add: w' find_put_task t)
  ultimately show ?thesis
    using find row t by (auto simp: set_claim_record)
qed

text \<open>
  C29: with an engine that does not fail, a claim succeeds exactly when some task is runnable, and
  otherwise reports \<open>ErrNotFound\<close> and changes nothing.
\<close>

theorem claim_progress:
  assumes "wf_store (db w)" and "fault w = (\<lambda>_. False)"
  shows "case fst (ClaimNextTask w) of
      Inr t \<Rightarrow> (\<exists>u\<in>set (tasks (db w)). runnable (db w) u)
    | Inl e \<Rightarrow> e = ErrNotFound \<and> \<not> (\<exists>u\<in>set (tasks (db w)). runnable (db w) u) \<and>
        db (snd (ClaimNextTask w)) = db w"
proof (cases "next_runnable (db w)")
  case None
  with assms(2) show ?thesis
    by (simp add: ClaimNextTask_def tx_eval next_runnable_None [symmetric])
next
  case (Some u)
  note row = next_runnable_Some [OF Some]
  have "update_tasks (\<lambda>_ x. t_ID x = t_ID u \<and> t_Status x = StatusQueued \<and> t_Version x = t_Version u)
      set_claim (db w) = (1, put_task (t_ID u) set_claim (db w))"
    using row find_task_in [OF assms(1) row(1)]
    by (intro update_one_task_ex [OF assms(1)]) (auto simp: runnable_def)
  with Some assms(2) row show ?thesis
    by (auto simp: ClaimNextTask_def tx_eval Let_def)
qed

subsection \<open>Starting\<close>

lemma set_start_ID [simp]: "t_ID (set_start n t) = t_ID t"
  by (simp add: set_start_def)

lemma start_InrD:
  assumes "wf_store (db w)" and "StartTask i v w = (Inr t, w')"
  shows "\<exists>u now. find_task i (db w) = Some u \<and> t_Status u = StatusAssigned \<and> t_Version u = v \<and>
    t = set_start now u \<and> db w' = put_task i (set_start now) (db w)"
proof -
  from assms(2) obtain now s1 where upd: "update_tasks (\<lambda>_ x. t_ID x = i \<and> t_Status x = StatusAssigned \<and>
      t_Version x = v) (set_start now) (db w) = (1, s1)" and get: "find_task i s1 = Some t" "db w' = s1"
    unfolding StartTask_def GetTask_def by (fastforce simp: tx_simps dest!: tx_dests)
  from update_one_task [OF assms(1) upd] get show ?thesis
    by (auto simp: find_put_task)
qed

text \<open>A claimed task is not handed out again while no step puts it back into the queue.\<close>

lemma claim_exclusive:
  assumes wf: "wf_store (db w)" and first: "ClaimNextTask w = (Inr t, w1)"
    and ev: "evolves L (db w1) (db w2)" "L \<inter> {LRetry, LRequeue, LRecovered} = {}"
    and second: "ClaimNextTask w2 = (Inr u, w3)"
  shows "t_ID u \<noteq> t_ID t"
proof
  assume same: "t_ID u = t_ID t"
  have "evolves UNIV (db w) (db w1)" by (rule keepsD [OF keeps_ClaimNextTask first]) simp
  with wf have wf1: "wf_store (db w1)" by (simp add: evolves_def)
  with ev(1) have wf2: "wf_store (db w2)" by (simp add: evolves_def)
  from claim_InrD [OF wf first] obtain x where x: "next_runnable (db w) = Some x" "t = set_claim x"
    "db w1 = put_task (t_ID x) set_claim (db w)" by blast
  from find_task_in [OF wf next_runnable_Some(1) [OF x(1)]] x(2,3) have "find_task (t_ID t) (db w1) = Some t"
    by (simp add: find_put_task set_claim_def)
  from evolves_find_task [OF ev(1) this] obtain y where
    y: "find_task (t_ID t) (db w2) = Some y" "row_steps L t y" by blast
  from x(2) have "left_queue t" by (simp add: left_queue_def set_claim_def)
  with row_steps_left_queue [OF y(2) ev(2)] have "t_Status y \<noteq> StatusQueued" by (simp add: left_queue_def)
  moreover from claim_InrD [OF wf2 second] obtain z where z: "next_runnable (db w2) = Some z"
    "u = set_claim z" by blast
  from find_task_in [OF wf2 next_runnable_Some(1) [OF z(1)]] z(2) same y(1) have "z = y" by (simp add: set_claim_def)
  with next_runnable_Some(2) [OF z(1)] have "t_Status y = StatusQueued" by (simp add: runnable_def)
  ultimately show False by simp
qed

text \<open>The version of a claim is used up by the first \<open>StartTask\<close> that succeeds with it.\<close>

lemma start_uses_version:
  assumes "wf_store (db w)" and "StartTask i v w = (Inr t, w1)" and "evolves UNIV (db w1) (db w2)"
  shows "fst (StartTask i v w2) \<noteq> Inr u"
proof
  assume "fst (StartTask i v w2) = Inr u"
  then obtain w3 where again: "StartTask i v w2 = (Inr u, w3)" by (metis prod.collapse)
  from start_InrD [OF assms(1,2)] obtain x now where x: "find_task i (db w) = Some x" "t_Version x = v"
    "db w1 = put_task i (set_start now) (db w)" by blast
  then have "find_task i (db w1) = Some (set_start now x)" by (simp add: find_put_task)
  with evolves_find_task [OF assms(3)] obtain y where y: "find_task i (db w2) = Some y"
    "row_steps UNIV (set_start now x) y" by blast
  from row_steps_version [OF y(2)] x(2) have "v < t_Version y"
    by (simp add: version_guards_def set_start_def)
  have "wf_store (db w1)"
    using assms(1) keepsD [OF keeps_StartTask [of UNIV i v] assms(2)] by (simp add: evolves_def)
  with assms(3) have "wf_store (db w2)" by (simp add: evolves_def)
  from start_InrD [OF this again] y(1) \<open>v < t_Version y\<close> show False by auto
qed

subsection \<open>Completion with its outcome\<close>

text \<open>
  Statements that only add: turns, deliveries and audit entries stay, task statuses do not change.
\<close>

definition delivery_key :: "Delivery \<Rightarrow> string \<times> string" where
  "delivery_key d = (dl_ID d, dl_IdempotencyKey d)"

definition additive :: "store \<Rightarrow> store \<Rightarrow> bool" where
  "additive s s' \<longleftrightarrow> set (map tu_ID (turns s)) \<subseteq> set (map tu_ID (turns s')) \<and>
     set (map delivery_key (deliveries s)) \<subseteq> set (map delivery_key (deliveries s')) \<and>
     set (audit_entries s) \<subseteq> set (audit_entries s') \<and>
     (\<forall>i. map_option t_Status (find_task i s') = map_option t_Status (find_task i s))"

interpretation adds: store_relation additive
  by unfold_locales (unfold additive_def, blast, metis subset_trans)

lemma additive_frame:
  assumes "tasks s' = tasks s" "turns s' = turns s" "deliveries s' = deliveries s"
    "audit_entries s' = audit_entries s"
  shows "additive s s'"
  using assms by (simp add: additive_def find_task_def)

lemma adds_insertTurn: "keeps additive (insertTurn t b)"
  unfolding insertTurn_def
  by (rule adds.keeps_insert) (auto simp: insert_turn_row_def additive_def find_task_def split: if_splits)

lemma adds_insertDelivery: "keeps additive (insertDelivery d b)"
  unfolding insertDelivery_def
  by (rule adds.keeps_insert) (auto simp: insert_delivery_row_def additive_def find_task_def split: if_splits)

lemma adds_insertAuditEntry: "keeps additive (insertAuditEntry e)"
  unfolding insertAuditEntry_def
  by (rule adds.keeps_insert) (auto simp: insert_audit_row_def additive_def find_task_def split: if_splits)

lemma adds_taskTerminalAudit: "keeps additive (taskTerminalAudit t a k i d j)"
  unfolding taskTerminalAudit_def by (intro adds.keeps_prog)

lemma additive_upd_deliveries:
  assumes "\<And>d. delivery_key (f d) = delivery_key d"
  shows "additive s (snd (update_deliveries p f s))"
proof -
  have "map delivery_key (upd_rows (p s) f (deliveries s)) = map delivery_key (deliveries s)"
    by (rule map_upd_rows_same) (rule assms)
  then show ?thesis by (simp add: additive_def update_deliveries_def find_task_def del: set_map)
qed

lemma additive_upd_tasks:
  assumes "\<And>t. t_ID (f t) = t_ID t \<and> t_Status (f t) = t_Status t"
  shows "additive s (snd (update_tasks p f s))"
proof -
  have "map_option t_Status (find_task i (snd (update_tasks p f s))) = map_option t_Status (find_task i s)" for i
    using assms
    by (simp add: find_task_def update_tasks_def find_upd_rows option.map_comp comp_def if_distrib cong: if_cong)
  then show ?thesis by (simp add: additive_def update_tasks_def)
qed

lemma adds_scrub_content: "keeps additive (scrubTerminalTaskGraphContent root)"
  unfolding scrubTerminalTaskGraphContent_def
  by (intro adds.keeps_prog adds.keeps_execute additive_upd_deliveries additive_upd_tasks)
     (auto simp: set_scrubbed_def delivery_key_def intro: additive_frame)

lemma adds_scrub_payloads: "keeps additive (execute (scrub_payloads k))"
  by (rule adds.keeps_execute) (auto simp: scrub_payloads_def intro: additive_frame)

lemmas adds_rules = adds.keeps_prog adds_insertTurn adds_insertDelivery adds_insertAuditEntry
  adds_taskTerminalAudit adds_scrub_content adds_scrub_payloads

lemma adds_outcome_turn: "keeps additive (outcome_turn c t)"
  unfolding outcome_turn_def by (intro adds_rules)

lemma adds_outcome_delivery: "keeps additive (outcome_delivery i d)"
  unfolding outcome_delivery_def by (intro adds_rules)

lemma adds_outcome_delivery_audit: "keeps additive (outcome_delivery_audit c d)"
  unfolding outcome_delivery_audit_def by (intro adds_rules)

lemma adds_scrub_if_not_retained: "keeps additive (scrub_if_not_retained c)"
  unfolding scrub_if_not_retained_def terminalTaskGraphSafeToScrub_def by (intro adds_rules)

lemmas adds_outcome = adds_outcome_turn adds_outcome_delivery adds_outcome_delivery_audit
  adds_scrub_if_not_retained adds_insertAuditEntry adds_taskTerminalAudit

definition recorded :: "Delivery \<Rightarrow> store \<Rightarrow> bool" where
  "recorded d s \<longleftrightarrow> list_ex (\<lambda>e. dl_ID e = dl_ID d \<or> dl_IdempotencyKey e = dl_IdempotencyKey d) (deliveries s)"

definition outcome_visible :: "string \<Rightarrow> Status \<Rightarrow> CompletionOutcome \<Rightarrow> store \<Rightarrow> bool" where
  "outcome_visible i status out s \<longleftrightarrow>
     map_option t_Status (find_task i s) = Some status \<and>
     (case co_Turn out of None \<Rightarrow> True | Some t \<Rightarrow> tu_ID t \<in> set (map tu_ID (turns s))) \<and>
     (case co_Delivery out of None \<Rightarrow> True | Some d \<Rightarrow>
        recorded d s) \<and>
     list_ex (\<lambda>e. au_TaskID e = i \<and> au_Decision e = status_text status \<and>
        au_Details e = Some persisted_details) (audit_entries s)"

lemma outcome_turn_InrD:
  "outcome_turn c turn w = (Inr u, w') \<Longrightarrow>
   case turn of None \<Rightarrow> True | Some t \<Rightarrow> tu_ID t \<in> set (map tu_ID (turns (db w')))"
  by (cases turn)
     (auto simp: outcome_turn_def insertTurn_def tx_simps simp del: set_map dest!: tx_dests split: if_splits)

lemma insertDelivery_InrD:
  "insertDelivery d b w = (Inr u, w') \<Longrightarrow>
   recorded d (db w')"
  unfolding insertDelivery_def
  by (drule insert_stmt_InrD) (auto simp: tx_simps recorded_def list_ex_iff split: if_splits)

lemma outcome_delivery_InrD:
  "outcome_delivery i item w = (Inr u, w') \<Longrightarrow>
   case item of None \<Rightarrow> True | Some d \<Rightarrow>
     recorded d (db w')"
  by (cases item) (auto simp: outcome_delivery_def tx_simps dest!: tx_dests insertDelivery_InrD)

lemma insertAuditEntry_InrD:
  "insertAuditEntry e w = (Inr u, w') \<Longrightarrow> au_Details e = Some j \<Longrightarrow> e \<in> set (audit_entries (db w'))"
  by (auto simp: insertAuditEntry_def tx_simps dest!: tx_dests)

lemma taskTerminalAudit_InrD:
  "taskTerminalAudit t a k i d j w = (Inr e, w') \<Longrightarrow>
   au_TaskID e = t_ID t \<and> au_Decision e = d \<and> au_Details e = Some j \<and> db w' = db w"
  by (auto simp: taskTerminalAudit_def tx_simps dest!: tx_dests)

lemma set_complete_fields [simp]:
  "t_ID (set_complete st r m n a t) = t_ID t" "t_Status (set_complete st r m n a t) = st"
  by (simp_all add: set_complete_def)

lemma additive_status: "additive s s' \<Longrightarrow> map_option t_Status (find_task i s') = map_option t_Status (find_task i s)"
  by (simp add: additive_def)

lemma additive_turn:
  "additive s s' \<Longrightarrow> case turn of None \<Rightarrow> True | Some t \<Rightarrow> tu_ID t \<in> set (map tu_ID (turns s)) \<Longrightarrow>
   case turn of None \<Rightarrow> True | Some t \<Rightarrow> tu_ID t \<in> set (map tu_ID (turns s'))"
  by (auto simp: additive_def simp del: set_map split: option.splits)

lemma additive_recorded:
  assumes "additive s s'" and "recorded d s"
  shows "recorded d s'"
proof -
  from assms(2) obtain e where "e \<in> set (deliveries s)"
    and e: "dl_ID e = dl_ID d \<or> dl_IdempotencyKey e = dl_IdempotencyKey d"
    by (auto simp: recorded_def list_ex_iff)
  then have "delivery_key e \<in> set (map delivery_key (deliveries s'))"
    using assms(1) by (auto simp: additive_def)
  then obtain e' where "e' \<in> set (deliveries s')" "delivery_key e' = delivery_key e" by auto
  with e show ?thesis by (auto simp: recorded_def list_ex_iff delivery_key_def)
qed

lemma additive_delivery:
  "additive s s' \<Longrightarrow> case item of None \<Rightarrow> True | Some d \<Rightarrow> recorded d s \<Longrightarrow>
   case item of None \<Rightarrow> True | Some d \<Rightarrow> recorded d s'"
  by (auto intro: additive_recorded split: option.splits)

lemma additive_audit: "additive s s' \<Longrightarrow> e \<in> set (audit_entries s) \<Longrightarrow> e \<in> set (audit_entries s')"
  by (auto simp: additive_def)

lemma complete_with_outcome_visible:
  assumes "wf_store (db w)" and "complete_with_outcome i r m st out w = (Inr u, w')"
  shows "outcome_visible i st out (db w')"
proof -
  from assms(2) obtain current now e w2 w3 w4 w5 w6 w7 where
    cur: "find_task i (db w) = Some current" and
    upd: "update_tasks (completable i) (set_complete st r m now (co_Artifacts out)) (db w) = (1, db w2)" and
    turn: "outcome_turn current (co_Turn out) w2 = (Inr (), w3)" and
    del: "outcome_delivery i (co_Delivery out) w3 = (Inr (), w4)" and
    entry: "taskTerminalAudit current (completionAuditAction current) ''task'' (t_ID current)
      (status_text st) persisted_details w4 = (Inr e, w5)" and
    audit: "insertAuditEntry e w5 = (Inr (), w6)" and
    dela: "outcome_delivery_audit current (co_Delivery out) w6 = (Inr (), w7)" and
    scrub: "scrub_if_not_retained current w7 = (Inr (), w')"
    unfolding complete_with_outcome_def
    by (clarsimp simp: tx_simps) (drule tx_dests, clarsimp, drule tx_dests, clarsimp, drule tx_dests, clarsimp)
  have "update_tasks (\<lambda>_ t. t_ID t = i \<and> t_Status t \<in> set [StatusRunning, StatusWaitingForChildren,
      StatusCancelRequested, StatusAssigned]) (set_complete st r m now (co_Artifacts out)) (db w) = (1, db w2)"
    using upd by (simp add: completable_def [abs_def])
  from update_one_task [OF assms(1) this] cur
  have st: "map_option t_Status (find_task i (db w2)) = Some st"
    by (auto simp: find_put_task)
  have a3: "additive (db w2) (db w3)" using adds_outcome(1) turn by (rule keepsD)
  have a4: "additive (db w3) (db w4)" using adds_outcome(2) del by (rule keepsD)
  have a5: "additive (db w4) (db w5)" using adds_outcome(6) entry by (rule keepsD)
  have a6: "additive (db w5) (db w6)" using adds_outcome(5) audit by (rule keepsD)
  have a7: "additive (db w6) (db w7)" using adds_outcome(3) dela by (rule keepsD)
  have a8: "additive (db w7) (db w')" using adds_outcome(4) scrub by (rule keepsD)
  note entryD = taskTerminalAudit_InrD [OF entry]
  have in6: "e \<in> set (audit_entries (db w6))"
    using insertAuditEntry_InrD [OF audit] entryD by blast
  have b7: "additive (db w6) (db w')" using a7 a8 by (rule adds.R_trans)
  have b4: "additive (db w4) (db w')" using a5 a6 b7 by (blast intro: adds.R_trans)
  have b3: "additive (db w3) (db w')" using a4 b4 by (rule adds.R_trans)
  have b2: "additive (db w2) (db w')" using a3 b3 by (rule adds.R_trans)
  show ?thesis
    unfolding outcome_visible_def
    using additive_status [OF b2, of i] st additive_turn [OF b3 outcome_turn_InrD [OF turn]]
      additive_delivery [OF b4 outcome_delivery_InrD [OF del]] additive_audit [OF b7 in6] entryD
      find_task_ID [OF cur]
    by (auto simp: list_ex_iff)
qed

text \<open>
  C30: the final answer is never lost.  Whatever fails while a root task is completed, either nothing
  is stored, or the terminal status, the assistant turn, the delivery record and the audit entry are
  all in the store; when the call returns a task, they are.
\<close>

theorem completion_atomic:
  assumes "wf_store (db w)" and "CompleteTaskWithOutcome i r m partial out w = (res, w')"
  shows "outcome_visible i (completion_status partial) out (db w') \<or> (\<exists>e. res = Inl e) \<and> db w' = db w"
proof -
  let ?m = "with_tx (complete_with_outcome i r m (completion_status partial) out)"
  obtain r1 w1 where m: "?m w = (r1, w1)" by (cases "?m w")
  show ?thesis
  proof (cases r1)
    case (Inl e)
    with m with_tx_rollback [of _ w e w1] assms(2) show ?thesis
      by (auto simp: CompleteTaskWithOutcome_def tx_bind_def)
  next
    case (Inr u)
    with m have "with_tx (complete_with_outcome i r m (completion_status partial) out) w = (Inr u, w1)" by simp
    then have "outcome_visible i (completion_status partial) out (db w1)"
      using assms(1) by (elim with_tx_InrE) (metis complete_with_outcome_visible)
    moreover from assms(2) m Inr have "GetTask i w1 = (res, w')"
      by (simp add: CompleteTaskWithOutcome_def tx_bind_def)
    then have "db w' = db w1"
      using keepsD [OF unchanged.keeps_query_row, of "find_task i" w1 res w'] by (simp add: GetTask_def)
    ultimately show ?thesis by simp
  qed
qed

subsection \<open>Concrete runs\<close>

definition claim_store :: store where
  "claim_store = empty_store\<lparr>
     tasks := [sample_task ''a'', (sample_task ''b'')\<lparr>t_Priority := 5\<rparr>, (sample_task ''c'')\<lparr>t_Priority := 3\<rparr>],
     task_dependencies := [\<lparr>dep_TaskID = ''b'', dep_DependsOnTaskID = ''a''\<rparr>]\<rparr>"

lemma claim_store_wf: "wf_store claim_store"
  by code_simp

lemma claim_store_run: "\<not> isl (fst (ClaimNextTask (sample_world claim_store)))"
  by code_simp

theorem claim_progress_witness: "\<exists>u\<in>set (tasks claim_store). runnable claim_store u"
  using claim_progress [of "sample_world claim_store"] claim_store_wf claim_store_run
  by (auto split: sum.splits)

definition outcome_store :: store where
  "outcome_store = empty_store\<lparr>conversations := [sample_conversation ''v'' True],
     tasks := [(sample_task ''a'')\<lparr>t_Status := StatusRunning, t_ConversationID := ''v''\<rparr>]\<rparr>"

definition sample_outcome :: CompletionOutcome where
  "sample_outcome = \<lparr>co_Turn = Some (sample_turn ''t'' ''v''),
     co_Delivery = Some (sample_delivery ''d'' ''a''), co_Artifacts = []\<rparr>"

theorem completion_atomic_witness:
  "\<exists>t w'. CompleteTaskWithOutcome ''a'' ''{}'' ''done'' False sample_outcome (sample_world outcome_store) = (Inr t, w')
     \<and> outcome_visible ''a'' StatusCompleted sample_outcome (db w')"
proof -
  have wf: "wf_store outcome_store" by code_simp
  have "\<not> isl (fst (CompleteTaskWithOutcome ''a'' ''{}'' ''done'' False sample_outcome (sample_world outcome_store)))"
    by code_simp
  note run = run_Inr [OF this]
  from completion_atomic [OF _ run] wf run show ?thesis
    by (auto simp: completion_status_def)
qed

end
