(* ===== verification/Task_Retry.thy ===== *)
theory Task_Retry
  imports Task_Queue
begin

text \<open>
  The explicit retry of \<open>core/persistence/tasks.go\<close>: one transaction puts a failed task back into
  the queue together with the synthesis root that was derived from it, or a synthesis root together
  with its failed dependencies.
\<close>

definition retained_task :: "store \<Rightarrow> Task \<Rightarrow> bool" where
  "retained_task s t \<longleftrightarrow> t_ConversationID t = [] \<or>
     (case find_conversation (t_ConversationID t) s of None \<Rightarrow> False | Some c \<Rightarrow> cv_TranscriptRetention c)"

definition explicitRetryEligible :: "Task \<Rightarrow> bool db_op" where
  "explicitRetryEligible task =
     (if t_Dismissed task \<or> t_Goal task = expiredContentMarker \<or> t_TaskType task = ''shell'' \<or>
         t_RetryCount task \<ge> t_MaxRetries task \<or> \<not> explicitRetryStatus (t_Status task)
      then tx_return False
      else if t_ConversationID task = [] then tx_return True
      else query (\<lambda>s. case find_conversation (t_ConversationID task) s of
        None \<Rightarrow> False | Some c \<Rightarrow> cv_TranscriptRetention c))"

definition resettable :: "Task \<Rightarrow> store \<Rightarrow> Task \<Rightarrow> bool" where
  "resettable task s t \<longleftrightarrow> t_ID t = t_ID task \<and> t_Version t = t_Version task \<and> \<not> t_Dismissed t \<and>
     t_Goal t \<noteq> expiredContentMarker \<and> t_TaskType t \<noteq> ''shell'' \<and>
     t_RetryCount t < t_MaxRetries t \<and> explicitRetryStatus (t_Status t) \<and> retained_task s t"

definition resetExplicitRetryTask :: "Task \<Rightarrow> string \<Rightarrow> Task db_op" where
  "resetExplicitRetryTask task message =
     tx_bind (execute (update_tasks (resettable task) (set_retry message))) (\<lambda>changed.
     tx_bind (require (changed = 1) ErrConflict) (\<lambda>_.
     tx_return (set_retry message task)))"

definition guardQueuedSynthesisRoot :: "Task \<Rightarrow> unit db_op" where
  "guardQueuedSynthesisRoot root =
     tx_bind (execute (update_tasks (\<lambda>s t. t_ID t = t_ID root \<and> t_Version t = t_Version root \<and>
       t_Status t = StatusQueued \<and> t_TaskType t = ''synthesis'' \<and> \<not> t_Dismissed t \<and>
       t_Goal t \<noteq> expiredContentMarker \<and> retained_task s t) set_guard)) (\<lambda>changed.
     require (changed = 1) ErrConflict)"

definition directRootDependencies :: "Task \<Rightarrow> Task list db_op" where
  "directRootDependencies root =
     query (\<lambda>s. sort_key (\<lambda>t. (formatTime (t_CreatedAt t), t_ID t))
       (filter (\<lambda>t. t_RootTaskID t = t_ID root \<and>
          list_ex (\<lambda>d. dep_TaskID d = t_ID root \<and> dep_DependsOnTaskID d = t_ID t) (task_dependencies s))
        (tasks s)))"

text \<open>The loop that collects the eligible dependencies.\<close>

fun eligible_tasks :: "Task list \<Rightarrow> Task list db_op" where
  "eligible_tasks [] = tx_return []"
| "eligible_tasks (t # ts) =
     tx_bind (explicitRetryEligible t) (\<lambda>ok.
     tx_bind (eligible_tasks ts) (\<lambda>rest.
     tx_return (if ok then t # rest else rest)))"

definition retryRootTask :: "Task \<Rightarrow> Task db_op" where
  "retryRootTask root =
     tx_bind (query (\<lambda>s. count_rows (\<lambda>t. t_RootTaskID t = t_ID root) (tasks s))) (\<lambda>graphNodes.
     if graphNodes \<le> 1 then resetExplicitRetryTask root ''Explicit retry requested''
     else if t_TaskType root \<noteq> ''synthesis'' then tx_throw ErrConflict
     else tx_bind (directRootDependencies root) (\<lambda>deps.
       tx_bind (eligible_tasks deps) (\<lambda>retryable.
       if retryable = [] then
         (if t_Status root = StatusPartiallyCompleted then tx_throw ErrConflict
          else resetExplicitRetryTask root ''Explicit retry requested'')
       else
         tx_bind (resetExplicitRetryTask root ''Waiting for retried graph dependencies'') (\<lambda>updatedRoot.
         tx_bind (for_each retryable (\<lambda>dependency.
           tx_bind (resetExplicitRetryTask dependency ''Explicit graph retry requested'') (\<lambda>_. tx_return ()))) (\<lambda>_.
         tx_return updatedRoot)))))"

text \<open>The \<open>switch\<close> on the status of the synthesis root of a retried child.\<close>

definition rearm_root :: "Task \<Rightarrow> unit db_op" where
  "rearm_root root =
     (if t_Status root = StatusQueued then guardQueuedSynthesisRoot root
      else if explicitRetryStatus (t_Status root) then
        tx_bind (explicitRetryEligible root) (\<lambda>eligible.
        if \<not> eligible then tx_throw ErrConflict
        else tx_bind (resetExplicitRetryTask root ''Waiting for retried graph dependencies'') (\<lambda>_. tx_return ()))
      else tx_throw ErrConflict)"

definition retryGraphChild :: "Task \<Rightarrow> Task db_op" where
  "retryGraphChild selected =
     tx_bind (query_row (find_task (t_RootTaskID selected))) (\<lambda>root.
     if t_ID root \<noteq> t_RootTaskID root \<or> t_TaskType root \<noteq> ''synthesis'' then tx_throw ErrConflict
     else tx_bind (query (\<lambda>s. list_ex (\<lambda>d. dep_TaskID d = t_ID root \<and> dep_DependsOnTaskID d = t_ID selected)
       (task_dependencies s))) (\<lambda>directDependency.
     if \<not> directDependency then tx_throw ErrConflict
     else tx_bind (rearm_root root) (\<lambda>_.
     resetExplicitRetryTask selected ''Explicit retry requested'')))"

definition graph_audit :: "Task \<Rightarrow> AuditEntry option \<Rightarrow> unit db_op" where
  "graph_audit task audit = (case audit of None \<Rightarrow> tx_return () | Some a \<Rightarrow>
     tx_bind (normalizeTaskControlAudit task a) (\<lambda>entry.
     insertAuditEntry (addTaskGraphAuditDetail entry (t_RootTaskID task))))"

definition retryTask :: "string \<Rightarrow> AuditEntry option \<Rightarrow> Task db_op" where
  "retryTask i audit = with_tx (
     tx_bind (query_row (find_task i)) (\<lambda>selected.
     tx_bind (explicitRetryEligible selected) (\<lambda>eligible.
     tx_bind (require eligible ErrConflict) (\<lambda>_.
     tx_bind (if t_ID selected = t_RootTaskID selected then retryRootTask selected
              else retryGraphChild selected) (\<lambda>updated.
     tx_bind (graph_audit updated audit) (\<lambda>_.
     tx_return updated))))))"

definition RetryTask :: "string \<Rightarrow> Task db_op" where
  "RetryTask i = retryTask i (Some (systemTaskControlAudit ''task.retry'' [(''source'', JStr ''core'')]))"

definition RetryTaskWithAudit :: "string \<Rightarrow> AuditEntry \<Rightarrow> Task db_op" where
  "RetryTaskWithAudit i audit = retryTask i (Some audit)"

subsection \<open>How a retry evolves the store\<close>

lemma keeps_explicitRetryEligible: "keeps (evolves L) (explicitRetryEligible t)"
  unfolding explicitRetryEligible_def by (intro keeps_rules)

lemma keeps_reset: "LRetry \<in> L \<Longrightarrow> keeps (evolves L) (resetExplicitRetryTask t m)"
  unfolding resetExplicitRetryTask_def
  by (intro keeps_rules) (auto simp: resettable_def intro!: row_steps_single row_step.retry)

lemma keeps_guard: "LGuard \<in> L \<Longrightarrow> keeps (evolves L) (guardQueuedSynthesisRoot t)"
  unfolding guardQueuedSynthesisRoot_def
  by (intro keeps_rules) (auto intro!: row_steps_single row_step.guard)

lemma keeps_eligible_tasks: "keeps (evolves L) (eligible_tasks ts)"
  by (induction ts) (simp_all, (intro keeps_rules keeps_explicitRetryEligible)+)

lemma keeps_graph_audit: "keeps (evolves L) (graph_audit t a)"
  unfolding graph_audit_def by (intro keeps_rules keeps_dialog keeps_records)

lemma keeps_retryTask:
  assumes "LRetry \<in> L" and "LGuard \<in> L"
  shows "keeps (evolves L) (retryTask i a)"
  unfolding retryTask_def retryRootTask_def retryGraphChild_def rearm_root_def directRootDependencies_def
  by (intro keeps_rules keeps_explicitRetryEligible keeps_reset keeps_guard keeps_eligible_tasks
      keeps_graph_audit assms)

subsection \<open>What a retry does\<close>

lemma set_retry_fields [simp]:
  "t_ID (set_retry m t) = t_ID t" "t_RootTaskID (set_retry m t) = t_RootTaskID t"
  "t_Status (set_retry m t) = StatusQueued" "t_RetryCount (set_retry m t) = t_RetryCount t + 1"
  by (simp_all add: set_retry_def)

lemma set_guard_fields [simp]:
  "t_ID (set_guard t) = t_ID t" "t_Status (set_guard t) = t_Status t"
  by (simp_all add: set_guard_def)

lemma reset_InrD:
  assumes "wf_store (db w)" and "resetExplicitRetryTask task m w = (Inr u, w')"
  shows "\<exists>t. find_task (t_ID task) (db w) = Some t \<and> t_RetryCount t < t_MaxRetries t \<and>
    u = set_retry m task \<and> db w' = put_task (t_ID task) (set_retry m) (db w)"
proof -
  from assms(2) have upd: "update_tasks (resettable task) (set_retry m) (db w) = (1, db w')"
    and u: "u = set_retry m task"
    unfolding resetExplicitRetryTask_def by (auto simp: tx_simps dest!: tx_dests)
  from update_one_task [OF assms(1) upd [unfolded resettable_def [abs_def]]] u show ?thesis by auto
qed

lemma guard_InrD:
  assumes "wf_store (db w)" and "guardQueuedSynthesisRoot root w = (Inr u, w')"
  shows "\<exists>t. find_task (t_ID root) (db w) = Some t \<and> t_Status t = StatusQueued \<and>
    db w' = put_task (t_ID root) set_guard (db w)"
proof -
  from assms(2) have "update_tasks (\<lambda>s t. t_ID t = t_ID root \<and> (t_Version t = t_Version root \<and>
       t_Status t = StatusQueued \<and> t_TaskType t = ''synthesis'' \<and> \<not> t_Dismissed t \<and>
       t_Goal t \<noteq> expiredContentMarker \<and> retained_task s t)) set_guard (db w) = (1, db w')"
    unfolding guardQueuedSynthesisRoot_def by (auto simp: tx_simps dest!: tx_dests)
  from update_one_task [OF assms(1) this] show ?thesis by auto
qed

lemma explicitRetryEligible_db:
  assumes "explicitRetryEligible t w = (r, w')"
  shows "db w' = db w"
proof -
  have "keeps (=) (explicitRetryEligible t)"
    unfolding explicitRetryEligible_def by (intro unchanged.keeps_prog)
  from keepsD [OF this assms] show ?thesis by simp
qed

lemma quiet_graph_audit: "keeps same_work (graph_audit t a)"
  unfolding graph_audit_def by (intro quiet.keeps_prog quiet_insertAuditEntry quiet_audits)

lemma keeps_rearm_root: "LRetry \<in> L \<Longrightarrow> LGuard \<in> L \<Longrightarrow> keeps (evolves L) (rearm_root t)"
  unfolding rearm_root_def
  by (intro keeps_rules keeps_explicitRetryEligible keeps_reset keeps_guard)

lemma rearm_root_InrD:
  assumes "wf_store (db w)" and "rearm_root root w = (Inr u, w')"
  shows "\<exists>t f. find_task (t_ID root) (db w) = Some t \<and> t_Status (f t) = StatusQueued \<and>
    (\<forall>x. t_ID (f x) = t_ID x) \<and> db w' = put_task (t_ID root) f (db w)"
proof (cases "t_Status root = StatusQueued")
  case True
  with assms(2) have "guardQueuedSynthesisRoot root w = (Inr u, w')" by (simp add: rearm_root_def)
  from guard_InrD [OF assms(1) this] show ?thesis by (metis set_guard_fields)
next
  case False
  with assms(2) obtain v x w1 where el: "explicitRetryEligible root w = (Inr v, w1)"
    and r: "resetExplicitRetryTask root ''Waiting for retried graph dependencies'' w1 = (Inr x, w')"
    by (auto simp: rearm_root_def tx_simps split: if_splits)
  from explicitRetryEligible_db [OF el] reset_InrD [OF _ r] assms(1) show ?thesis
    by (metis set_retry_fields(1,3))
qed

lemma keeps_wf: "keeps (evolves L) m \<Longrightarrow> m w = (r, w') \<Longrightarrow> wf_store (db w) \<Longrightarrow> wf_store (db w')"
  by (drule keepsD) (auto simp: evolves_def)

lemma retryGraphChild_InrD:
  assumes "wf_store (db w)" and "find_task (t_ID sel) (db w) = Some sel" and "t_ID sel \<noteq> t_RootTaskID sel"
    and "retryGraphChild sel w = (Inr u, w')"
  shows "\<exists>root. find_task (t_RootTaskID sel) (db w') = Some root \<and> t_Status root = StatusQueued \<and>
    blocked (db w') root \<and> find_task (t_ID sel) (db w') = Some u \<and> u = set_retry ''Explicit retry requested'' sel"
proof -
  from assms(4) obtain root w1 w2 where root: "find_task (t_RootTaskID sel) (db w) = Some root"
    and dep: "list_ex (\<lambda>d. dep_TaskID d = t_RootTaskID root \<and> dep_DependsOnTaskID d = t_ID sel) (task_dependencies (db w))"
    and self: "t_RootTaskID root = t_ID root"
    and re: "rearm_root root w1 = (Inr (), w2)" "db w1 = db w"
    and sel: "resetExplicitRetryTask sel ''Explicit retry requested'' w2 = (Inr u, w')"
    unfolding retryGraphChild_def
    by (clarsimp simp: tx_simps split: if_splits) (drule tx_dests, drule tx_dests, auto)
  note rid = find_task_ID [OF root]
  from rearm_root_InrD [OF _ re(1)] re(2) assms(1) rid obtain t f where
    t: "find_task (t_RootTaskID sel) (db w) = Some t" "t_Status (f t) = StatusQueued"
      "\<forall>x. t_ID (f x) = t_ID x" "db w2 = put_task (t_RootTaskID sel) f (db w)" by auto
  have wf2: "wf_store (db w2)"
    using keeps_wf [OF keeps_rearm_root [of UNIV] re(1)] re(2) assms(1) by simp
  from reset_InrD [OF wf2 sel] have u: "u = set_retry ''Explicit retry requested'' sel"
    and w': "db w' = put_task (t_ID sel) (set_retry ''Explicit retry requested'') (db w2)" by auto
  have fr: "find_task (t_RootTaskID sel) (db w') = Some (f t)"
    using t assms(3) by (simp add: w' find_put_task)
  have fs: "find_task (t_ID sel) (db w') = Some u"
    using t assms(2,3) by (simp add: w' find_put_task u)
  have "task_dependencies (db w') = task_dependencies (db w)"
    by (simp add: w' t(4) put_task_def)
  moreover from fs have "u \<in> set (tasks (db w'))" "t_ID u = t_ID sel" "\<not> Terminal (t_Status u)"
    using find_task_ID by (auto simp: u)
  ultimately have "blocked (db w') (f t)"
    using dep self rid t find_task_ID [OF t(1)] by (fastforce simp: blocked_def list_ex_iff)
  with fr fs t(2) u show ?thesis by blast
qed

lemma eligible_InrD:
  assumes "explicitRetryEligible t w = (Inr True, w')"
  shows "t_RetryCount t < t_MaxRetries t"
  using assms by (auto simp: explicitRetryEligible_def tx_simps split: if_splits)

lemma retryTask_InrD:
  assumes "retryTask i audit w = (Inr t, w')" and "find_task i (db w) = Some sel"
  shows "\<exists>w1 w2. db w1 = db w \<and> t_RetryCount sel < t_MaxRetries sel \<and>
    (if t_ID sel = t_RootTaskID sel then retryRootTask sel else retryGraphChild sel) w1 = (Inr t, w2) \<and>
    same_work (db w2) (db w')"
proof -
  from assms obtain w1 w2 w3 w4 where db4: "db w' = db w4" "db w1 = db w"
    and el: "explicitRetryEligible sel w1 = (Inr True, w2)"
    and re: "(if t_ID sel = t_RootTaskID sel then retryRootTask sel else retryGraphChild sel) w2 = (Inr t, w3)"
    and au: "graph_audit t audit w3 = (Inr (), w4)"
    unfolding retryTask_def
    by (elim with_tx_InrE) (clarsimp simp: tx_simps dest!: query_row_InrD)
  from el re explicitRetryEligible_db [OF el] eligible_InrD [OF el] keepsD [OF quiet_graph_audit au] db4
  show ?thesis by auto
qed

text \<open>
  An explicit retry of a failed graph child puts it back into the queue within its retry budget,
  returns the stored row, and in the same commit re-arms the synthesis root, which stays queued but
  cannot be claimed before the retried child has ended.
\<close>

theorem retry_child:
  assumes "wf_store (db w)" and "find_task i (db w) = Some sel" and "t_RootTaskID sel \<noteq> i"
    and "retryTask i audit w = (Inr t, w')"
  shows "find_task i (db w') = Some t \<and> t_Status t = StatusQueued \<and>
    t_RetryCount t = t_RetryCount sel + 1 \<and> t_RetryCount t \<le> t_MaxRetries sel \<and>
    (\<exists>root. find_task (t_RootTaskID sel) (db w') = Some root \<and> t_Status root = StatusQueued \<and>
       \<not> runnable (db w') root)"
proof -
  note id = find_task_ID [OF assms(2)]
  from retryTask_InrD [OF assms(4,2)] id assms(3) obtain w1 w2 where w1: "db w1 = db w"
    and budget: "t_RetryCount sel < t_MaxRetries sel" and re: "retryGraphChild sel w1 = (Inr t, w2)"
    and au: "same_work (db w2) (db w')" by auto
  from retryGraphChild_InrD [OF _ _ _ re] assms(1-3) w1 id obtain root where
    r: "find_task (t_RootTaskID sel) (db w2) = Some root" "t_Status root = StatusQueued" "blocked (db w2) root"
    "find_task i (db w2) = Some t" "t = set_retry ''Explicit retry requested'' sel" by auto
  have "blocked (db w') root" using r(3) au by (simp add: blocked_def same_work_def)
  with r budget same_work_find [OF au] show ?thesis
    by (auto simp: runnable_def)
qed

definition retry_store :: store where
  "retry_store = empty_store\<lparr>
     tasks := [(sample_task ''r'')\<lparr>t_TaskType := ''synthesis'', t_Status := StatusPartiallyCompleted\<rparr>,
       (sample_task ''a'')\<lparr>t_RootTaskID := ''r'', t_ParentTaskID := Some ''r'', t_Status := StatusFailed\<rparr>],
     task_dependencies := [\<lparr>dep_TaskID = ''r'', dep_DependsOnTaskID = ''a''\<rparr>]\<rparr>"


end
