(* ===== verification/Task_Control.thy ===== *)
theory Task_Control
  imports Task_Retry
begin

text \<open>
  The rest of \<open>core/persistence/tasks.go\<close>: cancelling a task graph, recording that a running task
  has stopped, and the recovery of interrupted work after a restart.
\<close>

subsection \<open>Cancellation\<close>

definition set_approval_cancelled :: "time \<Rightarrow> Approval \<Rightarrow> Approval" where
  "set_approval_cancelled now a = a\<lparr>ap_Status := ApprovalDenied, ap_DecidedAt := Some now,
     ap_DecidedBy := ''task-graph-cancel''\<rparr>"

text \<open>The three statements of a cancellation.\<close>

definition cancel_waiting :: "string \<Rightarrow> time \<Rightarrow> store \<Rightarrow> nat \<times> store" where
  "cancel_waiting root now = update_tasks (\<lambda>_ t. t_RootTaskID t = root \<and>
     t_Status t \<in> set [StatusCreated, StatusQueued, StatusWaitingForApproval, StatusBlocked]) (set_cancelled now)"

definition cancel_running :: "string \<Rightarrow> store \<Rightarrow> nat \<times> store" where
  "cancel_running root = update_tasks (\<lambda>_ t. t_RootTaskID t = root \<and>
     t_Status t \<in> set [StatusAssigned, StatusRunning, StatusWaitingForChildren]) set_cancel_requested"

definition deny_pending :: "string \<Rightarrow> time \<Rightarrow> store \<Rightarrow> nat \<times> store" where
  "deny_pending root now = update_approvals (\<lambda>s a. ap_Status a = ApprovalPending \<and>
     ap_TaskID a \<in> set (graph_ids root s)) (set_approval_cancelled now)"

definition requestTaskGraphCancellation :: "string \<Rightarrow> AuditEntry option \<Rightarrow> (Task \<times> string list) db_op" where
  "requestTaskGraphCancellation i audit = with_tx (
     tx_bind (query_row (find_task i)) (\<lambda>task.
     tx_bind (query (graph_ids (t_RootTaskID task))) (\<lambda>ids.
     tx_bind tx_now (\<lambda>now.
     tx_bind (execute (cancel_waiting (t_RootTaskID task) now)) (\<lambda>_.
     tx_bind (execute (cancel_running (t_RootTaskID task))) (\<lambda>_.
     tx_bind (execute (deny_pending (t_RootTaskID task) now)) (\<lambda>_.
     tx_bind (query_row (find_task i)) (\<lambda>updated.
     tx_bind (graph_audit updated audit) (\<lambda>_.
     tx_return (updated, ids))))))))))"

definition RequestTaskGraphCancellation :: "string \<Rightarrow> (Task \<times> string list) db_op" where
  "RequestTaskGraphCancellation i = requestTaskGraphCancellation i (Some (systemTaskControlAudit
     ''task.cancel'' [(''source'', JStr ''core''), (''scope'', JStr ''task_graph'')]))"

definition RequestTaskGraphCancellationWithAudit :: "string \<Rightarrow> AuditEntry \<Rightarrow> (Task \<times> string list) db_op" where
  "RequestTaskGraphCancellationWithAudit i audit = requestTaskGraphCancellation i (Some audit)"

definition MarkTaskCancelled :: "string \<Rightarrow> Task db_op" where
  "MarkTaskCancelled i =
     tx_bind tx_now (\<lambda>now.
     tx_bind (execute (update_tasks (\<lambda>_ t. t_ID t = i \<and> t_Status t = StatusCancelRequested)
       (set_cancelled now))) (\<lambda>changed.
     tx_bind (require (changed = 1) ErrConflict) (\<lambda>_.
     tx_bind (GetTask i) (\<lambda>task.
     tx_bind (ScrubTerminalTaskGraph (t_RootTaskID task)) (\<lambda>_.
     tx_return task)))))"

subsection \<open>Recovery after a restart\<close>

definition uncertainTaskError :: string where
  "uncertainTaskError = ''tool outcome uncertain after restart; manual inspection required''"

definition uncertainInvocationError :: string where
  "uncertainInvocationError = ''tool outcome uncertain after restart''"

definition exhaustedError :: string where
  "exhaustedError = ''automatic retry limit exhausted during restart recovery''"

definition started_invocation :: "store \<Rightarrow> string \<Rightarrow> bool" where
  "started_invocation s i \<longleftrightarrow> list_ex (\<lambda>v. in_TaskID v = i \<and> in_Status v = ''STARTED'') (tool_invocations s)"

definition uncertain_task :: "store \<Rightarrow> Task \<Rightarrow> bool" where
  "uncertain_task s t \<longleftrightarrow> t_TaskType t = ''shell'' \<and>
     t_Status t \<in> set [StatusAssigned, StatusRunning, StatusCancelRequested] \<and>
     started_invocation s (t_ID t)"

text \<open>
  The invocations of the tasks that the first statement has just failed: they are recognised by the
  error text and the finishing time it wrote, compared as texts.
\<close>

definition uncertain_invocation :: "time \<Rightarrow> store \<Rightarrow> Invocation \<Rightarrow> bool" where
  "uncertain_invocation now s v \<longleftrightarrow> in_Status v = ''STARTED'' \<and>
     list_ex (\<lambda>t. t_ID t = in_TaskID v \<and> t_TaskType t = ''shell'' \<and> t_Status t = StatusFailed \<and>
       t_Error t = uncertainTaskError \<and> map_option formatTime (t_FinishedAt t) = Some (formatTime now)) (tasks s)"

definition set_uncertain_invocation :: "time \<Rightarrow> Invocation \<Rightarrow> Invocation" where
  "set_uncertain_invocation now v = v\<lparr>in_Status := ''FAILED'', in_FinishedAt := Some now,
     in_ExitCode := None, in_Output := [], in_Error := uncertainInvocationError\<rparr>"

definition recover_tx :: "nat db_op" where
  "recover_tx =
     tx_bind tx_now (\<lambda>now.
     tx_bind (execute (update_tasks uncertain_task (set_fail StatusFailed uncertainTaskError now))) (\<lambda>uncertainCount.
     tx_bind (execute (update_invocations (uncertain_invocation now) (set_uncertain_invocation now))) (\<lambda>terminalized.
     tx_bind (require (\<not> terminalized < uncertainCount) (ErrMsg ''terminalize uncertain tool invocations'')) (\<lambda>_.
     tx_bind (execute (update_tasks (\<lambda>_ t. t_Status t = StatusCancelRequested)
       (set_recover_cancelled now))) (\<lambda>cancelledCount.
     tx_bind (execute (update_tasks (\<lambda>_ t. t_Status t \<in> set [StatusAssigned, StatusRunning] \<and>
       t_RetryCount t \<ge> t_MaxRetries t) (set_fail StatusFailed exhaustedError now))) (\<lambda>exhaustedCount.
     tx_bind (execute (update_tasks (\<lambda>s t. t_Status t \<in> set [StatusAssigned, StatusRunning] \<and>
       \<not> (t_TaskType t = ''shell'' \<and> started_invocation s (t_ID t)) \<and>
       t_RetryCount t < t_MaxRetries t) set_recovered)) (\<lambda>recoveredCount.
     tx_return (uncertainCount + cancelledCount + exhaustedCount + recoveredCount))))))))"

definition RecoverInterruptedTasks :: "nat db_op" where
  "RecoverInterruptedTasks =
     tx_bind (with_tx recover_tx) (\<lambda>count.
     tx_bind ScrubTerminalNonRetainedTaskGraphs (\<lambda>_.
     tx_return count))"

subsection \<open>How these operations evolve the store\<close>

lemma keeps_requestTaskGraphCancellation:
  assumes "LCancel \<in> L" and "LCancelRequest \<in> L"
  shows "keeps (evolves L) (requestTaskGraphCancellation i a)"
  unfolding requestTaskGraphCancellation_def cancel_waiting_def cancel_running_def deny_pending_def
  by (intro keeps_rules keeps_graph_audit)
     (auto simp: approval_evolves_def set_approval_cancelled_def intro: row_steps_single [OF assms(1)]
        row_steps_single [OF assms(2)] row_step.cancel row_step.cancel_request)

lemma keeps_MarkTaskCancelled:
  "LMarkCancelled \<in> L \<Longrightarrow> LScrub \<in> L \<Longrightarrow> keeps (evolves L) (MarkTaskCancelled i)"
  unfolding MarkTaskCancelled_def
  by (intro keeps_rules keeps_records keeps_ScrubTerminalTaskGraph)
     (auto intro!: row_steps_single row_step.mark_cancelled)

lemma keeps_recover_tx:
  assumes "{LUncertain, LRecoverCancelled, LExhausted, LRecovered} \<subseteq> L"
  shows "keeps (evolves L) recover_tx"
  using assms unfolding recover_tx_def
  by (intro keeps_rules)
     (auto simp: uncertain_task_def uncertain_invocation_def invocation_evolves_def set_uncertain_invocation_def
        intro: row_steps_single row_step.uncertain row_step.recover_cancelled row_step.exhausted row_step.recovered)

lemma keeps_RecoverInterruptedTasks:
  assumes "{LUncertain, LRecoverCancelled, LExhausted, LRecovered, LScrub} \<subseteq> L"
  shows "keeps (evolves L) RecoverInterruptedTasks"
  using assms unfolding RecoverInterruptedTasks_def
  by (intro keeps_rules keeps_recover_tx keeps_ScrubTerminalNonRetained) auto

subsection \<open>What recovery does to a row\<close>

text \<open>
  The specification of the five statements, one row at a time: \<open>started\<close> tells which tasks had a
  tool invocation under way when the process died.
\<close>

definition recover_row :: "(string \<Rightarrow> bool) \<Rightarrow> time \<Rightarrow> Task \<Rightarrow> Task" where
  "recover_row started now t =
    (if t_TaskType t = ''shell'' \<and> started (t_ID t) \<and>
        t_Status t \<in> {StatusAssigned, StatusRunning, StatusCancelRequested}
     then set_fail StatusFailed uncertainTaskError now t
     else if t_Status t = StatusCancelRequested then set_recover_cancelled now t
     else if t_Status t \<in> {StatusAssigned, StatusRunning} then
       (if t_RetryCount t \<ge> t_MaxRetries t then set_fail StatusFailed exhaustedError now t
        else set_recovered t)
     else t)"

definition in_flight :: "Task \<Rightarrow> bool" where
  "in_flight t \<longleftrightarrow> t_Status t \<in> {StatusAssigned, StatusRunning, StatusCancelRequested}"

lemma started_after_terminalizing:
  "started_invocation (snd (update_invocations p (set_uncertain_invocation now) s)) i \<Longrightarrow> started_invocation s i"
  by (auto simp: started_invocation_def update_invocations_def list_ex_iff set_upd_rows
      set_uncertain_invocation_def split: if_splits)

lemma recover_fields [simp]:
  "t_Status (set_fail st e n t) = st" "t_Status (set_recover_cancelled n t) = StatusCancelled"
  "t_Status (set_recovered t) = StatusQueued" "t_ID (set_fail st e n t) = t_ID t"
  "t_ID (set_recover_cancelled n t) = t_ID t" "t_ID (set_recovered t) = t_ID t"
  by (simp_all add: set_defs)

lemma recover_pipeline:
  assumes "\<And>i. started' i \<Longrightarrow> started_invocation s0 i"
  shows "upd_rows (\<lambda>t. t_Status t \<in> {StatusAssigned, StatusRunning} \<and>
      \<not> (t_TaskType t = ''shell'' \<and> started' (t_ID t)) \<and> t_RetryCount t < t_MaxRetries t) set_recovered
    (upd_rows (\<lambda>t. t_Status t \<in> {StatusAssigned, StatusRunning} \<and> t_RetryCount t \<ge> t_MaxRetries t)
      (set_fail StatusFailed exhaustedError now)
    (upd_rows (\<lambda>t. t_Status t = StatusCancelRequested) (set_recover_cancelled now)
    (upd_rows (uncertain_task s0) (set_fail StatusFailed uncertainTaskError now) ts))) =
    map (recover_row (started_invocation s0) now) ts"
proof -
  define r1 where "r1 t = (if uncertain_task s0 t then set_fail StatusFailed uncertainTaskError now t else t)" for t
  define r2 where "r2 t = (if t_Status t = StatusCancelRequested then set_recover_cancelled now t else t)" for t
  define r3 where "r3 t = (if t_Status t \<in> {StatusAssigned, StatusRunning} \<and> t_RetryCount t \<ge> t_MaxRetries t
    then set_fail StatusFailed exhaustedError now t else t)" for t
  define r4 where "r4 t = (if t_Status t \<in> {StatusAssigned, StatusRunning} \<and>
    \<not> (t_TaskType t = ''shell'' \<and> started' (t_ID t)) \<and> t_RetryCount t < t_MaxRetries t then set_recovered t else t)" for t
  have row: "r4 (r3 (r2 (r1 t))) = recover_row (started_invocation s0) now t" for t
  proof -
    consider (uncertain) "uncertain_task s0 t" | (cancel) "\<not> uncertain_task s0 t" "t_Status t = StatusCancelRequested"
      | (exhausted) "\<not> uncertain_task s0 t" "t_Status t \<in> {StatusAssigned, StatusRunning}" "t_RetryCount t \<ge> t_MaxRetries t"
      | (recovered) "\<not> uncertain_task s0 t" "t_Status t \<in> {StatusAssigned, StatusRunning}" "t_RetryCount t < t_MaxRetries t"
      | (other) "\<not> in_flight t" by (fastforce simp: in_flight_def)
    then show ?thesis
    proof cases
      case uncertain
      then show ?thesis
        unfolding r4_def r3_def r2_def r1_def recover_row_def uncertain_task_def by simp
    next
      case cancel
      then have "r1 t = t" "r2 t = set_recover_cancelled now t" by (auto simp: r1_def r2_def)
      with cancel show ?thesis by (auto simp: r3_def r4_def recover_row_def uncertain_task_def)
    next
      case exhausted
      then have "r1 t = t" "r2 t = t" "r3 t = set_fail StatusFailed exhaustedError now t" by (auto simp: r1_def r2_def r3_def)
      with exhausted show ?thesis by (auto simp: r4_def recover_row_def uncertain_task_def)
    next
      case recovered
      then have "r1 t = t" "r2 t = t" "r3 t = t" by (auto simp: r1_def r2_def r3_def)
      with recovered assms [of "t_ID t"] show ?thesis by (auto simp: r4_def recover_row_def uncertain_task_def)
    next
      case other
      then have "r1 t = t" "r2 t = t" "r3 t = t" "r4 t = t"
        by (auto simp: r1_def r2_def r3_def r4_def uncertain_task_def in_flight_def)
      with other show ?thesis by (auto simp: recover_row_def in_flight_def)
    qed
  qed
  show ?thesis
    unfolding upd_rows_def map_map comp_def r1_def [symmetric] r2_def [symmetric] r3_def [symmetric] r4_def [symmetric]
    by (rule map_cong [OF HOL.refl]) (rule row)
qed

lemma recover_statements:
  fixes s0 :: store and now :: time
  defines "s1 \<equiv> snd (update_tasks uncertain_task (set_fail StatusFailed uncertainTaskError now) s0)"
  defines "s2 \<equiv> snd (update_invocations (uncertain_invocation now) (set_uncertain_invocation now) s1)"
  defines "s3 \<equiv> snd (update_tasks (\<lambda>_ t. t_Status t = StatusCancelRequested) (set_recover_cancelled now) s2)"
  defines "s4 \<equiv> snd (update_tasks (\<lambda>_ t. t_Status t \<in> set [StatusAssigned, StatusRunning] \<and>
       t_RetryCount t \<ge> t_MaxRetries t) (set_fail StatusFailed exhaustedError now) s3)"
  defines "s5 \<equiv> snd (update_tasks (\<lambda>s t. t_Status t \<in> set [StatusAssigned, StatusRunning] \<and>
       \<not> (t_TaskType t = ''shell'' \<and> started_invocation s (t_ID t)) \<and>
       t_RetryCount t < t_MaxRetries t) set_recovered s4)"
  shows "tasks s5 = map (recover_row (started_invocation s0) now) (tasks s0)"
proof -
  have "tool_invocations s4 = tool_invocations s2" by (simp add: s4_def s3_def)
  then have "started_invocation s4 i \<Longrightarrow> started_invocation s1 i" for i
    using started_after_terminalizing [of "uncertain_invocation now" now s1 i]
    by (simp add: started_invocation_def s2_def)
  then have st: "started_invocation s4 i \<Longrightarrow> started_invocation s0 i" for i
    by (simp add: started_invocation_def s1_def)
  have t1: "tasks s1 = upd_rows (uncertain_task s0) (set_fail StatusFailed uncertainTaskError now) (tasks s0)"
    by (simp add: s1_def update_tasks_def)
  have t2: "tasks s2 = tasks s1" by (simp add: s2_def)
  have t3: "tasks s3 = upd_rows (\<lambda>t. t_Status t = StatusCancelRequested) (set_recover_cancelled now) (tasks s2)"
    by (simp add: s3_def update_tasks_def)
  have t4: "tasks s4 = upd_rows (\<lambda>t. t_Status t \<in> {StatusAssigned, StatusRunning} \<and> t_RetryCount t \<ge> t_MaxRetries t)
     (set_fail StatusFailed exhaustedError now) (tasks s3)"
    by (simp add: s4_def update_tasks_def)
  have t5: "tasks s5 = upd_rows (\<lambda>t. t_Status t \<in> {StatusAssigned, StatusRunning} \<and>
     \<not> (t_TaskType t = ''shell'' \<and> started_invocation s4 (t_ID t)) \<and> t_RetryCount t < t_MaxRetries t)
     set_recovered (tasks s4)"
    by (simp add: s5_def update_tasks_def)
  show ?thesis
    unfolding t5 t4 t3 t2 t1 by (rule recover_pipeline) (rule st)
qed

lemma recover_tx_InrD:
  assumes "recover_tx w = (Inr n, w')"
  shows "\<exists>now. tasks (db w') = map (recover_row (started_invocation (db w)) now) (tasks (db w))"
proof -
  from assms obtain now n1 n2 n3 n4 s0 s1 s2 s3 s4 n5 where
    u0: "s0 = db w" and
    u1: "update_tasks uncertain_task (set_fail StatusFailed uncertainTaskError now) s0 = (n1, s1)" and
    u2: "update_invocations (uncertain_invocation now) (set_uncertain_invocation now) s1 = (n2, s2)" and
    u3: "update_tasks (\<lambda>_ t. t_Status t = StatusCancelRequested) (set_recover_cancelled now) s2 = (n3, s3)" and
    u4: "update_tasks (\<lambda>_ t. t_Status t \<in> set [StatusAssigned, StatusRunning] \<and>
       t_RetryCount t \<ge> t_MaxRetries t) (set_fail StatusFailed exhaustedError now) s3 = (n4, s4)" and
    u5: "update_tasks (\<lambda>s t. t_Status t \<in> set [StatusAssigned, StatusRunning] \<and>
       \<not> (t_TaskType t = ''shell'' \<and> started_invocation s (t_ID t)) \<and>
       t_RetryCount t < t_MaxRetries t) set_recovered s4 = (n5, db w')"
    unfolding recover_tx_def tx_simps
    apply (elim exE conjE)
    apply (drule tx_now_InrD [THEN conjunct2])
    apply (drule execute_InrD)+
    apply hypsubst
    apply (rule that; assumption)
    done
  show ?thesis
    using recover_statements [of now "db w"] unfolding u1 [unfolded u0] snd_conv u2 u3 u4 u5 by blast
qed

lemma recovery_rows:
  assumes "RecoverInterruptedTasks w = (Inr n, w')"
  shows "\<exists>now. list_all2 (\<lambda>t u. scrubbed_row (recover_row (started_invocation (db w)) now t) u)
    (tasks (db w)) (tasks (db w'))"
proof -
  from assms obtain w1 where tx: "with_tx recover_tx w = (Inr n, w1)"
    and scrub: "ScrubTerminalNonRetainedTaskGraphs w1 = (Inr (), w')"
    unfolding RecoverInterruptedTasks_def by (auto simp: tx_simps)
  from tx obtain now where "tasks (db w1) = map (recover_row (started_invocation (db w)) now) (tasks (db w))"
    by (elim with_tx_InrE) (metis recover_tx_InrD)
  moreover have "list_all2 scrubbed_row (tasks (db w1)) (tasks (db w'))"
    using keepsD [OF scr_ScrubTerminalNonRetained scrub] by (simp add: scrub_rel_def)
  ultimately show ?thesis by (auto simp: list_all2_map1)
qed

text \<open>
  C28: recovery after a restart is the row function \<^const>\<open>recover_row\<close>, applied to every task in one
  commit, followed by nothing but the scrub of finished graphs whose transcripts are not retained.
\<close>

theorem recovery_refines:
  assumes "RecoverInterruptedTasks w = (Inr n, w')"
  shows "\<exists>now. list_all2 scrubbed_row
    (map (recover_row (started_invocation (db w)) now) (tasks (db w))) (tasks (db w'))"
  using recovery_rows [OF assms] by (simp add: list_all2_map1)

lemma scrubbed_fields: "scrubbed_row t u \<Longrightarrow> t_Status u = t_Status t \<and> t_ID u = t_ID t \<and> t_TaskType u = t_TaskType t"
  by (auto simp: scrubbed_row_def set_scrubbed_def)

lemma recover_row_fields:
  "t_ID (recover_row st now t) = t_ID t" "\<not> in_flight (recover_row st now t)"
  "t_TaskType t = ''shell'' \<Longrightarrow> st (t_ID t) \<Longrightarrow> in_flight t \<Longrightarrow> t_Status (recover_row st now t) = StatusFailed"
  by (auto simp: recover_row_def in_flight_def)

text \<open>
  After recovery no task is left assigned, running or waiting for its cancellation, and a shell
  task whose tool had been started when the process died has failed: it is never put back into the
  queue, so the command is not run a second time.
\<close>

theorem recovery_no_replay:
  assumes "wf_store (db w)" and "RecoverInterruptedTasks w = (Inr n, w')"
  shows "(\<forall>t\<in>set (tasks (db w')). \<not> in_flight t) \<and>
    (\<forall>t\<in>set (tasks (db w)). t_TaskType t = ''shell'' \<and> started_invocation (db w) (t_ID t) \<and> in_flight t \<longrightarrow>
       map_option t_Status (find_task (t_ID t) (db w')) = Some StatusFailed)"
proof -
  from recovery_rows [OF assms(2)] obtain now where
    rows: "list_all2 (\<lambda>t u. scrubbed_row (recover_row (started_invocation (db w)) now t) u) (tasks (db w)) (tasks (db w'))"
    by blast
  have "\<not> in_flight u" if "u \<in> set (tasks (db w'))" for u
    using list_all2_setD2 [OF rows that] recover_row_fields(2) scrubbed_fields
    by (fastforce simp: in_flight_def)
  moreover have "map_option t_Status (find_task (t_ID t) (db w')) = Some StatusFailed"
    if "t \<in> set (tasks (db w))" "t_TaskType t = ''shell''" "started_invocation (db w) (t_ID t)" "in_flight t" for t
  proof -
    have "\<exists>u. find (\<lambda>x. t_ID x = t_ID t) (tasks (db w')) = Some u \<and>
      scrubbed_row (recover_row (started_invocation (db w)) now t) u"
      using find_task_in [OF assms(1) that(1)]
      by (intro find_list_all2 [OF rows]) (auto simp: find_task_def recover_row_fields dest: scrubbed_fields)
    then obtain u where "find_task (t_ID t) (db w') = Some u"
      "scrubbed_row (recover_row (started_invocation (db w)) now t) u" by (auto simp: find_task_def)
    with that show ?thesis by (auto dest: scrubbed_fields simp: recover_row_fields)
  qed
  ultimately show ?thesis by blast
qed

subsection \<open>What a cancellation reaches\<close>

lemma cancel_InrD:
  assumes "requestTaskGraphCancellation i audit w = (Inr (t, nodes), w')" and "find_task i (db w) = Some sel"
  shows "\<exists>now n1 n2 n3 s1 s2 s3. nodes = graph_ids (t_RootTaskID sel) (db w) \<and>
    cancel_waiting (t_RootTaskID sel) now (db w) = (n1, s1) \<and> cancel_running (t_RootTaskID sel) s1 = (n2, s2) \<and>
    deny_pending (t_RootTaskID sel) now s2 = (n3, s3) \<and> find_task i s3 = Some t \<and> same_work s3 (db w')"
  using assms unfolding requestTaskGraphCancellation_def
  by (elim with_tx_InrE) (fastforce simp: tx_simps dest!: tx_dests keepsD [OF quiet_graph_audit])

lemma cancelled_rows:
  assumes "cancel_waiting root now s = (n1, s1)" and "cancel_running root s1 = (n2, s2)"
  shows "tasks s2 = map (\<lambda>t. if t_RootTaskID t \<noteq> root then t
    else if t_Status t \<in> {StatusCreated, StatusQueued, StatusWaitingForApproval, StatusBlocked} then set_cancelled now t
    else if t_Status t \<in> {StatusAssigned, StatusRunning, StatusWaitingForChildren} then set_cancel_requested t
    else t) (tasks s)"
proof -
  have "tasks s2 = upd_rows (\<lambda>t. t_RootTaskID t = root \<and> t_Status t \<in> {StatusAssigned, StatusRunning, StatusWaitingForChildren})
    set_cancel_requested (upd_rows (\<lambda>t. t_RootTaskID t = root \<and>
      t_Status t \<in> {StatusCreated, StatusQueued, StatusWaitingForApproval, StatusBlocked}) (set_cancelled now) (tasks s))"
    using assms by (auto simp: cancel_waiting_def cancel_running_def update_tasks_def)
  then show ?thesis
    by (simp add: upd_rows_def) (simp add: set_cancelled_def)
qed

lemma cancel_fields [simp]:
  "t_ID (set_cancelled n t) = t_ID t" "t_ID (set_cancel_requested t) = t_ID t"
  "t_RootTaskID (set_cancelled n t) = t_RootTaskID t" "t_RootTaskID (set_cancel_requested t) = t_RootTaskID t"
  "t_Status (set_cancelled n t) = StatusCancelled" "t_Status (set_cancel_requested t) = StatusCancelRequested"
  by (simp_all add: set_defs)

lemma status_cases:
  "Terminal st \<or> st = StatusCancelRequested \<or>
   st \<in> {StatusCreated, StatusQueued, StatusWaitingForApproval, StatusBlocked} \<or>
   st \<in> {StatusAssigned, StatusRunning, StatusWaitingForChildren}"
  by (cases st) auto

lemma graph_ids_frame:
  assumes "map (\<lambda>t. (t_ID t, t_RootTaskID t)) (tasks s') = map (\<lambda>t. (t_ID t, t_RootTaskID t)) (tasks s)"
  shows "graph_ids root s' = graph_ids root s"
proof -
  have "graph_ids root s = map fst (filter (\<lambda>p. snd p = root) (map (\<lambda>t. (t_ID t, t_RootTaskID t)) (tasks s)))" for s
    by (simp add: graph_ids_def filter_map comp_def)
  with assms show ?thesis by simp
qed

text \<open>
  A cancellation reaches the whole graph in one commit: afterwards every task of the graph has
  ended or is asked to stop, no approval of the graph is pending, and the tasks of other graphs are
  as they were.
\<close>

theorem cancel_graph_stops:
  assumes "requestTaskGraphCancellation i audit w = (Inr (t, nodes), w')" and "find_task i (db w) = Some sel"
  shows "(\<forall>u\<in>set (tasks (db w')). t_RootTaskID u = t_RootTaskID sel \<longrightarrow>
       Terminal (t_Status u) \<or> t_Status u = StatusCancelRequested) \<and>
    (\<forall>a\<in>set (approvals (db w')). ap_TaskID a \<in> set (graph_ids (t_RootTaskID sel) (db w')) \<longrightarrow>
       ap_Status a \<noteq> ApprovalPending) \<and>
    (\<forall>u\<in>set (tasks (db w)). t_RootTaskID u \<noteq> t_RootTaskID sel \<longrightarrow> u \<in> set (tasks (db w'))) \<and>
    nodes = graph_ids (t_RootTaskID sel) (db w')"
proof -
  let ?root = "t_RootTaskID sel"
  from cancel_InrD [OF assms] obtain now n1 n2 n3 s1 s2 s3 where eq: "nodes = graph_ids ?root (db w)"
    and s1: "cancel_waiting ?root now (db w) = (n1, s1)" and s2: "cancel_running ?root s1 = (n2, s2)"
    and s3: "deny_pending ?root now s2 = (n3, s3)" and w': "same_work s3 (db w')" by blast
  note rows = cancelled_rows [OF s1 s2]
  have ts: "tasks (db w') = tasks s2" and ap: "approvals (db w') = approvals s3"
    using w' s3 by (auto simp: same_work_def deny_pending_def update_approvals_def)
  have ids: "graph_ids ?root s2 = graph_ids ?root (db w)"
    by (rule graph_ids_frame) (simp add: rows)
  moreover have "graph_ids ?root (db w') = graph_ids ?root s2" by (simp add: graph_ids_def ts)
  moreover have "ap_Status a \<noteq> ApprovalPending" if "a \<in> set (approvals s3)" "ap_TaskID a \<in> set (graph_ids ?root s2)" for a
    using that s3 by (auto simp: deny_pending_def update_approvals_def set_upd_rows set_approval_cancelled_def split: if_splits)
  moreover have "Terminal (t_Status u) \<or> t_Status u = StatusCancelRequested"
    if "u \<in> set (tasks s2)" "t_RootTaskID u = ?root" for u
    using that status_cases unfolding rows by (auto split: if_splits)
  moreover have "u \<in> set (tasks s2)" if "u \<in> set (tasks (db w))" "t_RootTaskID u \<noteq> ?root" for u
    using that unfolding rows by force
  ultimately show ?thesis using eq ts ap by simp
qed

subsection \<open>Concrete runs\<close>

definition crashed_store :: store where
  "crashed_store = empty_store\<lparr>
     tasks := [(sample_task ''s'')\<lparr>t_TaskType := ''shell'', t_Status := StatusRunning, t_MaxRetries := 0\<rparr>,
       (sample_task ''a'')\<lparr>t_Status := StatusRunning\<rparr>,
       (sample_task ''b'')\<lparr>t_Status := StatusCancelRequested\<rparr>],
     tool_invocations := [\<lparr>in_ID = ''i'', in_TaskID = ''s'', in_ToolName = ''shell'', in_Input = ''{}'',
       in_Risk = RiskStateChanging, in_Status = ''STARTED'', in_StartedAt = Some sample_time,
       in_FinishedAt = None, in_ExitCode = None, in_Output = [], in_Error = [],
       in_CorrelationID = ''i'', in_IdempotencyKey = ''i''\<rparr>]\<rparr>"

lemma crashed_run: "\<not> isl (fst (RecoverInterruptedTasks (sample_world crashed_store)))"
  by code_simp

theorem recovery_refines_witness:
  "\<exists>now. list_all2 scrubbed_row (map (recover_row (started_invocation crashed_store) now) (tasks crashed_store))
     (tasks (db (snd (RecoverInterruptedTasks (sample_world crashed_store)))))"
  using recovery_refines [OF run_Inr [OF crashed_run]] by simp

end
