(* ===== verification/Approval_Store.thy ===== *)
theory Approval_Store
  imports Task_Records
begin

text \<open>
  \<open>core/persistence/approvals.go\<close>, and from \<open>core/persistence/tasks.go\<close> the creation of a task
  together with its approval: the single-use decision that releases a waiting task, its expiry,
  and the repair of a task whose approval row is missing.
\<close>

subsection \<open>Reading and inserting\<close>

definition insertApproval :: "Approval \<Rightarrow> unit db_op" where
  "insertApproval approval = insert_stmt (insert_approval_row approval)"

definition CreateApproval :: "Approval \<Rightarrow> unit db_op" where
  "CreateApproval approval = insertApproval approval"

definition GetApproval :: "string \<Rightarrow> Approval db_op" where
  "GetApproval i = query_row (find_approval i)"

definition first_row :: "'a list \<Rightarrow> 'a option" where
  "first_row xs = (case xs of [] \<Rightarrow> None | x # _ \<Rightarrow> Some x)"

definition GetApprovalByTask :: "string \<Rightarrow> Approval db_op" where
  "GetApprovalByTask taskID = query_row (\<lambda>s. first_row (sort_key_desc (formatTime \<circ> ap_RequestedAt)
     (filter (\<lambda>a. ap_TaskID a = taskID) (approvals s))))"

definition ListApprovals :: "bool \<Rightarrow> int \<Rightarrow> Approval list db_op" where
  "ListApprovals pendingOnly limit = query (\<lambda>s. take (clampLimit limit)
     (sort_key_desc (formatTime \<circ> ap_RequestedAt)
       (filter (\<lambda>a. pendingOnly \<longrightarrow> ap_Status a = ApprovalPending) (approvals s))))"

definition ListApprovalsForTaskGraph :: "string \<Rightarrow> Approval list db_op" where
  "ListApprovalsForTaskGraph rootTaskID = query (\<lambda>s. sort_key (formatTime \<circ> ap_RequestedAt)
     (filter (\<lambda>a. ap_TaskID a \<in> set (graph_ids rootTaskID s)) (approvals s)))"

subsection \<open>A task with its approval\<close>

definition tool_risk_details :: "Approval \<Rightarrow> json" where
  "tool_risk_details approval =
     JObj [(''risk'', JStr (risk_text (ap_Risk approval))), (''tool'', JStr (ap_ToolName approval))]"

definition approvalRequestedAudit :: "Task \<Rightarrow> Approval \<Rightarrow> AuditEntry db_op" where
  "approvalRequestedAudit task approval =
     tx_bind tx_uuid (\<lambda>i.
     tx_bind tx_now (\<lambda>now.
     tx_return (empty_audit\<lparr>au_ID := i, au_OccurredAt := now, au_ActorKind := ''policy'',
       au_ActorID := ''core'', au_Action := ''approval.requested'', au_ResourceKind := ''approval'',
       au_ResourceID := ap_ID approval, au_Decision := ''REQUIRE_APPROVAL'',
       au_Details := Some (tool_risk_details approval), au_CorrelationID := t_CorrelationID task,
       au_TaskID := t_ID task, au_ConversationID := t_ConversationID task\<rparr>)))"

definition approvalForExistingTask :: "Task \<Rightarrow> Approval option \<Rightarrow> Approval option db_op" where
  "approvalForExistingTask task requested = (case requested of
     None \<Rightarrow> tx_return None
   | Some req \<Rightarrow>
       tx_bind (attempt (GetApprovalByTask (t_ID task))) (\<lambda>r. case r of
         Inr existing \<Rightarrow> tx_return (Some existing)
       | Inl e \<Rightarrow>
           if e \<noteq> ErrNotFound then tx_throw e
           else if t_Status task \<noteq> StatusWaitingForApproval then tx_return None
           else if length (t_AllowedTools task) \<noteq> 1 \<or> ap_ToolName req \<noteq> hd (t_AllowedTools task) \<or>
             ap_ToolArguments req \<noteq> t_Input task then tx_throw ErrConflict
           else let repaired = req\<lparr>ap_ID := ''approval:'' @ t_ID task, ap_TaskID := t_ID task,
                  ap_CorrelationID := t_CorrelationID task, ap_ToolArguments := t_Input task\<rparr> in
             with_tx (
               tx_bind (insertApproval repaired) (\<lambda>_.
               tx_bind (approvalRequestedAudit task repaired) (\<lambda>entry.
               tx_bind (insertAuditEntry entry) (\<lambda>_.
               tx_return (Some repaired)))))))"

definition with_task_identity :: "Task \<Rightarrow> Approval \<Rightarrow> Approval" where
  "with_task_identity task a = a\<lparr>ap_TaskID := t_ID task,
     ap_ID := (if ap_ID a = [] then ''approval:'' @ t_ID task else ap_ID a)\<rparr>"

text \<open>
  The inner sum tells a failed \<open>insertTask\<close>, after which the code rolls back and looks for an
  existing task, from the errors it returns.
\<close>

definition CreateTaskWithApproval :: "Task \<Rightarrow> Approval option \<Rightarrow> (Task \<times> Approval option \<times> bool) db_op" where
  "CreateTaskWithApproval task requested =
     tx_bind (attempt (GetTaskByIdempotencyKey (t_IdempotencyKey task))) (\<lambda>r. case r of
       Inr existing \<Rightarrow>
         tx_bind (approvalForExistingTask existing requested) (\<lambda>approval.
         tx_return (existing, approval, True))
     | Inl e \<Rightarrow> if e \<noteq> ErrNotFound then tx_throw e
         else tx_bind (run_tx (
           tx_bind (attempt (insertTask task)) (\<lambda>ins. case ins of
             Inl e \<Rightarrow> tx_return (Abandon (Inl e))
           | Inr _ \<Rightarrow> (case requested of
               None \<Rightarrow> tx_return (Commit (Inr None))
             | Some req \<Rightarrow>
                 let approval = with_task_identity task req in
                 tx_bind (insertApproval approval) (\<lambda>_.
                 tx_bind (approvalRequestedAudit task approval) (\<lambda>entry.
                 tx_bind (insertAuditEntry entry) (\<lambda>_.
                 tx_return (Commit (Inr (Some approval)))))))))) (\<lambda>outcome. case outcome of
             Inr approval \<Rightarrow> tx_return (task, approval, False)
           | Inl e \<Rightarrow> tx_bind (attempt (GetTaskByIdempotencyKey (t_IdempotencyKey task))) (\<lambda>l. case l of
               Inl _ \<Rightarrow> tx_throw e
             | Inr existing \<Rightarrow>
                 tx_bind (approvalForExistingTask existing requested) (\<lambda>approval.
                 tx_return (existing, approval, True)))))"

subsection \<open>Deciding\<close>

text \<open>\<open>strings.Cut(decidedBy, ":")\<close>\<close>

definition actor_of :: "string \<Rightarrow> string \<times> string" where
  "actor_of decidedBy =
     (let kind = takeWhile (\<lambda>c. c \<noteq> CHR '':'') decidedBy;
          rest = dropWhile (\<lambda>c. c \<noteq> CHR '':'') decidedBy
      in if rest \<noteq> [] \<and> kind \<noteq> [] \<and> tl rest \<noteq> [] then (kind, tl rest) else (''principal'', decidedBy))"

definition approvalDecisionAudit :: "Approval \<Rightarrow> Task \<Rightarrow> string \<Rightarrow> string \<Rightarrow> time \<Rightarrow> AuditEntry db_op" where
  "approvalDecisionAudit approval task decidedBy decision now =
     tx_bind tx_uuid (\<lambda>i.
     tx_return (empty_audit\<lparr>au_ID := i, au_OccurredAt := now, au_ActorKind := fst (actor_of decidedBy),
       au_ActorID := snd (actor_of decidedBy), au_Action := ''approval.decide'',
       au_ResourceKind := ''approval'', au_ResourceID := ap_ID approval, au_Decision := decision,
       au_Details := Some (tool_risk_details approval), au_CorrelationID := ap_CorrelationID approval,
       au_TaskID := t_ID task, au_ConversationID := t_ConversationID task\<rparr>))"

definition optionalConsumed :: "time \<Rightarrow> bool \<Rightarrow> time option" where
  "optionalConsumed now consumed = (if \<not> consumed then None else Some now)"

definition set_approval_expired :: "time \<Rightarrow> Approval \<Rightarrow> Approval" where
  "set_approval_expired now a = a\<lparr>ap_Status := ApprovalExpired, ap_DecidedAt := Some now\<rparr>"

definition set_approval_decided :: "ApprovalStatus \<Rightarrow> time \<Rightarrow> string \<Rightarrow> time option \<Rightarrow> Approval \<Rightarrow> Approval" where
  "set_approval_decided status now decidedBy consumedAt a = a\<lparr>ap_Status := status,
     ap_DecidedAt := Some now, ap_DecidedBy := decidedBy, ap_ConsumedAt := consumedAt\<rparr>"

definition pending_approval :: "string \<Rightarrow> store \<Rightarrow> Approval \<Rightarrow> bool" where
  "pending_approval i s a \<longleftrightarrow> ap_ID a = i \<and> ap_Status a = ApprovalPending"

definition waiting_task :: "string \<Rightarrow> store \<Rightarrow> Task \<Rightarrow> bool" where
  "waiting_task i s t \<longleftrightarrow> t_ID t = i \<and> t_Status t = StatusWaitingForApproval"

definition expire_decision :: "Approval \<Rightarrow> string \<Rightarrow> time \<Rightarrow> Task db_op" where
  "expire_decision approval decidedBy now =
     tx_bind (execute (update_approvals (pending_approval (ap_ID approval)) (set_approval_expired now))) (\<lambda>_.
     tx_bind (execute (update_tasks (waiting_task (ap_TaskID approval))
       (set_fail StatusTimedOut ''approval expired'' now))) (\<lambda>_.
     tx_bind (query_row (find_task (ap_TaskID approval))) (\<lambda>task.
     tx_bind (approvalDecisionAudit approval task decidedBy ''EXPIRED'' now) (\<lambda>entry.
     tx_bind (insertAuditEntry entry) (\<lambda>_.
     tx_return task)))))"

definition apply_decision :: "Approval \<Rightarrow> string \<Rightarrow> bool \<Rightarrow> time \<Rightarrow> unit db_op" where
  "apply_decision approval decidedBy approved now =
     tx_bind (execute (update_approvals (pending_approval (ap_ID approval))
       (set_approval_decided (if approved then ApprovalConsumed else ApprovalDenied) now decidedBy
         (optionalConsumed now approved)))) (\<lambda>changed.
     tx_bind (require (changed = 1) ErrConflict) (\<lambda>_.
     tx_bind (execute (update_tasks (waiting_task (ap_TaskID approval))
       (set_decided (if approved then StatusQueued else StatusCancelled)
         (if approved then None else Some now)))) (\<lambda>changed2.
     tx_bind (require (changed2 = 1) ErrConflict) (\<lambda>_.
     tx_bind (query_row (find_task (ap_TaskID approval))) (\<lambda>updatedTask.
     tx_bind (approvalDecisionAudit approval updatedTask decidedBy
       (if approved then ''ALLOW'' else ''DENY'') now) (\<lambda>entry.
     insertAuditEntry entry))))))"

text \<open>
  The transaction returns the approval and, when it had expired, the timed-out task: that branch
  commits, scrubs and then reports \<open>ErrExpired\<close>.
\<close>

definition decide_tx :: "string \<Rightarrow> string \<Rightarrow> bool \<Rightarrow> time \<Rightarrow> (Approval \<times> Task option) db_op" where
  "decide_tx i decidedBy approved now =
     tx_bind (query_row (find_approval i)) (\<lambda>approval.
     tx_bind (require (ap_Status approval = ApprovalPending) ErrConflict) (\<lambda>_.
     if \<not> now < ap_ExpiresAt approval
     then tx_bind (expire_decision approval decidedBy now) (\<lambda>task. tx_return (approval, Some task))
     else tx_bind (apply_decision approval decidedBy approved now) (\<lambda>_. tx_return (approval, None))))"

definition decided_rows :: "string \<Rightarrow> string \<Rightarrow> bool \<Rightarrow> (Approval \<times> Task) db_op" where
  "decided_rows i taskID approved =
     tx_bind (GetApproval i) (\<lambda>updatedApproval.
     tx_bind (GetTask taskID) (\<lambda>updatedTask.
     tx_bind (tx_when (\<not> approved)
       (tx_bind (attempt (ScrubTerminalTaskGraph (t_RootTaskID updatedTask))) (\<lambda>_. tx_return ()))) (\<lambda>_.
     tx_return (updatedApproval, updatedTask))))"

definition after_decision :: "string \<Rightarrow> bool \<Rightarrow> Approval \<times> Task option \<Rightarrow> (Approval \<times> Task) db_op" where
  "after_decision i approved r = (case r of
     (_, Some task) \<Rightarrow>
       tx_bind (attempt (ScrubTerminalTaskGraph (t_RootTaskID task))) (\<lambda>_. tx_throw ErrExpired)
   | (approval, None) \<Rightarrow> decided_rows i (ap_TaskID approval) approved)"

definition DecideApproval :: "string \<Rightarrow> string \<Rightarrow> bool \<Rightarrow> (Approval \<times> Task) db_op" where
  "DecideApproval i decidedBy approved =
     tx_bind tx_now (\<lambda>now.
     tx_bind (with_tx (decide_tx i decidedBy approved now)) (after_decision i approved))"

subsection \<open>Expiring\<close>

record ApprovalTaskChange =
  atc_Approval :: Approval
  atc_Task :: Task

text \<open>\<open>status = ? AND expires_at <= ?\<close>: a comparison of two texts.\<close>

definition expiry_due :: "time \<Rightarrow> Approval \<Rightarrow> bool" where
  "expiry_due now a \<longleftrightarrow> ap_Status a = ApprovalPending \<and> formatTime (ap_ExpiresAt a) \<le> formatTime now"

definition expire_one :: "time \<Rightarrow> Approval \<Rightarrow> unit db_op" where
  "expire_one now approval =
     tx_bind (execute (update_tasks (waiting_task (ap_TaskID approval))
       (set_fail StatusTimedOut ''approval expired'' now))) (\<lambda>_.
     tx_bind (query_row (find_task (ap_TaskID approval))) (\<lambda>task.
     tx_bind tx_now (\<lambda>at.
     tx_bind (approvalDecisionAudit approval task ''policy:core'' ''EXPIRED'' at) (\<lambda>entry.
     insertAuditEntry entry))))"

fun expired_changes :: "Approval list \<Rightarrow> ApprovalTaskChange list db_op" where
  "expired_changes [] = tx_return []"
| "expired_changes (expired # rest) =
     tx_bind (attempt (GetTask (ap_TaskID expired))) (\<lambda>r. case r of
       Inl _ \<Rightarrow> expired_changes rest
     | Inr task \<Rightarrow>
         tx_bind (attempt (ScrubTerminalTaskGraph (t_RootTaskID task))) (\<lambda>_.
         tx_bind (attempt (GetApproval (ap_ID expired))) (\<lambda>l.
         tx_bind (expired_changes rest) (\<lambda>changes.
         tx_return (case l of Inl _ \<Rightarrow> changes
           | Inr approval \<Rightarrow> \<lparr>atc_Approval = approval, atc_Task = task\<rparr> # changes)))))"

definition ExpireApprovals :: "ApprovalTaskChange list db_op" where
  "ExpireApprovals =
     tx_bind tx_now (\<lambda>now.
     tx_bind (with_tx (
       tx_bind (query (\<lambda>s. filter (expiry_due now) (approvals s))) (\<lambda>expiring.
       tx_bind (execute (update_approvals (\<lambda>_. expiry_due now) (set_approval_expired now))) (\<lambda>_.
       tx_bind (for_each expiring (expire_one now)) (\<lambda>_.
       tx_return expiring)))))
     expired_changes)"

subsection \<open>How these operations evolve the store\<close>

lemma keeps_insertApproval: "keeps (evolves L) (insertApproval a)"
  unfolding insertApproval_def by (rule keeps_inserts)

lemma keeps_GetApproval: "keeps (evolves L) (GetApproval i)" "keeps (evolves L) (GetApprovalByTask j)"
  unfolding GetApproval_def GetApprovalByTask_def by (rule keeps_rules)+

lemma keeps_approval_audits:
  "keeps (evolves L) (approvalRequestedAudit t a)" "keeps (evolves L) (approvalDecisionAudit a t b c n)"
  unfolding approvalRequestedAudit_def approvalDecisionAudit_def by (intro keeps_rules)+

lemmas keeps_approval_parts = keeps_insertApproval keeps_GetApproval keeps_approval_audits
  keeps_records keeps_dialog

lemma keeps_approvalForExistingTask: "keeps (evolves L) (approvalForExistingTask t r)"
  unfolding approvalForExistingTask_def by (intro keeps_rules keeps_approval_parts)

lemma keeps_CreateTaskWithApproval: "keeps (evolves L) (CreateTaskWithApproval t r)"
  unfolding CreateTaskWithApproval_def
  by (intro keeps_rules keeps_approval_parts keeps_approvalForExistingTask)

lemma keeps_expire_updates:
  assumes "LExpire \<in> L"
  shows "keeps (evolves L) (execute (update_tasks (waiting_task i) (set_fail StatusTimedOut ''approval expired'' now)))"
    and "keeps (evolves L) (execute (update_approvals (pending_approval j) (set_approval_expired now)))"
    and "keeps (evolves L) (execute (update_approvals (\<lambda>_. expiry_due now) (set_approval_expired now)))"
  using assms
  by (auto intro!: keeps_updates row_steps_single row_step.expire simp: waiting_task_def pending_approval_def
      expiry_due_def approval_evolves_def set_approval_expired_def)

lemma keeps_apply_decision:
  assumes "p \<Longrightarrow> LApprove \<in> L" and "\<not> p \<Longrightarrow> LDeny \<in> L"
  shows "keeps (evolves L) (apply_decision a b p n)"
  unfolding apply_decision_def
  by (intro keeps_rules keeps_approval_parts; cases p)
     (auto intro: row_steps_single [OF assms(1)] row_steps_single [OF assms(2)] row_step.approve row_step.deny
        simp: waiting_task_def pending_approval_def approval_evolves_def set_approval_decided_def)

lemma keeps_expire_decision: "LExpire \<in> L \<Longrightarrow> keeps (evolves L) (expire_decision a b n)"
  unfolding expire_decision_def
  by (intro keeps_expire_updates keeps_rules keeps_approval_parts)

lemma keeps_decided_rows: "LScrub \<in> L \<Longrightarrow> keeps (evolves L) (decided_rows i j b)"
  unfolding decided_rows_def
  by (intro keeps_rules keeps_approval_parts keeps_ScrubTerminalTaskGraph)

lemma keeps_after_decision: "LScrub \<in> L \<Longrightarrow> keeps (evolves L) (after_decision i b r)"
  unfolding after_decision_def
  by (intro keeps_rules keeps_decided_rows keeps_ScrubTerminalTaskGraph)

lemma keeps_DecideApproval:
  assumes "p \<Longrightarrow> LApprove \<in> L" and "{LDeny, LExpire, LScrub} \<subseteq> L"
  shows "keeps (evolves L) (DecideApproval i b p)"
  using assms unfolding DecideApproval_def decide_tx_def
  by (intro keeps_rules keeps_apply_decision keeps_expire_decision keeps_after_decision) auto

lemma keeps_expired_changes: "LScrub \<in> L \<Longrightarrow> keeps (evolves L) (expired_changes xs)"
  by (induction xs)
     (simp_all, (intro keeps_rules keeps_approval_parts keeps_ScrubTerminalTaskGraph)+)

lemma keeps_ExpireApprovals:
  assumes "{LExpire, LScrub} \<subseteq> L"
  shows "keeps (evolves L) ExpireApprovals"
  using assms unfolding ExpireApprovals_def expire_one_def
  by (intro keeps_expire_updates keeps_rules keeps_approval_parts keeps_expired_changes) auto

subsection \<open>The single-use decision\<close>

lemma update_one_approval:
  assumes "wf_store s" and "update_approvals (pending_approval i) f s = (1, s')"
    and "\<And>a. ap_ID (f a) = ap_ID a"
  shows "\<exists>a. find_approval i s = Some a \<and> ap_Status a = ApprovalPending \<and> find_approval i s' = Some (f a)"
proof -
  from assms(2) have "count_rows (pending_approval i s) (approvals s) \<noteq> 0"
    and s': "s' = s\<lparr>approvals := upd_rows (pending_approval i s) f (approvals s)\<rparr>"
    by (auto simp: update_approvals_def)
  then obtain a where a: "a \<in> set (approvals s)" "ap_ID a = i" "ap_Status a = ApprovalPending"
    by (auto simp: count_rows_eq_0 pending_approval_def)
  from assms(1) have "distinct (map ap_ID (approvals s))" by (simp add: wf_store_def wf_approvals_def)
  from find_distinct [OF this a(1)] a(2) have f: "find_approval i s = Some a"
    by (simp add: find_approval_def)
  then have "find_approval i s' = Some (f a)"
    using a assms(3) by (simp add: find_approval_def s' find_upd_rows pending_approval_def)
  with f a show ?thesis by blast
qed

lemma approvalDecisionAudit_db: "approvalDecisionAudit a t b c n w = (r, w') \<Longrightarrow> db w' = db w"
  by (auto simp: approvalDecisionAudit_def tx_eval)

lemma apply_decision_InrD:
  assumes "wf_store (db w)" and "apply_decision approval by ok now w = (Inr u, w')"
  shows "\<exists>a t. find_approval (ap_ID approval) (db w) = Some a \<and> ap_Status a = ApprovalPending \<and>
    find_approval (ap_ID approval) (db w') = Some (set_approval_decided
      (if ok then ApprovalConsumed else ApprovalDenied) now by (optionalConsumed now ok) a) \<and>
    find_task (ap_TaskID approval) (db w) = Some t \<and> t_Status t = StatusWaitingForApproval \<and>
    find_task (ap_TaskID approval) (db w') = Some (set_decided
      (if ok then StatusQueued else StatusCancelled) (if ok then None else Some now) t)"
proof -
  let ?f = "set_approval_decided (if ok then ApprovalConsumed else ApprovalDenied) now by (optionalConsumed now ok)"
  let ?g = "set_decided (if ok then StatusQueued else StatusCancelled) (if ok then None else Some now)"
  from assms(2) obtain s1 s2 w3 e where
    ap: "update_approvals (pending_approval (ap_ID approval)) ?f (db w) = (1, s1)" and
    tk: "update_tasks (waiting_task (ap_TaskID approval)) ?g s1 = (1, s2)" and
    au: "db w3 = s2" "insertAuditEntry e w3 = (Inr (), w')"
    unfolding apply_decision_def
    by (clarsimp simp: tx_simps) (auto dest!: tx_dests approvalDecisionAudit_db)
  from update_one_approval [OF assms(1) ap] obtain a where
    a: "find_approval (ap_ID approval) (db w) = Some a" "ap_Status a = ApprovalPending"
      "find_approval (ap_ID approval) s1 = Some (?f a)"
    by (auto simp: set_approval_decided_def)
  have "evolves UNIV (db w) s1"
    using ap evolves_upd_approvals [of "pending_approval (ap_ID approval)" "db w" ?f UNIV]
    by (auto simp: pending_approval_def approval_evolves_def set_approval_decided_def)
  then have wf1: "wf_store s1" using assms(1) by (simp add: evolves_def)
  from ap have t1: "tasks s1 = tasks (db w)" by (auto simp: update_approvals_def)
  from update_one_task [OF wf1 tk [unfolded waiting_task_def [abs_def]]] obtain t where
    t: "find_task (ap_TaskID approval) (db w) = Some t" "t_Status t = StatusWaitingForApproval"
      "s2 = put_task (ap_TaskID approval) ?g s1"
    by (auto simp: find_task_def t1)
  have "find_task (ap_TaskID approval) s2 = Some (?g t)"
    using t by (simp add: find_put_task set_decided_def) (simp add: find_task_def t1)
  moreover have "tasks (db w') = tasks s2" "approvals (db w') = approvals s2"
    using au by (auto simp: insertAuditEntry_def tx_simps dest!: tx_dests)
  moreover have "approvals s2 = approvals s1" by (simp add: t(3) put_task_def)
  ultimately show ?thesis using a t by (auto simp: find_task_def find_approval_def)
qed

text \<open>The scrub that may follow a decision keeps every task status and every closed approval.\<close>

lemma row_steps_scrub: "row_steps {LScrub} t u \<Longrightarrow> t_Status u = t_Status t"
  by (erule row_steps_rel) (auto elim: row_stepE simp: set_scrubbed_def)

lemma scrub_keeps_status:
  assumes "evolves {LScrub} s s'" and "find_task i s = Some t"
  shows "\<exists>u. find_task i s' = Some u \<and> t_Status u = t_Status t"
  using evolves_find_task [OF assms] row_steps_scrub by blast

lemma closed_approval_stays:
  assumes "evolves L s s'" and "find_approval i s = Some a" and "ap_Status a \<noteq> ApprovalPending"
  shows "\<exists>b. find_approval i s' = Some b \<and> ap_Status b = ap_Status a"
  using evolves_find_approval [OF assms(1,2)] assms(3) by (auto simp: approval_evolves_def)

lemma find_approval_ID: "find_approval i s = Some a \<Longrightarrow> ap_ID a = i \<and> a \<in> set (approvals s)"
  by (auto simp: find_approval_def dest: find_SomeD)

lemma decide_tx_InrD:
  assumes "decide_tx i decidedBy ok now w = (Inr (a, None), w')"
  shows "find_approval i (db w) = Some a \<and> ap_Status a = ApprovalPending \<and> now < ap_ExpiresAt a \<and>
    (\<exists>w2. db w2 = db w \<and> apply_decision a decidedBy ok now w2 = (Inr (), w'))"
  using assms unfolding decide_tx_def
  by (auto simp: tx_simps split: if_splits dest!: query_row_InrD)

lemma decide_InrD:
  assumes "wf_store (db w)" and "DecideApproval i decidedBy ok w = (Inr (a, t), w')"
  shows "\<exists>a0 t0 a1 t1. find_approval i (db w) = Some a0 \<and> ap_Status a0 = ApprovalPending \<and>
    clock w (ticks w) < ap_ExpiresAt a0 \<and>
    find_task (ap_TaskID a0) (db w) = Some t0 \<and> t_Status t0 = StatusWaitingForApproval \<and>
    find_approval i (db w') = Some a1 \<and> ap_Status a1 = (if ok then ApprovalConsumed else ApprovalDenied) \<and>
    find_task (ap_TaskID a0) (db w') = Some t1 \<and> t_Status t1 = (if ok then StatusQueued else StatusCancelled)"
proof -
  define now where "now = clock w (ticks w)"
  from assms(2) obtain w0 r w4 where
    tx: "with_tx (decide_tx i decidedBy ok now) w0 = (Inr r, w4)" "db w0 = db w"
    and rest: "after_decision i ok r w4 = (Inr (a, t), w')"
    unfolding DecideApproval_def tx_bind_Inr now_def using tx_now_InrD by blast
  from rest obtain a0 where r: "r = (a0, None)"
    by (cases r) (auto simp: after_decision_def tx_simps split: option.splits)
  from tx r obtain w2 w3 where
    a0: "find_approval i (db w) = Some a0" "ap_Status a0 = ApprovalPending" "now < ap_ExpiresAt a0"
    and ap: "db w2 = db w" "apply_decision a0 decidedBy ok now w2 = (Inr (), w3)" "db w4 = db w3"
    by (elim with_tx_InrE) (auto dest: decide_tx_InrD)
  from keepsD [OF keeps_after_decision rest, of "{LScrub}"] ap(3)
  have ev: "evolves {LScrub} (db w3) (db w')" by simp
  from assms(1) ap(1) have "wf_store (db w2)" by simp
  from apply_decision_InrD [OF this ap(2)] find_approval_ID [OF a0(1)] ap(1) obtain a2 t2 where
    "find_task (ap_TaskID a0) (db w) = Some t2" "t_Status t2 = StatusWaitingForApproval"
    "find_approval i (db w3) = Some (set_approval_decided (if ok then ApprovalConsumed else ApprovalDenied)
       now decidedBy (optionalConsumed now ok) a2)"
    "find_task (ap_TaskID a0) (db w3) = Some (set_decided (if ok then StatusQueued else StatusCancelled)
       (if ok then None else Some now) t2)"
    by auto
  with scrub_keeps_status [OF ev, of "ap_TaskID a0"] closed_approval_stays [OF ev, of i] a0 now_def
  show ?thesis by (fastforce simp: set_decided_def set_approval_decided_def)
qed

text \<open>
  A decision is accepted only for a pending, unexpired approval whose task waits for it, and it
  is final for both: approving consumes the approval and queues the task, denying closes the
  approval and cancels the task.
\<close>

theorem decide_releases:
  assumes "wf_store (db w)" and "DecideApproval i decidedBy ok w = (Inr (a, t), w')"
  shows "\<exists>a0 t0 a1 t1. find_approval i (db w) = Some a0 \<and> ap_Status a0 = ApprovalPending \<and>
    clock w (ticks w) < ap_ExpiresAt a0 \<and>
    find_task (ap_TaskID a0) (db w) = Some t0 \<and> t_Status t0 = StatusWaitingForApproval \<and>
    find_approval i (db w') = Some a1 \<and> ap_Status a1 = (if ok then ApprovalConsumed else ApprovalDenied) \<and>
    find_task (ap_TaskID a0) (db w') = Some t1 \<and> t_Status t1 = (if ok then StatusQueued else StatusCancelled)"
  using assms by (rule decide_InrD)

text \<open>An approval that a decision was accepted for accepts no other.\<close>

lemma decide_closed:
  assumes "wf_store (db w)" and "DecideApproval i decidedBy ok w = (Inr (a, t), w1)"
    and "evolves UNIV (db w1) (db w2)"
  shows "fst (DecideApproval i decidedBy' ok' w2) \<noteq> Inr (b, u)"
proof
  assume "fst (DecideApproval i decidedBy' ok' w2) = Inr (b, u)"
  then obtain w3 where again: "DecideApproval i decidedBy' ok' w2 = (Inr (b, u), w3)"
    by (metis prod.collapse)
  from decide_InrD [OF assms(1,2)] obtain a1 where
    "find_approval i (db w1) = Some a1" "ap_Status a1 \<noteq> ApprovalPending" by (auto split: if_splits)
  with closed_approval_stays [OF assms(3)] have "\<exists>b. find_approval i (db w2) = Some b \<and> ap_Status b \<noteq> ApprovalPending"
    by fastforce
  moreover have "evolves UNIV (db w) (db w1)" 
    by (rule keepsD [OF keeps_DecideApproval assms(2)]) auto
  with assms(1,3) have "wf_store (db w2)" by (simp add: evolves_def)
  ultimately show False using decide_InrD [OF _ again] by auto
qed

subsection \<open>The gate in front of shell tasks\<close>

text \<open>Task \<open>j\<close>, once closed, is closed: the relation every statement but the approval of \<open>j\<close> keeps.\<close>

definition gated :: "string \<Rightarrow> store \<Rightarrow> store \<Rightarrow> bool" where
  "gated j s s' \<longleftrightarrow> (\<forall>t. find_task j s = Some t \<and> shell_closed t \<longrightarrow>
     (\<exists>t'. find_task j s' = Some t' \<and> shell_closed t'))"

interpretation gate: store_relation "gated j" for j
  by unfold_locales (auto simp: gated_def)

lemma evolves_gated: "evolves L s s' \<Longrightarrow> LApprove \<notin> L \<Longrightarrow> gated j s s'"
  unfolding gated_def using evolves_find_task row_steps_shell by blast

lemma find_task_frame: "tasks s' = tasks s \<Longrightarrow> find_task j s' = find_task j s"
  by (simp add: find_task_def)

lemma gated_other_task:
  assumes "k \<noteq> j" and "\<And>t. t_ID (f t) = t_ID t"
  shows "gated j s (snd (update_tasks (waiting_task k) f s))"
proof -
  have "find_task j (snd (update_tasks (waiting_task k) f s)) =
    map_option (\<lambda>t. if waiting_task k s t then f t else t) (find_task j s)"
    unfolding find_task_def update_tasks_def using assms(2) by (simp add: find_upd_rows)
  then show ?thesis
    using assms(1) by (auto simp: gated_def waiting_task_def dest: find_task_ID)
qed

lemma gated_frame: "tasks s' = tasks s \<Longrightarrow> gated j s s'"
  by (drule find_task_frame [of _ _ j]) (simp add: gated_def)

lemma gated_apply_decision:
  assumes "ap_TaskID a \<noteq> j"
  shows "keeps (gated j) (apply_decision a b p n)"
  unfolding apply_decision_def insertAuditEntry_def approvalDecisionAudit_def
  by (intro gate.keeps_prog gate.keeps_execute gate.keeps_insert gated_other_task [OF assms])
     (auto intro!: gated_frame simp: set_decided_def tx_simps)

text \<open>What the transaction of a decision does to a closed shell task.\<close>

lemma decide_tx_gate:
  assumes "wf_store (db w)" and "decide_tx i decidedBy ok now w = (Inr r, w')"
  shows "gated j (db w) (db w') \<or> (ok \<and> (\<exists>a t. find_approval i (db w) = Some a \<and>
    ap_Status a = ApprovalPending \<and> ap_TaskID a = j \<and> now < ap_ExpiresAt a \<and>
    find_task j (db w) = Some t \<and> t_Status t = StatusWaitingForApproval))"
proof (cases r)
  case (Pair a x)
  show ?thesis
  proof (cases x)
    case (Some task)
    with assms(2) Pair obtain w1 where "db w1 = db w" "expire_decision a decidedBy now w1 = (Inr task, w')"
      unfolding decide_tx_def by (auto simp: tx_simps split: if_splits dest!: query_row_InrD)
    with keepsD [OF keeps_expire_decision [of "{LExpire}"]] have "evolves {LExpire} (db w) (db w')" by fastforce
    then show ?thesis by (blast intro: evolves_gated)
  next
    case None
    from decide_tx_InrD [OF assms(2) [unfolded Pair None]] obtain w1 where
      a: "find_approval i (db w) = Some a" "ap_Status a = ApprovalPending" "now < ap_ExpiresAt a"
      and ap: "db w1 = db w" "apply_decision a decidedBy ok now w1 = (Inr (), w')" by auto
    from assms(1) ap(1) apply_decision_InrD [OF _ ap(2)]
    have t: "\<exists>t. find_task (ap_TaskID a) (db w) = Some t \<and> t_Status t = StatusWaitingForApproval" by auto
    have ev: "evolves {LDeny} (db w) (db w')" if "\<not> ok"
      using keepsD [OF keeps_apply_decision ap(2), of "{LDeny}"] that ap(1) by simp
    show ?thesis
    proof (cases "ok \<and> ap_TaskID a = j")
      case True
      with a t show ?thesis by blast
    next
      case False
      then show ?thesis
        using ev evolves_gated [of "{LDeny}"] keepsD [OF gated_apply_decision ap(2), of j] ap(1) by auto
    qed
  qed
qed

lemma decide_gate:
  assumes "wf_store (db w)" and "DecideApproval i decidedBy ok w = (res, w')"
    and j: "find_task j (db w) = Some t" "shell_closed t"
  shows "(\<exists>t'. find_task j (db w') = Some t' \<and> shell_closed t') \<or>
    (ok \<and> t_Status t = StatusWaitingForApproval \<and> (\<exists>a. find_approval i (db w) = Some a \<and>
      ap_Status a = ApprovalPending \<and> ap_TaskID a = j \<and> clock w (ticks w) < ap_ExpiresAt a))"
proof -
  define now where "now = clock w (ticks w)"
  let ?w0 = "w\<lparr>ticks := Suc (ticks w)\<rparr>"
  have goal: ?thesis if "gated j (db w) (db w')" using that j unfolding gated_def by blast
  obtain r w4 where tx: "with_tx (decide_tx i decidedBy ok now) ?w0 = (r, w4)" by fastforce
  show ?thesis
  proof (cases r)
    case (Inl e)
    with tx have "db w4 = db w" using with_tx_rollback by fastforce
    with assms(2) tx Inl show ?thesis
      by (intro goal) (auto simp: DecideApproval_def tx_bind_def tx_now_def now_def gate.R_refl)
  next
    case (Inr p)
    with assms(2) tx have "after_decision i ok p w4 = (res, w')"
      by (simp add: DecideApproval_def tx_bind_def tx_now_def now_def)
    from keepsD [OF keeps_after_decision this, of "{LScrub}"]
    have g4: "gated j (db w4) (db w')" by (auto intro: evolves_gated)
    from tx Inr obtain w2 w3 where b: "db w2 = db w" "decide_tx i decidedBy ok now w2 = (Inr p, w3)"
      "db w4 = db w3" by (auto elim: with_tx_InrE)
    from decide_tx_gate [OF _ b(2), of j] assms(1) b(1,3) show ?thesis
      using goal [OF gate.R_trans [OF _ g4]] j by (auto simp: now_def)
  qed
qed

subsection \<open>Concrete runs\<close>

definition waiting_store :: store where
  "waiting_store = empty_store\<lparr>
     tasks := [(sample_task ''a'')\<lparr>t_TaskType := ''shell'', t_Status := StatusWaitingForApproval,
       t_MaxRetries := 0\<rparr>],
     approvals := [sample_approval ''p'' ''a'']\<rparr>"


end
