(* ===== verification/Strconv.thy ===== *)
theory Strconv
  imports Utf8
begin

text \<open>
  What the code uses of \<open>strconv\<close> and of the verb \<open>%d\<close>: printing an integer in decimal, and
  \<open>ParseInt(text, 10, 64)\<close>, which accepts an optional sign and digits and refuses a value outside
  64 bits.
\<close>

function dec_digits :: "int \<Rightarrow> string" where
  "dec_digits n = (if n < 10 then [] else dec_digits (n div 10)) @ [char_of (nat (48 + n mod 10))]"
  by pat_completeness auto

termination by (relation "measure nat") auto

declare dec_digits.simps [simp del]

definition Itoa :: "int \<Rightarrow> string" where
  "Itoa i = (if i < 0 then CHR ''-'' # dec_digits (- i) else dec_digits i)"

definition dec_digit :: "char \<Rightarrow> bool" where
  "dec_digit c \<longleftrightarrow> 48 \<le> byte c \<and> byte c \<le> 57"

definition dec_value :: "string \<Rightarrow> int" where
  "dec_value s = foldl (\<lambda>acc c. acc * 10 + (int (byte c) - 48)) 0 s"

definition ParseUint :: "string \<Rightarrow> int option" where
  "ParseUint s = (if s \<noteq> [] \<and> list_all dec_digit s then Some (dec_value s) else None)"

definition ParseInt :: "string \<Rightarrow> int option" where
  "ParseInt s =
     (let neg = (case s of c # _ \<Rightarrow> c = CHR ''-'' | [] \<Rightarrow> False);
          body = (case s of c # r \<Rightarrow> if c = CHR ''-'' \<or> c = CHR ''+'' then r else s | [] \<Rightarrow> [])
      in case ParseUint body of
           None \<Rightarrow> None
         | Some n \<Rightarrow> if neg then (if n \<le> 2 ^ 63 then Some (- n) else None)
             else if n < 2 ^ 63 then Some n else None)"

subsection \<open>Round trip\<close>

lemma digit_byte: "byte (char_of (nat (48 + n mod 10))) = nat (48 + n mod 10)"
proof -
  have "nat (48 + n mod 10) < 256" using pos_mod_bound [of 10 n] by (simp add: nat_less_iff)
  then show ?thesis by (simp add: byte_def)
qed

lemma digit_ok: "dec_digit (char_of (nat (48 + n mod 10)))"
  using pos_mod_bound [of 10 n] pos_mod_sign [of 10 n] by (simp add: dec_digit_def digit_byte) linarith

lemma dec_digits_nonempty: "dec_digits n \<noteq> []"
  by (subst dec_digits.simps) simp

lemma dec_digits_digits: "list_all dec_digit (dec_digits n)"
proof (induction n rule: dec_digits.induct)
  case (1 n)
  then show ?case by (subst dec_digits.simps) (simp add: digit_ok)
qed

lemma dec_value_snoc: "dec_value (s @ [c]) = dec_value s * 10 + (int (byte c) - 48)"
  by (simp add: dec_value_def)

lemma dec_value_digits: "0 \<le> n \<Longrightarrow> dec_value (dec_digits n) = n"
proof (induction n rule: dec_digits.induct)
  case (1 n)
  have "dec_value [] = 0" by (simp add: dec_value_def)
  with 1 show ?case
    by (subst dec_digits.simps) (auto simp: dec_value_snoc digit_byte)
qed

lemma ParseUint_digits: "0 \<le> n \<Longrightarrow> ParseUint (dec_digits n) = Some n"
  by (simp add: ParseUint_def dec_digits_digits dec_digits_nonempty dec_value_digits)

lemma digits_no_sign: "dec_digits n = c # r \<Longrightarrow> c \<noteq> CHR ''-'' \<and> c \<noteq> CHR ''+''"
  using dec_digits_digits [of n] by (auto simp: dec_digit_def byte_def)

text \<open>The decimal text of every 64 bit integer is parsed back to it.\<close>

lemma ParseInt_Itoa:
  assumes "- (2 ^ 63) \<le> i" and "i < 2 ^ 63"
  shows "ParseInt (Itoa i) = Some i"
proof (cases "i < 0")
  case True
  with assms(1) show ?thesis by (simp add: ParseInt_def Itoa_def ParseUint_digits)
next
  case False
  obtain c r where cr: "dec_digits i = c # r" using dec_digits_nonempty by (metis neq_Nil_conv)
  with digits_no_sign have "c \<noteq> CHR ''-''" "c \<noteq> CHR ''+''" by auto
  moreover have "ParseUint (c # r) = Some i" using ParseUint_digits [of i] cr False by simp
  ultimately show ?thesis using False assms(2) cr by (simp add: ParseInt_def Itoa_def)
qed

end
