(* ===== verification/Json.thy ===== *)
theory Json
  imports Strconv
begin

text \<open>
  What the code uses of \<open>encoding/json\<close> when it reads: the scanner with its tokens, the nesting limit
  of 10000, strings with escapes and surrogate pairs, and the decoding of an object into the named
  fields of a Go struct.  The parser is a stack machine over the token list, so it needs no fuel.
\<close>

subsection \<open>Strings\<close>

definition hex_value :: "char \<Rightarrow> nat option" where
  "hex_value c = (let b = byte c in
     if 48 \<le> b \<and> b \<le> 57 then Some (b - 48)
     else if 97 \<le> b \<and> b \<le> 102 then Some (b - 87)
     else if 65 \<le> b \<and> b \<le> 70 then Some (b - 55) else None)"

fun get_u4 :: "string \<Rightarrow> nat option" where
  "get_u4 (a # u # h1 # h2 # h3 # h4 # _) =
     (if byte a = 92 \<and> u = CHR ''u'' then
        (case (hex_value h1, hex_value h2, hex_value h3, hex_value h4) of
           (Some d1, Some d2, Some d3, Some d4) \<Rightarrow> Some (((d1 * 16 + d2) * 16 + d3) * 16 + d4)
         | _ \<Rightarrow> None)
      else None)"
| "get_u4 _ = None"

text \<open>The UTF-8 encoding of a code point; a surrogate is encoded as U+FFFD.\<close>

definition encode_rune :: "nat \<Rightarrow> string" where
  "encode_rune r0 = (let r = (if 55296 \<le> r0 \<and> r0 \<le> 57343 \<or> r0 > 1114111 then 65533 else r0) in
     map char_of (
       if r < 128 then [r]
       else if r < 2048 then [192 + r div 64, 128 + r mod 64]
       else if r < 65536 then [224 + r div 4096, 128 + r div 64 mod 64, 128 + r mod 64]
       else [240 + r div 262144, 128 + r div 4096 mod 64, 128 + r div 64 mod 64, 128 + r mod 64]))"

definition simple_escape :: "char \<Rightarrow> nat option" where
  "simple_escape e = map_of [(CHR 0x22, 34), (CHR 0x5C, 92), (CHR ''/'', 47), (CHR ''b'', 8),
     (CHR ''f'', 12), (CHR ''n'', 10), (CHR ''r'', 13), (CHR ''t'', 9)] e"

text \<open>The raw text of a string literal up to its closing quote, and what follows it.\<close>

fun string_end :: "string \<Rightarrow> (string \<times> string) option" where
  "string_end [] = None"
| "string_end (c # cs) =
     (if byte c = 34 then Some ([], cs)
      else if byte c = 92 then
        (case cs of
           [] \<Rightarrow> None
         | e # r \<Rightarrow>
             if simple_escape e \<noteq> None then map_option (\<lambda>(x, y). (c # e # x, y)) (string_end r)
             else if get_u4 (c # cs) \<noteq> None then map_option (\<lambda>(x, y). (c # e # x, y)) (string_end r)
             else None)
      else if byte c < 32 then None
      else map_option (\<lambda>(x, y). (c # x, y)) (string_end cs))"

text \<open>\<open>unquote\<close> on a raw literal that the scanner has accepted.\<close>

function unquote :: "string \<Rightarrow> string" where
  "unquote [] = []"
| "unquote (c # cs) =
     (if byte c = 92 then
        (case get_u4 (c # cs) of
           Some rr \<Rightarrow>
             if 55296 \<le> rr \<and> rr \<le> 57343 then
               (case get_u4 (drop 5 cs) of
                  Some rr1 \<Rightarrow>
                    if rr < 56320 \<and> 56320 \<le> rr1 \<and> rr1 \<le> 57343
                    then encode_rune ((rr - 55296) * 1024 + (rr1 - 56320) + 65536) @ unquote (drop 11 cs)
                    else encode_rune 65533 @ unquote (drop 5 cs)
                | None \<Rightarrow> encode_rune 65533 @ unquote (drop 5 cs))
             else encode_rune rr @ unquote (drop 5 cs)
         | None \<Rightarrow>
             (case cs of [] \<Rightarrow> []
              | e # r \<Rightarrow> (case simple_escape e of None \<Rightarrow> [] | Some b \<Rightarrow> [char_of b]) @ unquote r))
      else
        (let n = rune_len (c # cs) in
         if n = 0 then encode_rune 65533 @ unquote cs
         else take n (c # cs) @ unquote (drop n (c # cs))))"
  by pat_completeness auto

termination
  by (relation "measure length") auto

subsection \<open>Tokens\<close>

datatype token = TLBrace | TRBrace | TLBracket | TRBracket | TColon | TComma
  | TString string | TNumber string | TTrue | TFalse | TNull

definition is_digit :: "char \<Rightarrow> bool" where
  "is_digit c \<longleftrightarrow> 48 \<le> byte c \<and> byte c \<le> 57"

definition is_blank :: "char \<Rightarrow> bool" where
  "is_blank c \<longleftrightarrow> byte c \<in> set [32, 9, 13, 10]"

text \<open>\<open>-?(0|[1-9][0-9]*)(\.[0-9]+)?([eE][+-]?[0-9]+)?\<close>, the longest prefix the scanner takes.\<close>

definition digits1 :: "string \<Rightarrow> (string \<times> string) option" where
  "digits1 s = (if takeWhile is_digit s = [] then None else Some (takeWhile is_digit s, dropWhile is_digit s))"

definition int_part :: "string \<Rightarrow> (string \<times> string) option" where
  "int_part s = (case s of [] \<Rightarrow> None | c # r \<Rightarrow> if c = CHR ''0'' then Some ([c], r) else digits1 s)"

definition frac_part :: "string \<Rightarrow> (string \<times> string) option" where
  "frac_part s = (case s of [] \<Rightarrow> Some ([], [])
     | c # r \<Rightarrow> if c = CHR ''.'' then map_option (\<lambda>(x, y). (c # x, y)) (digits1 r) else Some ([], s))"

definition exp_part :: "string \<Rightarrow> (string \<times> string) option" where
  "exp_part s = (case s of [] \<Rightarrow> Some ([], [])
     | c # r \<Rightarrow> if c = CHR ''e'' \<or> c = CHR ''E''
         then (case r of
             sg # r' \<Rightarrow> if sg = CHR ''+'' \<or> sg = CHR ''-''
               then map_option (\<lambda>(x, y). (c # sg # x, y)) (digits1 r')
               else map_option (\<lambda>(x, y). (c # x, y)) (digits1 r)
           | [] \<Rightarrow> None)
         else Some ([], s))"

definition number_sign :: "string \<Rightarrow> string \<times> string" where
  "number_sign s = (case s of c # r \<Rightarrow> if c = CHR ''-'' then ([c], r) else ([], s) | [] \<Rightarrow> ([], s))"

definition scan_number :: "string \<Rightarrow> (string \<times> string) option" where
  "scan_number s =
     (case int_part (snd (number_sign s)) of None \<Rightarrow> None | Some (i, r1) \<Rightarrow>
        (case frac_part r1 of None \<Rightarrow> None | Some (f, r2) \<Rightarrow>
          (case exp_part r2 of None \<Rightarrow> None | Some (e, r3) \<Rightarrow> Some (fst (number_sign s) @ i @ f @ e, r3))))"

definition strip_prefix :: "string \<Rightarrow> string \<Rightarrow> string option" where
  "strip_prefix p s = (if take (length p) s = p then Some (drop (length p) s) else None)"

definition punctuation :: "(char \<times> token) list" where
  "punctuation = [(CHR 0x7B, TLBrace), (CHR 0x7D, TRBrace), (CHR ''['', TLBracket), (CHR '']'', TRBracket),
     (CHR '':'', TColon), (CHR '','', TComma)]"

definition literals :: "(char \<times> string \<times> token) list" where
  "literals = [(CHR ''t'', ''true'', TTrue), (CHR ''f'', ''false'', TFalse), (CHR ''n'', ''null'', TNull)]"

definition scan_literal :: "char \<Rightarrow> string \<Rightarrow> (token \<times> string) option" where
  "scan_literal c r = (case map_of literals c of None \<Rightarrow> None
     | Some (w, t) \<Rightarrow> map_option (\<lambda>y. (t, y)) (strip_prefix (tl w) r))"

text \<open>One token at the head of a text that does not start with a blank.\<close>

definition scan_token :: "string \<Rightarrow> (token \<times> string) option" where
  "scan_token s = (case s of [] \<Rightarrow> None | c # r \<Rightarrow>
     (case map_of punctuation c of
        Some t \<Rightarrow> Some (t, r)
      | None \<Rightarrow>
          if byte c = 34 then map_option (\<lambda>(x, y). (TString (unquote x), y)) (string_end r)
          else if c = CHR ''-'' \<or> is_digit c then map_option (\<lambda>(x, y). (TNumber x, y)) (scan_number s)
          else scan_literal c r))"

lemma string_end_shorter: "string_end s = Some (x, y) \<Longrightarrow> length y < length s"
  by (induction s arbitrary: x y rule: string_end.induct)
     (fastforce split: if_splits list.splits)+

lemma digits1_shorter: "digits1 s = Some (x, y) \<Longrightarrow> length y < length s"
proof -
  assume "digits1 s = Some (x, y)"
  then have "takeWhile is_digit s \<noteq> []" "y = dropWhile is_digit s" by (auto simp: digits1_def split: if_splits)
  moreover have "length s = length (takeWhile is_digit s) + length (dropWhile is_digit s)"
    by (metis length_append takeWhile_dropWhile_id)
  ultimately show ?thesis by simp
qed

lemma scan_number_shorter: "scan_number s = Some (x, y) \<Longrightarrow> length y < length s"
proof -
  assume "scan_number s = Some (x, y)"
  then obtain i r1 f r2 e where i: "int_part (snd (number_sign s)) = Some (i, r1)"
    and f: "frac_part r1 = Some (f, r2)" and e: "exp_part r2 = Some (e, y)"
    by (auto simp: scan_number_def split: option.splits)
  moreover have "length (snd (number_sign s)) \<le> length s"
    by (simp add: number_sign_def split: list.split)
  moreover have "length r1 < length (snd (number_sign s))" using i
    by (auto simp: int_part_def split: list.splits if_splits dest: digits1_shorter)
  moreover have "length r2 \<le> length r1" using f
    by (auto simp: frac_part_def split: list.splits if_splits dest!: digits1_shorter)
  moreover have "length y \<le> length r2" using e
    by (auto simp: exp_part_def split: list.splits if_splits dest!: digits1_shorter)
  ultimately show ?thesis by simp
qed

lemma scan_literal_shorter: "scan_literal c r = Some (t, y) \<Longrightarrow> length y \<le> length r"
  by (auto simp: scan_literal_def strip_prefix_def split: option.splits if_splits)

lemma scan_token_shorter:
  assumes "scan_token s = Some (t, y)"
  shows "length y < length s"
proof (cases s)
  case Nil
  with assms show ?thesis by (simp add: scan_token_def)
next
  case (Cons c r)
  with assms consider "y = r" | x where "string_end r = Some (x, y)" | x where "scan_number s = Some (x, y)"
    | "scan_literal c r = Some (t, y)"
    by (auto simp: scan_token_def split: option.splits if_splits)
  then show ?thesis
    by cases (auto simp: Cons dest: string_end_shorter scan_number_shorter scan_literal_shorter)
qed

function tokens :: "string \<Rightarrow> token list option" where
  "tokens s = (case dropWhile is_blank s of
     [] \<Rightarrow> Some []
   | c # r \<Rightarrow> (case scan_token (c # r) of
       None \<Rightarrow> None
     | Some (t, rest) \<Rightarrow> map_option (Cons t) (tokens rest)))"
  by pat_completeness auto

termination
proof (relation "measure length", simp, clarsimp)
  fix s c r t rest
  assume d: "dropWhile is_blank s = c # r" and t: "scan_token (c # r) = Some (t, rest)"
  from scan_token_shorter [OF t] have "length rest < length (dropWhile is_blank s)" by (simp add: d)
  also have "\<dots> \<le> length s" by (rule length_dropWhile_le)
  finally show "length rest < length s" .
qed

declare tokens.simps [simp del]

subsection \<open>Values\<close>

text \<open>
  The parser state: the open arrays and objects, innermost first, and what may come next.  A frame
  keeps its members in reverse; an object frame also the key whose value is being read.
\<close>

datatype frame = ArrayFrame "json list" | ObjectFrame "(string \<times> json) list" string

datatype expecting = Value | ValueOrEnd | Key "(string \<times> json) list" | KeyOrEnd
  | Colon "(string \<times> json) list" string | CommaOrEnd | Done json

type_synonym parse_state = "frame list \<times> expecting"

definition maxNestingDepth :: nat where
  "maxNestingDepth = 10000"

text \<open>A finished value goes into the innermost frame.\<close>

fun give :: "json \<Rightarrow> frame list \<Rightarrow> parse_state" where
  "give v [] = ([], Done v)"
| "give v (ArrayFrame vs # fs) = (ArrayFrame (v # vs) # fs, CommaOrEnd)"
| "give v (ObjectFrame kvs k # fs) = (ObjectFrame ((k, v) # kvs) k # fs, CommaOrEnd)"

definition open_frame :: "frame list \<Rightarrow> token \<Rightarrow> parse_state option" where
  "open_frame fs t =
     (if t = TLBracket then
        (if length fs \<ge> maxNestingDepth then None else Some (ArrayFrame [] # fs, ValueOrEnd))
      else if t = TLBrace then
        (if length fs \<ge> maxNestingDepth then None else Some (ObjectFrame [] [] # fs, KeyOrEnd))
      else (case t of
          TString s \<Rightarrow> Some (give (JStr s) fs)
        | TNumber n \<Rightarrow> Some (give (JLit n) fs)
        | TTrue \<Rightarrow> Some (give (JBool True) fs)
        | TFalse \<Rightarrow> Some (give (JBool False) fs)
        | TNull \<Rightarrow> Some (give JNull fs)
        | _ \<Rightarrow> None))"

definition array_or_value :: "frame list \<Rightarrow> token \<Rightarrow> parse_state option" where
  "array_or_value fs t = (case fs of
     ArrayFrame vs # rest \<Rightarrow> if t = TRBracket then Some (give (JArr (rev vs)) rest) else open_frame fs t
   | _ \<Rightarrow> None)"

definition object_or_key :: "frame list \<Rightarrow> token \<Rightarrow> parse_state option" where
  "object_or_key fs t = (case fs of
     ObjectFrame kvs _ # rest \<Rightarrow> if t = TRBrace then Some (give (JObj (rev kvs)) rest)
       else (case t of TString k \<Rightarrow> Some (rest, Colon kvs k) | _ \<Rightarrow> None)
   | _ \<Rightarrow> None)"

definition comma_or_end :: "frame list \<Rightarrow> token \<Rightarrow> parse_state option" where
  "comma_or_end fs t = (case fs of
     [] \<Rightarrow> None
   | ArrayFrame vs # rest \<Rightarrow> if t = TComma then Some (fs, Value)
       else if t = TRBracket then Some (give (JArr (rev vs)) rest) else None
   | ObjectFrame kvs _ # rest \<Rightarrow> if t = TComma then Some (rest, Key kvs)
       else if t = TRBrace then Some (give (JObj (rev kvs)) rest) else None)"

definition parse_step :: "token \<Rightarrow> parse_state \<Rightarrow> parse_state option" where
  "parse_step t st = (case snd st of
     Value \<Rightarrow> open_frame (fst st) t
   | ValueOrEnd \<Rightarrow> array_or_value (fst st) t
   | Key kvs \<Rightarrow> (case t of TString k \<Rightarrow> Some (fst st, Colon kvs k) | _ \<Rightarrow> None)
   | KeyOrEnd \<Rightarrow> object_or_key (fst st) t
   | Colon kvs k \<Rightarrow> if t = TColon then Some (ObjectFrame kvs k # fst st, Value) else None
   | CommaOrEnd \<Rightarrow> comma_or_end (fst st) t
   | Done _ \<Rightarrow> None)"

fun parse_tokens :: "token list \<Rightarrow> parse_state \<Rightarrow> json option" where
  "parse_tokens [] ([], Done v) = Some v"
| "parse_tokens [] _ = None"
| "parse_tokens (t # ts) st = (case parse_step t st of None \<Rightarrow> None | Some st' \<Rightarrow> parse_tokens ts st')"

definition parse_json :: "string \<Rightarrow> json option" where
  "parse_json s = (case tokens s of None \<Rightarrow> None | Some ts \<Rightarrow> parse_tokens ts ([], Value))"

subsection \<open>Decoding into struct fields\<close>

definition ascii_lower :: "char \<Rightarrow> char" where
  "ascii_lower c = (if 65 \<le> byte c \<and> byte c \<le> 90 then char_of (byte c + 32) else c)"

text \<open>
  Keys match a field name up to case.  Two runes outside ASCII fold to a letter: the Kelvin sign
  (bytes \<open>E2 84 AA\<close>) and the long s (\<open>C5 BF\<close>).
\<close>

fun fold_name :: "string \<Rightarrow> string" where
  "fold_name (a # b # c # r) =
     (if [byte a, byte b, byte c] = [226, 132, 170] then CHR ''k'' # fold_name r
      else if [byte a, byte b] = [197, 191] then CHR ''s'' # fold_name (c # r)
      else ascii_lower a # fold_name (b # c # r))"
| "fold_name [a, b] = (if [byte a, byte b] = [197, 191] then ''s'' else [ascii_lower a, ascii_lower b])"
| "fold_name s = map ascii_lower s"

definition same_key :: "string \<Rightarrow> string \<Rightarrow> bool" where
  "same_key name k \<longleftrightarrow> fold_name k = fold_name name"

text \<open>
  \<open>json.Unmarshal\<close> into a struct: \<open>null\<close> changes nothing, any other value that is not an object is an
  error, and the members are decoded in order, so that the last one of a name stays.
\<close>

definition object_members :: "string \<Rightarrow> (string \<times> json) list option" where
  "object_members s = (case parse_json s of
     Some (JObj kvs) \<Rightarrow> Some kvs | Some JNull \<Rightarrow> Some [] | _ \<Rightarrow> None)"

fun decode_string :: "string \<Rightarrow> (string \<times> json) list \<Rightarrow> string \<Rightarrow> string option" where
  "decode_string name [] acc = Some acc"
| "decode_string name ((k, v) # kvs) acc =
     (if same_key name k then
        (case v of JStr s \<Rightarrow> decode_string name kvs s | JNull \<Rightarrow> decode_string name kvs acc | _ \<Rightarrow> None)
      else decode_string name kvs acc)"

text \<open>
  Fields when the error of \<open>Unmarshal\<close> is ignored: a value of another type leaves the field alone.
  \<open>decode_members\<close> are the members that are decoded into a field that is a struct.
\<close>

fun decode_text :: "string \<Rightarrow> (string \<times> json) list \<Rightarrow> string \<Rightarrow> string" where
  "decode_text name [] acc = acc"
| "decode_text name ((k, v) # kvs) acc =
     (if same_key name k then (case v of JStr s \<Rightarrow> decode_text name kvs s | _ \<Rightarrow> decode_text name kvs acc)
      else decode_text name kvs acc)"

fun decode_int :: "string \<Rightarrow> (string \<times> json) list \<Rightarrow> int \<Rightarrow> int" where
  "decode_int name [] acc = acc"
| "decode_int name ((k, v) # kvs) acc =
     (if same_key name k then
        (case v of JLit t \<Rightarrow> decode_int name kvs (case ParseInt t of None \<Rightarrow> acc | Some i \<Rightarrow> i)
         | _ \<Rightarrow> decode_int name kvs acc)
      else decode_int name kvs acc)"

definition decode_members :: "string \<Rightarrow> (string \<times> json) list \<Rightarrow> (string \<times> json) list" where
  "decode_members name kvs =
     concat (map (\<lambda>(k, v). if same_key name k then (case v of JObj m \<Rightarrow> m | _ \<Rightarrow> []) else []) kvs)"

text \<open>A boolean field when the error is ignored: a value of another type leaves it alone.\<close>

fun decode_bool :: "string \<Rightarrow> (string \<times> json) list \<Rightarrow> bool \<Rightarrow> bool" where
  "decode_bool name [] acc = acc"
| "decode_bool name ((k, v) # kvs) acc =
     (if same_key name k then (case v of JBool b \<Rightarrow> decode_bool name kvs b | _ \<Rightarrow> decode_bool name kvs acc)
      else decode_bool name kvs acc)"

end
