(* ===== verification/Tool_Store.thy ===== *)
theory Tool_Store
  imports Task_Records Json
begin

text \<open>
  \<open>core/persistence/tools.go\<close>: the record of a tool invocation.  An invocation is started once per
  idempotency key and finished once; both leave an audit entry in the same commit.
\<close>

definition GetToolInvocation :: "string \<Rightarrow> Invocation db_op" where
  "GetToolInvocation i = query_row (find_invocation i)"

definition GetToolInvocationByIdempotencyKey :: "string \<Rightarrow> Invocation db_op" where
  "GetToolInvocationByIdempotencyKey key =
     query_row (\<lambda>s. find (\<lambda>v. in_IdempotencyKey v = key) (tool_invocations s))"

definition started_row :: "Invocation \<Rightarrow> time \<Rightarrow> Invocation" where
  "started_row invocation now = invocation\<lparr>in_Status := ''STARTED'', in_StartedAt := Some now\<rparr>"

definition invocation_audit :: "Task \<Rightarrow> Invocation \<Rightarrow> string \<Rightarrow> string \<Rightarrow> json \<Rightarrow> string \<Rightarrow> time \<Rightarrow> AuditEntry" where
  "invocation_audit task invocation action decision details i now =
     empty_audit\<lparr>au_ID := i, au_OccurredAt := now, au_ActorKind := ''agent'',
       au_ActorID := t_AssignedAgentID task, au_Action := action, au_ResourceKind := ''tool_invocation'',
       au_ResourceID := in_ID invocation, au_Decision := decision, au_Details := Some details,
       au_CorrelationID := t_CorrelationID task, au_TaskID := t_ID task,
       au_ConversationID := t_ConversationID task\<rparr>"

text \<open>
  The transaction of a start.  The inner sum tells the failed insert, after which the code rolls
  back and looks the key up again.
\<close>

definition start_tx :: "Invocation \<Rightarrow> (err + Invocation) tx_end db_op" where
  "start_tx invocation =
     tx_bind tx_now (\<lambda>now.
     tx_bind (attempt (insert_stmt (insert_invocation_row (started_row invocation now)))) (\<lambda>ins. case ins of
       Inl e \<Rightarrow> tx_return (Abandon (Inl e))
     | Inr _ \<Rightarrow>
         tx_bind (query_row (find_task (in_TaskID invocation))) (\<lambda>task.
         tx_bind tx_uuid (\<lambda>i.
         tx_bind (insertAuditEntry (invocation_audit task invocation ''tool.started''
           (risk_text (in_Risk invocation))
           (JObj [(''input'', JStr ''omitted''), (''tool'', JStr (in_ToolName invocation))]) i now)) (\<lambda>_.
         tx_return (Commit (Inr (started_row invocation now))))))))"

definition StartToolInvocation :: "Invocation \<Rightarrow> (Invocation \<times> bool) db_op" where
  "StartToolInvocation invocation =
     tx_bind (attempt (GetToolInvocationByIdempotencyKey (in_IdempotencyKey invocation))) (\<lambda>r. case r of
       Inr existing \<Rightarrow> tx_return (existing, True)
     | Inl e \<Rightarrow> if e \<noteq> ErrNotFound then tx_throw e
         else tx_bind (run_tx (start_tx invocation)) (\<lambda>outcome. case outcome of
             Inr started \<Rightarrow> tx_return (started, False)
           | Inl e \<Rightarrow>
               tx_bind (attempt (GetToolInvocationByIdempotencyKey (in_IdempotencyKey invocation))) (\<lambda>l. case l of
                 Inr existing \<Rightarrow> tx_return (existing, True)
               | Inl _ \<Rightarrow> tx_throw e)))"

definition output_flag :: "string \<Rightarrow> string \<Rightarrow> bool" where
  "output_flag name output = (case object_members output of None \<Rightarrow> False
     | Some kvs \<Rightarrow> decode_bool name kvs False)"

definition set_finished :: "string \<Rightarrow> time \<Rightarrow> int \<Rightarrow> string \<Rightarrow> string \<Rightarrow> Invocation \<Rightarrow> Invocation" where
  "set_finished status now exitCode output errorText v = v\<lparr>in_Status := status, in_FinishedAt := Some now,
     in_ExitCode := Some exitCode, in_Output := output, in_Error := errorText\<rparr>"

definition FinishToolInvocation :: "string \<Rightarrow> string \<Rightarrow> int \<Rightarrow> string option \<Rightarrow> Invocation db_op" where
  "FinishToolInvocation i output exitCode invocationErr =
     (let status = (if invocationErr = None then ''COMPLETED'' else ''FAILED'');
          errorText = (case invocationErr of None \<Rightarrow> [] | Some e \<Rightarrow> e) in
     tx_bind (with_tx (
       tx_bind (query_row (find_invocation i)) (\<lambda>invocation.
       tx_bind tx_now (\<lambda>now.
       tx_bind (execute (update_invocations (\<lambda>_ v. in_ID v = i \<and> in_Status v = ''STARTED'')
         (set_finished status now exitCode output errorText))) (\<lambda>changed.
       tx_bind (require (changed = 1) ErrConflict) (\<lambda>_.
       tx_bind (query_row (find_task (in_TaskID invocation))) (\<lambda>task.
       tx_bind tx_uuid (\<lambda>auditID.
       tx_bind tx_now (\<lambda>at.
       insertAuditEntry (invocation_audit task invocation ''tool.finished'' status
         (JObj [(''dry_run'', JBool (output_flag ''dry_run'' output)), (''exit_code'', JNum exitCode),
           (''stderr'', JStr ''omitted''), (''stdout'', JStr ''omitted''),
           (''timed_out'', JBool (output_flag ''timed_out'' output)),
           (''tool'', JStr (in_ToolName invocation)),
           (''truncated'', JBool (output_flag ''truncated'' output))]) auditID at)))))))))) (\<lambda>_.
     GetToolInvocation i))"

subsection \<open>How these operations evolve the store\<close>

lemma keeps_GetToolInvocation:
  "keeps (evolves L) (GetToolInvocation i)" "keeps (evolves L) (GetToolInvocationByIdempotencyKey k)"
  unfolding GetToolInvocation_def GetToolInvocationByIdempotencyKey_def by (rule keeps_rules)+

lemma keeps_StartToolInvocation: "keeps (evolves L) (StartToolInvocation v)"
  unfolding StartToolInvocation_def start_tx_def
  by (intro keeps_rules keeps_GetToolInvocation keeps_dialog)

lemma keeps_FinishToolInvocation: "keeps (evolves L) (FinishToolInvocation i out c e)"
  unfolding FinishToolInvocation_def
  by (intro keeps_rules keeps_GetToolInvocation keeps_dialog)
     (auto simp: invocation_evolves_def set_finished_def)

subsection \<open>A tool is started once\<close>

definition invocation_keys :: "store \<Rightarrow> string set" where
  "invocation_keys s = set (map in_IdempotencyKey (tool_invocations s))"

lemma evolves_invocation_keys: "evolves L s s' \<Longrightarrow> invocation_keys s \<subseteq> invocation_keys s'"
  unfolding evolves_def invocation_keys_def set_map
  by (rule grows_keys [of invocation_evolves]) (auto simp: invocation_evolves_def)

lemma lookup_key_error:
  assumes "GetToolInvocationByIdempotencyKey k w = (Inl ErrNotFound, w')"
  shows "k \<notin> invocation_keys (db w)"
  using assms
  by (auto simp: GetToolInvocationByIdempotencyKey_def query_row_def stmt_def Let_def invocation_keys_def
      find_None_set split: if_splits option.splits)

lemma start_tx_InrD:
  assumes "start_tx v w = (Inr (Commit (Inr u)), w')"
  shows "in_IdempotencyKey v \<in> invocation_keys (db w') \<and> in_Status u = ''STARTED'' \<and>
    in_IdempotencyKey u = in_IdempotencyKey v"
proof -
  from assms obtain now s1 s2 e w3 where
    ins: "insert_invocation_row (started_row v now) s1 = Inr s2" and
    w3: "db w3 = s2" "insertAuditEntry e w3 = (Inr (), w')" and u: "u = started_row v now"
    unfolding start_tx_def
    apply (clarsimp simp: tx_return_Inr tx_bind_Inr attempt_Inr tx_cases)
    apply (drule insert_stmt_InrD, drule query_row_InrD, drule tx_uuid_InrD)
    apply (elim conjE)
    apply (rule that; (assumption | simp))
    done
  from ins have "in_IdempotencyKey v \<in> invocation_keys s2"
    by (auto simp: tx_simps invocation_keys_def started_row_def)
  moreover have "tool_invocations (db w') = tool_invocations s2"
    using keepsD [OF quiet_insertAuditEntry w3(2)] w3(1) by (simp add: same_work_def)
  ultimately show ?thesis by (simp add: u started_row_def invocation_keys_def)
qed

lemma start_tx_abandon: "start_tx v w = (Inr (Abandon r), w') \<Longrightarrow> isl r"
  unfolding start_tx_def by (auto simp: tx_simps tx_cases)

lemma start_fresh:
  assumes "StartToolInvocation v w = (Inr (u, False), w')"
  shows "in_IdempotencyKey v \<notin> invocation_keys (db w) \<and> in_IdempotencyKey v \<in> invocation_keys (db w') \<and>
    in_Status u = ''STARTED'' \<and> in_IdempotencyKey u = in_IdempotencyKey v"
proof -
  from assms obtain w1 where miss: "GetToolInvocationByIdempotencyKey (in_IdempotencyKey v) w = (Inl ErrNotFound, w1)"
    and tx: "run_tx (start_tx v) w1 = (Inr (Inr u), w')"
    unfolding StartToolInvocation_def by (auto simp: tx_simps tx_cases)
  from tx show ?thesis
  proof (cases rule: run_tx_InrE)
    case (commit w2 w3)
    with start_tx_InrD [OF commit(2)] lookup_key_error [OF miss] show ?thesis
      by (simp add: invocation_keys_def)
  next
    case (abandon w2 w3)
    with start_tx_abandon [OF abandon(2)] show ?thesis by simp
  qed
qed

lemma start_known:
  assumes "in_IdempotencyKey v \<in> invocation_keys (db w)" and "StartToolInvocation v w = (Inr (u, b), w')"
  shows b
  using start_fresh [of v w u w'] assms by (cases b) auto

end
