(* ===== verification/Event_Store.thy ===== *)
theory Event_Store
  imports Task_Records
begin

text \<open>
  The ingress boundary: events (\<open>core/events/model.go\<close>, \<open>core/persistence/events.go\<close>) and the commit of
  a whole request, its event, conversation, turn and task graph (\<open>core/persistence/ask.go\<close>).
\<close>

subsection \<open>Events\<close>

definition Validate :: "Envelope \<Rightarrow> err + unit" where
  "Validate e =
     (if ev_ID e = [] \<or> ev_Type e = [] \<or> ev_Version e < 1 \<or> ev_CorrelationID e = [] \<or> ev_IdempotencyKey e = []
      then Inl (ErrMsg ''event id, type, version, correlation_id, and idempotency_key are required'')
      else if ev_OccurredAt e = zero_time \<or> ev_ReceivedAt e = zero_time
      then Inl (ErrMsg ''occurred_at and received_at are required'')
      else (case ev_TrustLevel e of TrustOther _ \<Rightarrow> Inl (ErrMsg ''invalid trust_level'') | _ \<Rightarrow> Inr ()))"

definition check :: "err + unit \<Rightarrow> unit db_op" where
  "check r = (case r of Inl e \<Rightarrow> tx_throw e | Inr _ \<Rightarrow> tx_return ())"

definition insertEvent :: "Envelope \<Rightarrow> unit db_op" where
  "insertEvent event = tx_bind (check (Validate event)) (\<lambda>_. insert_stmt (insert_event_row event))"

definition find_event :: "string \<Rightarrow> store \<Rightarrow> EventRow option" where
  "find_event i s = find (\<lambda>r. ev_ID (er_Event r) = i) (events s)"

definition GetEvent :: "string \<Rightarrow> Envelope db_op" where
  "GetEvent i = query_row (\<lambda>s. map_option er_Event (find_event i s))"

definition GetEventBySourceIdempotency :: "Source \<Rightarrow> string \<Rightarrow> Envelope db_op" where
  "GetEventBySourceIdempotency source key =
     tx_bind (query_row (\<lambda>s. map_option (ev_ID \<circ> er_Event) (find (same_event_source source key) (events s)))) GetEvent"

definition IngestEvent :: "Envelope \<Rightarrow> (string \<times> bool) db_op" where
  "IngestEvent event =
     tx_bind (attempt (insertEvent event)) (\<lambda>r. case r of
       Inr _ \<Rightarrow> tx_return (ev_ID event, False)
     | Inl e \<Rightarrow> tx_bind (attempt (GetEventBySourceIdempotency (ev_Source event) (ev_IdempotencyKey event))) (\<lambda>l. case l of
         Inr existing \<Rightarrow> tx_return (ev_ID existing, True)
       | Inl _ \<Rightarrow> tx_throw e))"

fun get_events :: "string list \<Rightarrow> Envelope list db_op" where
  "get_events [] = tx_return []"
| "get_events (i # is) = tx_bind (GetEvent i) (\<lambda>e. tx_bind (get_events is) (\<lambda>es. tx_return (e # es)))"

definition ListPendingEvents :: "int \<Rightarrow> Envelope list db_op" where
  "ListPendingEvents limit =
     tx_bind (query (\<lambda>s. map (ev_ID \<circ> er_Event) (take (clampLimit limit)
       (sort_key (\<lambda>r. formatTime (ev_ReceivedAt (er_Event r))) (filter (\<lambda>r. er_Status r = EventPending) (events s)))))) get_events"

definition set_processed :: "EventProcessing \<Rightarrow> string \<Rightarrow> time \<Rightarrow> EventRow \<Rightarrow> EventRow" where
  "set_processed status errorText now r =
     r\<lparr>er_Status := status, er_Error := Some errorText, er_ProcessedAt := Some now\<rparr>"

definition MarkEventProcessed :: "string \<Rightarrow> string option \<Rightarrow> unit db_op" where
  "MarkEventProcessed i processingErr =
     tx_bind tx_now (\<lambda>now.
     tx_bind (execute (update_events (\<lambda>_ r. ev_ID (er_Event r) = i)
       (case processingErr of None \<Rightarrow> set_processed EventProcessed [] now
        | Some e \<Rightarrow> set_processed EventFailed e now))) (\<lambda>changed.
     require (changed \<noteq> 0) ErrNotFound))"

subsection \<open>The commit of a request\<close>

record AskWork =
  aw_Event :: Envelope
  aw_Conversation :: Conversation
  aw_ApplyRetention :: bool
  aw_Turn :: Turn
  aw_Tasks :: "Task list"
  aw_Dependencies :: "Dependency list"
  aw_Audit :: "AuditEntry option"

fun decimal :: "nat \<Rightarrow> string" where
  "decimal n = (if n < 10 then [digit_char (int n)] else decimal (n div 10) @ [digit_char (int (n mod 10))])"

definition root_key :: "string \<Rightarrow> string" where
  "root_key eventID = ''event:'' @ eventID @ '':root''"

definition normalize_task :: "Envelope \<Rightarrow> nat \<Rightarrow> Task \<Rightarrow> Task" where
  "normalize_task e index t = t\<lparr>t_CorrelationID := ev_CorrelationID e, t_CausationID := Some (ev_ID e),
     t_IdempotencyKey := (if index = 0 then root_key (ev_ID e)
       else ''event:'' @ ev_ID e @ '':agent:'' @ decimal (index - 1))\<rparr>"

definition normalizeRecoveredAskWork :: "AskWork \<Rightarrow> AskWork" where
  "normalizeRecoveredAskWork work =
     (let e = aw_Event work in
      work\<lparr>aw_Turn := (aw_Turn work)\<lparr>tu_ID := ''turn:user:'' @ ev_ID e,
             tu_CorrelationID := ev_CorrelationID e, tu_CreatedAt := ev_OccurredAt e\<rparr>,
           aw_Audit := map_option (\<lambda>a. a\<lparr>au_ResourceID := ev_ID e\<rparr>) (aw_Audit work),
           aw_Tasks := map (\<lambda>(index, t). normalize_task e index t) (List.enumerate 0 (aw_Tasks work))\<rparr>)"

text \<open>The conversation after the upsert, with the requested policy applied.\<close>

definition ask_conversation :: "AskWork \<Rightarrow> Conversation db_op" where
  "ask_conversation work =
     (let c = aw_Conversation work in
     tx_bind (insert_stmt (upsert_conversation c)) (\<lambda>_.
     tx_bind (GetConversationByExternalKey (cv_ExternalKey c)) (\<lambda>actual.
     if \<not> aw_ApplyRetention work then tx_return actual
     else if \<not> cv_TranscriptRetention c then
       tx_bind (disableTranscriptRetentionTx (cv_ID actual) (cv_ExternalKey actual) (cv_UpdatedAt c)) (\<lambda>_.
       tx_return (actual\<lparr>cv_Title := retentionDisabledMarker, cv_TranscriptRetention := False\<rparr>))
     else
       tx_bind (tx_when (\<not> cv_TranscriptRetention actual)
         (tx_bind (execute (update_conversations (\<lambda>_ r. cv_ID r = cv_ID actual)
           (\<lambda>r. r\<lparr>cv_TranscriptRetention := True, cv_UpdatedAt := cv_UpdatedAt c\<rparr>))) (\<lambda>_. tx_return ()))) (\<lambda>_.
       tx_return (actual\<lparr>cv_TranscriptRetention := True\<rparr>)))))"

definition insert_ask_node :: "Task \<Rightarrow> string \<Rightarrow> Task \<Rightarrow> unit db_op" where
  "insert_ask_node root conversationID task =
     tx_bind (require (t_RootTaskID task = t_ID root)
       (ErrMsg ''all ask graph nodes must reference the first task as root'')) (\<lambda>_.
     insertTask (task\<lparr>t_ConversationID := conversationID\<rparr>))"

definition ask_audit :: "AskWork \<Rightarrow> Task \<Rightarrow> Conversation \<Rightarrow> unit db_op" where
  "ask_audit work root actual = (case aw_Audit work of None \<Rightarrow> tx_return () | Some a \<Rightarrow>
     insertAuditEntry (a\<lparr>au_TaskID := t_ID root, au_ConversationID := cv_ID actual,
       au_CorrelationID := ev_CorrelationID (aw_Event work)\<rparr>))"

definition ask_body :: "AskWork \<Rightarrow> (Conversation \<times> Task) db_op" where
  "ask_body work =
     (let root = hd (aw_Tasks work); event = aw_Event work in
     tx_bind (ask_conversation work) (\<lambda>actual.
     tx_bind (insertTurn ((aw_Turn work)\<lparr>tu_ConversationID := cv_ID actual\<rparr>) (cv_TranscriptRetention actual)) (\<lambda>_.
     tx_bind (for_each (aw_Tasks work) (insert_ask_node root (cv_ID actual))) (\<lambda>_.
     tx_bind (for_each (aw_Dependencies work) insert_graph_dependency) (\<lambda>_.
     tx_bind (execute (update_events (\<lambda>_ r. ev_ID (er_Event r) = ev_ID event)
       (set_processed EventProcessed [] (ev_ReceivedAt event)))) (\<lambda>_.
     tx_bind (ask_audit work root actual) (\<lambda>_.
     tx_return (actual, root\<lparr>t_ConversationID := cv_ID actual\<rparr>))))))))"

definition ask_tx :: "AskWork \<Rightarrow> bool \<Rightarrow> (err + Conversation \<times> Task) tx_end db_op" where
  "ask_tx work recoverExisting =
     tx_bind (if recoverExisting then tx_return (Inr ()) else attempt (insertEvent (aw_Event work))) (\<lambda>ins.
     case ins of
       Inl e \<Rightarrow> tx_return (Abandon (Inl e))
     | Inr _ \<Rightarrow> tx_bind (ask_body work) (\<lambda>r. tx_return (Commit (Inr r))))"

definition existing_ask :: "Envelope \<Rightarrow> (Conversation \<times> Task \<times> bool) db_op \<Rightarrow> (Conversation \<times> Task \<times> bool) db_op" where
  "existing_ask existingEvent otherwise =
     tx_bind (attempt (GetTaskByIdempotencyKey (root_key (ev_ID existingEvent)))) (\<lambda>r. case r of
       Inr existingTask \<Rightarrow>
         tx_bind (GetConversation (t_ConversationID existingTask)) (\<lambda>c. tx_return (c, existingTask, True))
     | Inl _ \<Rightarrow> otherwise)"

definition commit_ask :: "AskWork \<Rightarrow> bool \<Rightarrow> (Conversation \<times> Task \<times> bool) db_op" where
  "commit_ask work recoverExisting =
     tx_bind (run_tx (ask_tx work recoverExisting)) (\<lambda>r. case r of
       Inr (c, root) \<Rightarrow> tx_return (c, root, False)
     | Inl e \<Rightarrow>
         tx_bind (attempt (GetEventBySourceIdempotency (ev_Source (aw_Event work)) (ev_IdempotencyKey (aw_Event work)))) (\<lambda>l.
         case l of
           Inr existingEvent \<Rightarrow> existing_ask existingEvent (tx_throw ErrConflict)
         | Inl _ \<Rightarrow> tx_throw e))"

definition CreateAskWork :: "AskWork \<Rightarrow> (Conversation \<times> Task \<times> bool) db_op" where
  "CreateAskWork work =
     (let event = aw_Event work in
     if aw_Tasks work = [] then tx_throw (ErrMsg ''ask work requires a task graph'')
     else tx_bind (check (Validate event)) (\<lambda>_.
     tx_bind (attempt (GetEventBySourceIdempotency (ev_Source event) (ev_IdempotencyKey event))) (\<lambda>r. case r of
       Inr existingEvent \<Rightarrow>
         existing_ask existingEvent
           (if ev_Type existingEvent \<noteq> ev_Type event \<or> ev_ConversationKey existingEvent \<noteq> ev_ConversationKey event \<or>
               ev_Payload existingEvent \<noteq> ev_Payload event
            then tx_throw ErrConflict
            else commit_ask (normalizeRecoveredAskWork (work\<lparr>aw_Event := existingEvent\<rparr>)) True)
     | Inl e \<Rightarrow> if e \<noteq> ErrNotFound then tx_throw e else commit_ask work False)))"

subsection \<open>How these operations evolve the store\<close>

lemma keeps_check: "keeps (evolves L) (check r)"
  unfolding check_def by (intro keeps_rules)

lemma keeps_insertEvent: "keeps (evolves L) (insertEvent e)"
  unfolding insertEvent_def by (intro keeps_rules keeps_check)

lemma keeps_event_reads:
  "keeps (evolves L) (GetEvent i)" "keeps (evolves L) (GetEventBySourceIdempotency s k)"
  unfolding GetEvent_def GetEventBySourceIdempotency_def by (intro keeps_rules)+

lemma keeps_IngestEvent: "keeps (evolves L) (IngestEvent e)"
  unfolding IngestEvent_def by (intro keeps_rules keeps_insertEvent keeps_event_reads)

lemma keeps_MarkEventProcessed: "keeps (evolves L) (MarkEventProcessed i e)"
  unfolding MarkEventProcessed_def
  by (intro keeps_rules) (auto simp: set_processed_def event_key_def split: option.splits)

lemma keeps_ask_conversation: "LScrub \<in> L \<Longrightarrow> keeps (evolves L) (ask_conversation w)"
  unfolding ask_conversation_def GetConversationByExternalKey_def
  by (intro keeps_rules keeps_disable evo.keeps_insert) (auto intro: evolves_upsert)

lemma keeps_ask_body: "LScrub \<in> L \<Longrightarrow> keeps (evolves L) (ask_body w)"
  unfolding ask_body_def ask_audit_def insert_ask_node_def insert_graph_dependency_def
  by (intro keeps_rules keeps_ask_conversation keeps_dialog keeps_records)
     (auto simp: set_processed_def event_key_def)

lemma keeps_existing_ask: "keeps (evolves L) m \<Longrightarrow> keeps (evolves L) (existing_ask e m)"
  unfolding existing_ask_def GetConversation_def by (intro keeps_rules keeps_records)

lemma keeps_commit_ask: "LScrub \<in> L \<Longrightarrow> keeps (evolves L) (commit_ask w b)"
  unfolding commit_ask_def ask_tx_def
  by (intro keeps_rules keeps_ask_body keeps_existing_ask keeps_insertEvent keeps_event_reads)

lemma keeps_CreateAskWork: "LScrub \<in> L \<Longrightarrow> keeps (evolves L) (CreateAskWork w)"
  unfolding CreateAskWork_def
  by (intro keeps_rules keeps_commit_ask keeps_existing_ask keeps_check keeps_event_reads)

subsection \<open>All of a request or nothing\<close>

definition ask_visible :: "Task list \<Rightarrow> Dependency list \<Rightarrow> Source \<Rightarrow> string \<Rightarrow> store \<Rightarrow> bool" where
  "ask_visible ts ds src key s \<longleftrightarrow>
     set (map t_ID ts) \<subseteq> set (task_ids s) \<and> set ds \<subseteq> set (task_dependencies s) \<and>
     list_ex (\<lambda>r. same_event_source src key r \<and> er_Status r = EventProcessed) (events s)"

text \<open>What the statements of a request never remove.\<close>

definition event_ident :: "EventRow \<Rightarrow> string \<times> string \<times> string \<times> string \<times> string" where
  "event_ident r = (ev_ID (er_Event r), event_key r)"

definition retains :: "store \<Rightarrow> store \<Rightarrow> bool" where
  "retains s s' \<longleftrightarrow> set (task_ids s) \<subseteq> set (task_ids s') \<and>
     set (task_dependencies s) \<subseteq> set (task_dependencies s') \<and>
     set (map event_ident (events s)) \<subseteq> set (map event_ident (events s'))"

interpretation ret: store_relation retains
  by unfold_locales (unfold retains_def, blast+)

lemma retains_frame:
  "task_ids s' = task_ids s \<Longrightarrow> task_dependencies s' = task_dependencies s \<Longrightarrow> events s' = events s \<Longrightarrow> retains s s'"
  by (simp add: retains_def)

lemma retains_upd_events:
  assumes "\<And>r. event_ident (f r) = event_ident r"
  shows "retains s (snd (update_events p f s))"
proof -
  have "map event_ident (upd_rows (p s) f (events s)) = map event_ident (events s)"
    by (rule map_upd_rows_same) (rule assms)
  then show ?thesis by (simp add: retains_def update_events_def task_ids_def del: set_map)
qed

lemma ret_scrub_content: "keeps retains (scrubTerminalTaskGraphContent root)"
  unfolding scrubTerminalTaskGraphContent_def
  by (intro ret.keeps_prog ret.keeps_execute)
     (auto intro!: retains_frame simp: task_ids_def update_tasks_def set_scrubbed_def map_upd_rows_same)

lemma ret_disable: "keeps retains (disableTranscriptRetentionTx c k u)"
  unfolding disableTranscriptRetentionTx_def scrubTerminalConversationTasks_def
    terminalTaskGraphSafeToScrub_def scrub_payloads_def
  by (intro ret.keeps_prog ret.keeps_execute ret_scrub_content retains_upd_events)
     (auto intro!: retains_frame simp: task_ids_def event_ident_def event_key_def)

lemma ret_ask_conversation: "keeps retains (ask_conversation w)"
  unfolding ask_conversation_def GetConversationByExternalKey_def Let_def
  by (intro ret.keeps_prog ret.keeps_execute ret.keeps_insert ret_disable)
     (auto intro!: retains_frame simp: task_ids_def upsert_conversation_def split: if_splits)

lemma ret_inserts:
  "keeps retains (insertTask t)" "keeps retains (insertTurn u b)" "keeps retains (insertAuditEntry e)"
  "keeps retains (insert_stmt (insert_dependency_row False d))"
  unfolding insertTask_def insertTurn_def insertAuditEntry_def
  by (rule ret.keeps_insert; auto simp: tx_simps retains_def task_ids_def insert_dependency_row_def split: if_splits)+

lemma ret_nodes: "keeps retains (insert_ask_node r c t)" "keeps retains (insert_graph_dependency d)"
  unfolding insert_ask_node_def insert_graph_dependency_def
  by (intro ret.keeps_prog ret_inserts)+

lemma insert_ask_node_InrD: "insert_ask_node r c t w = (Inr u, w') \<Longrightarrow> t_ID t \<in> set (task_ids (db w'))"
  by (auto simp: insert_ask_node_def insertTask_def tx_simps task_ids_def dest!: tx_dests)

lemma insert_graph_dependency_InrD:
  "insert_graph_dependency d w = (Inr u, w') \<Longrightarrow> d \<in> set (task_dependencies (db w'))"
  by (auto simp: insert_graph_dependency_def tx_simps dest!: tx_dests split: if_splits)

lemma event_key_source:
  "event_key r = event_key r' \<Longrightarrow> same_event_source src key r' = same_event_source src key r"
  by (auto simp: event_key_def same_event_source_def)

lemma ask_nodes_done:
  assumes "for_each ts (insert_ask_node r c) w = (Inr u, w')"
  shows "\<forall>t\<in>set ts. t_ID t \<in> set (task_ids (db w'))"
proof (rule for_each_establishes [OF assms])
  fix x v v' a assume "insert_ask_node r c x v = (Inr a, v')"
  then show "t_ID x \<in> set (task_ids (db v'))" by (rule insert_ask_node_InrD)
next
  fix x y v v' a assume "insert_ask_node r c x v = (Inr a, v')" "t_ID y \<in> set (task_ids (db v))"
  then show "t_ID y \<in> set (task_ids (db v'))"
    using keepsD [OF ret_nodes(1)] unfolding retains_def by blast
qed

lemma ask_dependencies_done:
  assumes "for_each ds insert_graph_dependency w = (Inr u, w')"
  shows "\<forall>d\<in>set ds. d \<in> set (task_dependencies (db w'))"
proof (rule for_each_establishes [OF assms])
  fix x v v' a assume "insert_graph_dependency x v = (Inr a, v')"
  then show "x \<in> set (task_dependencies (db v'))" by (rule insert_graph_dependency_InrD)
next
  fix x y v v' a assume "insert_graph_dependency x v = (Inr a, v')" "y \<in> set (task_dependencies (db v))"
  then show "y \<in> set (task_dependencies (db v'))"
    using keepsD [OF ret_nodes(2)] unfolding retains_def by blast
qed

lemma ask_body_InrD:
  assumes "ask_body work w = (Inr (c, root), w')"
    and r: "r \<in> set (events (db w))" "ev_ID (er_Event r) = ev_ID (aw_Event work)" "same_event_source src key r"
  shows "ask_visible (aw_Tasks work) (aw_Dependencies work) src key (db w')"
proof -
  let ?upd = "update_events (\<lambda>_ r. ev_ID (er_Event r) = ev_ID (aw_Event work))
    (set_processed EventProcessed [] (ev_ReceivedAt (aw_Event work)))"
  from assms(1) obtain actual root0 w1 w2 w3 w4 w5 n where
    cv: "ask_conversation work w = (Inr actual, w1)" and
    tu: "insertTurn ((aw_Turn work)\<lparr>tu_ConversationID := cv_ID actual\<rparr>) (cv_TranscriptRetention actual) w1 = (Inr (), w2)" and
    ts: "for_each (aw_Tasks work) (insert_ask_node root0 (cv_ID actual)) w2 = (Inr (), w3)" and
    ds: "for_each (aw_Dependencies work) insert_graph_dependency w3 = (Inr (), w4)" and
    ev: "execute ?upd w4 = (Inr n, w5)" and au: "ask_audit work root0 actual w5 = (Inr (), w')"
    unfolding ask_body_def Let_def by (auto simp: tx_bind_Inr tx_return_Inr)
  have k4: "retains (db w) (db w4)"
  proof -
    have "retains (db w2) (db w3)" by (rule keepsD [OF ret.keeps_for_each [OF ret_nodes(1)] ts])
    moreover have "retains (db w3) (db w4)" by (rule keepsD [OF ret.keeps_for_each [OF ret_nodes(2)] ds])
    ultimately show ?thesis
      using keepsD [OF ret_ask_conversation cv] keepsD [OF ret_inserts(2) tu] ret.R_trans by blast
  qed
  have "event_ident r \<in> set (map event_ident (events (db w)))" using r(1) by simp
  with k4 have "event_ident r \<in> set (map event_ident (events (db w4)))" unfolding retains_def by blast
  then obtain r4 where r4: "r4 \<in> set (events (db w4))" "event_ident r4 = event_ident r" by auto
  let ?f = "set_processed EventProcessed [] (ev_ReceivedAt (aw_Event work))"
  have w5: "db w5 = snd (?upd (db w4))" using execute_InrD [OF ev] by simp
  have "ev_ID (er_Event r4) = ev_ID (aw_Event work)" and src4: "same_event_source src key r4"
    using r4(2) r(2,3) event_key_source [of r r4 src key] by (auto simp: event_ident_def)
  then have r5: "?f r4 \<in> set (events (db w5))"
    using r4(1) by (force simp: w5 update_events_def set_upd_rows)
  moreover have "same_event_source src key (?f r4)" "er_Status (?f r4) = EventProcessed"
    using src4 by (auto simp: set_processed_def same_event_source_def)
  moreover have w': "events (db w') = events (db w5)" "tasks (db w') = tasks (db w5)"
    "task_dependencies (db w') = task_dependencies (db w5)"
    using au by (auto simp: ask_audit_def insertAuditEntry_def tx_simps tx_cases dest!: tx_dests)
  moreover have "set (task_ids (db w3)) \<subseteq> set (task_ids (db w4))"
    using keepsD [OF ret.keeps_for_each [OF ret_nodes(2)] ds] by (simp add: retains_def)
  ultimately show ?thesis
    using ask_nodes_done [OF ts] ask_dependencies_done [OF ds]
    by (auto simp: ask_visible_def task_ids_def list_ex_iff w5)
qed

subsection \<open>The commit of a request is atomic\<close>

lemma reads_unchanged:
  "keeps (=) (GetEventBySourceIdempotency src k)" "keeps (=) (GetTaskByIdempotencyKey k)"
  "keeps (=) (GetConversation c)" "keeps (=) (check r)"
  unfolding GetEventBySourceIdempotency_def GetEvent_def GetTaskByIdempotencyKey_def GetConversation_def check_def
  by (intro unchanged.keeps_prog)+

lemma insertEvent_InrD:
  assumes "insertEvent e w = (Inr u, w')"
  shows "\<exists>r\<in>set (events (db w')). er_Event r = e"
proof -
  from assms obtain s where "insert_event_row e s = Inr (db w')"
    unfolding insertEvent_def tx_simps by (blast dest: insert_stmt_InrD)
  then have "db w' = s\<lparr>events := events s @
    [\<lparr>er_Event = e, er_Status = EventPending, er_Error = None, er_ProcessedAt = None\<rparr>]\<rparr>"
    by (auto simp: insert_event_row_def split: if_splits)
  then show ?thesis by simp
qed

lemma ask_tx_InrD:
  assumes "ask_tx work b w = (Inr (Commit r), w')"
    and "b \<Longrightarrow> \<exists>x\<in>set (events (db w)). ev_ID (er_Event x) = ev_ID (aw_Event work) \<and> same_event_source src key x"
    and "\<not> b \<Longrightarrow> src = ev_Source (aw_Event work) \<and> key = ev_IdempotencyKey (aw_Event work)"
  shows "ask_visible (aw_Tasks work) (aw_Dependencies work) src key (db w')"
proof -
  from assms(1) obtain c root w1 where body: "ask_body work w1 = (Inr (c, root), w')"
    and pre: "if b then w1 = w else insertEvent (aw_Event work) w = (Inr (), w1)"
    unfolding ask_tx_def by (auto simp: tx_simps tx_cases split: if_splits)
  have "\<exists>x\<in>set (events (db w1)). ev_ID (er_Event x) = ev_ID (aw_Event work) \<and> same_event_source src key x"
    using pre assms(2,3) insertEvent_InrD [of "aw_Event work" w "()" w1]
    by (cases b) (simp, force simp: same_event_source_def)
  with ask_body_InrD [OF body] show ?thesis by blast
qed

lemma commit_ask_cases:
  assumes "commit_ask work b w = (res, w')"
  shows "db w' = db w \<or> (\<exists>w1 w2 r. db w1 = db w \<and> ask_tx work b w1 = (Inr (Commit (Inr r)), w2) \<and>
    db w' = db w2 \<and> res = Inr (fst r, snd r, False))"
proof -
  obtain o1 w1 where run: "run_tx (ask_tx work b) w = (o1, w1)" by fastforce
  show ?thesis
  proof (cases o1)
    case (Inl e)
    with run run_tx_rollback [of _ w e w1] assms show ?thesis by (auto simp: commit_ask_def tx_bind_def)
  next
    case (Inr p)
    show ?thesis
    proof (cases p)
      case (Inl e)
      have quiet: "keeps (=) (tx_bind (attempt (GetEventBySourceIdempotency (ev_Source (aw_Event work))
          (ev_IdempotencyKey (aw_Event work)))) (\<lambda>l. case l of
             Inr existingEvent \<Rightarrow> existing_ask existingEvent (tx_throw ErrConflict) | Inl _ \<Rightarrow> tx_throw e))"
        unfolding existing_ask_def by (intro unchanged.keeps_prog reads_unchanged)
      have "db w1 = db w" using run Inr \<open>p = Inl e\<close>
        by (auto elim!: run_tx_InrE simp: ask_tx_def tx_simps tx_cases)
      moreover have "db w1 = db w'"
        using keepsD [OF quiet] assms run Inr \<open>p = Inl e\<close> by (simp add: commit_ask_def tx_bind_def)
      ultimately show ?thesis by simp
    next
      case (Inr r)
      from run \<open>o1 = Inr p\<close> Inr have "run_tx (ask_tx work b) w = (Inr (Inr r), w1)" by simp
      then show ?thesis
      proof (cases rule: run_tx_InrE)
        case (commit w2 w3)
        with assms run \<open>o1 = Inr p\<close> Inr show ?thesis
          by (cases r) (auto simp: commit_ask_def tx_bind_def tx_return_def)
      next
        case (abandon w2 w3)
        then show ?thesis by (auto simp: ask_tx_def tx_simps tx_cases)
      qed
    qed
  qed
qed

lemma normalize_fields:
  "map t_ID (aw_Tasks (normalizeRecoveredAskWork work)) = map t_ID (aw_Tasks work)"
  "aw_Dependencies (normalizeRecoveredAskWork work) = aw_Dependencies work"
  "aw_Event (normalizeRecoveredAskWork work) = aw_Event work"
proof -
  have "map (t_ID \<circ> (\<lambda>(k, t). normalize_task e k t)) (List.enumerate n ts) = map t_ID ts" for e n ts
    by (induction ts arbitrary: n) (simp_all add: normalize_task_def)
  then show "map t_ID (aw_Tasks (normalizeRecoveredAskWork work)) = map t_ID (aw_Tasks work)"
    by (simp add: normalizeRecoveredAskWork_def Let_def)
qed (simp_all add: normalizeRecoveredAskWork_def Let_def)

lemma source_lookup_InrD:
  assumes "GetEventBySourceIdempotency src key w = (Inr e, w')"
  shows "\<exists>x\<in>set (events (db w)). ev_ID (er_Event x) = ev_ID e \<and> same_event_source src key x"
proof -
  from assms obtain i where i: "map_option (ev_ID \<circ> er_Event) (find (same_event_source src key) (events (db w))) = Some i"
    and e: "map_option er_Event (find_event i (db w)) = Some e"
    unfolding GetEventBySourceIdempotency_def GetEvent_def by (auto simp: tx_simps dest!: tx_dests)
  from e have "ev_ID e = i" by (auto simp: find_event_def dest: find_SomeD)
  with i show ?thesis by (auto dest: find_SomeD)
qed

lemma existing_ask_cases:
  assumes "existing_ask e m w = (res, w')"
  shows "db w' = db w \<or> (\<exists>w1. db w1 = db w \<and> m w1 = (res, w'))"
proof -
  obtain r w1 where get: "GetTaskByIdempotencyKey (root_key (ev_ID e)) w = (r, w1)" by fastforce
  have db1: "db w1 = db w" using keepsD [OF reads_unchanged(2) get] by simp
  show ?thesis
  proof (cases r)
    case (Inl x)
    with assms get db1 show ?thesis by (auto simp: existing_ask_def tx_bind_def attempt_def)
  next
    case (Inr t)
    have "keeps (=) (tx_bind (GetConversation (t_ConversationID t)) (\<lambda>c. tx_return (c, t, True)))"
      by (intro unchanged.keeps_prog reads_unchanged)
    from keepsD [OF this] Inr assms get db1 show ?thesis
      by (simp add: existing_ask_def tx_bind_def attempt_def)
  qed
qed

lemma commit_ask_atomic:
  assumes "commit_ask work b w = (res, w')"
    and "b \<Longrightarrow> \<exists>x\<in>set (events (db w)). ev_ID (er_Event x) = ev_ID (aw_Event work) \<and> same_event_source src key x"
    and "\<not> b \<Longrightarrow> src = ev_Source (aw_Event work) \<and> key = ev_IdempotencyKey (aw_Event work)"
  shows "db w' = db w \<or> ((\<exists>c root. res = Inr (c, root, False)) \<and>
    ask_visible (aw_Tasks work) (aw_Dependencies work) src key (db w'))"
  using commit_ask_cases [OF assms(1)] ask_tx_InrD [of work b _ _ _ src key] assms(2,3) by metis

text \<open>
  C31: the durable ingress of a request is all or nothing.  Whatever fails, either the store is as
  before, or the call reports a new request and its event is recorded as processed, all its tasks and
  all its dependencies are stored.
\<close>

theorem ask_work_atomic:
  assumes "CreateAskWork work w = (res, w')"
  shows "db w' = db w \<or> ((\<exists>c root. res = Inr (c, root, False)) \<and>
    ask_visible (aw_Tasks work) (aw_Dependencies work) (ev_Source (aw_Event work))
      (ev_IdempotencyKey (aw_Event work)) (db w'))"
proof -
  let ?e = "aw_Event work"
  let ?get = "GetEventBySourceIdempotency (ev_Source ?e) (ev_IdempotencyKey ?e)"
  obtain r1 w1 where chk: "check (Validate ?e) w = (r1, w1)" by fastforce
  obtain r2 w2 where get: "?get w1 = (r2, w2)" by fastforce
  have db1: "db w1 = db w" and db2: "db w2 = db w"
    using keepsD [OF reads_unchanged(4) chk] keepsD [OF reads_unchanged(1) get] by simp_all
  consider "db w' = db w" | "commit_ask work False w2 = (res, w')"
    | ex w3 where "r2 = Inr ex" "db w3 = db w2"
        "commit_ask (normalizeRecoveredAskWork (work\<lparr>aw_Event := ex\<rparr>)) True w3 = (res, w')"
    using assms chk get db1 db2 existing_ask_cases [of _ _ w2 res w']
    by (fastforce simp: CreateAskWork_def Let_def tx_bind_def attempt_def tx_throw_def split: sum.splits if_splits)
  then show ?thesis
  proof cases
    case 2
    from commit_ask_atomic [OF this] db2 show ?thesis by simp
  next
    case 3
    from source_lookup_InrD [of _ _ w1 ex w2] get 3(1,2) db1 db2
    have "\<exists>x\<in>set (events (db w3)). ev_ID (er_Event x) = ev_ID ex \<and> same_event_source (ev_Source ?e) (ev_IdempotencyKey ?e) x"
      by simp
    with commit_ask_atomic [OF 3(3), of "ev_Source ?e" "ev_IdempotencyKey ?e"] 3(2) db2 show ?thesis
      by (simp add: normalize_fields ask_visible_def del: set_map)
  qed simp
qed

subsection \<open>Concrete runs\<close>

definition sample_event :: "string \<Rightarrow> Envelope" where
  "sample_event i = \<lparr>ev_ID = i, ev_Type = ''ask'', ev_Version = 1,
     ev_Source = \<lparr>so_Kind = ''local'', so_ConnectorID = [], so_InstanceID = []\<rparr>,
     ev_Actor = \<lparr>ac_ID = ''user'', ac_DisplayName = []\<rparr>, ev_OccurredAt = sample_time,
     ev_ReceivedAt = sample_time, ev_ConversationKey = ''v'', ev_CorrelationID = i, ev_CausationID = None,
     ev_IdempotencyKey = i, ev_TrustLevel = TrustLocal,
     ev_ReplyTarget = \<lparr>rt_ConnectorID = [], rt_ChannelID = [], rt_ThreadID = []\<rparr>, ev_Payload = ''{}''\<rparr>"

definition sample_ask :: AskWork where
  "sample_ask = \<lparr>aw_Event = sample_event ''e'', aw_Conversation = sample_conversation ''v'' True,
     aw_ApplyRetention = False, aw_Turn = sample_turn ''u'' [],
     aw_Tasks = [sample_task ''r'', (sample_task ''a'')\<lparr>t_RootTaskID := ''r'', t_ParentTaskID := Some ''r''\<rparr>],
     aw_Dependencies = [\<lparr>dep_TaskID = ''r'', dep_DependsOnTaskID = ''a''\<rparr>], aw_Audit = None\<rparr>"

theorem ask_work_atomic_witness:
  "ask_visible (aw_Tasks sample_ask) (aw_Dependencies sample_ask) (ev_Source (aw_Event sample_ask))
     (ev_IdempotencyKey (aw_Event sample_ask)) (db (snd (CreateAskWork sample_ask (sample_world empty_store))))"
proof -
  let ?r = "CreateAskWork sample_ask (sample_world empty_store)"
  have "task_ids (db (snd ?r)) = [''r'', ''a'']" by code_simp
  then have "db (snd ?r) \<noteq> db (sample_world empty_store)"
    by (auto simp: task_ids_def empty_store_def)
  with ask_work_atomic [of sample_ask "sample_world empty_store" "fst ?r" "snd ?r"] show ?thesis by simp
qed

end
