(* ===== verification/Idempotency.thy ===== *)
theory Idempotency
  imports Approval_Store Tool_Store
begin

text \<open>
  The contract that the callers of the \<open>Create\<close> and \<open>Start\<close> operations rely on when they retry: an
  operation reports a new record at most once per idempotency key, however often it is called and
  whatever runs in between.  The contract is a locale; the operations of the store provide it.
\<close>

locale idempotent_create =
  fixes create :: "'x \<Rightarrow> ('r \<times> bool) db_op"
    and key :: "'x \<Rightarrow> string"
    and keys :: "store \<Rightarrow> string set"
  assumes fresh: "create x w = (Inr (r, False), w') \<Longrightarrow> key x \<notin> keys (db w) \<and> key x \<in> keys (db w')"
    and lasting: "evolves UNIV s s' \<Longrightarrow> keys s \<subseteq> keys s'"
begin

lemma known_is_replay: "key x \<in> keys (db w) \<Longrightarrow> fst (create x w) \<noteq> Inr (r, False)"
  using fresh by (metis prod.collapse)

lemma at_most_once:
  assumes "create x w = (Inr (r, False), w1)" and "evolves UNIV (db w1) (db w2)" and "key y = key x"
  shows "fst (create y w2) \<noteq> Inr (r', False)"
proof -
  from fresh [OF assms(1)] lasting [OF assms(2)] assms(3) have "key y \<in> keys (db w2)" by auto
  then show ?thesis by (rule known_is_replay)
qed

end

subsection \<open>Tool invocations\<close>

interpretation tool_start: idempotent_create StartToolInvocation in_IdempotencyKey invocation_keys
  by unfold_locales (auto dest: start_fresh evolves_invocation_keys)

subsection \<open>Tasks\<close>

definition idempotency_keys :: "store \<Rightarrow> string set" where
  "idempotency_keys s = set (map t_IdempotencyKey (tasks s))"

lemma evolves_task_keys: "evolves L s s' \<Longrightarrow> idempotency_keys s \<subseteq> idempotency_keys s'"
  unfolding evolves_def idempotency_keys_def set_map
  by (rule grows_keys [of "row_steps L"]) (auto simp: row_steps_fields)

lemma insertTask_InrD:
  assumes "insertTask t w = (Inr u, w')"
  shows "t_IdempotencyKey t \<notin> idempotency_keys (db w) \<and> t_IdempotencyKey t \<in> idempotency_keys (db w')"
  using assms
  by (auto simp: insertTask_def tx_simps task_constraints_def idempotency_keys_def dest!: tx_dests split: if_splits)

lemma task_lookup_error:
  assumes "GetTaskByIdempotencyKey k w = (Inl ErrNotFound, w')"
  shows "k \<notin> idempotency_keys (db w)"
  using assms
  by (auto simp: GetTaskByIdempotencyKey_def query_row_def stmt_def Let_def idempotency_keys_def
      find_None_set split: if_splits option.splits)

lemma CreateTask_fresh:
  "CreateTask t w = (Inr (r, False), w') \<Longrightarrow>
   t_IdempotencyKey t \<notin> idempotency_keys (db w) \<and> t_IdempotencyKey t \<in> idempotency_keys (db w')"
  by (auto simp: CreateTask_def tx_simps tx_cases dest!: insertTask_InrD)

interpretation task_create: idempotent_create CreateTask t_IdempotencyKey idempotency_keys
  by unfold_locales (auto dest: CreateTask_fresh evolves_task_keys)

text \<open>A graph is identified by the key of its first task.\<close>

definition graph_key :: "Task list \<times> Dependency list \<Rightarrow> string" where
  "graph_key g = t_IdempotencyKey (hd (fst g))"

lemma CreateTaskGraph_fresh:
  assumes "CreateTaskGraph ts ds w = (Inr (r, False), w')"
  shows "graph_key (ts, ds) \<notin> idempotency_keys (db w) \<and> graph_key (ts, ds) \<in> idempotency_keys (db w')"
proof (cases ts)
  case Nil
  with assms show ?thesis by (simp add: CreateTaskGraph_def tx_throw_def)
next
  case (Cons root rest)
  from assms Cons obtain w1 where miss: "GetTaskByIdempotencyKey (t_IdempotencyKey root) w = (Inl ErrNotFound, w1)"
    and tx: "with_tx (tx_bind (for_each ts (insert_graph_node root)) (\<lambda>_.
      tx_bind (for_each ds insert_graph_dependency) (\<lambda>_. tx_return (root, False)))) w1 = (Inr (r, False), w')"
    by (auto simp: CreateTaskGraph_def tx_simps tx_cases simp del: for_each.simps)
  from tx obtain w2 w3 w4 w5 where w': "db w' = db w5"
    and ins: "insertTask root w2 = (Inr (), w3)" and nodes: "for_each rest (insert_graph_node root) w3 = (Inr (), w4)"
    and deps: "for_each ds insert_graph_dependency w4 = (Inr (), w5)"
    by (elim with_tx_InrE) (auto simp: Cons tx_simps insert_graph_node_def)
  have "keeps (evolves UNIV) (for_each rest (insert_graph_node root))"
    unfolding insert_graph_node_def by (intro keeps_rules keeps_records)
  then have "evolves UNIV (db w3) (db w4)" using nodes by (simp add: keeps_def) (metis snd_conv)
  moreover have "keeps (evolves UNIV) (for_each ds insert_graph_dependency)"
    unfolding insert_graph_dependency_def by (intro keeps_rules)
  then have "evolves UNIV (db w4) (db w5)" using deps by (simp add: keeps_def) (metis snd_conv)
  ultimately have "idempotency_keys (db w3) \<subseteq> idempotency_keys (db w')"
    using evolves_task_keys evo.R_trans w' by metis
  with insertTask_InrD [OF ins] task_lookup_error [OF miss] show ?thesis
    by (auto simp: graph_key_def Cons)
qed

interpretation graph_create: idempotent_create "\<lambda>(ts, ds). CreateTaskGraph ts ds" graph_key idempotency_keys
  by unfold_locales (auto dest: CreateTaskGraph_fresh evolves_task_keys)

end
