(* ===== verification/Voice_Store.thy ===== *)
theory Voice_Store
  imports Dialog_Store Sample_Data
begin

text \<open>
  \<open>core/persistence/voice.go\<close> and the listing of \<open>desktop.go\<close>: voice sessions, whose state follows the
  dialog transitions and of which a device has one that is active.
\<close>

definition fallbackVoiceValue :: "string \<Rightarrow> string \<Rightarrow> string" where
  "fallbackVoiceValue value fallback = (if value = [] then fallback else value)"

definition CreateVoiceSession :: "VoiceSession \<Rightarrow> unit db_op" where
  "CreateVoiceSession session = insert_stmt (insert_voice_row
     (session\<lparr>vs_Direction := fallbackVoiceValue (vs_Direction session) ''OUTGOING'',
        vs_AudioRoute := fallbackVoiceValue (vs_AudioRoute session) ''EARPIECE''\<rparr>))"

definition GetVoiceSession :: "string \<Rightarrow> VoiceSession db_op" where
  "GetVoiceSession i = query_row (find_voice i)"

text \<open>A session without a device has a \<open>NULL\<close> there, which equals no argument.\<close>

definition active_of_device :: "string \<Rightarrow> store \<Rightarrow> VoiceSession option" where
  "active_of_device deviceID s =
     find (\<lambda>v. vs_DeviceID v \<noteq> [] \<and> vs_DeviceID v = deviceID \<and> active_voice v) (voice_sessions s)"

definition GetActiveVoiceSessionForDevice :: "string \<Rightarrow> VoiceSession db_op" where
  "GetActiveVoiceSessionForDevice deviceID = query_row (active_of_device deviceID)"

definition ListVoiceSessions :: "bool \<Rightarrow> int \<Rightarrow> VoiceSession list db_op" where
  "ListVoiceSessions activeOnly limit =
     query (\<lambda>s. take (clampLimit limit) (sort_key_desc (formatTime \<circ> vs_StartedAt)
       (filter (\<lambda>v. \<not> activeOnly \<or> active_voice v) (voice_sessions s))))"

definition UpdateVoicePreferences :: "string \<Rightarrow> bool \<Rightarrow> bool \<Rightarrow> string \<Rightarrow> VoiceSession db_op" where
  "UpdateVoicePreferences i muted pushToTalk audioRoute =
     tx_bind (stmt (update_voices (\<lambda>_ v. vs_ID v = i \<and> active_voice v)
       (\<lambda>v. v\<lparr>vs_Muted := muted, vs_PushToTalk := pushToTalk,
          vs_AudioRoute := fallbackVoiceValue audioRoute ''EARPIECE''\<rparr>))) (\<lambda>changed.
     tx_bind (require (changed = 1) ErrConflict) (\<lambda>_. GetVoiceSession i))"

definition set_dialog :: "DialogState \<Rightarrow> bool \<Rightarrow> time option \<Rightarrow> VoiceSession \<Rightarrow> VoiceSession" where
  "set_dialog to interrupted endedAt v = v\<lparr>vs_State := to, vs_Interrupted := interrupted,
     vs_EndedAt := (case endedAt of None \<Rightarrow> vs_EndedAt v | Some t \<Rightarrow> Some t)\<rparr>"

definition TransitionVoiceSession :: "string \<Rightarrow> DialogState \<Rightarrow> bool \<Rightarrow> VoiceSession db_op" where
  "TransitionVoiceSession i to interrupted =
     tx_bind (GetVoiceSession i) (\<lambda>session.
     case ValidateTransitionDialog (vs_State session) to of
       Inl e \<Rightarrow> tx_throw e
     | Inr _ \<Rightarrow>
         tx_bind (if to = StateEnded then tx_bind tx_now (\<lambda>now. tx_return (Some now)) else tx_return None) (\<lambda>endedAt.
         tx_bind (stmt (update_voices (\<lambda>_ v. vs_ID v = i \<and> vs_State v = vs_State session)
           (set_dialog to interrupted endedAt))) (\<lambda>changed.
         tx_bind (require (changed = 1) ErrConflict) (\<lambda>_. GetVoiceSession i))))"

subsection \<open>How these operations evolve the store\<close>

lemma keeps_CreateVoiceSession: "keeps (evolves L) (CreateVoiceSession v)"
  unfolding CreateVoiceSession_def by (rule keeps_inserts)

lemma keeps_GetVoiceSession: "keeps (evolves L) (GetVoiceSession i)"
  unfolding GetVoiceSession_def by (rule keeps_rules)

lemma keeps_UpdateVoicePreferences: "keeps (evolves L) (UpdateVoicePreferences i m p a)"
  unfolding UpdateVoicePreferences_def
  by (intro keeps_rules keeps_GetVoiceSession) (auto simp: voice_evolves_def intro: dialog_path.stay)

lemma dialog_step: "ValidateTransitionDialog s t = Inr u \<Longrightarrow> dialog_path s t"
  by (auto simp: ValidateTransitionDialog_def intro: dialog_path.intros split: if_splits)

lemma keeps_TransitionVoiceSession: "keeps (evolves L) (TransitionVoiceSession i to b)"
  unfolding TransitionVoiceSession_def
  by (intro keeps_rules keeps_GetVoiceSession) (auto simp: voice_evolves_def set_dialog_def dest: dialog_step)

subsection \<open>Transitions\<close>

lemma find_voice_ID: "find_voice i s = Some v \<Longrightarrow> vs_ID v = i \<and> v \<in> set (voice_sessions s)"
  by (auto simp: find_voice_def dest: find_SomeD)

lemma update_voices_find:
  assumes "update_voices (\<lambda>_ v. vs_ID v = i \<and> p v) f s = Inr (n, s')" and "find_voice i s = Some v" and "p v"
    and "\<And>v. vs_ID (f v) = vs_ID v"
  shows "find_voice i s' = Some (f v)"
  using assms find_voice_ID [OF assms(2)]
  by (auto simp: update_voices_def find_voice_def find_upd_rows Let_def split: if_splits)

text \<open>
  A call moves along the declared dialog transitions only.  An accepted transition starts from the
  stored state, which allows it, returns the session in the new state, and stamps the end of the call
  exactly when it is ended.
\<close>

theorem transition_follows_dialog:
  assumes "TransitionVoiceSession i to interrupted w = (Inr v', w')"
  shows "\<exists>v. find_voice i (db w) = Some v \<and> CanTransitionDialog (vs_State v) to \<and>
    find_voice i (db w') = Some v' \<and> vs_State v' = to \<and> vs_Interrupted v' = interrupted \<and>
    vs_EndedAt v' = (if to = StateEnded then Some (clock w (ticks w)) else vs_EndedAt v)"
proof -
  let ?stamp = "if to = StateEnded then tx_bind tx_now (\<lambda>now. tx_return (Some now)) else tx_return None"
  from assms obtain v w1 where get: "query_row (find_voice i) w = (Inr v, w1)"
    and branch: "(case ValidateTransitionDialog (vs_State v) to of Inl e \<Rightarrow> tx_throw e | Inr _ \<Rightarrow>
      tx_bind ?stamp (\<lambda>endedAt. tx_bind (stmt (update_voices (\<lambda>_ x. vs_ID x = i \<and> vs_State x = vs_State v)
        (set_dialog to interrupted endedAt))) (\<lambda>changed.
      tx_bind (require (changed = 1) ErrConflict) (\<lambda>_. GetVoiceSession i)))) w1 = (Inr v', w')"
    unfolding TransitionVoiceSession_def GetVoiceSession_def tx_bind_Inr by blast
  have v: "find_voice i (db w) = Some v" "db w1 = db w" "clock w1 = clock w" "ticks w1 = ticks w"
    using query_row_InrD [OF get] query_row_clock [OF get] by auto
  from branch have can: "CanTransitionDialog (vs_State v) to"
    and rest: "tx_bind ?stamp (\<lambda>endedAt. tx_bind (stmt (update_voices (\<lambda>_ x. vs_ID x = i \<and> vs_State x = vs_State v)
        (set_dialog to interrupted endedAt))) (\<lambda>changed.
      tx_bind (require (changed = 1) ErrConflict) (\<lambda>_. GetVoiceSession i))) w1 = (Inr v', w')"
    by (auto simp: ValidateTransitionDialog_def tx_throw_Inr split: if_splits)
  from rest obtain endedAt n s1 where e: "endedAt = (if to = StateEnded then Some (clock w (ticks w)) else None)"
    and s1: "update_voices (\<lambda>_ x. vs_ID x = i \<and> vs_State x = vs_State v) (set_dialog to interrupted endedAt) (db w) = Inr (n, s1)"
    and get: "find_voice i s1 = Some v'" "db w' = s1"
    unfolding GetVoiceSession_def
    by (auto simp: tx_simps tx_now_def v split: if_splits dest!: stmt_InrD query_row_InrD)
  have "find_voice i s1 = Some (set_dialog to interrupted endedAt v)"
    by (rule update_voices_find [OF s1 v(1)]) (simp_all add: set_dialog_def)
  with v(1) can get e show ?thesis by (auto simp: set_dialog_def)
qed

definition sample_voice :: "string \<Rightarrow> string \<Rightarrow> DialogState \<Rightarrow> VoiceSession" where
  "sample_voice i device state = \<lparr>vs_ID = i, vs_ConversationID = ''v'', vs_DeviceID = device, vs_State = state,
     vs_Transport = ''ws'', vs_Interrupted = False, vs_StartedAt = sample_time, vs_EndedAt = None,
     vs_CorrelationID = i, vs_Direction = ''OUTGOING'', vs_Muted = False, vs_PushToTalk = False,
     vs_AudioRoute = ''EARPIECE''\<rparr>"

definition voice_store :: store where
  "voice_store = empty_store\<lparr>conversations := [sample_conversation ''v'' True],
     voice_sessions := [sample_voice ''s'' [] StateListening]\<rparr>"

end
