(* ===== verification/Settings_Store.thy ===== *)
theory Settings_Store
  imports Idempotency
begin

text \<open>
  \<open>core/persistence/desktop.go\<close> and \<open>webhooks.go\<close>: settings, the ledger of desktop actions, summaries
  for the desktop and the nonces that webhooks may use once.  The value of a setting is the document
  that \<open>json.Marshal\<close> makes of it.
\<close>

subsection \<open>Settings\<close>

definition find_setting :: "string \<Rightarrow> store \<Rightarrow> SettingRow option" where
  "find_setting key s = find (\<lambda>r. se_Key r = key) (settings s)"

definition GetSetting :: "string \<Rightarrow> json db_op" where
  "GetSetting key = query_row (\<lambda>s. map_option se_Value (find_setting key s))"

text \<open>\<open>INSERT ... ON CONFLICT(key) DO UPDATE\<close>\<close>

definition upsert_setting :: "SettingRow \<Rightarrow> store \<Rightarrow> err + store" where
  "upsert_setting r s = Inr (s\<lparr>settings :=
     (if se_Key r \<in> set (map se_Key (settings s))
      then upd_rows (\<lambda>x. se_Key x = se_Key r) (\<lambda>x. x\<lparr>se_Value := se_Value r, se_UpdatedAt := se_UpdatedAt r\<rparr>) (settings s)
      else settings s @ [r])\<rparr>)"

definition put_setting :: "string \<Rightarrow> json \<Rightarrow> unit db_op" where
  "put_setting key value =
     tx_bind tx_now (\<lambda>now. insert_stmt (upsert_setting \<lparr>se_Key = key, se_Value = value, se_UpdatedAt = now\<rparr>))"

definition SetSetting :: "string \<Rightarrow> json \<Rightarrow> unit db_op" where
  "SetSetting key value = put_setting key value"

definition SetSettingWithAudit :: "string \<Rightarrow> json \<Rightarrow> AuditEntry \<Rightarrow> unit db_op" where
  "SetSettingWithAudit key value entry = with_tx (
     tx_bind (put_setting key value) (\<lambda>_. insertAuditEntry entry))"

subsection \<open>Desktop actions\<close>

definition find_action :: "string \<Rightarrow> store \<Rightarrow> ActionRow option" where
  "find_action i s = find (\<lambda>a. da_RequestID a = i) (desktop_action_results s)"

definition StartDesktopAction :: "string \<Rightarrow> (json option \<times> bool) db_op" where
  "StartDesktopAction requestID =
     tx_bind tx_now (\<lambda>now.
     tx_bind (attempt (insert_stmt (insert_action_row
       \<lparr>da_RequestID = requestID, da_Status = ''STARTED'', da_Result = None, da_CreatedAt = now,
        da_CompletedAt = None\<rparr>))) (\<lambda>r. case r of
       Inr _ \<Rightarrow> tx_return (None, True)
     | Inl e \<Rightarrow> tx_bind (attempt (query_row (find_action requestID))) (\<lambda>l. case l of
         Inl _ \<Rightarrow> tx_throw e
       | Inr a \<Rightarrow> if da_Status a = ''COMPLETED'' \<and> da_Result a \<noteq> None then tx_return (da_Result a, False)
           else tx_throw ErrConflict)))"

definition set_completed :: "json \<Rightarrow> time \<Rightarrow> ActionRow \<Rightarrow> ActionRow" where
  "set_completed response now a = a\<lparr>da_Status := ''COMPLETED'', da_Result := Some response, da_CompletedAt := Some now\<rparr>"

definition CompleteDesktopAction :: "string \<Rightarrow> json \<Rightarrow> unit db_op" where
  "CompleteDesktopAction requestID response =
     tx_bind tx_now (\<lambda>now.
     tx_bind (execute (update_actions (\<lambda>_ a. da_RequestID a = requestID \<and> da_Status a = ''STARTED'')
       (set_completed response now))) (\<lambda>changed.
     require (changed = 1) ErrConflict))"

subsection \<open>Summaries\<close>

record ConversationSummary =
  su_Conversation :: Conversation
  su_TurnCount :: nat
  su_ActiveTasks :: nat
  su_LastMessage :: string
  su_Correlation :: string

definition last_turn :: "string \<Rightarrow> store \<Rightarrow> Turn option" where
  "last_turn conversationID s = (case sort_key_desc (formatTime \<circ> tu_CreatedAt)
       (filter (\<lambda>t. tu_ConversationID t = conversationID) (turns s)) of [] \<Rightarrow> None | t # _ \<Rightarrow> Some t)"

definition summary_of :: "store \<Rightarrow> Conversation \<Rightarrow> ConversationSummary" where
  "summary_of s c = \<lparr>su_Conversation = c,
     su_TurnCount = count_rows (\<lambda>t. tu_ConversationID t = cv_ID c) (turns s),
     su_ActiveTasks = count_rows (\<lambda>t. t_ConversationID t \<noteq> [] \<and> t_ConversationID t = cv_ID c \<and> \<not> Terminal (t_Status t)) (tasks s),
     su_LastMessage = (case last_turn (cv_ID c) s of None \<Rightarrow> [] | Some t \<Rightarrow> tu_Text t),
     su_Correlation = (case last_turn (cv_ID c) s of None \<Rightarrow> [] | Some t \<Rightarrow> tu_CorrelationID t)\<rparr>"

definition ListConversationSummaries :: "int \<Rightarrow> ConversationSummary list db_op" where
  "ListConversationSummaries limit =
     query (\<lambda>s. map (summary_of s) (take (clampLimit limit)
       (sort_key_desc (formatTime \<circ> cv_UpdatedAt) (conversations s))))"

definition TaskDependencies :: "string \<Rightarrow> string list db_op" where
  "TaskDependencies taskID =
     query (\<lambda>s. sort (map dep_DependsOnTaskID (filter (\<lambda>d. dep_TaskID d = taskID) (task_dependencies s))))"

subsection \<open>Webhook nonces\<close>

text \<open>The error of the clean-up is dropped; the comparison is one of texts.\<close>

definition UseWebhookNonce :: "string \<Rightarrow> string \<Rightarrow> time \<Rightarrow> bool db_op" where
  "UseWebhookNonce connectorID nonce receivedAt =
     tx_bind (attempt (insert_stmt (insert_nonce_row
       \<lparr>no_ConnectorID = connectorID, no_Nonce = nonce, no_ReceivedAt = receivedAt\<rparr>))) (\<lambda>r. case r of
       Inr _ \<Rightarrow> tx_bind (attempt (execute (delete_nonces
           (\<lambda>_ n. formatTime (no_ReceivedAt n) < formatTime (receivedAt - seconds (24 * 3600)))))) (\<lambda>_.
         tx_return False)
     | Inl e \<Rightarrow> tx_bind (attempt (query (\<lambda>s. count_rows (\<lambda>n. nonce_key n = (connectorID, nonce)) (webhook_replay_nonces s)))) (\<lambda>l.
         case l of Inl _ \<Rightarrow> tx_throw e | Inr n \<Rightarrow> if 0 < n then tx_return True else tx_throw e))"

subsection \<open>How these operations evolve the store\<close>

lemma evolves_upsert_setting: "upsert_setting r s = Inr s' \<Longrightarrow> evolves L s s'"
  by (auto simp: upsert_setting_def evolves_def grows_refls wf_store_def map_upd_rows_same)

lemma keeps_put_setting: "keeps (evolves L) (put_setting k v)"
  unfolding put_setting_def by (intro keeps_rules evo.keeps_insert) (rule evolves_upsert_setting)

lemma keeps_SetSetting: "keeps (evolves L) (SetSetting k v)" "keeps (evolves L) (SetSettingWithAudit k v e)"
  unfolding SetSetting_def SetSettingWithAudit_def by (intro keeps_rules keeps_dialog keeps_put_setting)+

lemma keeps_StartDesktopAction: "keeps (evolves L) (StartDesktopAction i)"
  unfolding StartDesktopAction_def by (intro keeps_rules)

lemma keeps_CompleteDesktopAction: "keeps (evolves L) (CompleteDesktopAction i r)"
  unfolding CompleteDesktopAction_def by (intro keeps_rules) (auto simp: action_evolves_def set_completed_def)

lemma keeps_UseWebhookNonce: "keeps (evolves L) (UseWebhookNonce c n t)"
  unfolding UseWebhookNonce_def by (intro keeps_rules)

subsection \<open>What is read back\<close>

lemma upsert_find: "upsert_setting r s = Inr s' \<Longrightarrow> map_option se_Value (find_setting (se_Key r) s') = Some (se_Value r)"
proof -
  have "map_option se_Value (find (\<lambda>x. se_Key x = se_Key r)
      (upd_rows (\<lambda>x. se_Key x = se_Key r) (\<lambda>x. x\<lparr>se_Value := se_Value r, se_UpdatedAt := se_UpdatedAt r\<rparr>) xs)) =
    Some (se_Value r)" if "se_Key r \<in> se_Key ` set xs" for xs :: "SettingRow list"
    using that by (induction xs) auto
  moreover have "find (\<lambda>x. se_Key x = se_Key r) (xs @ [r]) = Some r" if "se_Key r \<notin> se_Key ` set xs" for xs
    using that by (induction xs) auto
  ultimately show "upsert_setting r s = Inr s' \<Longrightarrow> map_option se_Value (find_setting (se_Key r) s') = Some (se_Value r)"
    by (auto simp: upsert_setting_def find_setting_def)
qed

lemma upsert_other: "upsert_setting r s = Inr s' \<Longrightarrow> k \<noteq> se_Key r \<Longrightarrow> find_setting k s' = find_setting k s"
  by (auto simp: upsert_setting_def find_setting_def find_upd_rows find_append option.map_ident_strong
      dest: find_SomeD split: option.splits)

text \<open>
  A setting that was stored is the one that is read, with or without its audit entry, and storing it
  changes no other setting.
\<close>

theorem setting_roundtrip:
  assumes "SetSetting key v w = (Inr u, w1) \<or> SetSettingWithAudit key v entry w = (Inr u, w1)"
    and "settings (db w2) = settings (db w1)" and "GetSetting k w2 = (Inr v', w3)"
  shows "if k = key then v' = v else (\<exists>r. find_setting k (db w) = Some r \<and> v' = se_Value r)"
proof -
  from assms(1) obtain now s1 where s1: "upsert_setting \<lparr>se_Key = key, se_Value = v, se_UpdatedAt = now\<rparr> (db w) = Inr s1"
    and w1: "settings (db w1) = settings s1"
    unfolding SetSetting_def SetSettingWithAudit_def put_setting_def insertAuditEntry_def
    by (auto simp: tx_simps elim!: with_tx_InrE dest!: tx_dests)
  have same: "find_setting k (db w2) = find_setting k s1" using assms(2) w1 by (simp add: find_setting_def)
  from assms(3) obtain r where "find_setting k (db w2) = Some r" "v' = se_Value r"
    by (auto simp: GetSetting_def dest!: query_row_InrD)
  moreover have "map_option se_Value (find_setting key s1) = Some v" using upsert_find [OF s1] by simp
  moreover have "find_setting k s1 = find_setting k (db w)" if "k \<noteq> key" using upsert_other [OF s1, of k] that by simp
  ultimately show ?thesis using same by (cases "k = key") auto
qed

subsection \<open>Actions are performed once\<close>

definition action_ids :: "store \<Rightarrow> string set" where
  "action_ids s = set (map da_RequestID (desktop_action_results s))"

definition start_action :: "string \<Rightarrow> (json option \<times> bool) db_op" where
  "start_action i = tx_bind (StartDesktopAction i) (\<lambda>(result, started). tx_return (result, \<not> started))"

lemma start_action_fresh:
  "start_action i w = (Inr (r, False), w') \<Longrightarrow> i \<notin> action_ids (db w) \<and> i \<in> action_ids (db w')"
  unfolding start_action_def StartDesktopAction_def action_ids_def
  by (auto simp: tx_simps tx_cases dest!: tx_dests)

lemma evolves_action_ids: "evolves L s s' \<Longrightarrow> action_ids s \<subseteq> action_ids s'"
  unfolding evolves_def action_ids_def set_map by (rule grows_keys [of action_evolves]) (auto simp: action_evolves_def)

interpretation desktop_action: idempotent_create start_action id action_ids
  by unfold_locales (auto dest: start_action_fresh evolves_action_ids)

lemma start_action_true: "StartDesktopAction i w = (Inr (r, True), w') \<Longrightarrow> start_action i w = (Inr (r, False), w')"
  by (simp add: start_action_def tx_bind_def tx_return_def)

lemma completed_stays:
  assumes "evolves L s s'" and "find_action i s = Some a" and "da_Status a \<noteq> ''STARTED''"
  shows "find_action i s' = Some a"
  using action_order.grows_find [of "desktop_action_results s" "desktop_action_results s'" da_RequestID i a] assms
  by (auto simp: evolves_def find_action_def action_evolves_def)

lemma complete_InrD:
  assumes "wf_store (db w)" and "CompleteDesktopAction i response w = (Inr u, w')"
  shows "\<exists>a. find_action i (db w') = Some a \<and> da_Status a = ''COMPLETED'' \<and> da_Result a = Some response"
proof -
  let ?p = "\<lambda>a. da_RequestID a = i \<and> da_Status a = ''STARTED''"
  from assms(2) obtain now where upd: "update_actions (\<lambda>_. ?p) (set_completed response now) (db w) = (1, db w')"
    unfolding CompleteDesktopAction_def by (auto simp: tx_simps dest!: tx_dests)
  then have "count_rows ?p (desktop_action_results (db w)) \<noteq> 0" by (simp add: update_actions_def)
  then obtain a where a: "a \<in> set (desktop_action_results (db w))" "?p a" by (auto simp: count_rows_eq_0)
  with assms(1) find_distinct [of da_RequestID "desktop_action_results (db w)" a]
  have "find_action i (db w) = Some a" by (auto simp: find_action_def wf_store_def)
  moreover from upd have "db w' = snd (update_actions (\<lambda>_. ?p) (set_completed response now) (db w))" by simp
  ultimately have "find_action i (db w') = Some (set_completed response now a)"
    using a(2) by (auto simp: update_actions_def find_action_def find_upd_rows set_completed_def)
  then show ?thesis by (simp add: set_completed_def)
qed

lemma start_known_action:
  assumes "find_action i (db w) = Some a" and "da_Status a = ''COMPLETED''" and "da_Result a = Some r"
    and "\<And>n. \<not> fault w n"
  shows "fst (StartDesktopAction i w) = Inr (Some r, False)"
proof -
  have "i \<in> da_RequestID ` set (desktop_action_results (db w))"
    using assms(1) by (auto simp: find_action_def dest!: find_SomeD)
  with assms show ?thesis
    by (simp add: StartDesktopAction_def tx_eval Let_def insert_action_row_def)
qed

end
