(* ===== verification/Retention.thy ===== *)
theory Retention
  imports Dialog_Store Sample_Data
begin

text \<open>
  \<open>core/persistence/retention.go\<close>: the sweep that removes content older than a cutoff.  \<open>jd\<close> stands for
  SQLite's \<open>julianday\<close> of a stored timestamp; nothing is assumed of it but, where a theorem says so,
  that it does not reverse the order of two instants.  A delivery target whose fields are all empty
  and a list of artifacts that is empty count as scrubbed.
\<close>

subsection \<open>What the sweep leaves alone\<close>

definition open_delivery :: "string \<Rightarrow> store \<Rightarrow> bool" where
  "open_delivery root s \<longleftrightarrow> list_ex (\<lambda>d. dl_TaskID d \<in> set (graph_ids root s) \<and>
     dl_Status d \<notin> set [DeliveryDelivered, DeliveryFailed]) (deliveries s)"

definition open_invocation :: "string \<Rightarrow> store \<Rightarrow> bool" where
  "open_invocation root s \<longleftrightarrow> list_ex (\<lambda>v. in_TaskID v \<in> set (graph_ids root s) \<and>
     in_Status v \<notin> set [''COMPLETED'', ''FAILED'']) (tool_invocations s)"

definition open_approval :: "string \<Rightarrow> store \<Rightarrow> bool" where
  "open_approval root s \<longleftrightarrow> list_ex (\<lambda>a. ap_TaskID a \<in> set (graph_ids root s) \<and>
     ap_Status a \<notin> set [ApprovalDenied, ApprovalExpired, ApprovalConsumed]) (approvals s)"

definition graph_busy :: "string \<Rightarrow> store \<Rightarrow> bool" where
  "graph_busy root s \<longleftrightarrow> open_delivery root s \<or> open_invocation root s \<or> open_approval root s"

definition protected_task :: "store \<Rightarrow> Task \<Rightarrow> bool" where
  "protected_task s t \<longleftrightarrow> \<not> Terminal (t_Status t) \<or> graph_busy (t_RootTaskID t) s"

definition last_activity :: "Task \<Rightarrow> time" where
  "last_activity t = (case t_FinishedAt t of None \<Rightarrow> t_CreatedAt t | Some f \<Rightarrow> f)"

text \<open>The group of a root in the common table expression \<open>eligible_roots\<close>.\<close>

definition eligible_root :: "(time \<Rightarrow> int) \<Rightarrow> time \<Rightarrow> store \<Rightarrow> string \<Rightarrow> bool" where
  "eligible_root jd cutoff s root \<longleftrightarrow>
     list_ex (\<lambda>t. t_RootTaskID t = root) (tasks s) \<and>
     list_all (\<lambda>t. t_RootTaskID t \<noteq> root \<or> Terminal (t_Status t) \<and> jd (last_activity t) < jd cutoff) (tasks s) \<and>
     \<not> graph_busy root s"

definition eligible_ids :: "(time \<Rightarrow> int) \<Rightarrow> time \<Rightarrow> store \<Rightarrow> string list" where
  "eligible_ids jd cutoff s = map t_ID (filter (\<lambda>t. eligible_root jd cutoff s (t_RootTaskID t)) (tasks s))"

subsection \<open>The nine statements\<close>

definition expired_turn :: "(time \<Rightarrow> int) \<Rightarrow> time \<Rightarrow> store \<Rightarrow> Turn \<Rightarrow> bool" where
  "expired_turn jd cutoff s u \<longleftrightarrow> jd (tu_CreatedAt u) < jd cutoff \<and>
     \<not> list_ex (\<lambda>t. t_ConversationID t \<noteq> [] \<and> t_ConversationID t = tu_ConversationID u \<and> protected_task s t) (tasks s)"

definition expired_conversation :: "(time \<Rightarrow> int) \<Rightarrow> time \<Rightarrow> store \<Rightarrow> Conversation \<Rightarrow> bool" where
  "expired_conversation jd cutoff s c \<longleftrightarrow> cv_TranscriptRetention c \<and> cv_Title c \<noteq> expiredContentMarker \<and>
     jd (cv_UpdatedAt c) < jd cutoff \<and>
     \<not> list_ex (\<lambda>t. t_ConversationID t \<noteq> [] \<and> t_ConversationID t = cv_ID c \<and> protected_task s t) (tasks s)"

definition empty_reply :: ReplyTarget where
  "empty_reply = \<lparr>rt_ConnectorID = [], rt_ChannelID = [], rt_ThreadID = []\<rparr>"

text \<open>\<open>tasks protected LEFT JOIN conversations conversation ON conversation.id = protected.conversation_id\<close>\<close>

definition event_task :: "store \<Rightarrow> Envelope \<Rightarrow> Task \<Rightarrow> bool" where
  "event_task s e t \<longleftrightarrow> t_CausationID t = Some (ev_ID e) \<or>
     t_ConversationID t \<noteq> [] \<and> list_ex (\<lambda>c. cv_ID c = t_ConversationID t \<and> cv_ExternalKey c = ev_ConversationKey e) (conversations s)"

definition expired_event :: "(time \<Rightarrow> int) \<Rightarrow> time \<Rightarrow> store \<Rightarrow> EventRow \<Rightarrow> bool" where
  "expired_event jd cutoff s r \<longleftrightarrow> er_Status r \<noteq> EventPending \<and> jd (ev_ReceivedAt (er_Event r)) < jd cutoff \<and>
     (ev_Payload (er_Event r) \<noteq> ''{}'' \<or> ev_ReplyTarget (er_Event r) \<noteq> empty_reply \<or>
      ac_DisplayName (ev_Actor (er_Event r)) \<noteq> [] \<or> er_Error r \<noteq> None \<and> er_Error r \<noteq> Some []) \<and>
     \<not> list_ex (\<lambda>t. event_task s (er_Event r) t \<and> protected_task s t) (tasks s)"

definition set_event_expired :: "EventRow \<Rightarrow> EventRow" where
  "set_event_expired r = r\<lparr>er_Error := Some [],
     er_Event := (er_Event r)\<lparr>ev_Payload := ''{}'', ev_ReplyTarget := empty_reply,
       ev_Actor := (ev_Actor (er_Event r))\<lparr>ac_DisplayName := []\<rparr>\<rparr>\<rparr>"

definition expired_task :: "(time \<Rightarrow> int) \<Rightarrow> time \<Rightarrow> store \<Rightarrow> Task \<Rightarrow> bool" where
  "expired_task jd cutoff s t \<longleftrightarrow> eligible_root jd cutoff s (t_RootTaskID t) \<and>
     (t_Goal t \<noteq> expiredContentMarker \<or> t_Input t \<noteq> ''{}'' \<or> t_ProgressMessage t \<noteq> [] \<or> t_Error t \<noteq> [] \<or>
      t_Result t \<noteq> [] \<or> t_UserFacingSummary t \<noteq> expiredContentMarker \<or> t_Artifacts t \<noteq> [])"

definition expired_audit :: "(time \<Rightarrow> int) \<Rightarrow> time \<Rightarrow> store \<Rightarrow> AuditEntry \<Rightarrow> bool" where
  "expired_audit jd cutoff s e \<longleftrightarrow> jd (au_OccurredAt e) < jd cutoff \<and>
     (if au_TaskID e = [] then \<not> list_ex (\<lambda>t. t_CorrelationID t = au_CorrelationID e \<and>
          \<not> eligible_root jd cutoff s (t_RootTaskID t)) (tasks s)
      else au_TaskID e \<in> set (eligible_ids jd cutoff s))"

record RetentionSweepResult =
  rr_Cutoff :: time
  rr_SweptAt :: time
  rr_TurnsDeleted :: nat
  rr_ConversationsScrubbed :: nat
  rr_EventsScrubbed :: nat
  rr_TasksScrubbed :: nat
  rr_ToolInvocationsScrubbed :: nat
  rr_ApprovalsScrubbed :: nat
  rr_DeliveriesScrubbed :: nat
  rr_ArtifactMetadataDeleted :: nat
  rr_AuditEntriesDeleted :: nat

definition sweep_details :: "RetentionSweepResult \<Rightarrow> json" where
  "sweep_details r = JObj [(''cutoff'', JStr (formatTime (rr_Cutoff r))), (''swept_at'', JStr (formatTime (rr_SweptAt r))),
     (''turns_deleted'', JNum (int (rr_TurnsDeleted r))),
     (''conversations_scrubbed'', JNum (int (rr_ConversationsScrubbed r))),
     (''events_scrubbed'', JNum (int (rr_EventsScrubbed r))), (''tasks_scrubbed'', JNum (int (rr_TasksScrubbed r))),
     (''tool_invocations_scrubbed'', JNum (int (rr_ToolInvocationsScrubbed r))),
     (''approvals_scrubbed'', JNum (int (rr_ApprovalsScrubbed r))),
     (''deliveries_scrubbed'', JNum (int (rr_DeliveriesScrubbed r))),
     (''artifact_metadata_deleted'', JNum (int (rr_ArtifactMetadataDeleted r))),
     (''audit_entries_deleted'', JNum (int (rr_AuditEntriesDeleted r)))]"

definition sweep_audit :: "RetentionSweepResult \<Rightarrow> AuditEntry db_op" where
  "sweep_audit r =
     tx_bind tx_uuid (\<lambda>correlationID. tx_bind tx_uuid (\<lambda>i.
     tx_return \<lparr>au_ID = i, au_OccurredAt = rr_SweptAt r, au_ActorKind = ''system'', au_ActorID = ''core'',
       au_Action = ''retention.sweep'', au_ResourceKind = ''core'', au_ResourceID = ''local-core'',
       au_Decision = ''ALLOW'', au_Details = Some (sweep_details r), au_CorrelationID = correlationID,
       au_TaskID = [], au_ConversationID = [], au_ConnectorID = []\<rparr>))"

definition sweep_tx :: "(time \<Rightarrow> int) \<Rightarrow> time \<Rightarrow> time \<Rightarrow> RetentionSweepResult db_op" where
  "sweep_tx jd cutoff sweptAt =
     tx_bind (execute (delete_turns (expired_turn jd cutoff))) (\<lambda>n1.
     tx_bind (execute (update_conversations (expired_conversation jd cutoff)
       (\<lambda>c. c\<lparr>cv_Title := expiredContentMarker\<rparr>))) (\<lambda>n2.
     tx_bind (execute (update_events (expired_event jd cutoff) set_event_expired)) (\<lambda>n3.
     tx_bind (execute (delete_artifacts (\<lambda>s r. ar_TaskID r \<in> set (eligible_ids jd cutoff s)))) (\<lambda>n4.
     tx_bind (execute (update_invocations (\<lambda>s v. in_TaskID v \<in> set (eligible_ids jd cutoff s) \<and>
         (in_Input v \<noteq> ''{}'' \<or> in_Output v \<noteq> [] \<or> in_Error v \<noteq> []))
       (\<lambda>v. v\<lparr>in_Input := ''{}'', in_Output := [], in_Error := []\<rparr>))) (\<lambda>n5.
     tx_bind (execute (update_approvals (\<lambda>s a. ap_TaskID a \<in> set (eligible_ids jd cutoff s) \<and>
         (ap_ToolArguments a \<noteq> ''{}'' \<or> ap_Reason a \<noteq> expiredContentMarker))
       (\<lambda>a. a\<lparr>ap_ToolArguments := ''{}'', ap_Reason := expiredContentMarker\<rparr>))) (\<lambda>n6.
     tx_bind (execute (update_deliveries (\<lambda>s d. dl_TaskID d \<in> set (eligible_ids jd cutoff s) \<and>
         dl_Status d \<in> set [DeliveryDelivered, DeliveryFailed] \<and> (dl_Target d \<noteq> empty_target \<or> dl_LastError d \<noteq> []))
       (\<lambda>d. d\<lparr>dl_Target := empty_target, dl_LastError := []\<rparr>))) (\<lambda>n7.
     tx_bind (execute (update_tasks (expired_task jd cutoff) set_swept)) (\<lambda>n8.
     tx_bind (execute (delete_audit (expired_audit jd cutoff))) (\<lambda>n9.
     let result = \<lparr>rr_Cutoff = cutoff, rr_SweptAt = sweptAt, rr_TurnsDeleted = n1, rr_ConversationsScrubbed = n2,
       rr_EventsScrubbed = n3, rr_TasksScrubbed = n8, rr_ToolInvocationsScrubbed = n5, rr_ApprovalsScrubbed = n6,
       rr_DeliveriesScrubbed = n7, rr_ArtifactMetadataDeleted = n4, rr_AuditEntriesDeleted = n9\<rparr> in
     tx_bind (sweep_audit result) (\<lambda>entry.
     tx_bind (insertAuditEntry entry) (\<lambda>_. tx_return result)))))))))))"

definition ApplyRetentionSweep :: "(time \<Rightarrow> int) \<Rightarrow> time \<Rightarrow> time \<Rightarrow> RetentionSweepResult db_op" where
  "ApplyRetentionSweep jd cutoff sweptAt =
     (if cutoff = zero_time \<or> sweptAt = zero_time
      then tx_throw (ErrMsg ''retention cutoff and sweep time are required'')
      else if sweptAt < cutoff then tx_throw (ErrMsg ''retention cutoff cannot be after sweep time'')
      else with_tx (sweep_tx jd cutoff sweptAt))"

subsection \<open>How the sweep evolves the store\<close>

lemma expired_task_terminal: "expired_task jd cutoff s t \<Longrightarrow> t \<in> set (tasks s) \<Longrightarrow> Terminal (t_Status t)"
  by (auto simp: expired_task_def eligible_root_def list_all_iff)

lemma keeps_ApplyRetentionSweep: "LSweep \<in> L \<Longrightarrow> keeps (evolves L) (ApplyRetentionSweep jd cutoff sweptAt)"
  unfolding ApplyRetentionSweep_def sweep_tx_def sweep_audit_def
  by (intro keeps_upd_tasks_in keeps_rules keeps_dialog)
     (auto simp: invocation_evolves_def approval_evolves_def event_key_def set_event_expired_def
        intro: row_steps_single [OF _ row_step.sweep] dest: expired_task_terminal)

subsection \<open>What the sweep does\<close>

text \<open>The statuses that make a graph busy are not touched by the statements.\<close>

definition same_activity :: "store \<Rightarrow> store \<Rightarrow> bool" where
  "same_activity s s' \<longleftrightarrow> tasks s' = tasks s \<and>
     map (\<lambda>d. (dl_TaskID d, dl_Status d)) (deliveries s') = map (\<lambda>d. (dl_TaskID d, dl_Status d)) (deliveries s) \<and>
     map (\<lambda>v. (in_TaskID v, in_Status v)) (tool_invocations s') = map (\<lambda>v. (in_TaskID v, in_Status v)) (tool_invocations s) \<and>
     map (\<lambda>a. (ap_TaskID a, ap_Status a)) (approvals s') = map (\<lambda>a. (ap_TaskID a, ap_Status a)) (approvals s)"

interpretation activity: store_relation same_activity
  by unfold_locales (auto simp: same_activity_def)

lemma list_ex_map_cong: "map f xs = map f ys \<Longrightarrow> (\<And>x. p x = q (f x)) \<Longrightarrow> list_ex p xs = list_ex p ys"
  by (metis (mono_tags, lifting) list_ex_iff image_iff list.set_map)

lemma same_busy:
  assumes "same_activity s s'"
  shows "graph_busy root s' = graph_busy root s"
proof -
  have g: "graph_ids root s' = graph_ids root s" using assms by (simp add: same_activity_def graph_ids_def)
  have "open_delivery root s' = open_delivery root s"
    unfolding open_delivery_def g using assms
    by (intro list_ex_map_cong [where f = "\<lambda>d. (dl_TaskID d, dl_Status d)" and
          q = "\<lambda>(t, st). t \<in> set (graph_ids root s) \<and> st \<notin> set [DeliveryDelivered, DeliveryFailed]"])
       (simp_all add: same_activity_def)
  moreover have "open_invocation root s' = open_invocation root s"
    unfolding open_invocation_def g using assms
    by (intro list_ex_map_cong [where f = "\<lambda>v. (in_TaskID v, in_Status v)" and
          q = "\<lambda>(t, st). t \<in> set (graph_ids root s) \<and> st \<notin> set [''COMPLETED'', ''FAILED'']"])
       (simp_all add: same_activity_def)
  moreover have "open_approval root s' = open_approval root s"
    unfolding open_approval_def g using assms
    by (intro list_ex_map_cong [where f = "\<lambda>a. (ap_TaskID a, ap_Status a)" and
          q = "\<lambda>(t, st). t \<in> set (graph_ids root s) \<and> st \<notin> set [ApprovalDenied, ApprovalExpired, ApprovalConsumed]"])
       (simp_all add: same_activity_def)
  ultimately show ?thesis by (simp add: graph_busy_def)
qed

lemma same_eligible: "same_activity s s' \<Longrightarrow> eligible_root jd cutoff s' root = eligible_root jd cutoff s root"
  using same_busy [of s s' root] by (simp add: eligible_root_def same_activity_def)

lemma swept_fixed: "eligible_root jd cutoff s (t_RootTaskID t) \<Longrightarrow> \<not> expired_task jd cutoff s t \<Longrightarrow> set_swept t = t"
  by (auto simp: expired_task_def set_swept_def)

lemma activity_rows:
  "same_activity s (snd (delete_turns p s))" "same_activity s (snd (update_conversations q f s))"
  "same_activity s (snd (update_events q' g s))" "same_activity s (snd (delete_artifacts p' s))"
  "same_activity s (snd (update_invocations pi (\<lambda>v. v\<lparr>in_Input := a, in_Output := b, in_Error := c\<rparr>) s))"
  "same_activity s (snd (update_approvals pa (\<lambda>v. v\<lparr>ap_ToolArguments := a, ap_Reason := b\<rparr>) s))"
  "same_activity s (snd (update_deliveries pd (\<lambda>v. v\<lparr>dl_Target := e, dl_LastError := b\<rparr>) s))"
  by (simp_all add: same_activity_def update_invocations_def update_approvals_def update_deliveries_def map_upd_rows_same)

lemma sweep_frames:
  "turns (snd (delete_turns pt s)) = filter (\<lambda>u. \<not> pt s u) (turns s)"
  "map cv_TranscriptRetention (conversations (snd (update_conversations pc (\<lambda>c. c\<lparr>cv_Title := b\<rparr>) s))) =
     map cv_TranscriptRetention (conversations s)"
  "conversations (snd (delete_turns pt s)) = conversations s" "turns (snd (update_conversations pc fc s)) = turns s"
  "turns (snd (update_events pe fe s)) = turns s" "conversations (snd (update_events pe fe s)) = conversations s"
  "turns (snd (delete_artifacts pr s)) = turns s" "conversations (snd (delete_artifacts pr s)) = conversations s"
  "turns (snd (update_invocations pi fi s)) = turns s" "conversations (snd (update_invocations pi fi s)) = conversations s"
  "turns (snd (update_approvals pa fa s)) = turns s" "conversations (snd (update_approvals pa fa s)) = conversations s"
  "turns (snd (update_deliveries pd fd s)) = turns s" "conversations (snd (update_deliveries pd fd s)) = conversations s"
  "turns (snd (update_tasks pk fk s)) = turns s" "conversations (snd (update_tasks pk fk s)) = conversations s"
  "tasks (snd (update_tasks pk fk s)) = upd_rows (pk s) fk (tasks s)"
  "turns (snd (delete_audit pu s)) = turns s" "conversations (snd (delete_audit pu s)) = conversations s"
  "tasks (snd (delete_audit pu s)) = tasks s"
  unfolding Schema.update_defs delete_audit_def by (simp_all add: map_upd_rows_same)

lemma activity_row: "same_activity s (snd x) \<Longrightarrow> x = (n, t) \<Longrightarrow> same_activity s t"
  by simp

text \<open>The stores between the statements.\<close>

lemma sweep_tx_InrD:
  assumes "sweep_tx jd cutoff sweptAt w = (Inr r, w')"
  shows "\<exists>s7. same_activity (db w) s7 \<and>
    turns (db w') = filter (\<lambda>u. \<not> expired_turn jd cutoff (db w) u) (turns (db w)) \<and>
    map cv_TranscriptRetention (conversations (db w')) = map cv_TranscriptRetention (conversations (db w)) \<and>
    tasks (db w') = upd_rows (expired_task jd cutoff s7) set_swept (tasks s7)"
proof -
  from assms obtain n1 s1 n2 s2 n3 s3 n4 s4 n5 s5 n6 s6 n7 s7 n8 s8 n9 s9 where
    s: "delete_turns (expired_turn jd cutoff) (db w) = (n1, s1)"
       "update_conversations (expired_conversation jd cutoff) (\<lambda>c. c\<lparr>cv_Title := expiredContentMarker\<rparr>) s1 = (n2, s2)"
       "update_events (expired_event jd cutoff) set_event_expired s2 = (n3, s3)"
       "delete_artifacts (\<lambda>s r. ar_TaskID r \<in> set (eligible_ids jd cutoff s)) s3 = (n4, s4)"
       "update_invocations (\<lambda>s v. in_TaskID v \<in> set (eligible_ids jd cutoff s) \<and>
          (in_Input v \<noteq> ''{}'' \<or> in_Output v \<noteq> [] \<or> in_Error v \<noteq> []))
          (\<lambda>v. v\<lparr>in_Input := ''{}'', in_Output := [], in_Error := []\<rparr>) s4 = (n5, s5)"
       "update_approvals (\<lambda>s a. ap_TaskID a \<in> set (eligible_ids jd cutoff s) \<and>
          (ap_ToolArguments a \<noteq> ''{}'' \<or> ap_Reason a \<noteq> expiredContentMarker))
          (\<lambda>a. a\<lparr>ap_ToolArguments := ''{}'', ap_Reason := expiredContentMarker\<rparr>) s5 = (n6, s6)"
       "update_deliveries (\<lambda>s d. dl_TaskID d \<in> set (eligible_ids jd cutoff s) \<and>
          dl_Status d \<in> set [DeliveryDelivered, DeliveryFailed] \<and> (dl_Target d \<noteq> empty_target \<or> dl_LastError d \<noteq> []))
          (\<lambda>d. d\<lparr>dl_Target := empty_target, dl_LastError := []\<rparr>) s6 = (n7, s7)"
       "update_tasks (expired_task jd cutoff) set_swept s7 = (n8, s8)"
       "delete_audit (expired_audit jd cutoff) s8 = (n9, s9)"
    and fin: "turns (db w') = turns s9" "conversations (db w') = conversations s9" "tasks (db w') = tasks s9"
    unfolding sweep_tx_def sweep_audit_def insertAuditEntry_def Let_def
    by (clarsimp simp only: tx_bind_Inr) (auto simp: tx_simps dest!: tx_dests)
  note act = activity_row [OF activity_rows(1) s(1)] activity_row [OF activity_rows(2) s(2)]
    activity_row [OF activity_rows(3) s(3)] activity_row [OF activity_rows(4) s(4)]
    activity_row [OF activity_rows(5) s(5)] activity_row [OF activity_rows(6) s(6)]
    activity_row [OF activity_rows(7) s(7)]
  from act have "same_activity (db w) s7" by (meson activity.R_trans)
  moreover note t = s [THEN arg_cong [where f = snd], unfolded snd_conv, symmetric]
  have "turns s9 = turns s1" "turns s1 = filter (\<lambda>u. \<not> expired_turn jd cutoff (db w) u) (turns (db w))"
    "map cv_TranscriptRetention (conversations s9) = map cv_TranscriptRetention (conversations (db w))"
    "tasks s9 = upd_rows (expired_task jd cutoff s7) set_swept (tasks s7)"
    unfolding t by (simp_all add: sweep_frames)
  ultimately show ?thesis using fin by auto
qed

lemma sweep_rows:
  assumes "ApplyRetentionSweep jd cutoff sweptAt w = (Inr r, w')"
  shows "tasks (db w') = map (\<lambda>t. if eligible_root jd cutoff (db w) (t_RootTaskID t) then set_swept t else t) (tasks (db w)) \<and>
    turns (db w') = filter (\<lambda>u. \<not> expired_turn jd cutoff (db w) u) (turns (db w)) \<and>
    map cv_TranscriptRetention (conversations (db w')) = map cv_TranscriptRetention (conversations (db w))"
proof -
  from assms obtain w1 w2 where w12: "db w1 = db w" "db w' = db w2" "sweep_tx jd cutoff sweptAt w1 = (Inr r, w2)"
    unfolding ApplyRetentionSweep_def by (auto simp: tx_simps split: if_splits elim!: with_tx_InrE)
  from sweep_tx_InrD [OF w12(3)] w12(1,2) obtain s7 where s7: "same_activity (db w) s7"
    and rest: "turns (db w') = filter (\<lambda>u. \<not> expired_turn jd cutoff (db w) u) (turns (db w))"
      "map cv_TranscriptRetention (conversations (db w')) = map cv_TranscriptRetention (conversations (db w))"
      "tasks (db w') = upd_rows (expired_task jd cutoff s7) set_swept (tasks s7)" by auto
  have "expired_task jd cutoff s7 t = expired_task jd cutoff (db w) t" for t
    using same_eligible [OF s7] by (simp add: expired_task_def)
  with rest(3) s7 have "tasks (db w') = upd_rows (expired_task jd cutoff (db w)) set_swept (tasks (db w))"
    by (simp add: upd_rows_def same_activity_def)
  also have "\<dots> = map (\<lambda>t. if eligible_root jd cutoff (db w) (t_RootTaskID t) then set_swept t else t) (tasks (db w))"
    using swept_fixed by (auto simp: upd_rows_def expired_task_def)
  finally show ?thesis using rest(1,2) by simp
qed

text \<open>
  C25: the retention sweep is the row function it is meant to be.  In one commit it replaces the content of
  every task of the graphs that are over, quiet and older than the cutoff, changes no other task,
  deletes exactly the expired turns and never touches a conversation's retention setting.
\<close>

theorem sweep_refines:
  assumes "ApplyRetentionSweep jd cutoff sweptAt w = (Inr r, w')"
  shows "tasks (db w') = map (\<lambda>t. if eligible_root jd cutoff (db w) (t_RootTaskID t) then set_swept t else t) (tasks (db w)) \<and>
    turns (db w') = filter (\<lambda>u. \<not> expired_turn jd cutoff (db w) u) (turns (db w)) \<and>
    map cv_TranscriptRetention (conversations (db w')) = map cv_TranscriptRetention (conversations (db w))"
  using sweep_rows [OF assms] .

text \<open>
  The sweep spares recent and unfinished work.  When \<open>julianday\<close> does not reverse the order of two
  instants, a turn that is not older than the cutoff stays, and so does every task of a graph in which
  some task is unfinished, or was active at or after the cutoff, or of which an approval, a tool
  invocation or a delivery is still open.
\<close>

theorem sweep_spares_recent:
  assumes "mono jd" and "ApplyRetentionSweep jd cutoff sweptAt w = (Inr r, w')"
  shows "(\<forall>u\<in>set (turns (db w)). cutoff \<le> tu_CreatedAt u \<longrightarrow> u \<in> set (turns (db w'))) \<and>
    (\<forall>t\<in>set (tasks (db w)). \<not> Terminal (t_Status t) \<or> cutoff \<le> last_activity t \<or> graph_busy (t_RootTaskID t) (db w) \<longrightarrow>
       (\<forall>u\<in>set (tasks (db w)). t_RootTaskID u = t_RootTaskID t \<longrightarrow> u \<in> set (tasks (db w'))))"
proof -
  have old: "t < cutoff" if "jd t < jd cutoff" for t
    using that assms(1) by (meson linorder_not_le monoD)
  have "\<not> eligible_root jd cutoff (db w) (t_RootTaskID t)"
    if "t \<in> set (tasks (db w))" "\<not> Terminal (t_Status t) \<or> cutoff \<le> last_activity t \<or> graph_busy (t_RootTaskID t) (db w)" for t
    using that old [of "last_activity t"] by (auto simp: eligible_root_def list_all_iff)
  moreover have "\<not> expired_turn jd cutoff (db w) u" if "cutoff \<le> tu_CreatedAt u" for u
    using that old [of "tu_CreatedAt u"] by (auto simp: expired_turn_def)
  ultimately show ?thesis
    using sweep_rows [OF assms(2)] by (fastforce simp: image_iff)
qed

subsection \<open>The sweep on a concrete store\<close>

definition retention_store :: store where
  "retention_store = empty_store\<lparr>tasks := [(sample_task ''a'')\<lparr>t_Status := StatusCompleted, t_FinishedAt := Some sample_time\<rparr>,
       sample_task ''b''],
     conversations := [sample_conversation ''v'' True],
     turns := [sample_turn ''old'' ''v'', (sample_turn ''new'' ''v'')\<lparr>tu_CreatedAt := sample_time + seconds 100\<rparr>]\<rparr>"

definition sample_sweep :: "(err + RetentionSweepResult) \<times> store world" where
  "sample_sweep = ApplyRetentionSweep id (sample_time + seconds 100) (sample_time + seconds 200) (sample_world retention_store)"

lemma sample_sweep_runs: "\<not> isl (fst sample_sweep)"
  by code_simp

theorem sweep_refines_witness:
  "map t_Goal (tasks (db (snd sample_sweep))) = [expiredContentMarker, ''goal''] \<and>
   map tu_ID (turns (db (snd sample_sweep))) = [''new'']"
proof -
  note run = sweep_refines [OF run_Inr [OF sample_sweep_runs, unfolded sample_sweep_def], folded sample_sweep_def]
  have "map t_Goal (map (\<lambda>t. if eligible_root id (sample_time + seconds 100) retention_store (t_RootTaskID t)
      then set_swept t else t) (tasks retention_store)) = [expiredContentMarker, ''goal'']"
    "map tu_ID (filter (\<lambda>u. \<not> expired_turn id (sample_time + seconds 100) retention_store u) (turns retention_store)) = [''new'']"
    by code_simp+
  with run show ?thesis by simp
qed

end
