(* ===== verification/Device_Store.thy ===== *)
theory Device_Store
  imports Dialog_Store Sample_Data
begin

text \<open>
  \<open>core/persistence/devices.go\<close>: pairing a device with a one-time code, checking its credential,
  replacing the credential in two steps and revoking the device.  Credentials are stored as
  digests; the digest \<open>sha256\<close> is a parameter, and comparing two digests in constant time is
  comparing them.
\<close>

subsection \<open>Data\<close>

record PendingDeviceCredentialRotation =
  pr_DeviceID :: string
  pr_KeyVersion :: int
  pr_PreparedAt :: time
  pr_ExpiresAt :: time
  pr_CorrelationID :: string

record ConfirmedDeviceCredentialRotation =
  cr_DeviceID :: string
  cr_KeyVersion :: int
  cr_AlreadyConfirmed :: bool
  cr_CorrelationID :: string

definition DeviceCredentialRotationTTL :: time where
  "DeviceCredentialRotationTTL = seconds (5 * 60)"

definition HashCredential :: "(string \<Rightarrow> string) \<Rightarrow> string \<Rightarrow> string" where
  "HashCredential sha256 value = sha256 value"

subsection \<open>Pairing\<close>

definition CreatePairingSession :: "string \<Rightarrow> string \<Rightarrow> time \<Rightarrow> unit db_op" where
  "CreatePairingSession i codeHash expiresAt =
     tx_bind tx_now (\<lambda>now. insert_stmt (insert_pairing_row
       \<lparr>ps_ID = i, ps_CodeHash = codeHash, ps_ExpiresAt = expiresAt, ps_ConsumedAt = None, ps_CreatedAt = now\<rparr>))"

definition find_code :: "string \<Rightarrow> store \<Rightarrow> PairingRow option" where
  "find_code codeHash s = find (\<lambda>p. ps_CodeHash p = codeHash) (pairing_sessions s)"

definition paired_row :: "string \<Rightarrow> Device \<Rightarrow> time \<Rightarrow> DeviceRow" where
  "paired_row hash device now = \<lparr>dv_Device = device\<lparr>de_CreatedAt := now, de_LastSeenAt := Some now,
     de_RevokedAt := None, de_KeyVersion := 1\<rparr>, dv_CredentialHash = hash, dv_PendingHash = None,
     dv_PendingVersion = None, dv_PendingExpires = None\<rparr>"

definition privacy_row :: "string \<Rightarrow> bool \<Rightarrow> time \<Rightarrow> SettingRow" where
  "privacy_row deviceID retain now = \<lparr>se_Key = ''device:'' @ deviceID @ '':privacy'',
     se_Value = JObj [(''transcript_retention'', JBool retain)], se_UpdatedAt = now\<rparr>"

definition claim_pairing_tx :: "(string \<Rightarrow> string) \<Rightarrow> string \<Rightarrow> Device \<Rightarrow> string \<Rightarrow> bool option \<Rightarrow>
    AuditEntry option \<Rightarrow> time \<Rightarrow> unit db_op" where
  "claim_pairing_tx sha256 codeHash device credential retention audit now =
     tx_bind (query_row (find_code codeHash)) (\<lambda>pairing.
     tx_bind (require (ps_ConsumedAt pairing = None) ErrConflict) (\<lambda>_.
     tx_bind (require (now < ps_ExpiresAt pairing) ErrExpired) (\<lambda>_.
     tx_bind (execute (update_pairings (\<lambda>_ p. ps_ID p = ps_ID pairing \<and> ps_ConsumedAt p = None)
       (\<lambda>p. p\<lparr>ps_ConsumedAt := Some now\<rparr>))) (\<lambda>changed.
     tx_bind (require (changed = 1) ErrConflict) (\<lambda>_.
     tx_bind (insert_stmt (insert_device_row (paired_row (HashCredential sha256 credential) device now))) (\<lambda>_.
     tx_bind (case retention of None \<Rightarrow> tx_return ()
       | Some retain \<Rightarrow> insert_stmt (insert_setting_row (privacy_row (de_ID device) retain now))) (\<lambda>_.
     case audit of None \<Rightarrow> tx_return () | Some entry \<Rightarrow> insertAuditEntry entry)))))))"

definition claimPairingSession :: "(string \<Rightarrow> string) \<Rightarrow> string \<Rightarrow> Device \<Rightarrow> string \<Rightarrow> bool option \<Rightarrow>
    AuditEntry option \<Rightarrow> unit db_op" where
  "claimPairingSession sha256 codeHash device credential retention audit =
     tx_bind tx_now (\<lambda>now.
     with_tx (claim_pairing_tx sha256 codeHash device credential retention audit now))"

definition ClaimPairingSession :: "(string \<Rightarrow> string) \<Rightarrow> string \<Rightarrow> Device \<Rightarrow> string \<Rightarrow> bool list \<Rightarrow> unit db_op" where
  "ClaimPairingSession sha256 codeHash device credential transcriptRetention =
     claimPairingSession sha256 codeHash device credential
       (case transcriptRetention of [] \<Rightarrow> None | b # _ \<Rightarrow> Some b) None"

definition ClaimPairingSessionWithAudit :: "(string \<Rightarrow> string) \<Rightarrow> string \<Rightarrow> Device \<Rightarrow> string \<Rightarrow> bool \<Rightarrow>
    AuditEntry \<Rightarrow> unit db_op" where
  "ClaimPairingSessionWithAudit sha256 codeHash device credential retain audit =
     claimPairingSession sha256 codeHash device credential (Some retain) (Some audit)"

subsection \<open>Checking a credential\<close>

definition set_last_seen :: "time \<Rightarrow> DeviceRow \<Rightarrow> DeviceRow" where
  "set_last_seen now d = d\<lparr>dv_Device := (dv_Device d)\<lparr>de_LastSeenAt := Some now\<rparr>\<rparr>"

definition active_match :: "string \<Rightarrow> store \<Rightarrow> DeviceRow option" where
  "active_match wanted s =
     find (\<lambda>d. dv_CredentialHash d = wanted) (filter (\<lambda>d. dv_revoked d = None) (devices s))"

text \<open>The error of the final \<open>UPDATE\<close> is dropped.\<close>

definition VerifyDeviceCredential :: "(string \<Rightarrow> string) \<Rightarrow> string \<Rightarrow> string db_op" where
  "VerifyDeviceCredential sha256 credential =
     tx_bind (query (active_match (HashCredential sha256 credential))) (\<lambda>match.
     let matchedID = (case match of None \<Rightarrow> [] | Some d \<Rightarrow> dv_ID d) in
     if matchedID \<noteq> [] then
       tx_bind tx_now (\<lambda>now.
       tx_bind (attempt (execute (update_devices (\<lambda>_ d. dv_ID d = matchedID) (set_last_seen now)))) (\<lambda>_.
       tx_return matchedID))
     else tx_throw ErrInvalidDeviceCredential)"

text \<open>
  The loop over the pending credentials: the first unexpired match ends it, an expired one is
  remembered.  Scanning a \<open>NULL\<close> expiry into a string fails.
\<close>

fun pending_match :: "string \<Rightarrow> time \<Rightarrow> DeviceRow list \<Rightarrow> bool \<Rightarrow> err + string \<times> bool" where
  "pending_match wanted now [] expired = Inr ([], expired)"
| "pending_match wanted now (d # ds) expired = (case dv_PendingExpires d of
     None \<Rightarrow> Inl (ErrMsg ''scan'')
   | Some expiresAt \<Rightarrow>
       if dv_PendingHash d = Some wanted then
         if now < expiresAt then Inr (dv_ID d, expired) else pending_match wanted now ds True
       else pending_match wanted now ds expired)"

definition VerifyPendingDeviceCredential :: "(string \<Rightarrow> string) \<Rightarrow> string \<Rightarrow> string db_op" where
  "VerifyPendingDeviceCredential sha256 credential =
     tx_bind (query (\<lambda>s. filter (\<lambda>d. dv_revoked d = None \<and> dv_PendingHash d \<noteq> None) (devices s))) (\<lambda>rows.
     tx_bind tx_now (\<lambda>now.
     case pending_match (HashCredential sha256 credential) now rows False of
       Inl e \<Rightarrow> tx_throw e
     | Inr (matchedID, expiredMatch) \<Rightarrow>
         if matchedID = [] then tx_throw (if expiredMatch then ErrExpired else ErrInvalidDeviceCredential)
         else tx_return matchedID))"

subsection \<open>Replacing a credential\<close>

definition find_active :: "string \<Rightarrow> store \<Rightarrow> DeviceRow option" where
  "find_active i s = find (\<lambda>d. dv_ID d = i \<and> dv_revoked d = None) (devices s)"

definition max_int :: int where
  "max_int = 2 ^ 63 - 1"

definition no_pending_hash :: "DeviceRow \<Rightarrow> bool" where
  "no_pending_hash d \<longleftrightarrow> dv_PendingHash d = None \<or> dv_PendingHash d = Some []"

definition pending_allows :: "time \<Rightarrow> DeviceRow \<Rightarrow> err + unit" where
  "pending_allows now d =
     (if no_pending_hash d \<and> dv_PendingVersion d = None \<and> dv_PendingExpires d = None then Inr ()
      else case dv_PendingExpires d of
        None \<Rightarrow> Inl (ErrMsg ''inconsistent pending device credential state'')
      | Some expiresAt \<Rightarrow>
          if no_pending_hash d \<or> dv_PendingVersion d = None
          then Inl (ErrMsg ''inconsistent pending device credential state'')
          else if now < expiresAt then Inl ErrConflict else Inr ())"

definition set_pending :: "string \<Rightarrow> int \<Rightarrow> time \<Rightarrow> time \<Rightarrow> DeviceRow \<Rightarrow> DeviceRow" where
  "set_pending newHash nextVersion expiresAt now d =
     (set_last_seen now d)\<lparr>dv_PendingHash := Some newHash, dv_PendingVersion := Some nextVersion,
       dv_PendingExpires := Some expiresAt\<rparr>"

definition device_audit :: "string \<Rightarrow> time \<Rightarrow> string \<Rightarrow> string \<Rightarrow> json \<Rightarrow> string \<Rightarrow> AuditEntry" where
  "device_audit auditID now deviceID action details correlationID =
     \<lparr>au_ID = auditID, au_OccurredAt = now, au_ActorKind = ''device'', au_ActorID = deviceID,
      au_Action = action, au_ResourceKind = ''device'', au_ResourceID = deviceID,
      au_Decision = ''ALLOW'', au_Details = Some details, au_CorrelationID = correlationID,
      au_TaskID = [], au_ConversationID = [], au_ConnectorID = []\<rparr>"

definition same_credential :: "DeviceRow \<Rightarrow> DeviceRow \<Rightarrow> bool" where
  "same_credential d x \<longleftrightarrow> dv_ID x = dv_ID d \<and> dv_revoked x = None \<and> dv_version x = dv_version d \<and>
     dv_CredentialHash x = dv_CredentialHash d"

definition prepare_tx :: "string \<Rightarrow> string \<Rightarrow> string \<Rightarrow> string \<Rightarrow> string \<Rightarrow> PendingDeviceCredentialRotation db_op" where
  "prepare_tx deviceID currentHash newHash auditID correlationID =
     tx_bind (attempt (query_row (find_active deviceID))) (\<lambda>r. case r of
       Inl e \<Rightarrow> tx_throw (if e = ErrNotFound then ErrInvalidDeviceCredential else e)
     | Inr d \<Rightarrow>
         tx_bind (require (dv_CredentialHash d = currentHash) ErrInvalidDeviceCredential) (\<lambda>_.
         tx_bind (require (1 \<le> dv_version d \<and> dv_version d \<noteq> max_int) (ErrMsg ''invalid device key version'')) (\<lambda>_.
         tx_bind tx_now (\<lambda>now.
         tx_bind (case pending_allows now d of Inl e \<Rightarrow> tx_throw e | Inr _ \<Rightarrow> tx_return ()) (\<lambda>_.
         let nextVersion = dv_version d + 1; expiresAt = now + DeviceCredentialRotationTTL in
         tx_bind (execute (update_devices (\<lambda>_ x. same_credential d x)
           (set_pending newHash nextVersion expiresAt now))) (\<lambda>changed.
         tx_bind (require (changed = 1) ErrInvalidDeviceCredential) (\<lambda>_.
         tx_bind (insertAuditEntry (device_audit auditID now deviceID ''device.credential_rotation_prepared''
           (JObj [(''credential_stored'', JStr ''hash-only''), (''current_key_version'', JNum (dv_version d)),
             (''expires_at'', JStr (formatTime expiresAt)), (''pending_key_version'', JNum nextVersion)])
           correlationID)) (\<lambda>_.
         tx_return \<lparr>pr_DeviceID = deviceID, pr_KeyVersion = nextVersion, pr_PreparedAt = now,
           pr_ExpiresAt = expiresAt, pr_CorrelationID = correlationID\<rparr>))))))))"

definition PrepareDeviceCredentialRotation :: "(string \<Rightarrow> string) \<Rightarrow> string \<Rightarrow> string \<Rightarrow> string \<Rightarrow> string \<Rightarrow>
    string \<Rightarrow> PendingDeviceCredentialRotation db_op" where
  "PrepareDeviceCredentialRotation sha256 deviceID currentCredential newCredential auditID correlationID =
     (if deviceID = [] \<or> currentCredential = [] \<or> newCredential = [] \<or> auditID = [] \<or> correlationID = []
      then tx_throw (ErrMsg ''device credential rotation requires identifiers'')
      else if HashCredential sha256 currentCredential = HashCredential sha256 newCredential
      then tx_throw (ErrMsg ''replacement device credential must differ'')
      else with_tx (prepare_tx deviceID (HashCredential sha256 currentCredential)
        (HashCredential sha256 newCredential) auditID correlationID))"

definition clear_pending :: "DeviceRow \<Rightarrow> DeviceRow" where
  "clear_pending d = d\<lparr>dv_PendingHash := None, dv_PendingVersion := None, dv_PendingExpires := None\<rparr>"

definition set_promoted :: "string \<Rightarrow> int \<Rightarrow> time \<Rightarrow> DeviceRow \<Rightarrow> DeviceRow" where
  "set_promoted hash version now d =
     (let x = clear_pending (set_last_seen now d)
      in x\<lparr>dv_CredentialHash := hash, dv_Device := (dv_Device x)\<lparr>de_KeyVersion := version\<rparr>\<rparr>)"

definition promote_tx :: "string \<Rightarrow> DeviceRow \<Rightarrow> string \<Rightarrow> int \<Rightarrow> string \<Rightarrow> string \<Rightarrow>
    ConfirmedDeviceCredentialRotation tx_end db_op" where
  "promote_tx deviceID d pendingHash expectedVersion auditID correlationID =
     tx_bind tx_now (\<lambda>now.
     tx_bind (execute (update_devices (\<lambda>_ x. same_credential d x \<and>
       dv_PendingVersion x = Some expectedVersion \<and> dv_PendingHash x = Some pendingHash)
       (set_promoted pendingHash expectedVersion now))) (\<lambda>changed.
     tx_bind (require (changed = 1) ErrInvalidDeviceCredential) (\<lambda>_.
     tx_bind (insertAuditEntry (device_audit auditID now deviceID ''device.credential_rotated''
       (JObj [(''credential_stored'', JStr ''hash-only''), (''new_key_version'', JNum expectedVersion),
         (''previous_key_version'', JNum (dv_version d))]) correlationID)) (\<lambda>_.
     tx_return (Commit \<lparr>cr_DeviceID = deviceID, cr_KeyVersion = expectedVersion,
       cr_AlreadyConfirmed = False, cr_CorrelationID = correlationID\<rparr>)))))"

definition confirm_tx :: "string \<Rightarrow> string \<Rightarrow> int \<Rightarrow> string \<Rightarrow> string \<Rightarrow>
    ConfirmedDeviceCredentialRotation tx_end db_op" where
  "confirm_tx deviceID wanted expectedVersion auditID correlationID =
     tx_bind (attempt (query_row (find_active deviceID))) (\<lambda>r. case r of
       Inl e \<Rightarrow> tx_throw (if e = ErrNotFound then ErrInvalidDeviceCredential else e)
     | Inr d \<Rightarrow>
         if dv_CredentialHash d = wanted then
           (if dv_version d \<noteq> expectedVersion then tx_throw ErrInvalidDeviceCredential
            else tx_return (Abandon \<lparr>cr_DeviceID = deviceID, cr_KeyVersion = dv_version d,
              cr_AlreadyConfirmed = True, cr_CorrelationID = correlationID\<rparr>))
         else (case (dv_PendingVersion d, dv_PendingExpires d) of
           (Some pendingVersion, Some expiresAt) \<Rightarrow>
             if no_pending_hash d then tx_throw ErrInvalidDeviceCredential
             else tx_bind tx_now (\<lambda>now.
               tx_bind (require (now < expiresAt) ErrExpired) (\<lambda>_.
               tx_bind (require (pendingVersion = expectedVersion \<and> dv_PendingHash d = Some wanted)
                 ErrInvalidDeviceCredential) (\<lambda>_.
               promote_tx deviceID d wanted expectedVersion auditID correlationID)))
         | _ \<Rightarrow> tx_throw ErrInvalidDeviceCredential))"

definition ConfirmDeviceCredentialRotation :: "(string \<Rightarrow> string) \<Rightarrow> string \<Rightarrow> string \<Rightarrow> int \<Rightarrow> string \<Rightarrow> string \<Rightarrow>
    ConfirmedDeviceCredentialRotation db_op" where
  "ConfirmDeviceCredentialRotation sha256 deviceID credential expectedVersion auditID correlationID =
     (if deviceID = [] \<or> credential = [] \<or> expectedVersion < 2 \<or> auditID = [] \<or> correlationID = []
      then tx_throw (ErrMsg ''device credential rotation confirmation is incomplete'')
      else run_tx (confirm_tx deviceID (HashCredential sha256 credential) expectedVersion auditID correlationID))"

definition cancel_tx :: "string \<Rightarrow> string \<Rightarrow> string \<Rightarrow> string \<Rightarrow> bool tx_end db_op" where
  "cancel_tx deviceID wanted auditID correlationID =
     tx_bind (attempt (query_row (find_active deviceID))) (\<lambda>r. case r of
       Inl e \<Rightarrow> tx_throw (if e = ErrNotFound then ErrInvalidDeviceCredential else e)
     | Inr d \<Rightarrow>
         if dv_CredentialHash d \<noteq> wanted then tx_throw ErrInvalidDeviceCredential
         else (case dv_PendingVersion d of
           None \<Rightarrow> if no_pending_hash d then tx_return (Abandon False)
             else tx_throw (ErrMsg ''inconsistent pending device credential state'')
         | Some pendingVersion \<Rightarrow>
             if no_pending_hash d then tx_throw (ErrMsg ''inconsistent pending device credential state'')
             else tx_bind tx_now (\<lambda>now.
               tx_bind (execute (update_devices (\<lambda>_ x. same_credential d x \<and>
                 dv_PendingVersion x = Some pendingVersion \<and> dv_PendingHash x = dv_PendingHash d)
                 (\<lambda>x. clear_pending (set_last_seen now x)))) (\<lambda>changed.
               tx_bind (require (changed = 1) ErrConflict) (\<lambda>_.
               tx_bind (insertAuditEntry (device_audit auditID now deviceID ''device.credential_rotation_cancelled''
                 (JObj [(''cancelled_key_version'', JNum pendingVersion),
                   (''current_key_version'', JNum (dv_version d))]) correlationID)) (\<lambda>_.
               tx_return (Commit True)))))))"

definition CancelDeviceCredentialRotation :: "(string \<Rightarrow> string) \<Rightarrow> string \<Rightarrow> string \<Rightarrow> string \<Rightarrow> string \<Rightarrow> bool db_op" where
  "CancelDeviceCredentialRotation sha256 deviceID currentCredential auditID correlationID =
     (if deviceID = [] \<or> currentCredential = [] \<or> auditID = [] \<or> correlationID = []
      then tx_throw (ErrMsg ''device credential rotation cancellation is incomplete'')
      else run_tx (cancel_tx deviceID (HashCredential sha256 currentCredential) auditID correlationID))"

subsection \<open>Revoking and listing\<close>

definition set_revoked :: "time \<Rightarrow> DeviceRow \<Rightarrow> DeviceRow" where
  "set_revoked now d = d\<lparr>dv_Device := (dv_Device d)\<lparr>de_RevokedAt := Some now\<rparr>\<rparr>"

definition active_device :: "string \<Rightarrow> store \<Rightarrow> DeviceRow \<Rightarrow> bool" where
  "active_device i s d \<longleftrightarrow> dv_ID d = i \<and> dv_revoked d = None"

definition RevokeDevice :: "string \<Rightarrow> unit db_op" where
  "RevokeDevice i =
     tx_bind tx_now (\<lambda>now.
     tx_bind (execute (update_devices (active_device i) (set_revoked now))) (\<lambda>changed.
     require (changed \<noteq> 0) ErrNotFound))"

definition RevokeDeviceWithAudit :: "string \<Rightarrow> AuditEntry \<Rightarrow> unit db_op" where
  "RevokeDeviceWithAudit i audit = with_tx (
     tx_bind tx_now (\<lambda>now.
     tx_bind (execute (update_devices (active_device i) (set_revoked now))) (\<lambda>changed.
     tx_bind (require (changed = 1) ErrNotFound) (\<lambda>_.
     insertAuditEntry audit))))"

definition TouchDevice :: "string \<Rightarrow> unit db_op" where
  "TouchDevice i =
     tx_bind tx_now (\<lambda>now.
     tx_bind (execute (update_devices (active_device i) (set_last_seen now))) (\<lambda>changed.
     require (changed = 1) ErrNotFound))"

definition DeviceIsActive :: "string \<Rightarrow> bool db_op" where
  "DeviceIsActive i = query_row (\<lambda>s. map_option (\<lambda>d. dv_revoked d = None) (find_device i s))"

definition ListDevices :: "Device list db_op" where
  "ListDevices = query (\<lambda>s. sort_key_desc (formatTime \<circ> de_CreatedAt) (map dv_Device (devices s)))"

subsection \<open>How these operations evolve the store\<close>

lemma last_seen_evolves: "device_ok d \<Longrightarrow> device_evolves d (set_last_seen now d) \<and> device_ok (set_last_seen now d)"
  by (auto simp: device_evolves_def device_ok_def set_last_seen_def split: option.splits)

lemma paired_row_ok: "device_ok (paired_row h d now)"
  by (simp add: device_ok_def paired_row_def)

lemma revoked_evolves:
  "active_device i s d \<Longrightarrow> device_ok d \<Longrightarrow> device_evolves d (set_revoked now d) \<and> device_ok (set_revoked now d)"
  by (auto simp: device_evolves_def device_ok_def set_revoked_def active_device_def split: option.splits)

lemma pending_evolves:
  "same_credential d x \<Longrightarrow> device_ok x \<Longrightarrow>
   device_evolves x (set_pending h (dv_version d + 1) e now x) \<and> device_ok (set_pending h (dv_version d + 1) e now x)"
  by (simp add: device_evolves_def device_ok_def set_pending_def set_last_seen_def same_credential_def)

lemma promoted_evolves:
  "same_credential d x \<and> dv_PendingVersion x = Some v \<and> q \<Longrightarrow> device_ok x \<Longrightarrow>
   device_evolves x (set_promoted h v now x) \<and> device_ok (set_promoted h v now x)"
  by (auto simp: device_evolves_def device_ok_def set_promoted_def clear_pending_def set_last_seen_def
      same_credential_def Let_def split: option.splits)

lemma cleared_evolves:
  "same_credential d x \<and> q \<Longrightarrow> device_ok x \<Longrightarrow>
   device_evolves x (clear_pending (set_last_seen now x)) \<and> device_ok (clear_pending (set_last_seen now x))"
  by (auto simp: device_evolves_def device_ok_def clear_pending_def set_last_seen_def same_credential_def)

lemma keeps_CreatePairingSession: "keeps (evolves L) (CreatePairingSession i h e)"
  unfolding CreatePairingSession_def by (intro keeps_rules)

lemma keeps_claimPairingSession: "keeps (evolves L) (claimPairingSession sha256 h d c r a)"
  unfolding claimPairingSession_def claim_pairing_tx_def
  by (intro keeps_rules keeps_dialog) (auto simp: pairing_evolves_def paired_row_ok)

lemma keeps_VerifyDeviceCredential: "keeps (evolves L) (VerifyDeviceCredential sha256 c)"
  unfolding VerifyDeviceCredential_def by (intro keeps_rules last_seen_evolves)

lemma keeps_VerifyPendingDeviceCredential: "keeps (evolves L) (VerifyPendingDeviceCredential sha256 c)"
  unfolding VerifyPendingDeviceCredential_def by (intro keeps_rules)

lemma keeps_PrepareDeviceCredentialRotation:
  "keeps (evolves L) (PrepareDeviceCredentialRotation sha256 i c n a k)"
  unfolding PrepareDeviceCredentialRotation_def prepare_tx_def
  by (intro keeps_rules keeps_dialog) (simp_all add: pending_evolves)

lemma keeps_ConfirmDeviceCredentialRotation:
  "keeps (evolves L) (ConfirmDeviceCredentialRotation sha256 i c v a k)"
  unfolding ConfirmDeviceCredentialRotation_def confirm_tx_def promote_tx_def
  by (intro keeps_rules keeps_dialog promoted_evolves)

lemma keeps_CancelDeviceCredentialRotation:
  "keeps (evolves L) (CancelDeviceCredentialRotation sha256 i c a k)"
  unfolding CancelDeviceCredentialRotation_def cancel_tx_def
  by (intro keeps_rules keeps_dialog cleared_evolves)

lemma keeps_RevokeDevice: "keeps (evolves L) (RevokeDevice i)"
  "keeps (evolves L) (RevokeDeviceWithAudit i a)" "keeps (evolves L) (TouchDevice i)"
  unfolding RevokeDevice_def RevokeDeviceWithAudit_def TouchDevice_def
  by ((intro keeps_rules keeps_dialog; (erule revoked_evolves last_seen_evolves; assumption?))+)

subsection \<open>Pairing codes\<close>

lemma consume_code:
  assumes "find_code h s = Some p" and "ps_ConsumedAt p = None"
    and "update_pairings (\<lambda>_ x. ps_ID x = ps_ID p \<and> ps_ConsumedAt x = None) (\<lambda>x. x\<lparr>ps_ConsumedAt := Some now\<rparr>) s = (n, s')"
  shows "find_code h s' = Some (p\<lparr>ps_ConsumedAt := Some now\<rparr>)"
  using assms by (auto simp: find_code_def update_pairings_def find_upd_rows)

lemma claim_pairing_InrD:
  assumes "claimPairingSession sha256 h device credential retention audit w = (Inr u, w')"
  shows "\<exists>p. find_code h (db w) = Some p \<and> ps_ConsumedAt p = None \<and> clock w (ticks w) < ps_ExpiresAt p \<and>
    find_code h (db w') = Some (p\<lparr>ps_ConsumedAt := Some (clock w (ticks w))\<rparr>) \<and>
    devices (db w') = devices (db w) @ [paired_row (sha256 credential) device (clock w (ticks w))]"
proof -
  define now where "now = clock w (ticks w)"
  from assms obtain w1 w2 where w1: "db w1 = db w" and w2: "db w' = db w2"
    and tx: "claim_pairing_tx sha256 h device credential retention audit now w1 = (Inr u, w2)"
    unfolding claimPairingSession_def tx_bind_Inr now_def
    by (elim exE conjE with_tx_InrE) (auto dest!: tx_now_InrD)
  from tx obtain p n s1 s2 where p: "find_code h (db w1) = Some p" "ps_ConsumedAt p = None" "now < ps_ExpiresAt p"
    and s1: "update_pairings (\<lambda>_ x. ps_ID x = ps_ID p \<and> ps_ConsumedAt x = None)
      (\<lambda>x. x\<lparr>ps_ConsumedAt := Some now\<rparr>) (db w1) = (n, s1)"
    and s2: "s2 = s1\<lparr>devices := devices s1 @ [paired_row (sha256 credential) device now]\<rparr>"
    and rest: "devices (db w2) = devices s2" "pairing_sessions (db w2) = pairing_sessions s2"
    unfolding claim_pairing_tx_def HashCredential_def insertAuditEntry_def
    by (auto simp: tx_simps dest!: tx_dests split: option.splits)
  from consume_code [OF p(1,2) s1] s2 rest(2) have "find_code h (db w2) = Some (p\<lparr>ps_ConsumedAt := Some now\<rparr>)"
    by (simp add: find_code_def)
  moreover from s1 s2 rest(1) w1 have "devices (db w2) = devices (db w) @ [paired_row (sha256 credential) device now]"
    by (auto simp: update_pairings_def)
  ultimately show ?thesis using p w1 w2 by (auto simp: now_def)
qed

lemma used_code_stays:
  assumes "evolves L s s'" and "find_code h s = Some p" and "ps_ConsumedAt p \<noteq> None"
  shows "find_code h s' = Some p"
  using pairing_order.grows_find [of "pairing_sessions s" "pairing_sessions s'" ps_CodeHash h p] assms
  by (auto simp: evolves_def find_code_def pairing_evolves_def)

lemma pairing_code_once:
  assumes "claimPairingSession sha256 h device credential retention audit w = (Inr u, w1)"
    and "evolves UNIV (db w1) (db w2)"
  shows "fst (claimPairingSession sha256' h device' credential' retention' audit' w2) \<noteq> Inr u'"
proof
  assume "fst (claimPairingSession sha256' h device' credential' retention' audit' w2) = Inr u'"
  then obtain w3 where again: "claimPairingSession sha256' h device' credential' retention' audit' w2 = (Inr u', w3)"
    by (metis prod.collapse)
  from claim_pairing_InrD [OF assms(1)] obtain p where p: "find_code h (db w1) = Some p" "ps_ConsumedAt p \<noteq> None"
    by force
  from used_code_stays [OF assms(2) p] claim_pairing_InrD [OF again] p(2) show False by auto
qed

subsection \<open>Devices by identifier\<close>

definition put_device :: "string \<Rightarrow> (DeviceRow \<Rightarrow> DeviceRow) \<Rightarrow> store \<Rightarrow> store" where
  "put_device i f s = s\<lparr>devices := upd_rows (\<lambda>d. dv_ID d = i) f (devices s)\<rparr>"

lemma find_device_ID: "find_device i s = Some d \<Longrightarrow> dv_ID d = i \<and> d \<in> set (devices s)"
  by (auto simp: find_device_def dest: find_SomeD)

lemma find_device_in: "wf_store s \<Longrightarrow> d \<in> set (devices s) \<Longrightarrow> find_device (dv_ID d) s = Some d"
  unfolding find_device_def by (rule find_distinct) (auto simp: wf_store_def device_ids_def)

lemma find_active_device:
  assumes "wf_store s"
  shows "find_active i s = Some d \<longleftrightarrow> find_device i s = Some d \<and> dv_revoked d = None"
proof -
  have found: "find_device i s = Some e \<and> dv_revoked e = None" if "find_active i s = Some e" for e
    using find_SomeD [OF that [unfolded find_active_def]] find_device_in [OF assms] by auto
  have "find_active i s \<noteq> None" if "find_device i s = Some d" "dv_revoked d = None"
    using find_device_ID [OF that(1)] that(2) by (auto simp: find_active_def find_None_set)
  with found show ?thesis by fastforce
qed

lemma find_put_device:
  assumes "\<And>d. dv_ID (f d) = dv_ID d"
  shows "find_device j (put_device i f s) = (if j = i then map_option f (find_device i s) else find_device j s)"
proof -
  have "find_device j (put_device i f s) = map_option (\<lambda>d. if dv_ID d = i then f d else d) (find_device j s)"
    unfolding find_device_def put_device_def using assms by (simp add: find_upd_rows)
  then show ?thesis by (cases "find_device j s") (auto dest: find_device_ID)
qed

lemma update_one_device:
  assumes "wf_store s" and "update_devices (\<lambda>s d. dv_ID d = i \<and> p s d) f s = (n, s')" and "n \<noteq> 0"
  shows "\<exists>d. find_device i s = Some d \<and> p s d \<and> s' = put_device i f s"
proof -
  from assms(2,3) have "count_rows (\<lambda>d. dv_ID d = i \<and> p s d) (devices s) \<noteq> 0"
    by (auto simp: update_devices_def)
  then obtain d where d: "d \<in> set (devices s)" "dv_ID d = i" "p s d" by (auto simp: count_rows_eq_0)
  with assms(1,2) upd_rows_key [of dv_ID "devices s" d "p s" f]
  have "s' = put_device i f s" by (auto simp: update_devices_def put_device_def wf_store_def device_ids_def)
  with d find_device_in [OF assms(1) d(1)] show ?thesis by auto
qed

subsection \<open>Revocation\<close>

lemma verify_InrD:
  assumes "VerifyDeviceCredential sha256 c w = (Inr i, w')"
  shows "\<exists>d\<in>set (devices (db w)). dv_ID d = i \<and> dv_revoked d = None \<and> dv_CredentialHash d = sha256 c"
proof -
  from assms have "\<exists>d. active_match (sha256 c) (db w) = Some d \<and> dv_ID d = i"
    unfolding VerifyDeviceCredential_def HashCredential_def Let_def
    by (auto simp: tx_simps split: if_splits option.splits dest!: query_InrD sym [of "Some _"])
  then show ?thesis by (auto simp: active_match_def dest!: find_SomeD)
qed

lemma pending_match_row:
  "pending_match h now ds b = Inr (i, b') \<Longrightarrow> i \<noteq> [] \<Longrightarrow>
   \<exists>d\<in>set ds. dv_ID d = i \<and> dv_PendingHash d = Some h \<and> (\<exists>e. dv_PendingExpires d = Some e \<and> now < e)"
  by (induction h now ds b rule: pending_match.induct) (auto split: option.splits if_splits)

lemma verify_pending_InrD:
  assumes "VerifyPendingDeviceCredential sha256 c w = (Inr i, w')"
  shows "\<exists>d\<in>set (devices (db w)). dv_ID d = i \<and> dv_revoked d = None \<and> dv_PendingHash d = Some (sha256 c)"
proof -
  let ?rows = "filter (\<lambda>d. dv_revoked d = None \<and> dv_PendingHash d \<noteq> None) (devices (db w))"
  from assms obtain now w1 where "(case pending_match (sha256 c) now ?rows False of Inl e \<Rightarrow> tx_throw e
      | Inr (m, x) \<Rightarrow> if m = [] then tx_throw (if x then ErrExpired else ErrInvalidDeviceCredential)
          else tx_return m) w1 = (Inr i, w')"
    unfolding VerifyPendingDeviceCredential_def HashCredential_def
    by (auto simp only: tx_bind_Inr dest!: query_InrD)
  then obtain b where "pending_match (sha256 c) now ?rows False = Inr (i, b)" "i \<noteq> []"
    by (cases "pending_match (sha256 c) now ?rows False") (auto simp: tx_simps split: prod.splits if_splits)
  from pending_match_row [OF this] show ?thesis by auto
qed

lemma find_active_needed:
  assumes "find_active i (db w) = None"
  shows "fst (PrepareDeviceCredentialRotation sha256 i c n a k w) \<noteq> Inr p"
    and "fst (ConfirmDeviceCredentialRotation sha256 i c v a k w) \<noteq> Inr q"
    and "fst (CancelDeviceCredentialRotation sha256 i c a k w) \<noteq> Inr b"
proof -
  have no: "query_row (find_active i) v \<noteq> (Inr d, v')" if "db v = db w" for v v' d
    using assms that by (auto dest!: query_row_InrD)
  show "fst (PrepareDeviceCredentialRotation sha256 i c n a k w) \<noteq> Inr p"
    using no by (auto simp: fst_Inr_iff PrepareDeviceCredentialRotation_def prepare_tx_def tx_simps tx_cases
        elim!: with_tx_InrE)
  show "fst (ConfirmDeviceCredentialRotation sha256 i c v a k w) \<noteq> Inr q"
    using no by (auto simp: fst_Inr_iff ConfirmDeviceCredentialRotation_def confirm_tx_def tx_simps tx_cases
        elim!: run_tx_InrE)
  show "fst (CancelDeviceCredentialRotation sha256 i c a k w) \<noteq> Inr b"
    using no by (auto simp: fst_Inr_iff CancelDeviceCredentialRotation_def cancel_tx_def tx_simps tx_cases
        elim!: run_tx_InrE)
qed

lemma revoke_InrD:
  assumes "wf_store (db w)" and "RevokeDevice i w = (Inr u, w') \<or> RevokeDeviceWithAudit i audit w = (Inr u, w')"
  shows "\<exists>d. find_device i (db w') = Some d \<and> dv_revoked d \<noteq> None"
proof -
  have upd: "\<exists>d. find_device i s1 = Some d \<and> dv_revoked d \<noteq> None"
    if "update_devices (active_device i) (set_revoked now) (db w) = (n, s1)" "0 < n" for n s1 now
    using update_one_device [OF assms(1) that(1) [unfolded active_device_def]] that(2)
    by (auto simp: find_put_device set_revoked_def active_device_def)
  from assms(2) show ?thesis
  proof
    assume "RevokeDevice i w = (Inr u, w')"
    then show ?thesis unfolding RevokeDevice_def by (auto simp: tx_simps dest!: tx_dests upd)
  next
    assume "RevokeDeviceWithAudit i audit w = (Inr u, w')"
    then obtain n s1 now where s1: "update_devices (active_device i) (set_revoked now) (db w) = (n, s1)" "0 < n"
      and "devices (db w') = devices s1"
      unfolding RevokeDeviceWithAudit_def insertAuditEntry_def
      by (elim with_tx_InrE) (auto simp: tx_simps dest!: tx_dests)
    with upd [OF s1] show ?thesis by (simp add: find_device_def)
  qed
qed

lemma revoked_locked_out:
  assumes wf: "wf_store s" and d: "find_device i s = Some d" "dv_revoked d \<noteq> None" and ev: "evolves UNIV s (db w)"
  shows "fst (VerifyDeviceCredential sha256 c w) \<noteq> Inr i \<and>
    fst (VerifyPendingDeviceCredential sha256 c w) \<noteq> Inr i \<and>
    (\<forall>p. fst (PrepareDeviceCredentialRotation sha256 i c n a k w) \<noteq> Inr p) \<and>
    (\<forall>q. fst (ConfirmDeviceCredentialRotation sha256 i c v a k w) \<noteq> Inr q)"
proof -
  from evolves_find_device [OF ev wf d(1)] d(2) obtain e where e: "find_device i (db w) = Some e" "dv_revoked e \<noteq> None"
    by (auto simp: device_evolves_def)
  from ev wf have wf': "wf_store (db w)" by (simp add: evolves_def)
  have row: "dv_revoked x \<noteq> None" if "x \<in> set (devices (db w))" "dv_ID x = i" for x
    using find_device_in [OF wf' that(1)] that(2) e by auto
  have "find_active i (db w) = None"
    using find_active_device [OF wf'] e by (metis option.exhaust option.inject)
  moreover have "fst (VerifyDeviceCredential sha256 c w) \<noteq> Inr i" "fst (VerifyPendingDeviceCredential sha256 c w) \<noteq> Inr i"
    using row by (fastforce simp: fst_Inr_iff dest!: verify_InrD verify_pending_InrD)+
  ultimately show ?thesis using find_active_needed [of i w] by blast
qed

subsection \<open>Replacing a credential\<close>

lemma prepare_InrD:
  assumes wf: "wf_store (db w)"
    and run: "PrepareDeviceCredentialRotation sha256 i cur new audit corr w = (Inr p, w')"
  shows "\<exists>d now. find_device i (db w) = Some d \<and> dv_revoked d = None \<and> dv_CredentialHash d = sha256 cur \<and>
    sha256 cur \<noteq> sha256 new \<and> pr_KeyVersion p = dv_version d + 1 \<and> pr_ExpiresAt p = now + DeviceCredentialRotationTTL \<and>
    devices (db w') = devices (put_device i (set_pending (sha256 new) (dv_version d + 1) (pr_ExpiresAt p) now) (db w))"
proof -
  from run obtain w1 w2 where w1: "db w1 = db w" and w2: "db w' = db w2" and differ: "sha256 cur \<noteq> sha256 new"
    and tx: "prepare_tx i (sha256 cur) (sha256 new) audit corr w1 = (Inr p, w2)"
    unfolding PrepareDeviceCredentialRotation_def HashCredential_def
    by (auto simp: tx_simps tx_cases elim!: with_tx_InrE)
  from tx obtain d now n s1 where d: "find_active i (db w1) = Some d" "dv_CredentialHash d = sha256 cur"
    and upd: "update_devices (\<lambda>_ x. same_credential d x) (set_pending (sha256 new) (dv_version d + 1)
      (now + DeviceCredentialRotationTTL) now) (db w1) = (n, s1)" "n \<noteq> 0"
    and p: "pr_KeyVersion p = dv_version d + 1" "pr_ExpiresAt p = now + DeviceCredentialRotationTTL"
    and rest: "devices (db w2) = devices s1"
    unfolding prepare_tx_def insertAuditEntry_def Let_def
    by (auto simp: tx_simps tx_cases dest!: tx_dests)
  from d(1) w1 find_active_device [OF wf] have found: "find_device i (db w) = Some d" "dv_revoked d = None" by auto
  from find_device_ID [OF found(1)] upd(1) w1 have "update_devices (\<lambda>_ x. dv_ID x = i \<and> dv_revoked x = None \<and>
      dv_version x = dv_version d \<and> dv_CredentialHash x = dv_CredentialHash d) (set_pending (sha256 new) (dv_version d + 1)
      (now + DeviceCredentialRotationTTL) now) (db w) = (n, s1)"
    by (simp add: same_credential_def)
  from update_one_device [OF wf this upd(2)] found d(2) differ p rest w2 show ?thesis by auto
qed

lemma confirm_InrD:
  assumes wf: "wf_store (db w)"
    and run: "ConfirmDeviceCredentialRotation sha256 i c v audit corr w = (Inr r, w')"
  shows "\<exists>d. find_device i (db w) = Some d \<and> dv_revoked d = None \<and>
    (if cr_AlreadyConfirmed r then dv_CredentialHash d = sha256 c \<and> dv_version d = v \<and> db w' = db w
     else dv_CredentialHash d \<noteq> sha256 c \<and> dv_PendingHash d = Some (sha256 c) \<and> dv_PendingVersion d = Some v \<and>
       (\<exists>now. devices (db w') = devices (put_device i (set_promoted (sha256 c) v now) (db w))))"
proof -
  from run obtain w1 w2 where w1: "db w1 = db w" and
    tx: "confirm_tx i (sha256 c) v audit corr w1 = (Inr (Commit r), w2) \<and> db w' = db w2 \<or>
      confirm_tx i (sha256 c) v audit corr w1 = (Inr (Abandon r), w2) \<and> db w' = db w"
    unfolding ConfirmDeviceCredentialRotation_def HashCredential_def
    by (auto simp: tx_simps tx_cases elim!: run_tx_InrE)
  from tx show ?thesis
  proof
    assume a: "confirm_tx i (sha256 c) v audit corr w1 = (Inr (Abandon r), w2) \<and> db w' = db w"
    then obtain d where "find_active i (db w1) = Some d" "dv_CredentialHash d = sha256 c" "dv_version d = v"
      "cr_AlreadyConfirmed r"
      unfolding confirm_tx_def promote_tx_def
      by (auto simp: tx_simps tx_cases dest!: query_row_InrD split: option.splits if_splits)
    with a w1 find_active_device [OF wf] show ?thesis by auto
  next
    assume a: "confirm_tx i (sha256 c) v audit corr w1 = (Inr (Commit r), w2) \<and> db w' = db w2"
    then obtain d now n s1 where d: "find_active i (db w1) = Some d" "dv_CredentialHash d \<noteq> sha256 c"
      "dv_PendingHash d = Some (sha256 c)" "dv_PendingVersion d = Some v" "\<not> cr_AlreadyConfirmed r"
      and upd: "update_devices (\<lambda>_ x. same_credential d x \<and> dv_PendingVersion x = Some v \<and>
        dv_PendingHash x = Some (sha256 c)) (set_promoted (sha256 c) v now) (db w1) = (n, s1)" "n \<noteq> 0"
      and rest: "devices (db w2) = devices s1"
      unfolding confirm_tx_def promote_tx_def insertAuditEntry_def
      by (auto simp: tx_simps tx_cases dest!: tx_dests split: option.splits if_splits)
    from d(1) w1 find_active_device [OF wf] have found: "find_device i (db w) = Some d" "dv_revoked d = None" by auto
    from find_device_ID [OF found(1)] upd(1) w1 have "update_devices (\<lambda>_ x. dv_ID x = i \<and> (dv_revoked x = None \<and>
        dv_version x = dv_version d \<and> dv_CredentialHash x = dv_CredentialHash d \<and> dv_PendingVersion x = Some v \<and>
        dv_PendingHash x = Some (sha256 c))) (set_promoted (sha256 c) v now) (db w) = (n, s1)"
      by (simp add: same_credential_def)
    from update_one_device [OF wf this upd(2)] found d rest a show ?thesis by auto
  qed
qed

lemma active_match_put:
  assumes "\<And>d. dv_revoked (f d) = dv_revoked d" "\<And>d. dv_CredentialHash (f d) = dv_CredentialHash d"
    and "\<And>d. dv_ID (f d) = dv_ID d"
  shows "map_option dv_ID (active_match h (put_device i f s)) = map_option dv_ID (active_match h s)"
proof -
  have "map_option dv_ID (find (\<lambda>d. dv_CredentialHash d = h) (filter (\<lambda>d. dv_revoked d = None)
      (upd_rows (\<lambda>d. dv_ID d = i) f ds))) =
    map_option dv_ID (find (\<lambda>d. dv_CredentialHash d = h) (filter (\<lambda>d. dv_revoked d = None) ds))" for ds
    using assms by (induction ds) auto
  then show ?thesis by (simp add: active_match_def put_device_def)
qed

text \<open>
  Replacing a credential in two steps.  Preparing the new credential changes nothing about which
  credentials are accepted; confirming it makes the new one, with the next key version, the only
  credential of the device, and the old one, which is not allowed to be the same, is void.
\<close>

theorem credential_rotation:
  assumes "wf_store (db w)"
    and "PrepareDeviceCredentialRotation sha256 i cur new audit1 corr1 w = (Inr p, w1)"
    and "db w1' = db w1" and "ConfirmDeviceCredentialRotation sha256 i new (pr_KeyVersion p) audit2 corr2 w1' = (Inr r, w2)"
  shows "(\<forall>h. map_option dv_ID (active_match h (db w1)) = map_option dv_ID (active_match h (db w))) \<and>
    (\<exists>d d'. find_device i (db w) = Some d \<and> dv_CredentialHash d = sha256 cur \<and>
       find_device i (db w2) = Some d' \<and> dv_CredentialHash d' = sha256 new \<and> sha256 new \<noteq> sha256 cur \<and>
       dv_version d' = dv_version d + 1 \<and> dv_PendingHash d' = None \<and> \<not> cr_AlreadyConfirmed r)"
proof -
  from prepare_InrD [OF assms(1,2)] obtain d now where d: "find_device i (db w) = Some d"
    "dv_CredentialHash d = sha256 cur" "sha256 cur \<noteq> sha256 new" and v: "pr_KeyVersion p = dv_version d + 1"
    and w1: "devices (db w1) = devices (put_device i (set_pending (sha256 new) (dv_version d + 1) (pr_ExpiresAt p) now) (db w))"
    by auto
  let ?f = "set_pending (sha256 new) (dv_version d + 1) (pr_ExpiresAt p) now"
  have id: "dv_ID (?f x) = dv_ID x" for x by (simp add: set_pending_def set_last_seen_def)
  have same: "active_match h (db w1) = active_match h (put_device i ?f (db w))" for h
    using w1 by (simp add: active_match_def)
  have "\<forall>h. map_option dv_ID (active_match h (db w1)) = map_option dv_ID (active_match h (db w))"
    unfolding same by (intro allI active_match_put) (simp_all add: set_pending_def set_last_seen_def)
  moreover have d1: "find_device i (db w1) = Some (?f d)"
    using w1 find_put_device [of ?f i i "db w"] id d(1) by (simp add: find_device_def)
  have "wf_store (db w1')"
    using assms(1,3) keepsD [OF keeps_PrepareDeviceCredentialRotation [of UNIV] assms(2)] by (simp add: evolves_def)
  from confirm_InrD [OF this assms(4)] d1 d(2,3) assms(3) obtain now2 where r: "\<not> cr_AlreadyConfirmed r"
    and w2: "devices (db w2) = devices (put_device i (set_promoted (sha256 new) (pr_KeyVersion p) now2) (db w1))"
    by (auto simp: set_pending_def set_last_seen_def split: if_splits)
  have "dv_ID (set_promoted (sha256 new) (pr_KeyVersion p) now2 x) = dv_ID x" for x
    by (simp add: set_promoted_def clear_pending_def set_last_seen_def Let_def)
  with w2 d1 have "find_device i (db w2) = Some (set_promoted (sha256 new) (pr_KeyVersion p) now2 (?f d))"
    using find_put_device [of "set_promoted (sha256 new) (pr_KeyVersion p) now2" i i "db w1"] by (simp add: find_device_def)
  ultimately show ?thesis
    using d r v by (auto simp: set_promoted_def clear_pending_def Let_def)
qed

subsection \<open>Concrete runs\<close>

definition sample_device :: "string \<Rightarrow> Device" where
  "sample_device i = \<lparr>de_ID = i, de_Name = ''phone'', de_Platform = ''android'', de_Capabilities = ''{}'',
     de_CreatedAt = sample_time, de_LastSeenAt = None, de_RevokedAt = None, de_KeyVersion = 1\<rparr>"

definition paired_store :: store where
  "paired_store = empty_store\<lparr>devices := [paired_row ''old'' (sample_device ''d'') sample_time]\<rparr>"

lemmas device_eval = PrepareDeviceCredentialRotation_def prepare_tx_def ConfirmDeviceCredentialRotation_def
  confirm_tx_def promote_tx_def HashCredential_def tx_eval Let_def find_active_def pending_allows_def
  no_pending_hash_def max_int_def update_devices_def same_credential_def count_rows_def insertAuditEntry_def
  insert_audit_row_def device_audit_def set_pending_def set_promoted_def set_last_seen_def clear_pending_def
  DeviceCredentialRotationTTL_def sample_world_def paired_store_def empty_store_def paired_row_def sample_device_def

definition prepared_store :: store where
  "prepared_store = db (snd (PrepareDeviceCredentialRotation id ''d'' ''old'' ''new'' ''a'' ''c'' (sample_world paired_store)))"

end
