(* ===== verification/Auth.thy ===== *)
theory Auth
  imports Device_Store Json
begin

text \<open>
  \<open>internal/auth/token.go\<close>: who a request comes from.  The authenticator relies on the store through
  the interface \<open>DeviceVerifier\<close>, which is a locale here; the digests \<open>sha256\<close> and \<open>hmac\<close> are
  parameters.  Creating and reading the administrator's token (key chain, files) is not modelled.
\<close>

record Principal =
  pc_Kind :: string
  pc_ID :: string

definition HashPairingCode :: "(string \<Rightarrow> string \<Rightarrow> string) \<Rightarrow> string \<Rightarrow> string \<Rightarrow> string" where
  "HashPairingCode hmac secret code = hmac secret code"

definition EqualToken :: "(string \<Rightarrow> string) \<Rightarrow> string \<Rightarrow> string \<Rightarrow> bool" where
  "EqualToken sha256 left right \<longleftrightarrow> sha256 left = sha256 right"

text \<open>The record \<open>Authenticator\<close>: the administrator's token and the verifier, which may be \<open>nil\<close>.\<close>

record Authenticator =
  adminToken :: string
  verifier :: "(string \<Rightarrow> string db_op) option"

definition Authenticate :: "(string \<Rightarrow> string) \<Rightarrow> Authenticator \<Rightarrow> string \<Rightarrow> Principal db_op" where
  "Authenticate sha256 a token =
     (if token = [] then tx_throw (ErrMsg ''missing credential'')
      else if EqualToken sha256 (adminToken a) token then tx_return \<lparr>pc_Kind = ''admin'', pc_ID = ''local-admin''\<rparr>
      else (case verifier a of
        None \<Rightarrow> tx_throw (ErrMsg ''invalid credential'')
      | Some verify \<Rightarrow> tx_bind (attempt (verify token)) (\<lambda>r. case r of
          Inr deviceID \<Rightarrow> tx_return \<lparr>pc_Kind = ''device'', pc_ID = deviceID\<rparr>
        | Inl _ \<Rightarrow> tx_throw (ErrMsg ''invalid credential''))))"

text \<open>
  \<open>strings.Cut\<close> at the first blank; \<open>strings.EqualFold\<close> with \<open>Bearer\<close>, none of whose letters has a
  case variant outside ASCII.
\<close>

definition BearerToken :: "string \<Rightarrow> string" where
  "BearerToken header =
     (let prefix = takeWhile (\<lambda>c. c \<noteq> CHR '' '') header; rest = dropWhile (\<lambda>c. c \<noteq> CHR '' '') header
      in if rest = [] \<or> map ascii_lower prefix \<noteq> ''bearer'' then [] else TrimSpace (tl rest))"

subsection \<open>The verifier\<close>

locale device_verifier =
  fixes verify :: "string \<Rightarrow> string db_op"
    and valid :: "store \<Rightarrow> string \<Rightarrow> string \<Rightarrow> bool"
  assumes sound: "verify c w = (Inr i, w') \<Longrightarrow> valid (db w) c i"
begin

lemma principal:
  assumes "Authenticate sha256 a token w = (Inr p, w')" and "verifier a = Some verify"
  shows "token \<noteq> [] \<and> (p = \<lparr>pc_Kind = ''admin'', pc_ID = ''local-admin''\<rparr> \<and> sha256 (adminToken a) = sha256 token \<or>
    (\<exists>i. p = \<lparr>pc_Kind = ''device'', pc_ID = i\<rparr> \<and> valid (db w) token i))"
  using assms unfolding Authenticate_def EqualToken_def
  by (auto simp: tx_simps tx_cases dest: sound split: if_splits)

end

definition credential_of :: "(string \<Rightarrow> string) \<Rightarrow> store \<Rightarrow> string \<Rightarrow> string \<Rightarrow> bool" where
  "credential_of sha256 s c i \<longleftrightarrow>
     list_ex (\<lambda>d. dv_ID d = i \<and> dv_revoked d = None \<and> dv_CredentialHash d = sha256 c) (devices s)"

interpretation stored: device_verifier "VerifyDeviceCredential sha256" "credential_of sha256" for sha256
  by unfold_locales (auto simp: credential_of_def list_ex_iff dest!: verify_InrD)

lemma authenticate_device:
  assumes "fst (Authenticate sha256 \<lparr>adminToken = admin, verifier = Some (VerifyDeviceCredential sha256)\<rparr> token w) =
    Inr \<lparr>pc_Kind = ''device'', pc_ID = i\<rparr>"
  shows "fst (VerifyDeviceCredential sha256 token w) = Inr i"
  using assms unfolding Authenticate_def
  by (auto simp: tx_bind_def tx_return_def tx_throw_def attempt_def Let_def split: if_splits sum.splits prod.splits)

text \<open>
  A request is attributed to the administrator only for a token with the digest of the
  administrator's, and to a device only for a token whose digest is the stored credential of that
  device, which has not been revoked; an empty token is never accepted.
\<close>

theorem authenticate_sound:
  assumes "Authenticate sha256 \<lparr>adminToken = admin, verifier = Some (VerifyDeviceCredential sha256)\<rparr> token w = (Inr p, w')"
  shows "token \<noteq> [] \<and> (p = \<lparr>pc_Kind = ''admin'', pc_ID = ''local-admin''\<rparr> \<and> sha256 admin = sha256 token \<or>
    (\<exists>d\<in>set (devices (db w)). p = \<lparr>pc_Kind = ''device'', pc_ID = dv_ID d\<rparr> \<and> dv_revoked d = None \<and>
       dv_CredentialHash d = sha256 token))"
  using stored.principal [OF assms] by (auto simp: credential_of_def list_ex_iff)

text \<open>
  A token sent in an authorization header is read back: the scheme may be written in any case, and a
  token without blanks around it arrives unchanged.
\<close>

theorem bearer_roundtrip:
  assumes "map ascii_lower scheme = ''bearer''" and "TrimSpace token = token"
  shows "BearerToken (scheme @ '' '' @ token) = token"
proof -
  have "c \<noteq> CHR '' ''" if "c \<in> set scheme" for c
  proof
    assume "c = CHR '' ''"
    with that have "ascii_lower (CHR '' '') \<in> set (map ascii_lower scheme)" by auto
    moreover have "ascii_lower (CHR '' '') \<notin> set ''bearer''" by code_simp
    ultimately show False unfolding assms(1) by simp
  qed
  then have "takeWhile (\<lambda>c. c \<noteq> CHR '' '') (scheme @ '' '' @ token) = scheme"
    "dropWhile (\<lambda>c. c \<noteq> CHR '' '') (scheme @ '' '' @ token) = '' '' @ token"
    by (simp_all add: takeWhile_append2 dropWhile_append2)
  with assms show ?thesis by (simp add: BearerToken_def)
qed

end
