(* ===== verification/Store_Runs.thy ===== *)
theory Store_Runs
  imports Task_Control Approval_Store Tool_Store Event_Store Idempotency Voice_Store Settings_Store
    Retention Auth
begin

text \<open>
  The store as its callers see it: one constructor per operation of \<open>Store\<close> that writes, what
  running it does to the world, and the stores that sequences of operations lead to.  The pool of
  the store has one connection (\<open>SetMaxOpenConns(1)\<close>), so statements of concurrent callers never
  overlap inside a transaction; a run is a sequence of whole operations, each with a clock,
  identifiers and engine failures of its own.  A process that dies during an operation is an
  operation whose remaining statements all fail.
\<close>

datatype store_op =
    OpCreateTask Task
  | OpCreateTaskGraph "Task list" "Dependency list"
  | OpAddTaskDependency string string
  | OpCreateTaskWithApproval Task "Approval option"
  | OpClaimNextTask
  | OpStartTask string int
  | OpUpdateTaskProgress string int string
  | OpCompleteTask string string string bool "Artifact list"
  | OpCompleteTaskWithOutcome string string string bool CompletionOutcome
  | OpFailTask string "string option" bool
  | OpRequeueTask string "string option"
  | OpSetTaskPriority string int "AuditEntry option"
  | OpDismissTask string "AuditEntry option"
  | OpRetryTask string "AuditEntry option"
  | OpRequestTaskGraphCancellation string "AuditEntry option"
  | OpMarkTaskCancelled string
  | OpRecoverInterruptedTasks
  | OpCreateApproval Approval
  | OpDecideApproval string string bool
  | OpExpireApprovals
  | OpStartToolInvocation Invocation
  | OpFinishToolInvocation string string int "string option"
  | OpIngestEvent Envelope
  | OpMarkEventProcessed string "string option"
  | OpCreateAskWork AskWork
  | OpGetOrCreateConversation string string bool string
  | OpAddTurn Turn bool
  | OpCreateDelivery Delivery
  | OpAddAuditEntry AuditEntry
  | OpSetTranscriptRetention string bool "AuditEntry option"
  | OpDeleteTranscript string
  | OpScrubTerminalTaskGraph string
  | OpScrubTerminalNonRetained
  | OpCreatePairingSession string string time
  | OpClaimPairingSession "string \<Rightarrow> string" string Device string "bool option" "AuditEntry option"
  | OpVerifyDeviceCredential "string \<Rightarrow> string" string
  | OpVerifyPendingDeviceCredential "string \<Rightarrow> string" string
  | OpPrepareRotation "string \<Rightarrow> string" string string string string string
  | OpConfirmRotation "string \<Rightarrow> string" string string int string string
  | OpCancelRotation "string \<Rightarrow> string" string string string string
  | OpRevokeDevice string
  | OpRevokeDeviceWithAudit string AuditEntry
  | OpTouchDevice string
  | OpCreateVoiceSession VoiceSession
  | OpUpdateVoicePreferences string bool bool string
  | OpTransitionVoiceSession string DialogState bool
  | OpSetSetting string json
  | OpSetSettingWithAudit string json AuditEntry
  | OpStartDesktopAction string
  | OpCompleteDesktopAction string json
  | OpUseWebhookNonce string string time
  | OpApplyRetentionSweep "time \<Rightarrow> int" time time

definition discard :: "'a db_op \<Rightarrow> unit db_op" where
  "discard m = tx_bind m (\<lambda>_. tx_return ())"

fun run_op :: "store_op \<Rightarrow> unit db_op" where
  "run_op (OpCreateTask t) = discard (CreateTask t)"
| "run_op (OpCreateTaskGraph ts ds) = discard (CreateTaskGraph ts ds)"
| "run_op (OpAddTaskDependency i j) = discard (AddTaskDependency i j)"
| "run_op (OpCreateTaskWithApproval t a) = discard (CreateTaskWithApproval t a)"
| "run_op OpClaimNextTask = discard ClaimNextTask"
| "run_op (OpStartTask i v) = discard (StartTask i v)"
| "run_op (OpUpdateTaskProgress i p m) = discard (UpdateTaskProgress i p m)"
| "run_op (OpCompleteTask i r m part arts) = discard (CompleteTaskWithArtifacts i r m part arts)"
| "run_op (OpCompleteTaskWithOutcome i r m part oc) = discard (CompleteTaskWithOutcome i r m part oc)"
| "run_op (OpFailTask i e timedOut) = discard (FailTask i e timedOut)"
| "run_op (OpRequeueTask i e) = discard (RequeueTaskForAutomaticRetry i e)"
| "run_op (OpSetTaskPriority i p a) = discard (setTaskPriority i p a)"
| "run_op (OpDismissTask i a) = discard (dismissTask i a)"
| "run_op (OpRetryTask i a) = discard (retryTask i a)"
| "run_op (OpRequestTaskGraphCancellation i a) = discard (requestTaskGraphCancellation i a)"
| "run_op (OpMarkTaskCancelled i) = discard (MarkTaskCancelled i)"
| "run_op OpRecoverInterruptedTasks = discard RecoverInterruptedTasks"
| "run_op (OpCreateApproval a) = discard (CreateApproval a)"
| "run_op (OpDecideApproval i by ok) = discard (DecideApproval i by ok)"
| "run_op OpExpireApprovals = discard ExpireApprovals"
| "run_op (OpStartToolInvocation v) = discard (StartToolInvocation v)"
| "run_op (OpFinishToolInvocation i out code e) = discard (FinishToolInvocation i out code e)"
| "run_op (OpIngestEvent e) = discard (IngestEvent e)"
| "run_op (OpMarkEventProcessed i e) = discard (MarkEventProcessed i e)"
| "run_op (OpCreateAskWork a) = discard (CreateAskWork a)"
| "run_op (OpGetOrCreateConversation k t r i) = discard (GetOrCreateConversation k t r i)"
| "run_op (OpAddTurn t r) = discard (AddTurn t r)"
| "run_op (OpCreateDelivery d) = discard (CreateDelivery d)"
| "run_op (OpAddAuditEntry e) = discard (AddAuditEntry e)"
| "run_op (OpSetTranscriptRetention i r a) = discard (setTranscriptRetention i r a)"
| "run_op (OpDeleteTranscript i) = discard (DeleteTranscript i)"
| "run_op (OpScrubTerminalTaskGraph i) = discard (ScrubTerminalTaskGraph i)"
| "run_op OpScrubTerminalNonRetained = discard ScrubTerminalNonRetainedTaskGraphs"
| "run_op (OpCreatePairingSession i h e) = discard (CreatePairingSession i h e)"
| "run_op (OpClaimPairingSession sha256 h d c r a) = discard (claimPairingSession sha256 h d c r a)"
| "run_op (OpVerifyDeviceCredential sha256 c) = discard (VerifyDeviceCredential sha256 c)"
| "run_op (OpVerifyPendingDeviceCredential sha256 c) = discard (VerifyPendingDeviceCredential sha256 c)"
| "run_op (OpPrepareRotation sha256 i c n a k) = discard (PrepareDeviceCredentialRotation sha256 i c n a k)"
| "run_op (OpConfirmRotation sha256 i c v a k) = discard (ConfirmDeviceCredentialRotation sha256 i c v a k)"
| "run_op (OpCancelRotation sha256 i c a k) = discard (CancelDeviceCredentialRotation sha256 i c a k)"
| "run_op (OpRevokeDevice i) = discard (RevokeDevice i)"
| "run_op (OpRevokeDeviceWithAudit i e) = discard (RevokeDeviceWithAudit i e)"
| "run_op (OpTouchDevice i) = discard (TouchDevice i)"
| "run_op (OpCreateVoiceSession v) = discard (CreateVoiceSession v)"
| "run_op (OpUpdateVoicePreferences i m p r) = discard (UpdateVoicePreferences i m p r)"
| "run_op (OpTransitionVoiceSession i to b) = discard (TransitionVoiceSession i to b)"
| "run_op (OpSetSetting k v) = discard (SetSetting k v)"
| "run_op (OpSetSettingWithAudit k v e) = discard (SetSettingWithAudit k v e)"
| "run_op (OpStartDesktopAction i) = discard (StartDesktopAction i)"
| "run_op (OpCompleteDesktopAction i r) = discard (CompleteDesktopAction i r)"
| "run_op (OpUseWebhookNonce c n t) = discard (UseWebhookNonce c n t)"
| "run_op (OpApplyRetentionSweep jd cutoff sweptAt) = discard (ApplyRetentionSweep jd cutoff sweptAt)"

text \<open>The \<open>UPDATE tasks\<close> statements that an operation can execute.\<close>

fun labels_of :: "store_op \<Rightarrow> label set" where
  "labels_of OpClaimNextTask = {LClaim}"
| "labels_of (OpStartTask i v) = {LStart}"
| "labels_of (OpUpdateTaskProgress i p m) = {LProgress}"
| "labels_of (OpCompleteTask i r m part arts) = {LComplete}"
| "labels_of (OpCompleteTaskWithOutcome i r m part oc) = {LComplete, LScrub}"
| "labels_of (OpFailTask i e timedOut) = {LFail}"
| "labels_of (OpRequeueTask i e) = {LRequeue}"
| "labels_of (OpSetTaskPriority i p a) = {LPriority}"
| "labels_of (OpDismissTask i a) = {LDismiss}"
| "labels_of (OpRetryTask i a) = {LRetry, LGuard}"
| "labels_of (OpRequestTaskGraphCancellation i a) = {LCancel, LCancelRequest}"
| "labels_of (OpMarkTaskCancelled i) = {LMarkCancelled, LScrub}"
| "labels_of OpRecoverInterruptedTasks = {LUncertain, LRecoverCancelled, LExhausted, LRecovered, LScrub}"
| "labels_of (OpDecideApproval i by ok) = {LDeny, LExpire, LScrub} \<union> (if ok then {LApprove} else {})"
| "labels_of OpExpireApprovals = {LExpire, LScrub}"
| "labels_of (OpCreateAskWork a) = {LScrub}"
| "labels_of (OpSetTranscriptRetention i r a) = {LScrub}"
| "labels_of (OpDeleteTranscript i) = {LScrub}"
| "labels_of (OpScrubTerminalTaskGraph i) = {LScrub}"
| "labels_of OpScrubTerminalNonRetained = {LScrub}"
| "labels_of (OpApplyRetentionSweep jd cutoff sweptAt) = {LSweep}"
| "labels_of _ = {}"

lemma snd_discard [simp]: "snd (discard m w) = snd (m w)"
  by (simp add: discard_def tx_bind_def tx_return_def split: prod.splits sum.splits)

lemma keeps_discard: "keeps (evolves L) m \<Longrightarrow> keeps (evolves L) (discard m)"
  unfolding discard_def by (intro keeps_rules)

lemma keeps_rest:
  "keeps (evolves L) (CreateApproval a)" "keeps (evolves L) (AddTurn t r)" "keeps (evolves L) (AddAuditEntry e)"
  "LScrub \<in> L \<Longrightarrow> keeps (evolves L) (DeleteTranscript i)"
  unfolding CreateApproval_def AddTurn_def AddAuditEntry_def DeleteTranscript_def
    SetTranscriptRetention_def
  by (simp_all add: keeps_insertApproval keeps_dialog keeps_setTranscriptRetention)

lemmas keeps_ops = keeps_CreateTask keeps_CreateTaskGraph keeps_AddTaskDependency
  keeps_CreateTaskWithApproval keeps_ClaimNextTask keeps_StartTask keeps_UpdateTaskProgress
  keeps_CompleteTaskWithArtifacts keeps_CompleteTaskWithOutcome keeps_FailTask keeps_Requeue
  keeps_setTaskPriority keeps_dismissTask keeps_retryTask keeps_requestTaskGraphCancellation
  keeps_MarkTaskCancelled keeps_RecoverInterruptedTasks keeps_DecideApproval keeps_ExpireApprovals
  keeps_StartToolInvocation keeps_FinishToolInvocation keeps_IngestEvent keeps_MarkEventProcessed
  keeps_CreateAskWork keeps_GetOrCreateConversation keeps_CreateDelivery keeps_setTranscriptRetention
  keeps_ScrubTerminalTaskGraph keeps_ScrubTerminalNonRetained keeps_rest
  keeps_CreatePairingSession keeps_claimPairingSession keeps_VerifyDeviceCredential
  keeps_VerifyPendingDeviceCredential keeps_PrepareDeviceCredentialRotation keeps_ConfirmDeviceCredentialRotation
  keeps_CancelDeviceCredentialRotation keeps_RevokeDevice keeps_CreateVoiceSession
  keeps_UpdateVoicePreferences keeps_TransitionVoiceSession keeps_SetSetting keeps_StartDesktopAction
  keeps_CompleteDesktopAction keeps_UseWebhookNonce keeps_ApplyRetentionSweep

lemma op_evolves: "keeps (evolves (labels_of c)) (run_op c)"
  by (cases c) (simp_all add: keeps_discard keeps_ops)

subsection \<open>Runs\<close>

text \<open>
  A run with operations from a set: the outcome of each operation, its world included, is the start
  of the next one up to the tables.
\<close>

inductive run :: "store_op set \<Rightarrow> store \<Rightarrow> store \<Rightarrow> bool" for C where
  none: "run C s s"
| more: "run C s (db w) \<Longrightarrow> c \<in> C \<Longrightarrow> run C s (db (snd (run_op c w)))"

lemma run_evolves:
  assumes "run C s s'" and "(\<Union>c\<in>C. labels_of c) \<subseteq> L"
  shows "evolves L s s'"
  using assms(1)
proof induction
  case (none s)
  show ?case by (rule evo.R_refl)
next
  case (more s w c)
  from more.hyps(2) assms(2) have "labels_of c \<subseteq> L" by auto
  then have "evolves L (db w) (db (snd (run_op c w)))"
    using op_evolves [of c] by (auto simp: keeps_def intro: evolves_mono)
  with more.IH show ?case by (rule evo.R_trans)
qed

lemma run_any: "run C s s' \<Longrightarrow> evolves UNIV s s'"
  by (erule run_evolves) simp

lemma run_op1: "run UNIV (db w) (db (snd (run_op c w)))"
  by (intro run.intros) simp

end
