(* ===== verification/Event_Hub.thy ===== *)
theory Event_Hub
  imports Prelude "HOL-Library.Word" "HOL-Library.AList" "HOL-Library.Sublist"
begin

text \<open>
  \<open>internal/stream/hub.go\<close>: the hub that fans events out to subscribers.  A Go channel is a buffer with a
  capacity and a closed flag; the reader keeps the channel after the hub has dropped it, so the
  channels live in a list of their own and the subscriber table refers to them by position.
  Sending on a closed channel and closing a channel twice panic in Go: the operations are \<open>None\<close> there, and
  the theorems show that this does not happen.  The hub's mutex makes each operation one step.
  The table is an association list; Go visits a map in any order, and the result is shown to be the
  same for all of them.
\<close>

record 'p Event =
  se_ID :: string
  se_Type :: string
  se_OccurredAt :: time
  se_CorrelationID :: string
  se_ConversationID :: string
  se_TaskID :: string
  se_Payload :: 'p

record 'p channel =
  ch_cap :: int
  ch_buf :: "'p Event list"
  ch_closed :: bool

record 'p Hub =
  subscribers :: "(64 word \<times> nat) list"
  nextID :: "64 word"
  lastEventID :: string
  channels :: "'p channel list"

definition hub_New :: "'p Hub" where
  "hub_New = \<lparr>subscribers = [], nextID = 0, lastEventID = [], channels = []\<rparr>"

subsection \<open>Operations\<close>

definition stamp_event :: "string \<Rightarrow> time \<Rightarrow> 'p Event \<Rightarrow> 'p Event" where
  "stamp_event i now e = e\<lparr>se_ID := if se_ID e = [] then i else se_ID e,
     se_OccurredAt := if se_OccurredAt e = zero_time then now else se_OccurredAt e\<rparr>"

definition has_room :: "'p channel \<Rightarrow> bool" where
  "has_room ch \<longleftrightarrow> int (length (ch_buf ch)) < ch_cap ch"

definition close_channel :: "nat \<Rightarrow> 'p Hub \<Rightarrow> 'p Hub option" where
  "close_channel c h = (let ch = channels h ! c in
     if ch_closed ch then None else Some (h\<lparr>channels := (channels h)[c := ch\<lparr>ch_closed := True\<rparr>]\<rparr>))"

text \<open>The loop of \<open>Publish\<close> over the subscribers: a full channel is removed and closed.\<close>

fun publish_to :: "'p Event \<Rightarrow> (64 word \<times> nat) list \<Rightarrow> 'p Hub \<Rightarrow> 'p Hub option" where
  "publish_to e [] h = Some h"
| "publish_to e ((i, c) # rest) h =
     (let ch = channels h ! c in
      if ch_closed ch then None
      else if has_room ch
      then publish_to e rest (h\<lparr>channels := (channels h)[c := ch\<lparr>ch_buf := ch_buf ch @ [e]\<rparr>]\<rparr>)
      else Option.bind (close_channel c (h\<lparr>subscribers := AList.delete i (subscribers h)\<rparr>)) (publish_to e rest))"

definition Publish :: "string \<Rightarrow> time \<Rightarrow> 'p Event \<Rightarrow> 'p Hub \<Rightarrow> 'p Hub option" where
  "Publish i now event h =
     (let e = stamp_event i now event in publish_to e (subscribers h) (h\<lparr>lastEventID := se_ID e\<rparr>))"

record Stats =
  st_Subscribers :: nat
  st_Queued :: nat
  st_LastEventID :: string

definition hub_Stats :: "'p Hub \<Rightarrow> Stats" where
  "hub_Stats h = \<lparr>st_Subscribers = length (subscribers h),
     st_Queued = sum_list (map (\<lambda>(_, c). length (ch_buf (channels h ! c))) (subscribers h)),
     st_LastEventID = lastEventID h\<rparr>"

text \<open>\<open>Subscribe\<close> returns the channel; the identifier is what its goroutine removes when the context ends.\<close>

definition Subscribe :: "int \<Rightarrow> 'p Hub \<Rightarrow> nat \<times> 64 word \<times> 'p Hub" where
  "Subscribe buffer h =
     (let cap = (if buffer < 1 then 32 else buffer); i = nextID h + 1; c = length (channels h) in
      (c, i, h\<lparr>nextID := i, channels := channels h @ [\<lparr>ch_cap = cap, ch_buf = [], ch_closed = False\<rparr>],
        subscribers := AList.update i c (subscribers h)\<rparr>))"

definition Unsubscribe :: "64 word \<Rightarrow> 'p Hub \<Rightarrow> 'p Hub option" where
  "Unsubscribe i h = (case map_of (subscribers h) i of
     None \<Rightarrow> Some h
   | Some c \<Rightarrow> close_channel c (h\<lparr>subscribers := AList.delete i (subscribers h)\<rparr>))"

text \<open>A receive by the reader: the next buffered event, if there is one.\<close>

definition receive :: "nat \<Rightarrow> 'p Hub \<Rightarrow> 'p Event option \<times> 'p Hub" where
  "receive c h = (case ch_buf (channels h ! c) of
     [] \<Rightarrow> (None, h)
   | e # rest \<Rightarrow> (Some e, h\<lparr>channels := (channels h)[c := (channels h ! c)\<lparr>ch_buf := rest\<rparr>]\<rparr>))"

subsection \<open>Histories\<close>

datatype 'p hub_op = HPublish string time "'p Event" | HSubscribe int | HUnsubscribe "64 word" | HReceive nat

text \<open>
  What an observer sees: the hub, all events published so far, and for every channel how many had
  been published before it was made and what its reader has received.
\<close>

record 'p history =
  hi_hub :: "'p Hub"
  hi_published :: "'p Event list"
  hi_since :: "nat list"
  hi_got :: "'p Event list list"

definition history_New :: "'p history" where
  "history_New = \<lparr>hi_hub = hub_New, hi_published = [], hi_since = [], hi_got = []\<rparr>"

fun hub_step :: "'p hub_op \<Rightarrow> 'p history \<Rightarrow> 'p history option" where
  "hub_step (HPublish i now e) y =
     map_option (\<lambda>h. y\<lparr>hi_hub := h, hi_published := hi_published y @ [stamp_event i now e]\<rparr>) (Publish i now e (hi_hub y))"
| "hub_step (HSubscribe b) y =
     Some (y\<lparr>hi_hub := snd (snd (Subscribe b (hi_hub y))), hi_since := hi_since y @ [length (hi_published y)],
       hi_got := hi_got y @ [[]]\<rparr>)"
| "hub_step (HUnsubscribe i) y = map_option (\<lambda>h. y\<lparr>hi_hub := h\<rparr>) (Unsubscribe i (hi_hub y))"
| "hub_step (HReceive c) y =
     (if c < length (channels (hi_hub y)) then
        (case receive c (hi_hub y) of
           (None, h) \<Rightarrow> Some (y\<lparr>hi_hub := h\<rparr>)
         | (Some e, h) \<Rightarrow> Some (y\<lparr>hi_hub := h, hi_got := (hi_got y)[c := hi_got y ! c @ [e]]\<rparr>))
      else Some y)"

fun hub_steps :: "'p hub_op list \<Rightarrow> 'p history \<Rightarrow> 'p history option" where
  "hub_steps [] y = Some y"
| "hub_steps (op # ops) y = Option.bind (hub_step op y) (hub_steps ops)"

subsection \<open>The loop as one simultaneous update\<close>

definition deliver :: "'p Event \<Rightarrow> 'p channel \<Rightarrow> 'p channel" where
  "deliver e ch = (if has_room ch then ch\<lparr>ch_buf := ch_buf ch @ [e]\<rparr> else ch\<lparr>ch_closed := True\<rparr>)"

definition full_ids :: "(64 word \<times> nat) list \<Rightarrow> 'p channel list \<Rightarrow> 64 word set" where
  "full_ids xs chs = {i. \<exists>c. (i, c) \<in> set xs \<and> \<not> has_room (chs ! c)}"

definition published :: "'p Event \<Rightarrow> (64 word \<times> nat) list \<Rightarrow> 'p Hub \<Rightarrow> 'p Hub" where
  "published e xs h = h\<lparr>
     channels := map (\<lambda>c. if c \<in> snd ` set xs then deliver e (channels h ! c) else channels h ! c) [0..<length (channels h)],
     subscribers := filter (\<lambda>(i, c). i \<notin> full_ids xs (channels h)) (subscribers h)\<rparr>"

definition live :: "(64 word \<times> nat) list \<Rightarrow> 'p channel list \<Rightarrow> bool" where
  "live xs chs \<longleftrightarrow> distinct (map snd xs) \<and> (\<forall>(i, c)\<in>set xs. c < length chs \<and> \<not> ch_closed (chs ! c))"

lemma filter_delete: "filter p (AList.delete i xs) = filter (\<lambda>(j, c). j \<noteq> i \<and> p (j, c)) xs"
  by (induction xs) (auto simp: AList.delete_eq)

lemma live_update: "live ((i, c) # xs) chs \<Longrightarrow> live xs (chs[c := ch])"
  by (auto simp: live_def nth_list_update image_iff)

lemma published_Cons:
  assumes "live ((i, c) # xs) (channels h)"
  shows "published e ((i, c) # xs) h =
    published e xs (h\<lparr>subscribers := if has_room (channels h ! c) then subscribers h else AList.delete i (subscribers h),
      channels := (channels h)[c := deliver e (channels h ! c)]\<rparr>)"
proof -
  let ?chs = "(channels h)[c := deliver e (channels h ! c)]"
  have c: "c \<notin> snd ` set xs" "c < length (channels h)" using assms by (auto simp: live_def)
  have other: "?chs ! d = channels h ! d" if "(j, d) \<in> set xs" for j d
    using that c(1) by (metis image_eqI nth_list_update_neq snd_conv)
  then have "full_ids xs ?chs = full_ids xs (channels h)" by (auto simp: full_ids_def)
  moreover have "full_ids ((i, c) # xs) (channels h) =
      (if has_room (channels h ! c) then {} else {i}) \<union> full_ids xs (channels h)"
    by (auto simp: full_ids_def)
  moreover have "map (\<lambda>d. if d \<in> snd ` set ((i, c) # xs) then deliver e (channels h ! d) else channels h ! d) [0..<length (channels h)] =
      map (\<lambda>d. if d \<in> snd ` set xs then deliver e (?chs ! d) else ?chs ! d) [0..<length ?chs]"
    using c by (auto simp: nth_list_update)
  ultimately show ?thesis
    by (auto simp: published_def filter_delete intro!: filter_cong)
qed

lemma publish_to_eq: "live xs (channels h) \<Longrightarrow> publish_to e xs h = Some (published e xs h)"
proof (induction xs arbitrary: h)
  case Nil
  have "map ((!) chs) [0..<length chs] = chs" for chs :: "'a channel list" by (rule map_nth)
  then show ?case by (simp add: published_def full_ids_def)
next
  case (Cons p xs)
  obtain i c where p: "p = (i, c)" by (cases p)
  with Cons.prems have open_c: "\<not> ch_closed (channels h ! c)" by (auto simp: live_def)
  from published_Cons Cons.prems p have step: "published e (p # xs) h =
    published e xs (h\<lparr>subscribers := if has_room (channels h ! c) then subscribers h else AList.delete i (subscribers h),
      channels := (channels h)[c := deliver e (channels h ! c)]\<rparr>)" by blast
  have "live xs ((channels h)[c := ch])" for ch using live_update Cons.prems p by blast
  with Cons.IH open_c step p show ?case
    by (simp add: Let_def deliver_def close_channel_def)
qed

text \<open>Go visits the subscribers in any order.\<close>

lemma publish_any_order:
  assumes "live xs (channels h)" and "set ys = set xs" and "length ys = length xs"
  shows "publish_to e ys h = publish_to e xs h"
proof -
  from assms(1) have "distinct xs" by (auto simp: live_def distinct_map)
  with assms(2,3) have "distinct ys" by (metis card_distinct distinct_card)
  with assms(1,2) have "live ys (channels h)" by (auto simp: live_def distinct_map)
  with assms(1,2) show ?thesis by (simp add: publish_to_eq published_def full_ids_def)
qed

subsection \<open>The invariant\<close>

text \<open>
  A channel holds, together with what was read from it, a prefix of the events published since it was
  made, and all of them as long as it is open.
\<close>

definition channel_ok :: "'p Event list \<Rightarrow> nat \<Rightarrow> 'p Event list \<Rightarrow> 'p channel \<Rightarrow> bool" where
  "channel_ok pub since got ch \<longleftrightarrow> since \<le> length pub \<and> prefix (got @ ch_buf ch) (drop since pub) \<and>
     (\<not> ch_closed ch \<longrightarrow> got @ ch_buf ch = drop since pub) \<and> 1 \<le> ch_cap ch \<and> int (length (ch_buf ch)) \<le> ch_cap ch"

definition table_ok :: "'p Hub \<Rightarrow> bool" where
  "table_ok h \<longleftrightarrow> nextID h = of_nat (length (channels h)) \<and> distinct (map fst (subscribers h)) \<and>
     distinct (map snd (subscribers h)) \<and>
     (\<forall>(i, c)\<in>set (subscribers h). i = of_nat (Suc c) \<and> c < length (channels h)) \<and>
     (\<forall>c<length (channels h). ch_closed (channels h ! c) \<longleftrightarrow> c \<notin> snd ` set (subscribers h))"

definition history_ok :: "'p history \<Rightarrow> bool" where
  "history_ok y \<longleftrightarrow> table_ok (hi_hub y) \<and> length (hi_since y) = length (channels (hi_hub y)) \<and>
     length (hi_got y) = length (channels (hi_hub y)) \<and>
     (\<forall>c<length (channels (hi_hub y)). channel_ok (hi_published y) (hi_since y ! c) (hi_got y ! c) (channels (hi_hub y) ! c))"

lemma history_New_ok: "history_ok history_New"
  by (simp add: history_ok_def history_New_def hub_New_def table_ok_def)

lemma table_live: "table_ok h \<Longrightarrow> live (subscribers h) (channels h)"
  by (force simp: table_ok_def live_def)

lemma channel_ok_deliver: "channel_ok pub since got ch \<Longrightarrow> \<not> ch_closed ch \<Longrightarrow> channel_ok (pub @ [e]) since got (deliver e ch)"
  by (auto simp: channel_ok_def deliver_def has_room_def)

lemma channel_ok_later: "channel_ok pub since got ch \<Longrightarrow> ch_closed ch \<Longrightarrow> channel_ok (pub @ [e]) since got ch"
  by (auto simp: channel_ok_def)

lemma channel_ok_close: "channel_ok pub since got ch \<Longrightarrow> channel_ok pub since got (ch\<lparr>ch_closed := True\<rparr>)"
  by (simp add: channel_ok_def)

lemma table_published:
  assumes "table_ok h"
  shows "table_ok (published e (subscribers h) h)"
proof -
  let ?h = "published e (subscribers h) h"
  have full: "i \<in> full_ids (subscribers h) (channels h) \<longleftrightarrow> \<not> has_room (channels h ! c)"
    if "(i, c) \<in> set (subscribers h)" for i c
    using that assms by (auto simp: full_ids_def table_ok_def dest: eq_key_imp_eq_value)
  have closed: "ch_closed (channels ?h ! c) \<longleftrightarrow> c \<notin> snd ` set (subscribers ?h)" if "c < length (channels h)" for c
  proof (cases "c \<in> snd ` set (subscribers h)")
    case True
    then obtain i where i: "(i, c) \<in> set (subscribers h)" by auto
    with assms that have "\<not> ch_closed (channels h ! c)" by (force simp: table_ok_def)
    moreover have "c \<in> snd ` set (subscribers ?h) \<longleftrightarrow> has_room (channels h ! c)"
      using i full by (force simp: published_def)
    ultimately show ?thesis using that True by (simp add: published_def deliver_def)
  next
    case False
    with assms that show ?thesis by (force simp: published_def table_ok_def)
  qed
  have "distinct (map fst (filter p xs))" if "distinct (map fst xs)" for p and xs :: "(64 word \<times> nat) list"
    using that by (rule distinct_map_filter)
  with assms closed show ?thesis
    by (auto simp: table_ok_def published_def distinct_map_filter)
qed

lemma publish_ok:
  assumes "history_ok y"
  shows "\<exists>y'. hub_step (HPublish i now e) y = Some y' \<and> history_ok y' \<and> length (hi_since y') = length (hi_since y)"
proof -
  let ?h = "(hi_hub y)\<lparr>lastEventID := se_ID (stamp_event i now e)\<rparr>"
  have t: "table_ok ?h" using assms by (simp add: history_ok_def table_ok_def)
  then have p: "Publish i now e (hi_hub y) = Some (published (stamp_event i now e) (subscribers ?h) ?h)"
    using publish_to_eq [OF table_live [OF t]] by (simp add: Publish_def Let_def)
  let ?y = "y\<lparr>hi_hub := published (stamp_event i now e) (subscribers ?h) ?h, hi_published := hi_published y @ [stamp_event i now e]\<rparr>"
  have "channel_ok (hi_published ?y) (hi_since y ! c) (hi_got y ! c) (channels (hi_hub ?y) ! c)"
    if "c < length (channels (hi_hub y))" for c
  proof -
    have old: "channel_ok (hi_published y) (hi_since y ! c) (hi_got y ! c) (channels (hi_hub y) ! c)"
      using assms that by (simp add: history_ok_def)
    show ?thesis
    proof (cases "c \<in> snd ` set (subscribers (hi_hub y))")
      case True
      with assms that have "\<not> ch_closed (channels (hi_hub y) ! c)" by (simp add: history_ok_def table_ok_def)
      with channel_ok_deliver [OF old] True that show ?thesis by (simp add: published_def)
    next
      case False
      with assms that have "ch_closed (channels (hi_hub y) ! c)" by (simp add: history_ok_def table_ok_def)
      with channel_ok_later [OF old] False that show ?thesis by (simp add: published_def)
    qed
  qed
  with table_published [OF t] assms p show ?thesis
    by (simp add: history_ok_def) (simp add: published_def)
qed

lemma update_fresh: "i \<notin> fst ` set xs \<Longrightarrow> AList.update i c xs = xs @ [(i, c)]"
  by (induction xs) auto

lemma id_fresh: "c < n \<Longrightarrow> n < 2 ^ 64 \<Longrightarrow> of_nat (Suc c) \<noteq> (of_nat (Suc n) :: 64 word)"
  unfolding word_of_nat_eq_iff take_bit_eq_mod by (cases "Suc n = 2 ^ 64") auto

lemma subscribe_ok:
  assumes "history_ok y" and "length (channels (hi_hub y)) < 2 ^ 64"
  shows "\<exists>y'. hub_step (HSubscribe b) y = Some y' \<and> history_ok y' \<and> length (hi_since y') = Suc (length (hi_since y))"
proof -
  let ?h = "hi_hub y" and ?n = "length (channels (hi_hub y))"
  have next_id: "nextID ?h + 1 = of_nat (Suc ?n)" using assms(1) by (simp add: history_ok_def table_ok_def)
  have fresh: "of_nat (Suc ?n) \<notin> fst ` set (subscribers ?h)"
  proof
    assume "of_nat (Suc ?n) \<in> fst ` set (subscribers ?h)"
    then obtain c where c: "(of_nat (Suc ?n), c) \<in> set (subscribers ?h)"
      by (auto simp del: of_nat_Suc)
    from assms(1) have "\<forall>(i, c)\<in>set (subscribers ?h). i = of_nat (Suc c) \<and> c < ?n" unfolding history_ok_def table_ok_def by blast
    with c have "of_nat (Suc ?n) = (of_nat (Suc c) :: 64 word)" "c < ?n" by blast+
    with id_fresh [of c ?n] assms(2) show False by simp
  qed
  then have subs: "AList.update (nextID ?h + 1) ?n (subscribers ?h) = subscribers ?h @ [(of_nat (Suc ?n), ?n)]"
    unfolding next_id by (rule update_fresh)
  let ?ch = "\<lparr>ch_cap = if b < 1 then 32 else b, ch_buf = [], ch_closed = False\<rparr>"
  let ?g = "?h\<lparr>nextID := of_nat (Suc ?n), channels := channels ?h @ [?ch], subscribers := subscribers ?h @ [(of_nat (Suc ?n), ?n)]\<rparr>"
  have sub: "snd (snd (Subscribe b ?h)) = ?g" unfolding Subscribe_def Let_def next_id subs [unfolded next_id] by simp
  have "?n \<notin> snd ` set (subscribers ?h)" using assms(1) by (force simp: history_ok_def table_ok_def)
  then have "table_ok ?g" using assms(1) fresh
    by (auto simp: history_ok_def table_ok_def nth_append less_Suc_eq simp del: of_nat_Suc)
  moreover have "channel_ok pub (length pub) [] ?ch" for pub :: "'a Event list" by (simp add: channel_ok_def)
  ultimately show ?thesis using assms(1) sub by (simp add: history_ok_def nth_append less_Suc_eq)
qed

lemma unsubscribe_ok:
  assumes "history_ok y"
  shows "\<exists>y'. hub_step (HUnsubscribe i) y = Some y' \<and> history_ok y' \<and> length (hi_since y') = length (hi_since y)"
proof (cases "map_of (subscribers (hi_hub y)) i")
  case None
  with assms show ?thesis by (simp add: Unsubscribe_def)
next
  case (Some c)
  let ?h = "hi_hub y"
  let ?g = "?h\<lparr>subscribers := AList.delete i (subscribers ?h), channels := (channels ?h)[c := (channels ?h ! c)\<lparr>ch_closed := True\<rparr>]\<rparr>"
  from Some have i: "(i, c) \<in> set (subscribers ?h)" by (rule map_of_SomeD)
  from assms have t: "table_ok ?h" by (simp add: history_ok_def)
  with i have c: "c < length (channels ?h)" "\<not> ch_closed (channels ?h ! c)" by (force simp: table_ok_def)+
  have rest: "set (AList.delete i (subscribers ?h)) = set (subscribers ?h) - {(i, c)}"
    using t i by (auto simp: AList.delete_eq table_ok_def dest: eq_key_imp_eq_value)
  have uniq: "d \<noteq> c" if "(j, d) \<in> set (subscribers ?h)" "(j, d) \<noteq> (i, c)" for j d
  proof -
    have "j = of_nat (Suc d)" "i = of_nat (Suc c)" using t that(1) i by (auto simp: table_ok_def)
    with that(2) show ?thesis by auto
  qed
  have "snd ` set (AList.delete i (subscribers ?h)) = snd ` set (subscribers ?h) - {c}"
    unfolding rest using uniq by force
  with t c have "table_ok ?g"
    by (auto simp: table_ok_def nth_list_update AList.delete_eq distinct_map_filter)
  moreover have "Unsubscribe i ?h = Some ?g" using Some c by (simp add: Unsubscribe_def close_channel_def Let_def)
  ultimately show ?thesis
    using assms c by (auto simp: history_ok_def nth_list_update intro: channel_ok_close)
qed

lemma closed_after_read: "ch_closed (chs[c := (chs ! c)\<lparr>ch_buf := r\<rparr>] ! d) = ch_closed (chs ! d)"
  by (cases "c = d"; cases "c < length chs") (auto simp: list_update_beyond)

lemma receive_ok:
  assumes "history_ok y"
  shows "\<exists>y'. hub_step (HReceive c) y = Some y' \<and> history_ok y' \<and> length (hi_since y') = length (hi_since y)"
proof (cases "c < length (channels (hi_hub y)) \<and> ch_buf (channels (hi_hub y) ! c) \<noteq> []")
  case True
  then obtain e rest where buf: "ch_buf (channels (hi_hub y) ! c) = e # rest" by (meson neq_Nil_conv)
  let ?h = "hi_hub y"
  let ?g = "?h\<lparr>channels := (channels ?h)[c := (channels ?h ! c)\<lparr>ch_buf := rest\<rparr>]\<rparr>"
  have "channel_ok (hi_published y) (hi_since y ! c) (hi_got y ! c @ [e]) ((channels ?h ! c)\<lparr>ch_buf := rest\<rparr>)"
    using assms True buf by (auto simp: history_ok_def channel_ok_def)
  moreover have "table_ok ?g" using assms by (simp add: history_ok_def table_ok_def closed_after_read)
  ultimately show ?thesis
    using assms True buf by (auto simp: receive_def history_ok_def nth_list_update)
qed (use assms in \<open>auto simp: receive_def\<close>)

fun subscriptions :: "'p hub_op list \<Rightarrow> nat" where
  "subscriptions [] = 0"
| "subscriptions (HSubscribe b # ops) = Suc (subscriptions ops)"
| "subscriptions (_ # ops) = subscriptions ops"

lemma hub_steps_ok:
  "history_ok y \<Longrightarrow> length (hi_since y) + subscriptions ops \<le> 2 ^ 64 \<Longrightarrow> \<exists>y'. hub_steps ops y = Some y' \<and> history_ok y'"
proof (induction ops arbitrary: y)
  case (Cons op ops)
  have "\<exists>y'. hub_step op y = Some y' \<and> history_ok y' \<and> length (hi_since y') + subscriptions ops \<le> 2 ^ 64"
  proof (cases op)
    case (HPublish i now e)
    with publish_ok [OF Cons.prems(1), of i now e] Cons.prems(2) show ?thesis by force
  next
    case (HSubscribe b)
    moreover from this have "length (channels (hi_hub y)) < 2 ^ 64" using Cons.prems by (simp add: history_ok_def)
    ultimately show ?thesis using subscribe_ok [OF Cons.prems(1), of b] Cons.prems(2) by force
  next
    case (HUnsubscribe i)
    with unsubscribe_ok [OF Cons.prems(1), of i] Cons.prems(2) show ?thesis by force
  next
    case (HReceive c)
    with receive_ok [OF Cons.prems(1), of c] Cons.prems(2) show ?thesis by force
  qed
  with Cons.IH show ?case by force
qed simp

text \<open>
  C27: subscribers never miss an event without noticing.  Over any sequence with at most \<open>2 ^ 64\<close> subscriptions and any
  number of publications, cancellations and reads the hub does not panic, no buffer exceeds its capacity,
  and what a reader has received is a prefix of the events published since it subscribed; while its channel is
  open, what it has received and what is buffered are all of them, in order.
\<close>

theorem no_silent_gap:
  assumes "subscriptions ops \<le> 2 ^ 64"
  shows "\<exists>y. hub_steps ops history_New = Some y \<and>
    (\<forall>c<length (channels (hi_hub y)).
       let ch = channels (hi_hub y) ! c; since = drop (hi_since y ! c) (hi_published y) in
       prefix (hi_got y ! c) since \<and> (\<not> ch_closed ch \<longrightarrow> hi_got y ! c @ ch_buf ch = since) \<and>
       int (length (ch_buf ch)) \<le> ch_cap ch)"
proof -
  have "length (hi_since history_New) + subscriptions ops \<le> 2 ^ 64" using assms by (simp add: history_New_def)
  from hub_steps_ok [OF history_New_ok this] show ?thesis
    by (auto simp: history_ok_def channel_ok_def Let_def dest: append_prefixD)
qed

definition sample_event :: "string \<Rightarrow> string Event" where
  "sample_event i = \<lparr>se_ID = i, se_Type = ''task.changed'', se_OccurredAt = 1, se_CorrelationID = [],
     se_ConversationID = [], se_TaskID = [], se_Payload = []\<rparr>"

text \<open>A subscriber with room for one event reads the first of three and is closed at the third.\<close>

definition slow_reader :: "string hub_op list" where
  "slow_reader = [HSubscribe 1, HPublish [] 0 (sample_event ''a''), HReceive 0, HPublish [] 0 (sample_event ''b''),
     HPublish [] 0 (sample_event ''c'')]"

theorem no_silent_gap_witness:
  "\<exists>y. hub_steps slow_reader history_New = Some y \<and> prefix (hi_got y ! 0) (hi_published y) \<and>
     map se_ID (hi_got y ! 0) = [''a''] \<and> map se_ID (hi_published y) = [''a'', ''b'', ''c''] \<and> ch_closed (channels (hi_hub y) ! 0)"
proof -
  have "map_option (\<lambda>y. (map se_ID (hi_got y ! 0), map se_ID (hi_published y), map ch_closed (channels (hi_hub y)), hi_since y))
    (hub_steps slow_reader history_New) = Some ([''a''], [''a'', ''b'', ''c''], [True], [0])" by code_simp
  then obtain y where y: "hub_steps slow_reader history_New = Some y" "map se_ID (hi_got y ! 0) = [''a'']"
    "map se_ID (hi_published y) = [''a'', ''b'', ''c'']" "map ch_closed (channels (hi_hub y)) = [True]" "hi_since y = [0]" by auto
  then have "length (channels (hi_hub y)) = 1" "ch_closed (channels (hi_hub y) ! 0)"
    by (cases "channels (hi_hub y)"; auto)+
  with no_silent_gap [of slow_reader] y show ?thesis by (auto simp: slow_reader_def Let_def)
qed

end
