(* ===== verification/Agent_Runtime.thy ===== *)
theory Agent_Runtime
  imports Store_Runs Event_Hub
begin

text \<open>
  \<open>core/agents\<close>: the registry of agents and the runtime that works the queue off.  The runtime's state is
  the store, the event hub, the wake-up token and the table of running tasks.  Agents, tools and the
  HTTP API run in other goroutines: between any two calls of the runtime to the store an arbitrary list of
  store operations (\<open>core_others\<close>) of theirs is executed, so a theorem about \<open>process\<close> holds for
  every interleaving.  The shell executor and the agents are parameters, each with the outcome of its
  call; what was handed to them is recorded in \<open>core_ran\<close> and \<open>core_delegated\<close>.
\<close>

subsection \<open>The registry\<close>

record Definition =
  df_ID :: string
  df_DisplayName :: string
  df_Description :: string
  df_Capabilities :: "string list"
  df_AcceptedTaskTypes :: "string list"
  df_InputSchema :: string
  df_OutputSchema :: string
  df_ToolScopes :: "string list"
  df_TrustLevel :: string
  df_CostMetadata :: string
  df_LatencyMetadata :: string
  df_ConcurrencyLimit :: int
  df_Health :: string
  df_ExecutionMode :: string
  df_SupportsCancellation :: bool
  df_SupportsStreaming :: bool
  df_UpdatedAt :: time

record Progress =
  pg_Percent :: int
  pg_Message :: string

record AgentResult =
  rs_Structured :: string
  rs_WrittenSummary :: string
  rs_SpokenSummary :: string
  rs_Artifacts :: "Artifact list"
  rs_Partial :: bool

text \<open>An error outside the store: its text and what \<open>errors.Is\<close> says of the two context errors.\<close>

record run_error =
  re_Text :: string
  re_Canceled :: bool
  re_Deadline :: bool

abbreviation plain_error :: "string \<Rightarrow> run_error" where
  "plain_error msg \<equiv> \<lparr>re_Text = msg, re_Canceled = False, re_Deadline = False\<rparr>"

text \<open>
  The interface \<open>Runner\<close>: its definition, the reports and the outcome of a run, and the optional
  method of \<open>retryClassifier\<close>.
\<close>

record Runner =
  rn_Definition :: Definition
  rn_Run :: "Task \<Rightarrow> Progress list \<times> (run_error + AgentResult)"
  rn_Retryable :: "(run_error \<Rightarrow> bool) option"

type_synonym Registry = "(string \<times> Runner) list"

definition Register :: "(string \<Rightarrow> string) \<Rightarrow> Runner \<Rightarrow> Registry \<Rightarrow> err + Registry" where
  "Register quoted runner r = (let definition = rn_Definition runner in
     if df_ID definition = [] then Inl (ErrMsg ''agent id is required'')
     else if df_ConcurrencyLimit definition < 1 then Inl (ErrMsg ''agent concurrency limit must be positive'')
     else if map_of r (df_ID definition) \<noteq> None then Inl (ErrMsg (''agent '' @ quoted (df_ID definition) @ '' is already registered''))
     else Inr ((df_ID definition, runner) # r))"

definition Definitions :: "Registry \<Rightarrow> Definition list" where
  "Definitions r = sort_key df_ID (map (rn_Definition \<circ> snd) r)"

text \<open>
  \<open>waiting\<close> is the context error when the context ended before a slot of the agent was free; \<open>quoted\<close>
  is the verb \<open>%q\<close>.
\<close>

definition registry_Run :: "(string \<Rightarrow> string) \<Rightarrow> Registry \<Rightarrow> run_error option \<Rightarrow> Task \<Rightarrow> Progress list \<times> (run_error + AgentResult)" where
  "registry_Run quoted r waiting task = (case map_of r (t_AssignedAgentID task) of
     None \<Rightarrow> ([], Inl (plain_error (''agent '' @ quoted (t_AssignedAgentID task) @ '' is not registered'')))
   | Some runner \<Rightarrow> (case waiting of
       Some e \<Rightarrow> ([], Inl e)
     | None \<Rightarrow> rn_Run runner task))"

definition registry_Retryable :: "Registry \<Rightarrow> string \<Rightarrow> run_error \<Rightarrow> bool" where
  "registry_Retryable r agentID e =
     (if re_Canceled e \<or> re_Deadline e then False
      else (case map_of r agentID of
        None \<Rightarrow> False
      | Some runner \<Rightarrow> (case rn_Retryable runner of None \<Rightarrow> False | Some classify \<Rightarrow> classify e)))"

subsection \<open>The runtime's state\<close>

record ToolProgress =
  tp_Stream :: string
  tp_Data :: string

datatype payload = PTask Task | PApproval Approval | PApprovalTask Approval Task | PTurn Turn
  | PReply Delivery string bool | PSpeech string bool | POutput ToolProgress
  | PConnectorProgress ReplyTarget string int string

text \<open>
  The shell executor: \<open>ParseAndValidate\<close> with the canonical encoding of its result (\<open>None\<close> when it
  cannot be encoded), and \<open>Execute\<close> with its reports, output and error.
\<close>

record ParsedShell =
  sp_DryRun :: bool
  sp_Canonical :: "string option"

record shell_port =
  sh_Parse :: "string \<Rightarrow> run_error + ParsedShell \<times> Risk"
  sh_Execute :: "string \<Rightarrow> ToolProgress list \<times> string \<times> run_error option"

text \<open>
  \<open>Runtime\<close> without its state: the gates are \<open>nil\<close> or functions; \<open>errorText\<close> is the text of an error of
  the store and \<open>quoted\<close> the verb \<open>%q\<close>.
\<close>

record Runtime =
  registry :: Registry
  waiting :: "Task \<Rightarrow> run_error option"
  shell :: "shell_port option"
  toolGate :: "bool option"
  agentGate :: "(string \<Rightarrow> bool) option"
  deliveryGate :: "(string \<Rightarrow> bool) option"
  errorText :: "err \<Rightarrow> string"
  quoted :: "string \<Rightarrow> string"

record core =
  core_store :: store
  core_hub :: "payload Hub"
  core_wake :: bool
  core_active :: "string list"
  core_signalled :: "string list"
  core_others :: "nat \<Rightarrow> store_op list"
  core_turn :: nat
  core_ran :: "(string \<times> string) list"
  core_delegated :: "(string \<times> string) list"

type_synonym 'a rt_op = "(core, 'a) tx"

definition others_run :: "store_op list \<Rightarrow> store world \<Rightarrow> store world" where
  "others_run ops w = fold (\<lambda>c w. snd (run_op c w)) ops w"

definition store_world :: "core world \<Rightarrow> store world" where
  "store_world w = \<lparr>db = core_store (db w), clock = clock w, ticks = ticks w, uuids = uuids w, drawn = drawn w,
     fault = fault w, stmts = stmts w\<rparr>"

definition core_world :: "core world \<Rightarrow> store world \<Rightarrow> core world" where
  "core_world w v = \<lparr>db = (db w)\<lparr>core_store := db v, core_turn := Suc (core_turn (db w))\<rparr>, clock = clock v,
     ticks = ticks v, uuids = uuids v, drawn = drawn v, fault = fault v, stmts = stmts v\<rparr>"

text \<open>A call to the store, after whatever the other goroutines did since the last one.\<close>

definition on_store :: "'a db_op \<Rightarrow> 'a rt_op" where
  "on_store m w = (case m (others_run (core_others (db w) (core_turn (db w))) (store_world w)) of
     (r, v) \<Rightarrow> (r, core_world w v))"

definition on_core :: "(core \<Rightarrow> core) \<Rightarrow> unit rt_op" where
  "on_core f w = (Inr (), w\<lparr>db := f (db w)\<rparr>)"

definition publish :: "payload Event \<Rightarrow> unit rt_op" where
  "publish e = tx_bind tx_uuid (\<lambda>i. tx_bind tx_now (\<lambda>now. (\<lambda>w.
     case Publish i now e (core_hub (db w)) of
       None \<Rightarrow> (Inl (ErrMsg ''panic''), w)
     | Some h \<Rightarrow> (Inr (), w\<lparr>db := (db w)\<lparr>core_hub := h\<rparr>\<rparr>))))"

definition task_event :: "string \<Rightarrow> Task \<Rightarrow> payload \<Rightarrow> payload Event" where
  "task_event ty task p = \<lparr>se_ID = [], se_Type = ty, se_OccurredAt = zero_time, se_CorrelationID = t_CorrelationID task,
     se_ConversationID = t_ConversationID task, se_TaskID = t_ID task, se_Payload = p\<rparr>"

definition Wake :: "unit rt_op" where
  "Wake = on_core (\<lambda>c. c\<lparr>core_wake := True\<rparr>)"

subsection \<open>Where a result goes\<close>

record taskRouting =
  tr_Source :: Source
  tr_ReplyTarget :: ReplyTarget

text \<open>\<open>json.Unmarshal\<close> with its error ignored.\<close>

definition routingFromTask :: "Task \<Rightarrow> taskRouting" where
  "routingFromTask task =
     (let kvs = (case object_members (t_Input task) of None \<Rightarrow> [] | Some kvs \<Rightarrow> kvs);
          source = decode_members ''source'' kvs; target = decode_members ''reply_target'' kvs in
      \<lparr>tr_Source = \<lparr>so_Kind = decode_text ''kind'' source [], so_ConnectorID = decode_text ''connector_id'' source [],
         so_InstanceID = decode_text ''instance_id'' source []\<rparr>,
       tr_ReplyTarget = \<lparr>rt_ConnectorID = decode_text ''connector_id'' target [],
         rt_ChannelID = decode_text ''channel_id'' target [], rt_ThreadID = decode_text ''thread_id'' target []\<rparr>\<rparr>)"

definition taskOutcomeAttemptSuffix :: "Task \<Rightarrow> string" where
  "taskOutcomeAttemptSuffix task = (if t_RetryCount task \<le> 0 then [] else '':retry:'' @ Itoa (t_RetryCount task))"

definition connectorDelivery :: "Task \<Rightarrow> time \<Rightarrow> (string \<Rightarrow> bool) option \<Rightarrow> Delivery option" where
  "connectorDelivery task now connectorAllowed =
     (let routing = routingFromTask task; kind = so_Kind (tr_Source routing);
          connector = rt_ConnectorID (tr_ReplyTarget routing);
          allowed = (case connectorAllowed of None \<Rightarrow> True | Some gate \<Rightarrow> gate connector);
          simulated = allowed \<and> connector = kind @ ''-simulator'' \<and> kind \<in> set [''slack'', ''mattermost'', ''teams''];
          suffix = taskOutcomeAttemptSuffix task in
      if connector = [] then None
      else Some \<lparr>dl_ID = ''delivery:'' @ t_ID task @ '':connector-final'' @ suffix, dl_TaskID = t_ID task,
        dl_Target = \<lparr>tg_Kind = kind, tg_ConnectorID = connector, tg_DeviceID = [],
          tg_ChannelID = rt_ChannelID (tr_ReplyTarget routing), tg_ThreadID = rt_ThreadID (tr_ReplyTarget routing),
          tg_CallbackURL = [], tg_VoiceSession = []\<rparr>,
        dl_Priority = 50, dl_Status = (if simulated then DeliveryDelivered else DeliveryPending), dl_AttemptCount = 0,
        dl_LastError = (if allowed then [] else ''connector kill switch active; delivery retained for inspection''),
        dl_IdempotencyKey = ''task:'' @ t_ID task @ '':connector-final'' @ suffix,
        dl_CreatedAt = now, dl_DeliveredAt = (if simulated then Some now else None),
        dl_CorrelationID = t_CorrelationID task\<rparr>)"

definition extractExitCode :: "string \<Rightarrow> int" where
  "extractExitCode output = (case object_members output of None \<Rightarrow> 0 | Some kvs \<Rightarrow> decode_int ''exit_code'' kvs 0)"

subsection \<open>Ending a task\<close>

definition finishFailure :: "Task \<Rightarrow> run_error \<Rightarrow> unit rt_op" where
  "finishFailure task taskErr =
     (if re_Canceled taskErr then
        tx_bind (attempt (on_store (MarkTaskCancelled (t_ID task)))) (\<lambda>r. case r of
          Inl _ \<Rightarrow> tx_return ()
        | Inr cancelled \<Rightarrow>
            tx_bind (attempt (on_store (ScrubTerminalTaskGraph (t_RootTaskID cancelled)))) (\<lambda>_.
            publish (task_event ''task.cancelled'' task (PTask cancelled))))
      else
        tx_bind (attempt (on_store (FailTask (t_ID task) (Some (re_Text taskErr)) (re_Deadline taskErr)))) (\<lambda>r. case r of
          Inl _ \<Rightarrow> tx_return ()
        | Inr failed \<Rightarrow>
            tx_bind (attempt (on_store (ScrubTerminalTaskGraph (t_RootTaskID failed)))) (\<lambda>_.
            publish (task_event ''task.failed'' task (PTask failed)))))"

definition final_turn :: "Task \<Rightarrow> string \<Rightarrow> time \<Rightarrow> Turn option" where
  "final_turn task written now =
     (if t_ConversationID task = [] then None
      else Some \<lparr>tu_ID = ''turn:assistant:'' @ t_ID task @ taskOutcomeAttemptSuffix task,
        tu_ConversationID = t_ConversationID task, tu_Role = RoleAssistant, tu_Text = written, tu_Final = True,
        tu_CorrelationID = t_CorrelationID task, tu_CreatedAt = now\<rparr>)"

definition announce_outcome :: "Task \<Rightarrow> Task \<Rightarrow> string \<Rightarrow> string \<Rightarrow> Turn option \<Rightarrow> Delivery option \<Rightarrow> unit rt_op" where
  "announce_outcome task completed written spoken finalTurn finalDelivery =
     tx_bind (case finalTurn of None \<Rightarrow> tx_return ()
       | Some turn \<Rightarrow> publish (task_event ''conversation.turn.final'' task (PTurn turn))) (\<lambda>_.
     tx_bind (publish (task_event ''task.completed'' task (PTask completed))) (\<lambda>_.
     tx_bind (case finalDelivery of None \<Rightarrow> tx_return ()
       | Some d \<Rightarrow> publish (task_event (if dl_Status d = DeliveryDelivered then ''connector.reply'' else ''delivery.pending'')
           task (PReply d written (dl_DeliveredAt d \<noteq> None)))) (\<lambda>_.
     tx_bind (tx_when (spoken \<noteq> []) (publish (task_event ''voice.tts.text'' task (PSpeech spoken True)))) (\<lambda>_.
     Wake))))"

definition completeAndPublish :: "Runtime \<Rightarrow> Task \<Rightarrow> string \<Rightarrow> string \<Rightarrow> string \<Rightarrow> bool \<Rightarrow> Artifact list \<Rightarrow> Task rt_op" where
  "completeAndPublish r task resultJSON written spoken partial arts =
     (if t_ID task \<noteq> t_RootTaskID task then
        tx_bind (on_store (CompleteTaskWithArtifacts (t_ID task) resultJSON written partial arts)) (\<lambda>completed.
        tx_bind (publish (task_event ''task.completed'' task (PTask completed))) (\<lambda>_.
        tx_bind Wake (\<lambda>_. tx_return completed)))
      else
        tx_bind tx_now (\<lambda>now.
        let finalTurn = final_turn task written now; finalDelivery = connectorDelivery task now (deliveryGate r) in
        tx_bind (on_store (CompleteTaskWithOutcome (t_ID task) resultJSON written partial
          \<lparr>co_Turn = finalTurn, co_Delivery = finalDelivery, co_Artifacts = arts\<rparr>)) (\<lambda>completed.
        tx_bind (announce_outcome task completed written spoken finalTurn finalDelivery) (\<lambda>_.
        tx_return completed))))"

text \<open>
  The callers look only at the error of \<open>completeAndPublish\<close>, prefix it and fail the task with it.
\<close>

definition complete_or_fail :: "Runtime \<Rightarrow> Task \<Rightarrow> string \<Rightarrow> string \<Rightarrow> string \<Rightarrow> string \<Rightarrow> bool \<Rightarrow> Artifact list \<Rightarrow> unit rt_op" where
  "complete_or_fail r task step resultJSON written spoken partial arts =
     tx_bind (attempt (completeAndPublish r task resultJSON written spoken partial arts)) (\<lambda>x. case x of
       Inl e \<Rightarrow> finishFailure task (plain_error (step @ errorText r e))
     | Inr _ \<Rightarrow> tx_return ())"

subsection \<open>Agents\<close>

definition agent_audit :: "Task \<Rightarrow> string \<Rightarrow> string \<Rightarrow> string \<Rightarrow> string \<Rightarrow> json \<Rightarrow> unit rt_op" where
  "agent_audit task action kind resourceID decision details =
     tx_bind tx_uuid (\<lambda>i. tx_bind tx_now (\<lambda>now.
     on_store (AddAuditEntry \<lparr>au_ID = i, au_OccurredAt = now, au_ActorKind = ''agent'', au_ActorID = t_AssignedAgentID task,
       au_Action = action, au_ResourceKind = kind, au_ResourceID = resourceID, au_Decision = decision,
       au_Details = Some details, au_CorrelationID = t_CorrelationID task, au_TaskID = t_ID task,
       au_ConversationID = t_ConversationID task, au_ConnectorID = []\<rparr>)))"

text \<open>The progress callback: every report is stored, connectors hear of it at most every two seconds.\<close>

fun agent_reports :: "Task \<Rightarrow> time option \<Rightarrow> Progress list \<Rightarrow> unit rt_op" where
  "agent_reports task lastAnnouncement [] = tx_return ()"
| "agent_reports task lastAnnouncement (p # ps) =
     tx_bind (attempt (on_store (UpdateTaskProgress (t_ID task) (pg_Percent p) (pg_Message p)))) (\<lambda>r. case r of
       Inl _ \<Rightarrow> agent_reports task lastAnnouncement ps
     | Inr updated \<Rightarrow>
         tx_bind (publish (task_event ''task.progress'' task (PTask updated))) (\<lambda>_.
         tx_bind tx_now (\<lambda>now.
         let shouldAnnounce = (case lastAnnouncement of None \<Rightarrow> True | Some t \<Rightarrow> now - t \<ge> seconds 2) \<or> pg_Percent p \<ge> 95;
             target = tr_ReplyTarget (routingFromTask task) in
         if rt_ConnectorID target \<noteq> [] \<and> shouldAnnounce
         then tx_bind (publish (task_event ''connector.progress'' task
             (PConnectorProgress target (t_AssignedAgentID task) (pg_Percent p) (pg_Message p)))) (\<lambda>_.
           agent_reports task (Some now) ps)
         else agent_reports task lastAnnouncement ps)))"

definition agent_failed :: "Runtime \<Rightarrow> Task \<Rightarrow> run_error \<Rightarrow> unit rt_op" where
  "agent_failed r task runErr =
     (if registry_Retryable (registry r) (t_AssignedAgentID task) runErr then
        tx_bind (attempt (on_store (RequeueTaskForAutomaticRetry (t_ID task) (Some (re_Text runErr))))) (\<lambda>x. case x of
          Inr retried \<Rightarrow> tx_bind (publish (task_event ''task.retry_scheduled'' retried (PTask retried))) (\<lambda>_. Wake)
        | Inl _ \<Rightarrow> finishFailure task runErr)
      else finishFailure task runErr)"

definition processAgent :: "Runtime \<Rightarrow> Task \<Rightarrow> unit rt_op" where
  "processAgent r task =
     (if (case agentGate r of None \<Rightarrow> False | Some gate \<Rightarrow> \<not> gate (t_AssignedAgentID task))
      then finishFailure task (plain_error ''agent kill switch prevents execution'')
      else
        tx_bind (attempt (agent_audit task ''agent.started'' ''task'' (t_ID task) ''ALLOW''
          (JObj [(''execution'', JStr ''delegated'')]))) (\<lambda>a. case a of
          Inl _ \<Rightarrow> finishFailure task (plain_error ''mandatory audit unavailable before agent execution'')
        | Inr _ \<Rightarrow>
            tx_bind (on_core (\<lambda>c. c\<lparr>core_delegated := core_delegated c @ [(t_ID task, t_AssignedAgentID task)]\<rparr>)) (\<lambda>_.
            case registry_Run (quoted r) (registry r) (waiting r task) task of (reports, outcome) \<Rightarrow>
            tx_bind (agent_reports task None reports) (\<lambda>_. case outcome of
              Inl runErr \<Rightarrow> agent_failed r task runErr
            | Inr result \<Rightarrow> complete_or_fail r task ''persist audited task completion: '' (rs_Structured result)
                (rs_WrittenSummary result) (rs_SpokenSummary result) (rs_Partial result) (rs_Artifacts result)))))"

subsection \<open>The shell\<close>

definition shell_invocation :: "Task \<Rightarrow> string \<Rightarrow> Risk \<Rightarrow> string \<Rightarrow> Invocation" where
  "shell_invocation task canonicalInput risk i =
     \<lparr>in_ID = i, in_TaskID = t_ID task, in_ToolName = ''shell'', in_Input = canonicalInput, in_Risk = risk,
      in_Status = [], in_StartedAt = None, in_FinishedAt = None, in_ExitCode = None, in_Output = [], in_Error = [],
      in_CorrelationID = t_CorrelationID task, in_IdempotencyKey = ''shell:'' @ t_ID task\<rparr>"

definition shell_repeated :: "Runtime \<Rightarrow> Task \<Rightarrow> Invocation \<Rightarrow> unit rt_op" where
  "shell_repeated r task started =
     (if in_Status started = ''COMPLETED''
      then complete_or_fail r task ''persist audited recovered shell completion: '' (in_Output started)
        ''Command already completed'' ''The command completed.'' False []
      else finishFailure task (plain_error ''tool invocation already started; refusing duplicate execution''))"

text \<open>After \<open>Execute\<close> has returned.\<close>

definition shell_finish :: "Runtime \<Rightarrow> Task \<Rightarrow> Invocation \<Rightarrow> ToolProgress list \<times> string \<times> run_error option \<Rightarrow> unit rt_op" where
  "shell_finish r task started = (\<lambda>(reports, out, executeErr).
     tx_bind (for_each reports (\<lambda>p. publish (task_event ''tool.output'' task (POutput p)))) (\<lambda>_.
     let exitCode = extractExitCode out in
     tx_bind (attempt (on_store (FinishToolInvocation (in_ID started) out exitCode (map_option re_Text executeErr)))) (\<lambda>f.
     case f of
       Inl finishErr \<Rightarrow> finishFailure task (plain_error (errorText r finishErr))
     | Inr _ \<Rightarrow> (case executeErr of
           Some e \<Rightarrow> finishFailure task e
         | None \<Rightarrow> let summary = ''Command completed with exit code '' @ Itoa exitCode in
             complete_or_fail r task ''persist audited shell completion: '' out summary (summary @ ''.'') False []))))"

definition shell_execute :: "Runtime \<Rightarrow> shell_port \<Rightarrow> Task \<Rightarrow> string \<Rightarrow> Invocation \<Rightarrow> unit rt_op" where
  "shell_execute r port task canonicalInput started =
     tx_bind (on_core (\<lambda>c. c\<lparr>core_ran := core_ran c @ [(t_ID task, canonicalInput)]\<rparr>)) (\<lambda>_.
     shell_finish r task started (sh_Execute port canonicalInput))"

definition shell_start :: "Runtime \<Rightarrow> shell_port \<Rightarrow> Task \<Rightarrow> string \<Rightarrow> Risk \<Rightarrow> unit rt_op" where
  "shell_start r port task canonicalInput risk =
     tx_bind tx_uuid (\<lambda>i.
     tx_bind (attempt (on_store (StartToolInvocation (shell_invocation task canonicalInput risk i)))) (\<lambda>s. case s of
       Inl e \<Rightarrow> finishFailure task (plain_error (errorText r e))
     | Inr (started, duplicate) \<Rightarrow>
         if duplicate then shell_repeated r task started else shell_execute r port task canonicalInput started))"

definition processShell :: "Runtime \<Rightarrow> Task \<Rightarrow> unit rt_op" where
  "processShell r task =
     (if toolGate r = Some False
      then finishFailure task (plain_error ''emergency stop prevents new tool execution'')
      else (case shell r of
        None \<Rightarrow> finishFailure task (plain_error ''shell executor is not configured'')
      | Some port \<Rightarrow> (case sh_Parse port (t_Input task) of
          Inl e \<Rightarrow> finishFailure task e
        | Inr (parsed, risk) \<Rightarrow>
            if risk = RiskPrivileged
            then finishFailure task (plain_error ''privilege escalation is denied at execution time'')
            else (case sp_Canonical parsed of
              None \<Rightarrow> finishFailure task (plain_error ''canonical shell invocation could not be encoded'')
            | Some canonicalInput \<Rightarrow>
                if \<not> sp_DryRun parsed \<and> t_Input task \<noteq> canonicalInput
                then finishFailure task (plain_error ''approved shell invocation is not canonical; request a new approval'')
                else shell_start r port task canonicalInput risk))))"

subsection \<open>Workers\<close>

definition process :: "Runtime \<Rightarrow> Task \<Rightarrow> unit rt_op" where
  "process r claimed =
     tx_bind (attempt (on_store (StartTask (t_ID claimed) (t_Version claimed)))) (\<lambda>s. case s of
       Inl _ \<Rightarrow> tx_return ()
     | Inr task \<Rightarrow>
         tx_bind (on_core (\<lambda>c. c\<lparr>core_active := t_ID task # core_active c\<rparr>)) (\<lambda>_.
         tx_bind (publish (task_event ''task.running'' task (PTask task))) (\<lambda>_.
         tx_bind (if t_TaskType task = ''shell'' then processShell r task else processAgent r task) (\<lambda>_.
         on_core (\<lambda>c. c\<lparr>core_active := removeAll (t_ID task) (core_active c)\<rparr>)))))"

text \<open>
  The inner loop of a worker, which ends when nothing can be claimed; \<open>n\<close> bounds the number of
  tasks it takes.  The result tells whether the loop came to its end.
\<close>

fun worker :: "Runtime \<Rightarrow> nat \<Rightarrow> bool rt_op" where
  "worker r 0 = tx_return False"
| "worker r (Suc n) =
     tx_bind (attempt (on_store ClaimNextTask)) (\<lambda>c. case c of
       Inl _ \<Rightarrow> tx_return True
     | Inr task \<Rightarrow> tx_bind (process r task) (\<lambda>_. worker r n))"

definition runtime_Start :: "unit rt_op" where
  "runtime_Start = tx_bind (on_store RecoverInterruptedTasks) (\<lambda>_. Wake)"

text \<open>\<open>cancel\<close>: the running tasks of the graph are signalled after the cancellation is stored.\<close>

definition cancel_node :: "string \<Rightarrow> unit rt_op" where
  "cancel_node i =
     tx_bind (on_core (\<lambda>c. if i \<in> set (core_active c) then c\<lparr>core_signalled := i # core_signalled c\<rparr> else c)) (\<lambda>_.
     tx_bind (attempt (on_store (GetTask i))) (\<lambda>t. case t of
       Inl _ \<Rightarrow> tx_return ()
     | Inr updated \<Rightarrow> publish (task_event ''task.changed'' updated (PTask updated))))"

definition approval_event :: "Approval \<Rightarrow> payload Event" where
  "approval_event a = \<lparr>se_ID = [], se_Type = ''approval.changed'', se_OccurredAt = zero_time,
     se_CorrelationID = ap_CorrelationID a, se_ConversationID = [], se_TaskID = ap_TaskID a, se_Payload = PApproval a\<rparr>"

definition runtime_cancel :: "string \<Rightarrow> AuditEntry option \<Rightarrow> Task rt_op" where
  "runtime_cancel taskID audit =
     tx_bind (on_store (requestTaskGraphCancellation taskID audit)) (\<lambda>(task, taskIDs).
     tx_bind (for_each taskIDs cancel_node) (\<lambda>_.
     tx_bind (attempt (on_store (ListApprovalsForTaskGraph (t_RootTaskID task)))) (\<lambda>l.
     tx_bind (case l of Inl _ \<Rightarrow> tx_return () | Inr as \<Rightarrow> for_each as (\<lambda>a. publish (approval_event a))) (\<lambda>_.
     tx_bind (attempt (on_store (ScrubTerminalTaskGraph (t_RootTaskID task)))) (\<lambda>_.
     tx_bind (publish (task_event ''task.cancel_requested'' task (PTask task))) (\<lambda>_.
     tx_return task))))))"

definition announce_expiry :: "ApprovalTaskChange \<Rightarrow> unit rt_op" where
  "announce_expiry change = (let task = atc_Task change; a = atc_Approval change in
     tx_bind (publish ((task_event ''approval.expired'' task (PApprovalTask a task))\<lparr>se_CorrelationID := ap_CorrelationID a\<rparr>)) (\<lambda>_.
     publish (task_event ''task.timed_out'' task (PTask task))))"

text \<open>One tick of \<open>approvalExpiryLoop\<close>.\<close>

definition approvalExpiryTick :: "unit rt_op" where
  "approvalExpiryTick =
     tx_bind (attempt (on_store ExpireApprovals)) (\<lambda>x. case x of
       Inl _ \<Rightarrow> tx_return ()
     | Inr changes \<Rightarrow> for_each changes announce_expiry)"

end
