(* ===== verification/Runtime_Safety.thy ===== *)
theory Runtime_Safety
  imports Agent_Runtime Sample_Data
begin

text \<open>
  What the runtime guarantees whatever the other goroutines do to the store: it changes the store only through store
  operations, and hands a command to the shell, or a task to an agent, only when its gates allow it and the
  store has recorded that.
\<close>

subsection \<open>The runtime moves the store along runs\<close>

lemma run_trans: "run C t u \<Longrightarrow> run C s t \<Longrightarrow> run C s u"
  by (induction rule: run.induct) (auto intro: run.more)

text \<open>
  Runs over the operations of a set \<open>C\<close> that contains everything but approving decisions: all that the runtime does
  itself, and what the other goroutines do as far as \<open>others_in C\<close> allows it.
\<close>

definition unapproving :: "store_op set" where
  "unapproving = {c. \<forall>i by. c \<noteq> OpDecideApproval i by True}"

definition others_in :: "store_op set \<Rightarrow> core \<Rightarrow> bool" where
  "others_in C c \<longleftrightarrow> (\<forall>n. set (core_others c n) \<subseteq> C)"

definition core_run :: "store_op set \<Rightarrow> core \<Rightarrow> core \<Rightarrow> bool" where
  "core_run C c c' \<longleftrightarrow> core_others c' = core_others c \<and> (others_in C c \<longrightarrow> run C (core_store c) (core_store c'))"

lemma core_run_refl: "core_run C c c"
  by (simp add: core_run_def run.none)

lemma core_run_trans: "core_run C c d \<Longrightarrow> core_run C d e \<Longrightarrow> core_run C c e"
  by (auto simp: core_run_def others_in_def intro: run_trans)

lemma others_reached: "set ops \<subseteq> C \<Longrightarrow> run C (db w) (db (others_run ops w))"
proof -
  assume ops: "set ops \<subseteq> C"
  have "run C s (db v) \<Longrightarrow> run C s (db (fold (\<lambda>c w. snd (run_op c w)) ops v))" for s v
    using ops by (induction ops arbitrary: v) (auto intro: run.more)
  then show ?thesis by (simp add: others_run_def run.none)
qed

lemma on_store_run:
  assumes "keeps (run C) m" and "on_store m w = (r, w')"
  shows "\<exists>v. (others_in C (db w) \<longrightarrow> run C (core_store (db w)) (db v) \<and> run C (db v) (core_store (db w'))) \<and>
    m v = (r, store_world w') \<and> core_run C (db w) (db w') \<and>
    db w' = (db w)\<lparr>core_store := core_store (db w'), core_turn := Suc (core_turn (db w))\<rparr>"
proof -
  let ?v = "others_run (core_others (db w) (core_turn (db w))) (store_world w)"
  obtain u where u: "m ?v = (r, u)" "w' = core_world w u" using assms(2) by (auto simp: on_store_def split: prod.splits)
  have "others_in C (db w) \<Longrightarrow> run C (core_store (db w)) (db ?v)"
    using others_reached [of _ C "store_world w"] by (simp add: store_world_def others_in_def)
  moreover have "run C (db ?v) (db u)" using keepsD [OF assms(1) u(1)] .
  ultimately show ?thesis using u run_trans
    by (intro exI [of _ ?v]) (auto simp: core_world_def store_world_def core_run_def)
qed

lemma op_is_run: "(\<And>w. snd (m w) = snd (run_op c w)) \<Longrightarrow> c \<in> C \<Longrightarrow> keeps (run C) m"
  by (auto simp: keeps_def intro: run.intros)

lemma read_is_run: "keeps (=) m \<Longrightarrow> keeps (run C) m"
  by (auto simp: keeps_def intro: run.none)

lemma unapproving_in: "unapproving \<subseteq> C \<Longrightarrow> (\<And>i by. c \<noteq> OpDecideApproval i by True) \<Longrightarrow> c \<in> C"
  unfolding unapproving_def by blast

lemma runtime_ops:
  assumes C: "unapproving \<subseteq> C"
  shows
  "keeps (run C) (StartTask i v)" "keeps (run C) (FailTask i e b)" "keeps (run C) (MarkTaskCancelled i)"
  "keeps (run C) (ScrubTerminalTaskGraph i)" "keeps (run C) (CompleteTaskWithArtifacts i x y b arts)"
  "keeps (run C) (CompleteTaskWithOutcome i x y b outcome)" "keeps (run C) (AddAuditEntry a)"
  "keeps (run C) (UpdateTaskProgress i n x)" "keeps (run C) (RequeueTaskForAutomaticRetry i e)"
  "keeps (run C) (StartToolInvocation iv)" "keeps (run C) (FinishToolInvocation i x n e)"
  "keeps (run C) ClaimNextTask" "keeps (run C) RecoverInterruptedTasks"
  "keeps (run C) (requestTaskGraphCancellation i audit)" "keeps (run C) ExpireApprovals"
  by (rule op_is_run [of _ "OpStartTask i v"] op_is_run [of _ "OpFailTask i e b"] op_is_run [of _ "OpMarkTaskCancelled i"]
      op_is_run [of _ "OpScrubTerminalTaskGraph i"] op_is_run [of _ "OpCompleteTask i x y b arts"]
      op_is_run [of _ "OpCompleteTaskWithOutcome i x y b outcome"] op_is_run [of _ "OpAddAuditEntry a"]
      op_is_run [of _ "OpUpdateTaskProgress i n x"] op_is_run [of _ "OpRequeueTask i e"]
      op_is_run [of _ "OpStartToolInvocation iv"] op_is_run [of _ "OpFinishToolInvocation i x n e"]
      op_is_run [of _ OpClaimNextTask] op_is_run [of _ OpRecoverInterruptedTasks]
      op_is_run [of _ "OpRequestTaskGraphCancellation i audit"] op_is_run [of _ OpExpireApprovals]; simp add: unapproving_in [OF C])+

lemma runtime_reads: "keeps (run C) (GetTask i)" "keeps (run C) (ListApprovalsForTaskGraph i)"
  unfolding GetTask_def ListApprovalsForTaskGraph_def by (intro read_is_run unchanged.keeps_prog)+

definition agent_open :: "Runtime \<Rightarrow> string \<Rightarrow> bool" where
  "agent_open r agent \<longleftrightarrow> (case agentGate r of None \<Rightarrow> True | Some gate \<Rightarrow> gate agent)"

definition agent_audited :: "string \<Rightarrow> string \<Rightarrow> store \<Rightarrow> bool" where
  "agent_audited i agent s \<longleftrightarrow> list_ex (\<lambda>e. au_Action e = ''agent.started'' \<and> au_TaskID e = i \<and> au_ActorID e = agent) (audit_entries s)"

lemma agent_audit_InrD:
  assumes "agent_audit task ''agent.started'' k x d j w = (Inr u, w')"
  shows "agent_audited (t_ID task) (t_AssignedAgentID task) (core_store (db w'))"
proof -
  let ?e = "\<lambda>i now. \<lparr>au_ID = i, au_OccurredAt = now, au_ActorKind = ''agent'', au_ActorID = t_AssignedAgentID task,
    au_Action = ''agent.started'', au_ResourceKind = k, au_ResourceID = x, au_Decision = d, au_Details = Some j,
    au_CorrelationID = t_CorrelationID task, au_TaskID = t_ID task, au_ConversationID = t_ConversationID task, au_ConnectorID = []\<rparr>"
  from assms obtain i now w1 where e: "on_store (AddAuditEntry (?e i now)) w1 = (Inr u, w')"
    by (auto simp: agent_audit_def tx_simps)
  from on_store_run [OF runtime_ops(7) [OF subset_UNIV] e] obtain v where "AddAuditEntry (?e i now) v = (Inr u, store_world w')" by blast
  from insertAuditEntry_InrD [OF this [unfolded AddAuditEntry_def]]
  show ?thesis by (force simp: agent_audited_def list_ex_iff store_world_def)
qed

text \<open>What the runtime checked before it hands an input to the shell.\<close>

definition accepted :: "Runtime \<Rightarrow> Task \<Rightarrow> shell_port \<Rightarrow> string \<Rightarrow> Risk \<Rightarrow> bool" where
  "accepted r task port input risk \<longleftrightarrow> toolGate r \<noteq> Some False \<and> shell r = Some port \<and> risk \<noteq> RiskPrivileged \<and>
     (case sh_Parse port (t_Input task) of
        Inl _ \<Rightarrow> False
      | Inr (parsed, rk) \<Rightarrow> rk = risk \<and> sp_Canonical parsed = Some input \<and> (sp_DryRun parsed \<or> t_Input task = input))"

subsection \<open>Relations of the runtime\<close>

text \<open>
  The contract of a relation that everything but the two hand-overs keeps: it is a store relation that
  holds whenever the store moved along a run and both logs are unchanged.
\<close>

definition quiet :: "store_op set \<Rightarrow> core \<Rightarrow> core \<Rightarrow> bool" where
  "quiet C c c' \<longleftrightarrow> core_run C c c' \<and> core_ran c' = core_ran c \<and> core_delegated c' = core_delegated c"

locale runtime_relation = store_relation R for R :: "core \<Rightarrow> core \<Rightarrow> bool" +
  fixes C :: "store_op set"
  assumes C_ops: "unapproving \<subseteq> C"
    and quiet_R: "quiet C c c' \<Longrightarrow> R c c'"
begin

lemma keeps_at: "keeps R m \<Longrightarrow> R c (db (snd (m (w\<lparr>db := c\<rparr>))))"
  unfolding keeps_def by (drule spec [of _ "w\<lparr>db := c\<rparr>"]) simp

lemma keeps_on_store: "keeps (run C) m \<Longrightarrow> keeps R (on_store m)"
  unfolding keeps_def [of R]
proof
  fix w
  assume m: "keeps (run C) m"
  obtain r w' where w': "on_store m w = (r, w')" by fastforce
  from on_store_run [OF m w'] obtain t where "core_run C (db w) (db w')"
    "db w' = (db w)\<lparr>core_store := core_store (db w'), core_turn := t\<rparr>" by blast
  then have "quiet C (db w) (db w')" unfolding quiet_def by (metis core.select_convs core.surjective core.update_convs)
  with w' quiet_R show "R (db w) (db (snd (on_store m w)))" by simp
qed

lemma keeps_on_core:
  "(\<And>c. core_store (f c) = core_store c \<and> core_others (f c) = core_others c \<and> core_ran (f c) = core_ran c \<and> core_delegated (f c) = core_delegated c) \<Longrightarrow>
   keeps R (on_core f)"
  by (simp add: keeps_def on_core_def quiet_R quiet_def core_run_def run.none)

lemma keeps_publish: "keeps R (publish e)"
proof -
  have "keeps R (\<lambda>w. case Publish i now e (core_hub (db w)) of None \<Rightarrow> (Inl (ErrMsg ''panic''), w)
    | Some h \<Rightarrow> (Inr (), w\<lparr>db := (db w)\<lparr>core_hub := h\<rparr>\<rparr>))" for i now
    by (auto simp: keeps_def R_refl quiet_def core_run_def run.none intro!: quiet_R split: option.splits)
  then show ?thesis unfolding publish_def by (intro keeps_bind keeps_uuid keeps_now)
qed

lemma keeps_wake: "keeps R Wake"
  unfolding Wake_def by (rule keeps_on_core) simp

lemmas keeps_calls = keeps_prog keeps_publish keeps_wake keeps_on_store runtime_ops [OF C_ops] runtime_reads

lemma keeps_finishFailure: "keeps R (finishFailure task e)"
  unfolding finishFailure_def by (intro keeps_calls)

lemma keeps_complete_or_fail: "keeps R (complete_or_fail r task step x y z b arts)"
  unfolding complete_or_fail_def completeAndPublish_def announce_outcome_def
  by (intro keeps_calls keeps_finishFailure)

lemma keeps_agent_reports: "keeps R (agent_reports task t ps)"
  by (induction task t ps rule: agent_reports.induct) (auto intro!: keeps_calls)

lemma keeps_agent_failed: "keeps R (agent_failed r task e)"
  unfolding agent_failed_def by (intro keeps_calls keeps_finishFailure)

lemma keeps_shell_repeated: "keeps R (shell_repeated r task iv)"
  unfolding shell_repeated_def by (intro keeps_calls keeps_finishFailure keeps_complete_or_fail)

lemma keeps_agent_audit: "keeps R (agent_audit task a k i d j)"
  unfolding agent_audit_def by (intro keeps_calls)

lemma keeps_cancel: "keeps R (runtime_cancel i audit)"
  unfolding runtime_cancel_def cancel_node_def
  by (intro keeps_calls keeps_on_core) auto

lemma keeps_background: "keeps R runtime_Start" "keeps R approvalExpiryTick"
  unfolding runtime_Start_def approvalExpiryTick_def announce_expiry_def by (intro keeps_calls)+

lemma keeps_shell_finish: "keeps R (shell_finish r task started out)"
  unfolding shell_finish_def by (intro keeps_calls keeps_finishFailure keeps_complete_or_fail)

text \<open>The hand-over to the shell: it follows the first start of the task's invocation.\<close>

lemma keeps_shell_start:
  assumes hand: "\<And>c c' s. core_others c' = core_others c \<Longrightarrow>
      (others_in C c \<Longrightarrow> run C (core_store c) s \<and> run C s (core_store c')) \<Longrightarrow> core_ran c' = core_ran c \<Longrightarrow>
      core_delegated c' = core_delegated c \<Longrightarrow> ''shell:'' @ t_ID task \<notin> invocation_keys s \<Longrightarrow>
      ''shell:'' @ t_ID task \<in> invocation_keys (core_store c') \<Longrightarrow>
      R c (c'\<lparr>core_ran := core_ran c' @ [(t_ID task, input)]\<rparr>)"
  shows "keeps R (shell_start r port task input risk)"
proof -
  let ?log = "\<lambda>c. c\<lparr>core_ran := core_ran c @ [(t_ID task, input)]\<rparr>"
  have "R (db w) (db (snd (tx_bind (attempt (on_store (StartToolInvocation iv))) (\<lambda>s. case s of
      Inl e \<Rightarrow> finishFailure task (plain_error (errorText r e))
    | Inr (started, duplicate) \<Rightarrow>
        if duplicate then shell_repeated r task started else shell_execute r port task input started) w)))"
    if key: "in_IdempotencyKey iv = ''shell:'' @ t_ID task" for iv w
  proof -
    obtain x w1 where x: "on_store (StartToolInvocation iv) w = (x, w1)" by fastforce
    then have first: "R (db w) (db w1)" by (rule keepsD [OF keeps_on_store [OF runtime_ops(10) [OF C_ops]]])
    show ?thesis
    proof (cases "\<exists>started. x = Inr (started, False)")
      case True
      then obtain started where s: "x = Inr (started, False)" by blast
      from on_store_run [OF runtime_ops(10) [OF C_ops] x] s obtain v t where
        v: "others_in C (db w) \<Longrightarrow> run C (core_store (db w)) (db v) \<and> run C (db v) (core_store (db w1))"
        "StartToolInvocation iv v = (Inr (started, False), store_world w1)"
        "db w1 = (db w)\<lparr>core_store := core_store (db w1), core_turn := t\<rparr>" by blast
      have "core_ran (db w1) = core_ran (db w)" "core_delegated (db w1) = core_delegated (db w)"
        "core_others (db w1) = core_others (db w)" by (subst v(3), simp)+
      then have "R (db w) (?log (db w1))"
        using v(1) tool_start.fresh [OF v(2)] key
        by (intro hand [where c = "db w" and c' = "db w1" and s = "db v"]) (simp_all add: store_world_def)
      moreover have "R (?log (db w1)) (db (snd (shell_finish r task started (sh_Execute port input) (w1\<lparr>db := ?log (db w1)\<rparr>))))"
        by (rule keeps_at [OF keeps_shell_finish])
      ultimately have "R (db w) (db (snd (shell_finish r task started (sh_Execute port input) (w1\<lparr>db := ?log (db w1)\<rparr>))))"
        by (rule R_trans)
      with x s show ?thesis by (simp add: tx_bind_def attempt_def shell_execute_def on_core_def)
    next
      case False
      then have "keeps R (case x of Inl e \<Rightarrow> finishFailure task (plain_error (errorText r e))
        | Inr (started, duplicate) \<Rightarrow>
            if duplicate then shell_repeated r task started else shell_execute r port task input started)"
        by (auto intro: keeps_finishFailure keeps_shell_repeated split: sum.splits)
      with first x show ?thesis by (auto simp: tx_bind_def attempt_def keeps_def intro: R_trans)
    qed
  qed
  then have "keeps R (tx_bind (attempt (on_store (StartToolInvocation (shell_invocation task input risk i)))) (\<lambda>s. case s of
      Inl e \<Rightarrow> finishFailure task (plain_error (errorText r e))
    | Inr (started, duplicate) \<Rightarrow>
        if duplicate then shell_repeated r task started else shell_execute r port task input started))" for i
    by (simp add: keeps_def shell_invocation_def)
  then show ?thesis unfolding shell_start_def by (rule keeps_bind [OF keeps_uuid])
qed

end

lemma quiet_relation: "unapproving \<subseteq> C \<Longrightarrow> runtime_relation (quiet C) C"
  by unfold_locales (auto simp: quiet_def intro: core_run_refl core_run_trans)

context runtime_relation
begin

text \<open>The hand-over to an agent: the gate allowed it and the audit entry is stored.\<close>

lemma keeps_processAgent:
  assumes hand: "\<And>c c'. agent_open r (t_AssignedAgentID task) \<Longrightarrow> core_run C c c' \<Longrightarrow> core_ran c' = core_ran c \<Longrightarrow>
      core_delegated c' = core_delegated c \<Longrightarrow> agent_audited (t_ID task) (t_AssignedAgentID task) (core_store c') \<Longrightarrow>
      R c (c'\<lparr>core_delegated := core_delegated c' @ [(t_ID task, t_AssignedAgentID task)]\<rparr>)"
  shows "keeps R (processAgent r task)"
proof -
  let ?audit = "agent_audit task ''agent.started'' ''task'' (t_ID task) ''ALLOW'' (JObj [(''execution'', JStr ''delegated'')])"
  let ?log = "\<lambda>c. c\<lparr>core_delegated := core_delegated c @ [(t_ID task, t_AssignedAgentID task)]\<rparr>"
  have step: "keeps R (tx_bind (attempt ?audit) (\<lambda>a. case a of Inl _ \<Rightarrow> m | Inr _ \<Rightarrow> tx_bind (on_core ?log) (\<lambda>_. n)))"
    if m: "keeps R m" and n: "keeps R n" and gate: "agent_open r (t_AssignedAgentID task)" for m n :: "unit rt_op"
    unfolding keeps_def
  proof
    fix w
    obtain x w1 where x: "?audit w = (x, w1)" by fastforce
    then have first: "R (db w) (db w1)" by (rule keepsD [OF keeps_agent_audit])
    show "R (db w) (db (snd (tx_bind (attempt ?audit) (\<lambda>a. case a of Inl _ \<Rightarrow> m | Inr _ \<Rightarrow> tx_bind (on_core ?log) (\<lambda>_. n)) w)))"
    proof (cases x)
      case (Inl e)
      with first x m show ?thesis by (auto simp: tx_bind_def attempt_def keeps_def intro: R_trans)
    next
      case (Inr u)
      have "quiet C (db w) (db w1)" using x by (rule keepsD [OF runtime_relation.keeps_agent_audit [OF quiet_relation [OF C_ops]]])
      moreover have "agent_audited (t_ID task) (t_AssignedAgentID task) (core_store (db w1))"
        using agent_audit_InrD [OF x [unfolded Inr]] .
      ultimately have "R (db w) (?log (db w1))" using hand gate by (simp add: quiet_def)
      from R_trans [OF this keeps_at [OF n]] show ?thesis
        using x Inr by (simp add: tx_bind_def attempt_def on_core_def)
    qed
  qed
  show ?thesis unfolding processAgent_def case_prod_beta
    by (intro keeps_if step keeps_bind keeps_case_sum keeps_finishFailure keeps_agent_reports keeps_agent_failed keeps_complete_or_fail)
      (auto simp: agent_open_def split: option.splits)
qed

end

context runtime_relation
begin

lemma keeps_processShell:
  assumes "\<And>port input risk. accepted r task port input risk \<Longrightarrow> keeps R (shell_start r port task input risk)"
  shows "keeps R (processShell r task)"
  unfolding processShell_def
  by (intro keeps_if keeps_case_option keeps_case_sum keeps_case_prod keeps_finishFailure assms)
    (auto simp: accepted_def)

lemma keeps_process:
  assumes "\<And>task. keeps R (processShell r task)" and "\<And>task. keeps R (processAgent r task)"
  shows "keeps R (process r claimed)"
  unfolding process_def by (intro keeps_calls keeps_on_core assms) auto

lemma keeps_worker: "(\<And>t. keeps R (process r t)) \<Longrightarrow> keeps R (worker r n)"
  by (induction n) (auto intro!: keeps_calls)

end

subsection \<open>No command runs twice\<close>

definition shell_log_ok :: "core \<Rightarrow> bool" where
  "shell_log_ok c \<longleftrightarrow> distinct (map fst (core_ran c)) \<and>
     list_all (\<lambda>(i, _). ''shell:'' @ i \<in> invocation_keys (core_store c)) (core_ran c)"

definition once :: "core \<Rightarrow> core \<Rightarrow> bool" where
  "once c c' \<longleftrightarrow> core_run UNIV c c' \<and> (shell_log_ok c \<longrightarrow> shell_log_ok c')"

lemma run_keys: "run UNIV s s' \<Longrightarrow> k \<in> invocation_keys s \<Longrightarrow> k \<in> invocation_keys s'"
  using evolves_invocation_keys [OF run_any] by blast

lemma any_others [simp]: "others_in UNIV c"
  by (simp add: others_in_def)

interpretation once: runtime_relation once UNIV
proof
  show "once s s" for s by (simp add: once_def core_run_refl)
  show "once s u" if "once s t" "once t u" for s t u
    using that by (auto simp: once_def intro: core_run_trans)
  show "once c c'" if "quiet UNIV c c'" for c c'
    using that run_keys by (auto simp: once_def quiet_def core_run_def shell_log_ok_def list_all_iff)
qed simp

lemma once_shell_start: "keeps once (shell_start r port task input risk)"
proof (rule once.keeps_shell_start)
  fix c c' :: core and s
  assume others: "core_others c' = core_others c"
    and runs: "others_in UNIV c \<Longrightarrow> run UNIV (core_store c) s \<and> run UNIV s (core_store c')"
    and a: "core_ran c' = core_ran c" "''shell:'' @ t_ID task \<notin> invocation_keys s"
      "''shell:'' @ t_ID task \<in> invocation_keys (core_store c')"
  from runs have r: "run UNIV (core_store c) s" "run UNIV s (core_store c')" by simp_all
  from r(1) a(2) have "''shell:'' @ t_ID task \<notin> invocation_keys (core_store c)" using run_keys by blast
  moreover have "''shell:'' @ i \<in> invocation_keys (core_store c')" if "''shell:'' @ i \<in> invocation_keys (core_store c)" for i
    using run_keys [OF run_trans [OF r(2,1)] that] .
  ultimately show "once c (c'\<lparr>core_ran := core_ran c' @ [(t_ID task, input)]\<rparr>)"
    using a(1,3) others run_trans [OF r(2,1)] by (fastforce simp: once_def core_run_def shell_log_ok_def list_all_iff)
qed

lemma once_process: "keeps once (process r t)"
proof (rule once.keeps_process)
  show "keeps once (processShell r task)" for task by (rule once.keeps_processShell) (rule once_shell_start)
  show "keeps once (processAgent r task)" for task
    by (rule once.keeps_processAgent) (auto simp: once_def core_run_def shell_log_ok_def list_all_iff intro: run_keys)
qed

lemma once_worker: "keeps once (worker r n)"
  by (rule once.keeps_worker) (rule once_process)

subsection \<open>Nothing is handed over past the gates\<close>

text \<open>
  \<open>logged f P\<close>: the log \<open>f\<close> only grew, and every new entry satisfies \<open>P\<close> at some store on the way.
\<close>

definition logged :: "store_op set \<Rightarrow> (core \<Rightarrow> 'x list) \<Rightarrow> ('x \<Rightarrow> store \<Rightarrow> bool) \<Rightarrow> core \<Rightarrow> core \<Rightarrow> bool" where
  "logged C f P c c' \<longleftrightarrow> core_run C c c' \<and> (others_in C c \<longrightarrow> (\<exists>xs. f c' = f c @ xs \<and>
     (\<forall>x\<in>set xs. \<exists>s. run C (core_store c) s \<and> run C s (core_store c') \<and> P x s)))"

lemma logged_same: "core_run C c c' \<Longrightarrow> f c' = f c \<Longrightarrow> logged C f P c c'"
  by (simp add: logged_def)

lemma logged_trans:
  assumes "logged C f P c d" and "logged C f P d e"
  shows "logged C f P c e"
proof -
  have "\<exists>zs. f e = f c @ zs \<and> (\<forall>x\<in>set zs. \<exists>s. run C (core_store c) s \<and> run C s (core_store e) \<and> P x s)"
    if c: "others_in C c"
  proof -
    from c assms(1) obtain xs where 1: "run C (core_store c) (core_store d)" "f d = f c @ xs"
      "\<forall>x\<in>set xs. \<exists>s. run C (core_store c) s \<and> run C s (core_store d) \<and> P x s" unfolding logged_def core_run_def by blast
    from c assms(1) have "others_in C d" by (simp add: logged_def core_run_def others_in_def)
    with assms(2) obtain ys where 2: "run C (core_store d) (core_store e)" "f e = f d @ ys"
      "\<forall>x\<in>set ys. \<exists>s. run C (core_store d) s \<and> run C s (core_store e) \<and> P x s" unfolding logged_def core_run_def by blast
    have "\<exists>s. run C (core_store c) s \<and> run C s (core_store e) \<and> P x s" if "x \<in> set (xs @ ys)" for x
      using that 1(1,3) 2(1,3) run_trans by (metis UnE set_append)
    moreover have "f e = f c @ (xs @ ys)" using 1(2) 2(2) by simp
    ultimately show ?thesis by blast
  qed
  with assms core_run_trans show ?thesis unfolding logged_def by blast
qed

definition logs :: "store_op set \<Rightarrow> (string \<times> string \<Rightarrow> store \<Rightarrow> bool) \<Rightarrow> (string \<times> string \<Rightarrow> store \<Rightarrow> bool) \<Rightarrow>
    core \<Rightarrow> core \<Rightarrow> bool" where
  "logs C P Q c c' \<longleftrightarrow> logged C core_ran P c c' \<and> logged C core_delegated Q c c'"

definition agent_entry :: "Runtime \<Rightarrow> string \<times> string \<Rightarrow> store \<Rightarrow> bool" where
  "agent_entry r = (\<lambda>(i, agent) s. agent_open r agent \<and> agent_audited i agent s)"

text \<open>A task row that has just been started, which a store with unique identifiers shows as running.\<close>

definition started_task :: "string \<Rightarrow> Task \<Rightarrow> store \<Rightarrow> bool" where
  "started_task i task s \<longleftrightarrow> find_task i s = Some task \<and> (wf_store s \<longrightarrow> t_Status task = StatusRunning)"

definition shell_entry :: "Runtime \<Rightarrow> string \<times> string \<Rightarrow> store \<Rightarrow> bool" where
  "shell_entry r = (\<lambda>(i, input) s. \<exists>task port risk. started_task i task s \<and> t_TaskType task = ''shell'' \<and>
     accepted r task port input risk)"

text \<open>While one task is processed, the entries are about that task.\<close>

definition own_entry :: "Runtime \<Rightarrow> Task \<Rightarrow> string \<times> string \<Rightarrow> store \<Rightarrow> bool" where
  "own_entry r task = (\<lambda>(i, input) s. i = t_ID task \<and> t_TaskType task = ''shell'' \<and> (\<exists>port risk. accepted r task port input risk))"

lemma start_found:
  assumes "StartTask i v w = (Inr task, w')"
  shows "started_task i task (db w')"
proof -
  from assms obtain now where upd: "update_tasks (\<lambda>_ x. t_ID x = i \<and> t_Status x = StatusAssigned \<and> t_Version x = v)
      (set_start now) (db w) = (1, db w')" and found: "find_task i (db w') = Some task"
    unfolding StartTask_def GetTask_def by (fastforce simp: tx_simps dest!: tx_dests)
  have "t_Status task = StatusRunning" if wf: "wf_store (db w')"
  proof -
    let ?p = "\<lambda>x. t_ID x = i \<and> t_Status x = StatusAssigned \<and> t_Version x = v"
    have rows: "tasks (db w') = upd_rows ?p (set_start now) (tasks (db w))"
      using arg_cong [OF upd, of "\<lambda>x. tasks (snd x)"] by (simp add: update_tasks_def)
    have "count_rows ?p (tasks (db w)) \<noteq> 0" using upd by (simp add: update_tasks_def)
    then obtain u where u: "u \<in> set (tasks (db w))" "?p u" by (auto simp: count_rows_eq_0)
    then have "set_start now u \<in> set (tasks (db w'))" "t_ID (set_start now u) = i" unfolding rows by (auto simp: set_upd_rows)
    moreover from wf have "distinct (map t_ID (tasks (db w')))" by (simp add: wf_store_def wf_tasks_def)
    ultimately have "task = set_start now u"
      using find_distinct [of t_ID "tasks (db w')" "set_start now u"] found by (simp add: find_task_def)
    then show ?thesis by (simp add: set_start_def)
  qed
  with found show ?thesis by (simp add: started_task_def)
qed

lemma own_to_shell:
  assumes "logs C (own_entry r task) Q c c'" and "started_task (t_ID task) task (core_store c)"
  shows "logs C (shell_entry r) Q c c'"
proof -
  have "\<exists>s. run C (core_store c) s \<and> run C s (core_store c') \<and> shell_entry r x s"
    if "own_entry r task x s'" "core_run C c c'" "others_in C c" for x s'
    using that assms(2) by (intro exI [of _ "core_store c"]) (auto simp: own_entry_def shell_entry_def core_run_def intro: run.none)
  with assms(1) show ?thesis unfolding logs_def logged_def by blast
qed

text \<open>The work of a runtime whose neighbours use operations of \<open>C\<close> only.\<close>

locale runtime_work =
  fixes C :: "store_op set"
  assumes own_ops: "unapproving \<subseteq> C"

sublocale runtime_work \<subseteq> logs: runtime_relation "logs C P Q" C for P Q
proof
  show "logs C P Q s s" for s by (simp add: logs_def logged_same core_run_refl)
  show "logs C P Q c c'" if "quiet C c c'" for c c' using that by (simp add: logs_def quiet_def logged_same)
  show "logs C P Q s u" if "logs C P Q s t" "logs C P Q t u" for s t u
    using that unfolding logs_def by (blast intro: logged_trans)
qed (rule own_ops)

context runtime_work
begin

lemma logs_processAgent: "keeps (logs C P (agent_entry r)) (processAgent r task)"
proof (rule logs.keeps_processAgent)
  fix c c' :: core
  assume "agent_open r (t_AssignedAgentID task)" "core_run C c c'" "core_ran c' = core_ran c" "core_delegated c' = core_delegated c"
    "agent_audited (t_ID task) (t_AssignedAgentID task) (core_store c')"
  then show "logs C P (agent_entry r) c (c'\<lparr>core_delegated := core_delegated c' @ [(t_ID task, t_AssignedAgentID task)]\<rparr>)"
    by (auto simp: logs_def logged_def core_run_def agent_entry_def intro: run.none)
qed

lemma logs_processShell: "t_TaskType task = ''shell'' \<Longrightarrow> keeps (logs C (own_entry r task) Q) (processShell r task)"
proof (rule logs.keeps_processShell, rule logs.keeps_shell_start)
  fix port input risk and c c' :: core and s
  assume "t_TaskType task = ''shell''" "accepted r task port input risk" "core_others c' = core_others c"
    "others_in C c \<Longrightarrow> run C (core_store c) s \<and> run C s (core_store c')"
    "core_ran c' = core_ran c" "core_delegated c' = core_delegated c"
  then show "logs C (own_entry r task) Q c (c'\<lparr>core_ran := core_ran c' @ [(t_ID task, input)]\<rparr>)"
    by (auto simp: logs_def logged_def core_run_def own_entry_def intro: run_trans)
qed

lemma logs_process: "keeps (logs C (shell_entry r) (agent_entry r)) (process r claimed)"
  unfolding keeps_def
proof
  fix w
  obtain x w1 where x: "on_store (StartTask (t_ID claimed) (t_Version claimed)) w = (x, w1)" by fastforce
  have first: "logs C (shell_entry r) (agent_entry r) (db w) (db w1)"
    using x by (rule keepsD [OF logs.keeps_on_store [OF runtime_ops(1) [OF own_ops]]])
  show "logs C (shell_entry r) (agent_entry r) (db w) (db (snd (process r claimed w)))"
  proof (cases x)
    case (Inl e)
    with first x show ?thesis by (simp add: process_def tx_bind_def attempt_def tx_return_def)
  next
    case (Inr task)
    let ?rest = "tx_bind (on_core (\<lambda>c. c\<lparr>core_active := t_ID task # core_active c\<rparr>)) (\<lambda>_.
       tx_bind (publish (task_event ''task.running'' task (PTask task))) (\<lambda>_.
       tx_bind (if t_TaskType task = ''shell'' then processShell r task else processAgent r task) (\<lambda>_.
       on_core (\<lambda>c. c\<lparr>core_active := removeAll (t_ID task) (core_active c)\<rparr>))))"
    from on_store_run [OF runtime_ops(1) [OF own_ops] x] Inr obtain v where
      "StartTask (t_ID claimed) (t_Version claimed) v = (Inr task, store_world w1)" by blast
    from start_found [OF this] have found: "started_task (t_ID claimed) task (core_store (db w1))" by (simp add: store_world_def)
    then have "t_ID task = t_ID claimed" by (auto simp: started_task_def find_task_def dest: find_SomeD)
    have "keeps (logs C (own_entry r task) (agent_entry r)) ?rest"
      by (intro logs.keeps_bind logs.keeps_on_core logs.keeps_publish logs.keeps_if logs_processShell logs_processAgent) auto
    then have "logs C (own_entry r task) (agent_entry r) (db w1) (db (snd (?rest w1)))" by (simp add: keeps_def)
    from own_to_shell [OF this] found \<open>t_ID task = t_ID claimed\<close>
    have "logs C (shell_entry r) (agent_entry r) (db w1) (db (snd (?rest w1)))" by simp
    from logs.R_trans [OF first this] x Inr show ?thesis by (simp add: process_def tx_bind_def attempt_def)
  qed
qed

lemma logs_worker: "keeps (logs C (shell_entry r) (agent_entry r)) (worker r n)"
  by (rule logs.keeps_worker) (rule logs_process)

end

interpretation any_work: runtime_work UNIV
  by unfold_locales simp

interpretation unapproved_work: runtime_work unapproving
  by unfold_locales simp

subsection \<open>Properties\<close>

lemma run_wf: "run C s s' \<Longrightarrow> wf_store s \<Longrightarrow> wf_store s'"
  using run_any by (auto simp: evolves_def)

lemma unapproving_evolves: "run unapproving s s' \<Longrightarrow> evolves (- {LApprove}) s s'"
proof (rule run_evolves)
  have "LApprove \<notin> labels_of c" if "\<And>i by. c \<noteq> OpDecideApproval i by True" for c
    using that by (cases c) auto
  then show "(\<Union>c\<in>unapproving. labels_of c) \<subseteq> - {LApprove}" by (auto simp: unapproving_def)
qed


text \<open>
  C3: no command runs twice.  However many tasks a worker takes, with whatever retries, restarts and
  decisions around it, the shell is given at most one command per task.
\<close>

theorem no_command_twice:
  assumes "core_ran (db w) = []"
  shows "distinct (map fst (core_ran (db (snd (worker r n w)))))"
proof -
  have "shell_log_ok (db w)" using assms by (simp add: shell_log_ok_def)
  with once_worker [of r n] show ?thesis by (simp add: keeps_def once_def shell_log_ok_def)
qed


text \<open>
  C2: no shell command without approval.  When a shell task waits for approval or has ended, no worker runs its command,
  whatever the other goroutines do short of an approving decision, a restart and a retry included.
\<close>

theorem unapproved_never_runs:
  assumes "run UNIV empty_store (core_store (db w))" and "find_task j (core_store (db w)) = Some t" and "shell_closed t"
    and "others_in unapproving (db w)"
  shows "filter (\<lambda>(i, _). i = j) (core_ran (db (snd (worker r n w)))) = filter (\<lambda>(i, _). i = j) (core_ran (db w))"
proof -
  from run_wf [OF assms(1) wf_empty_store] have wf: "wf_store (core_store (db w))" .
  from unapproved_work.logs_worker [of r n] assms(4) obtain xs where
    xs: "core_ran (db (snd (worker r n w))) = core_ran (db w) @ xs"
    "\<forall>x\<in>set xs. \<exists>s. run unapproving (core_store (db w)) s \<and> shell_entry r x s"
    unfolding keeps_def logs_def logged_def by metis
  have "i \<noteq> j" if "(i, input) \<in> set xs" for i input
  proof
    assume "i = j"
    with that xs(2) obtain s task where s: "run unapproving (core_store (db w)) s" "started_task j task s"
      by (fastforce simp: shell_entry_def)
    from evolves_gated [OF unapproving_evolves [OF s(1)]] assms(2,3) obtain t' where
      "find_task j s = Some t'" "shell_closed t'" by (auto simp: gated_def)
    with s(2) run_wf [OF s(1) wf] show False by (auto simp: started_task_def shell_closed_def)
  qed
  with xs(1) show ?thesis by (auto simp: filter_empty_conv)
qed


subsection \<open>Concrete runs\<close>

definition sample_runtime :: Runtime where
  "sample_runtime = \<lparr>registry = [], waiting = (\<lambda>_. None),
     shell = Some \<lparr>sh_Parse = (\<lambda>_. Inr (\<lparr>sp_DryRun = False, sp_Canonical = Some ''{}''\<rparr>, RiskStateChanging)),
       sh_Execute = (\<lambda>_. ([], ''{}'', None))\<rparr>,
     toolGate = None, agentGate = None, deliveryGate = None, errorText = (\<lambda>_. ''error''), quoted = id\<rparr>"

definition sample_core :: "store \<Rightarrow> store_op list \<Rightarrow> core world" where
  "sample_core s ops = \<lparr>db = \<lparr>core_store = s, core_hub = hub_New, core_wake = False, core_active = [], core_signalled = [],
       core_others = (\<lambda>_. ops), core_turn = 0, core_ran = [], core_delegated = []\<rparr>,
     clock = (\<lambda>n. sample_time + seconds (int n)), ticks = 0, uuids = (\<lambda>n. CHR ''u'' # replicate n CHR ''x''), drawn = 0,
     fault = (\<lambda>_. False), stmts = 0\<rparr>"

definition approved_shell :: store where
  "approved_shell = empty_store\<lparr>tasks := [(sample_task ''a'')\<lparr>t_TaskType := ''shell'', t_MaxRetries := 0\<rparr>]\<rparr>"

lemma sample_command: "core_ran (db (snd (worker sample_runtime 1 (sample_core approved_shell [])))) = [(''a'', ''{}'')]"
  by code_simp

theorem no_command_twice_witness:
  "distinct (map fst (core_ran (db (snd (worker sample_runtime 3 (sample_core approved_shell [OpRecoverInterruptedTasks, OpRetryTask ''a'' None]))))))"
  by (rule no_command_twice) (simp add: sample_core_def)


definition shell_run :: store where
  "shell_run = db (snd (run_op (OpCreateTask (hd (tasks waiting_store))) (sample_world empty_store)))"

lemma waiting_store_made:
  "db (snd (run_op (OpCreateApproval (sample_approval ''p'' ''a'')) (sample_world shell_run))) = waiting_store"
  by code_simp

lemma waiting_store_reached: "run UNIV empty_store waiting_store"
proof -
  have "run UNIV empty_store (db (sample_world shell_run))"
    using run_op1 [of "sample_world empty_store"] by (simp add: shell_run_def del: run_op.simps)
  from run.more [OF this, of "OpCreateApproval (sample_approval ''p'' ''a'')"] show ?thesis
    unfolding waiting_store_made by simp
qed

theorem unapproved_never_runs_witness:
  "filter (\<lambda>(i, _). i = ''a'') (core_ran (db (snd (worker sample_runtime 5 (sample_core waiting_store
     [OpRecoverInterruptedTasks, OpRetryTask ''a'' None, OpDecideApproval ''p'' ''device:d'' False]))))) = []"
proof -
  let ?w = "sample_core waiting_store [OpRecoverInterruptedTasks, OpRetryTask ''a'' None, OpDecideApproval ''p'' ''device:d'' False]"
  have store: "core_store (db ?w) = waiting_store" "core_ran (db ?w) = []" by (simp_all add: sample_core_def)
  have "find_task ''a'' waiting_store = Some (hd (tasks waiting_store)) \<and> shell_closed (hd (tasks waiting_store))"
    by code_simp
  moreover have "others_in unapproving (db ?w)" by (auto simp: sample_core_def others_in_def unapproving_def)
  ultimately show ?thesis
    using unapproved_never_runs [of ?w "''a''" _ sample_runtime 5] waiting_store_reached by (simp add: store)
qed

end
