(* ===== verification/Go_Strings.thy ===== *)
theory Go_Strings
  imports Json "HOL-Library.Sublist"
begin

text \<open>
  What the code uses of \<open>strings\<close>, \<open>bytes\<close> and \<open>path/filepath\<close>: prefixes and suffixes, search, splitting, replacing,
  case mapping and the last element of a path.
\<close>

definition HasPrefix :: "string \<Rightarrow> string \<Rightarrow> bool" where
  "HasPrefix s p \<longleftrightarrow> take (length p) s = p"

definition HasSuffix :: "string \<Rightarrow> string \<Rightarrow> bool" where
  "HasSuffix s p \<longleftrightarrow> HasPrefix (rev s) (rev p)"

definition TrimPrefix :: "string \<Rightarrow> string \<Rightarrow> string" where
  "TrimPrefix s p = (if HasPrefix s p then drop (length p) s else s)"

definition TrimSuffix :: "string \<Rightarrow> string \<Rightarrow> string" where
  "TrimSuffix s p = (if HasSuffix s p then take (length s - length p) s else s)"

fun Contains :: "string \<Rightarrow> string \<Rightarrow> bool" where
  "Contains [] p \<longleftrightarrow> p = []"
| "Contains (c # s) p \<longleftrightarrow> HasPrefix (c # s) p \<or> Contains s p"

text \<open>\<open>strings.Split\<close> at a single byte.\<close>

fun split_at :: "char \<Rightarrow> string \<Rightarrow> string list" where
  "split_at c [] = [[]]"
| "split_at c (x # s) = (if x = c then [] # split_at c s
     else (case split_at c s of [] \<Rightarrow> [[x]] | f # fs \<Rightarrow> (x # f) # fs))"

text \<open>\<open>bytes.ReplaceAll\<close> for a text to find that is not empty.\<close>

function ReplaceAll :: "string \<Rightarrow> string \<Rightarrow> string \<Rightarrow> string" where
  "ReplaceAll [] old new = []"
| "ReplaceAll (c # s) old new =
     (if old \<noteq> [] \<and> HasPrefix (c # s) old then new @ ReplaceAll (drop (length old) (c # s)) old new
      else c # ReplaceAll s old new)"
  by pat_completeness auto

termination by (relation "measure (\<lambda>(s, _, _). length s)") auto

text \<open>
  \<open>strings.ToLower\<close> as far as ASCII results go: besides the ASCII letters only U+0130 and U+212A have
  an ASCII lower case; every other rune beyond ASCII becomes a rune beyond ASCII.
\<close>

definition lower_rune :: "bool \<times> string \<Rightarrow> string" where
  "lower_rune c = (if map byte (snd c) = [196, 176] then ''i''
     else if map byte (snd c) = [226, 132, 170] then ''k'' else map ascii_lower (snd c))"

definition ToLower :: "string \<Rightarrow> string" where
  "ToLower s = concat (map lower_rune (chunks s))"

text \<open>
  \<open>strings.ToUpper\<close> likewise: U+0131 and U+017F have the ASCII upper cases \<open>I\<close> and \<open>S\<close>.
\<close>

definition ascii_upper :: "char \<Rightarrow> char" where
  "ascii_upper c = (if 97 \<le> byte c \<and> byte c \<le> 122 then char_of (byte c - 32) else c)"

definition upper_rune :: "bool \<times> string \<Rightarrow> string" where
  "upper_rune c = (if map byte (snd c) = [196, 177] then ''I''
     else if map byte (snd c) = [197, 191] then ''S'' else map ascii_upper (snd c))"

definition ToUpper :: "string \<Rightarrow> string" where
  "ToUpper s = concat (map upper_rune (chunks s))"

text \<open>\<open>strings.EqualFold\<close> against an ASCII text.\<close>

definition EqualFold :: "string \<Rightarrow> string \<Rightarrow> bool" where
  "EqualFold s t \<longleftrightarrow> fold_name s = fold_name t"

text \<open>\<open>filepath.Base\<close> with the separator of Unix.\<close>

definition slash :: "char \<Rightarrow> bool" where
  "slash c \<longleftrightarrow> c = CHR ''/''"

definition Base :: "string \<Rightarrow> string" where
  "Base path =
     (if path = [] then ''.''
      else let p = rev (dropWhile slash (rev path)) in
        if p = [] then ''/'' else rev (takeWhile (\<lambda>c. \<not> slash c) (rev p)))"

definition letter :: "char \<Rightarrow> bool" where
  "letter c \<longleftrightarrow> 97 \<le> byte c \<and> byte c \<le> 122 \<or> 65 \<le> byte c \<and> byte c \<le> 90"

definition alphanumeric :: "char \<Rightarrow> bool" where
  "alphanumeric c \<longleftrightarrow> letter c \<or> dec_digit c"

subsection \<open>Search\<close>

lemma HasPrefix_iff [simp]: "HasPrefix s p \<longleftrightarrow> prefix p s"
  by (auto simp: HasPrefix_def prefix_def) (metis append_take_drop_id)

lemma HasSuffix_iff [simp]: "HasSuffix s p \<longleftrightarrow> suffix p s"
  by (simp add: HasSuffix_def suffix_to_prefix)

lemma Contains_iff: "Contains s p \<longleftrightarrow> sublist p s"
  by (induction s) (auto simp: sublist_Cons_right)

end
