(* ===== verification/Policy.thy ===== *)
theory Policy
  imports Go_Strings Schema
begin

text \<open>
  \<open>core/policy\<close>: the engine that decides whether a tool call is allowed, needs an approval or is
  denied.  The engine's mutex makes each method atomic, so a method is a function of the engine
  record.  The maps of kill switches are maps whose missing entries read as \<open>false\<close>.
\<close>

datatype Decision = DecisionAllow | DecisionAllowWithRedaction | DecisionRequireApproval | DecisionDeny

record Request =
  rq_Source :: Source
  rq_TrustLevel :: TrustLevel
  rq_ActorID :: string
  rq_ConnectorID :: string
  rq_ChannelID :: string
  rq_DeviceID :: string
  rq_AgentID :: string
  rq_ToolName :: string
  rq_ToolArguments :: string
  rq_Workspace :: string
  rq_At :: time
  rq_ConversationID :: string
  rq_ApprovalID :: string
  rq_Risk :: Risk
  rq_RequestedScopes :: "string list"
  rq_SideEffects :: "string list"

record Result =
  rs_Decision :: Decision
  rs_Reason :: string
  rs_RedactedFields :: "string list"

record Engine =
  emergencyStop :: bool
  disabledAgents :: "string \<rightharpoonup> bool"
  disabledConnectors :: "string \<rightharpoonup> bool"

record KillSwitches =
  ks_Agents :: "string \<rightharpoonup> bool"
  ks_Connectors :: "string \<rightharpoonup> bool"

definition NewEngine :: Engine where
  "NewEngine = \<lparr>emergencyStop = False, disabledAgents = (\<lambda>_. None), disabledConnectors = (\<lambda>_. None)\<rparr>"

definition switched :: "(string \<rightharpoonup> bool) \<Rightarrow> string \<Rightarrow> bool" where
  "switched m i = (case m i of None \<Rightarrow> False | Some b \<Rightarrow> b)"

definition SetEmergencyStop :: "bool \<Rightarrow> Engine \<Rightarrow> Engine" where
  "SetEmergencyStop enabled e = e\<lparr>emergencyStop := enabled\<rparr>"

definition EmergencyStop :: "Engine \<Rightarrow> bool" where
  "EmergencyStop e = emergencyStop e"

definition SetAgentDisabled :: "string \<Rightarrow> bool \<Rightarrow> Engine \<Rightarrow> Engine" where
  "SetAgentDisabled i disabled e = e\<lparr>disabledAgents := (disabledAgents e)(i \<mapsto> disabled)\<rparr>"

definition AgentDisabled :: "string \<Rightarrow> Engine \<Rightarrow> bool" where
  "AgentDisabled i e = switched (disabledAgents e) i"

definition SetConnectorDisabled :: "string \<Rightarrow> bool \<Rightarrow> Engine \<Rightarrow> Engine" where
  "SetConnectorDisabled i disabled e = e\<lparr>disabledConnectors := (disabledConnectors e)(i \<mapsto> disabled)\<rparr>"

definition ConnectorDisabled :: "string \<Rightarrow> Engine \<Rightarrow> bool" where
  "ConnectorDisabled i e = switched (disabledConnectors e) i"

definition LoadKillSwitches :: "KillSwitches \<Rightarrow> Engine \<Rightarrow> Engine" where
  "LoadKillSwitches state e = e\<lparr>disabledAgents := disabledAgents e ++ ks_Agents state,
     disabledConnectors := disabledConnectors e ++ ks_Connectors state\<rparr>"

definition KillSwitches_of :: "Engine \<Rightarrow> KillSwitches" where
  "KillSwitches_of e = \<lparr>ks_Agents = disabledAgents e, ks_Connectors = disabledConnectors e\<rparr>"

subsection \<open>Shell interpreters\<close>

definition interpreters :: "string list" where
  "interpreters = [''sh'', ''bash'', ''zsh'', ''fish'', ''dash'', ''cmd'', ''cmd.exe'', ''powershell'',
     ''powershell.exe'', ''pwsh'']"

definition containsShellInterpreter :: "string \<Rightarrow> bool" where
  "containsShellInterpreter arguments =
     (case object_members arguments of
        None \<Rightarrow> True
      | Some kvs \<Rightarrow> (case decode_string ''command'' kvs [] of
          None \<Rightarrow> True
        | Some command \<Rightarrow> ToLower (Base (TrimSpace command)) \<in> set interpreters))"

subsection \<open>Evaluation\<close>

definition result :: "Decision \<Rightarrow> string \<Rightarrow> Result" where
  "result d reason = \<lparr>rs_Decision = d, rs_Reason = reason, rs_RedactedFields = []\<rparr>"

text \<open>The checks after the state of the engine has been read.\<close>

definition evaluate_request :: "Request \<Rightarrow> Result" where
  "evaluate_request request =
     (if rq_Risk request = RiskPrivileged
      then result DecisionDeny ''privilege escalation is denied by default''
      else if rq_ToolName request = ''shell'' \<and> containsShellInterpreter (rq_ToolArguments request)
      then result DecisionDeny ''shell interpreter string execution is denied; use a structured binary and arguments''
      else if rq_TrustLevel request = TrustUntrusted
      then result DecisionRequireApproval ''untrusted content cannot authorize tool execution''
      else (case rq_Risk request of
          RiskReadOnly \<Rightarrow>
            if rq_TrustLevel request = TrustLocal \<or> rq_TrustLevel request = TrustTrusted
            then result DecisionAllow ''read-only tool is allowed for trusted local context''
            else result DecisionRequireApproval ''non-local read-only request requires confirmation''
        | RiskLow \<Rightarrow>
            if rq_TrustLevel request = TrustLocal
            then result DecisionAllow ''low-risk local operation is allowed''
            else result DecisionRequireApproval ''remote low-risk operation requires confirmation''
        | RiskStateChanging \<Rightarrow> result DecisionRequireApproval ''state-changing operation requires explicit approval''
        | RiskDestructive \<Rightarrow> result DecisionRequireApproval ''destructive operation requires explicit approval''
        | RiskExternalCommunication \<Rightarrow> result DecisionRequireApproval ''external communication requires policy approval''
        | RiskSecretAccess \<Rightarrow> result DecisionRequireApproval ''secret access requires a declared reference and approval''
        | _ \<Rightarrow> result DecisionDeny ''unknown risk classification''))"

definition Evaluate :: "Engine \<Rightarrow> Request \<Rightarrow> Result" where
  "Evaluate e request =
     (if emergencyStop e then result DecisionDeny ''emergency stop prevents new tool execution''
      else if switched (disabledAgents e) (rq_AgentID request)
      then result DecisionDeny ''agent kill switch is active''
      else if rq_ConnectorID request \<noteq> [] \<and> switched (disabledConnectors e) (rq_ConnectorID request)
      then result DecisionDeny ''connector kill switch is active''
      else evaluate_request request)"

subsection \<open>What the engine allows\<close>

text \<open>The switches that are on.\<close>

definition switches_on :: "Engine \<Rightarrow> (string + string) set" where
  "switches_on e = Inl ` {i. switched (disabledAgents e) i} \<union> Inr ` {i. switched (disabledConnectors e) i}"

definition at_least_as_strict :: "Engine \<Rightarrow> Engine \<Rightarrow> bool" where
  "at_least_as_strict e e' \<longleftrightarrow> (emergencyStop e \<longrightarrow> emergencyStop e') \<and> switches_on e \<subseteq> switches_on e'"

lemma switches_on_iff:
  "Inl i \<in> switches_on e \<longleftrightarrow> switched (disabledAgents e) i"
  "Inr i \<in> switches_on e \<longleftrightarrow> switched (disabledConnectors e) i"
  by (auto simp: switches_on_def)

lemma result_decision [simp]: "rs_Decision (result d r) = d"
  by (simp add: result_def)

definition shut_out :: "Engine \<Rightarrow> Request \<Rightarrow> bool" where
  "shut_out e r \<longleftrightarrow> emergencyStop e \<or> switched (disabledAgents e) (rq_AgentID r) \<or>
     (rq_ConnectorID r \<noteq> [] \<and> switched (disabledConnectors e) (rq_ConnectorID r))"

lemma Evaluate_shut_out: "shut_out e r \<Longrightarrow> rs_Decision (Evaluate e r) = DecisionDeny"
  unfolding shut_out_def by (elim disjE) (simp_all add: Evaluate_def)

text \<open>Without the stop and the switches the decision depends on the request alone.\<close>

lemma Evaluate_open: "\<not> shut_out e r \<Longrightarrow> Evaluate e r = evaluate_request r"
  by (auto simp: shut_out_def Evaluate_def)

lemma evaluate_request_allow:
  "rs_Decision (evaluate_request r) = DecisionAllow \<longleftrightarrow>
     \<not> (rq_ToolName r = ''shell'' \<and> containsShellInterpreter (rq_ToolArguments r)) \<and>
     (rq_Risk r = RiskReadOnly \<and> rq_TrustLevel r \<in> {TrustLocal, TrustTrusted} \<or>
      rq_Risk r = RiskLow \<and> rq_TrustLevel r = TrustLocal)"
  by (cases "rq_Risk r"; simp add: evaluate_request_def)

text \<open>
  C32: a tool runs without an approval only in the two cases the policy means: a read-only call from
  local or trusted content, or a low-risk call from local content, with no emergency stop, no kill
  switch on its agent or connector and no shell interpreter behind it.  Content that is untrusted
  never gets past an approval.
\<close>

theorem allow_iff:
  "rs_Decision (Evaluate e r) = DecisionAllow \<longleftrightarrow>
     \<not> emergencyStop e \<and> Inl (rq_AgentID r) \<notin> switches_on e \<and>
     \<not> (rq_ConnectorID r \<noteq> [] \<and> Inr (rq_ConnectorID r) \<in> switches_on e) \<and>
     \<not> (rq_ToolName r = ''shell'' \<and> containsShellInterpreter (rq_ToolArguments r)) \<and>
     (rq_Risk r = RiskReadOnly \<and> rq_TrustLevel r \<in> {TrustLocal, TrustTrusted} \<or>
      rq_Risk r = RiskLow \<and> rq_TrustLevel r = TrustLocal)"
proof (cases "shut_out e r")
  case True
  then show ?thesis using Evaluate_shut_out [OF True] by (auto simp: shut_out_def switches_on_iff)
next
  case False
  then show ?thesis
    using evaluate_request_allow [of r] by (auto simp: Evaluate_open shut_out_def switches_on_iff)
qed

text \<open>
  Switching more off never lets more through: a decision of a stricter engine is the decision of
  the laxer one or a denial.
\<close>

theorem stricter_engine:
  assumes "at_least_as_strict e e'"
  shows "Evaluate e' r = Evaluate e r \<or> rs_Decision (Evaluate e' r) = DecisionDeny"
proof (cases "shut_out e' r")
  case False
  have "switched (disabledAgents e) i \<Longrightarrow> switched (disabledAgents e') i"
    "switched (disabledConnectors e) i \<Longrightarrow> switched (disabledConnectors e') i" for i
    using assms switches_on_iff unfolding at_least_as_strict_def by blast+
  with False assms have "\<not> shut_out e r" by (auto simp: shut_out_def at_least_as_strict_def)
  with False show ?thesis by (simp add: Evaluate_open)
qed (simp add: Evaluate_shut_out)

subsection \<open>Kill switches over time\<close>

datatype engine_op = OpEmergencyStop bool | OpAgent string bool | OpConnector string bool | OpLoad KillSwitches

fun engine_step :: "engine_op \<Rightarrow> Engine \<Rightarrow> Engine" where
  "engine_step (OpEmergencyStop b) e = SetEmergencyStop b e"
| "engine_step (OpAgent i b) e = SetAgentDisabled i b e"
| "engine_step (OpConnector i b) e = SetConnectorDisabled i b e"
| "engine_step (OpLoad k) e = LoadKillSwitches k e"

definition run_engine :: "engine_op list \<Rightarrow> Engine \<Rightarrow> Engine" where
  "run_engine ops e = fold engine_step ops e"

text \<open>Does an operation switch agent \<open>i\<close> back on?\<close>

fun enables_agent :: "string \<Rightarrow> engine_op \<Rightarrow> bool" where
  "enables_agent i (OpAgent j b) \<longleftrightarrow> i = j \<and> \<not> b"
| "enables_agent i (OpLoad k) \<longleftrightarrow> ks_Agents k i = Some False"
| "enables_agent i _ \<longleftrightarrow> False"

lemma engine_step_keeps_agent:
  assumes "switched (disabledAgents e) i" and "\<not> enables_agent i op"
  shows "switched (disabledAgents (engine_step op e)) i"
  using assms
  by (cases op)
     (auto simp: SetEmergencyStop_def SetAgentDisabled_def SetConnectorDisabled_def LoadKillSwitches_def
        switched_def map_add_def split: option.splits)

lemma run_engine_keeps_agent:
  "switched (disabledAgents e) i \<Longrightarrow> list_all (\<lambda>op. \<not> enables_agent i op) ops \<Longrightarrow>
   switched (disabledAgents (run_engine ops e)) i"
  unfolding run_engine_def by (induction ops arbitrary: e) (auto intro: engine_step_keeps_agent)

text \<open>
  A killed agent stays killed.  After its kill switch is set, every request of the agent is
  denied until an operation switches this agent on again, whatever else happens to the engine,
  reloading persisted switches included.
\<close>

theorem killed_agent_denied:
  assumes "list_all (\<lambda>op. \<not> enables_agent (rq_AgentID r) op) ops"
  shows "rs_Decision (Evaluate (run_engine ops (SetAgentDisabled (rq_AgentID r) True e)) r) = DecisionDeny"
proof -
  have "switched (disabledAgents (run_engine ops (SetAgentDisabled (rq_AgentID r) True e))) (rq_AgentID r)"
    using assms by (intro run_engine_keeps_agent) (simp_all add: SetAgentDisabled_def switched_def)
  then show ?thesis by (intro Evaluate_shut_out) (simp add: shut_out_def)
qed

end
