(* ===== verification/Net_Addr.thy ===== *)
theory Net_Addr
  imports Go_Strings "HOL-Library.Word"
begin

unbundle bit_operations_syntax

text \<open>
  What the code uses of \<open>net/netip\<close>: addresses, their text form in both directions, prefixes and the
  classification of special addresses.
\<close>

text \<open>The zero value, an IPv4 address, and an IPv6 address with its zone.\<close>

datatype Addr = NoAddr | IP4 "32 word" | IP6 "128 word" string

subsection \<open>Reading\<close>

definition octet :: "string \<Rightarrow> int option" where
  "octet f = (if f \<noteq> [] \<and> list_all dec_digit f \<and> (length f = 1 \<or> hd f \<noteq> CHR ''0'') \<and> dec_value f \<le> 255
     then Some (dec_value f) else None)"

fun octets :: "string list \<Rightarrow> int list option" where
  "octets [] = Some []"
| "octets (f # fs) = (case (octet f, octets fs) of (Some n, Some ns) \<Rightarrow> Some (n # ns) | _ \<Rightarrow> None)"

definition parseIPv4Fields :: "string \<Rightarrow> int list option" where
  "parseIPv4Fields s = (let fs = split_at (CHR ''.'') s in if length fs = 4 then octets fs else None)"

text \<open>Most significant part first.\<close>

definition digits_value :: "int \<Rightarrow> int list \<Rightarrow> int" where
  "digits_value b ds = foldl (\<lambda>n d. n * b + d) 0 ds"

definition parseIPv4 :: "string \<Rightarrow> Addr option" where
  "parseIPv4 s = map_option (\<lambda>ns. IP4 (of_int (digits_value 256 ns))) (parseIPv4Fields s)"

definition hex_char :: "char \<Rightarrow> bool" where
  "hex_char c \<longleftrightarrow> hex_value c \<noteq> None"

definition hex_number :: "string \<Rightarrow> int" where
  "hex_number s = digits_value 16 (map (int \<circ> the \<circ> hex_value) s)"

text \<open>The last two groups as a dotted IPv4 address.\<close>

definition embedded_groups :: "string \<Rightarrow> int list option" where
  "embedded_groups s = map_option (\<lambda>ns. [ns ! 0 * 256 + ns ! 1, ns ! 2 * 256 + ns ! 3]) (parseIPv4Fields s)"

text \<open>
  The loop over the groups: how many may follow, the groups read, the position of the ellipsis and
  the rest of the text.
\<close>

fun ipv6_groups :: "nat \<Rightarrow> int list \<Rightarrow> nat option \<Rightarrow> string \<Rightarrow> (int list \<times> nat option \<times> string) option" where
  "ipv6_groups 0 acc ellipsis s = Some (acc, ellipsis, s)"
| "ipv6_groups (Suc k) acc ellipsis s =
     (let h = takeWhile hex_char s; rest = dropWhile hex_char s in
      if h = [] \<or> length h > 4 then None
      else if rest \<noteq> [] \<and> hd rest = CHR ''.'' then
        if ellipsis = None \<and> length acc \<noteq> 6 then None
        else if k = 0 then None
        else map_option (\<lambda>gs. (acc @ gs, ellipsis, [])) (embedded_groups s)
      else
        (let acc' = acc @ [hex_number h] in
         if rest = [] then Some (acc', ellipsis, [])
         else if hd rest \<noteq> CHR '':'' then None
         else
           (let s' = tl rest in
            if s' = [] then None
            else if hd s' = CHR '':'' then
              if ellipsis \<noteq> None then None
              else if tl s' = [] then Some (acc', Some (length acc'), [])
              else ipv6_groups k acc' (Some (length acc')) (tl s')
            else ipv6_groups k acc' ellipsis s')))"

definition expand_groups :: "int list \<times> nat option \<times> string \<Rightarrow> int list option" where
  "expand_groups = (\<lambda>(acc, ellipsis, s).
     if s \<noteq> [] then None
     else (case ellipsis of
       None \<Rightarrow> if length acc < 8 then None else Some acc
     | Some e \<Rightarrow> if length acc < 8 then Some (take e acc @ replicate (8 - length acc) 0 @ drop e acc) else None))"

definition parse_groups :: "string \<Rightarrow> int list option" where
  "parse_groups s =
     (if HasPrefix s ''::'' then
        (if drop 2 s = [] then Some (replicate 8 0)
         else Option.bind (ipv6_groups 8 [] (Some 0) (drop 2 s)) expand_groups)
      else Option.bind (ipv6_groups 8 [] None s) expand_groups)"

definition groups_word :: "int list \<Rightarrow> 128 word" where
  "groups_word gs = of_int (digits_value 65536 gs)"

definition parseIPv6 :: "string \<Rightarrow> Addr option" where
  "parseIPv6 s =
     (let body = takeWhile (\<lambda>c. c \<noteq> CHR ''%'') s; tail = dropWhile (\<lambda>c. c \<noteq> CHR ''%'') s in
      if tail \<noteq> [] \<and> tl tail = [] then None
      else map_option (\<lambda>gs. IP6 (groups_word gs) (tl tail)) (parse_groups body))"

definition ParseAddr :: "string \<Rightarrow> Addr option" where
  "ParseAddr s = (case dropWhile (\<lambda>c. c \<noteq> CHR ''.'' \<and> c \<noteq> CHR '':'' \<and> c \<noteq> CHR ''%'') s of
     [] \<Rightarrow> None
   | c # _ \<Rightarrow> if c = CHR ''.'' then parseIPv4 s else if c = CHR '':'' then parseIPv6 s else None)"

definition AddrFromSlice :: "int list \<Rightarrow> Addr option" where
  "AddrFromSlice bs = (if length bs = 4 then Some (IP4 (of_int (digits_value 256 bs)))
     else if length bs = 16 then Some (IP6 (of_int (digits_value 256 bs)) []) else None)"

subsection \<open>Printing\<close>

definition hex_digit :: "int \<Rightarrow> char" where
  "hex_digit d = char_of (nat (if d < 10 then 48 + d else 87 + d))"

function hex_digits :: "int \<Rightarrow> string" where
  "hex_digits n = (if n < 16 then [] else hex_digits (n div 16)) @ [hex_digit (n mod 16)]"
  by pat_completeness auto

termination by (relation "measure nat") auto

declare hex_digits.simps [simp del]

definition parts :: "int \<Rightarrow> nat \<Rightarrow> int \<Rightarrow> int list" where
  "parts b k n = map (\<lambda>i. n div b ^ (k - 1 - i) mod b) [0..<k]"

definition string4 :: "32 word \<Rightarrow> string" where
  "string4 a = Join (map Itoa (parts 256 4 (uint a))) ''.''"

definition zero_run :: "int list \<Rightarrow> nat \<Rightarrow> nat" where
  "zero_run gs i = length (takeWhile (\<lambda>g. g = 0) (drop i gs))"

text \<open>The first longest run of at least two zero groups, or \<open>(255, 255)\<close>.\<close>

definition longest_run :: "int list \<Rightarrow> nat \<times> nat" where
  "longest_run gs = fold (\<lambda>i (zs, ze). let l = zero_run gs i in if l \<ge> 2 \<and> l > ze - zs then (i, i + l) else (zs, ze))
     [0..<8] (255, 255)"

definition groups_text :: "int list \<Rightarrow> string" where
  "groups_text gs = (case longest_run gs of (zs, ze) \<Rightarrow>
     if zs = 255 then Join (map hex_digits gs) '':''
     else Join (map hex_digits (take zs gs)) '':'' @ ''::'' @ Join (map hex_digits (drop ze gs)) '':'')"

definition zone_text :: "string \<Rightarrow> string" where
  "zone_text zone = (if zone = [] then [] else CHR ''%'' # zone)"

subsection \<open>Properties of addresses\<close>

definition Is4 :: "Addr \<Rightarrow> bool" where
  "Is4 a \<longleftrightarrow> (case a of IP4 _ \<Rightarrow> True | _ \<Rightarrow> False)"

definition Is6 :: "Addr \<Rightarrow> bool" where
  "Is6 a \<longleftrightarrow> (case a of IP6 _ _ \<Rightarrow> True | _ \<Rightarrow> False)"

definition IsValid :: "Addr \<Rightarrow> bool" where
  "IsValid a \<longleftrightarrow> a \<noteq> NoAddr"

definition Zone :: "Addr \<Rightarrow> string" where
  "Zone a = (case a of IP6 _ z \<Rightarrow> z | _ \<Rightarrow> [])"

definition Is4In6 :: "Addr \<Rightarrow> bool" where
  "Is4In6 a \<longleftrightarrow> (case a of IP6 w _ \<Rightarrow> drop_bit 32 w = 0xFFFF | _ \<Rightarrow> False)"

definition Unmap :: "Addr \<Rightarrow> Addr" where
  "Unmap a = (case a of IP6 w _ \<Rightarrow> if Is4In6 a then IP4 (ucast w) else a | _ \<Rightarrow> a)"

definition addr_String :: "Addr \<Rightarrow> string" where
  "addr_String a = (case a of
     NoAddr \<Rightarrow> ''invalid IP''
   | IP4 w \<Rightarrow> string4 w
   | IP6 w zone \<Rightarrow>
       if Is4In6 a then ''::ffff:'' @ string4 (ucast w) @ zone_text zone
       else groups_text (parts 65536 8 (uint w)) @ zone_text zone)"

definition IsUnspecified :: "Addr \<Rightarrow> bool" where
  "IsUnspecified a \<longleftrightarrow> a = IP4 0 \<or> a = IP6 0 []"

definition IsLoopback :: "Addr \<Rightarrow> bool" where
  "IsLoopback a \<longleftrightarrow> (case Unmap a of IP4 w \<Rightarrow> drop_bit 24 w = 127 | IP6 w _ \<Rightarrow> w = 1 | NoAddr \<Rightarrow> False)"

definition IsMulticast :: "Addr \<Rightarrow> bool" where
  "IsMulticast a \<longleftrightarrow> (case Unmap a of IP4 w \<Rightarrow> drop_bit 28 w = 0xE | IP6 w _ \<Rightarrow> drop_bit 120 w = 0xFF | NoAddr \<Rightarrow> False)"

definition IsLinkLocalUnicast :: "Addr \<Rightarrow> bool" where
  "IsLinkLocalUnicast a \<longleftrightarrow>
     (case Unmap a of IP4 w \<Rightarrow> drop_bit 16 w = 0xA9FE | IP6 w _ \<Rightarrow> drop_bit 118 w = 0x3FA | NoAddr \<Rightarrow> False)"

definition IsLinkLocalMulticast :: "Addr \<Rightarrow> bool" where
  "IsLinkLocalMulticast a \<longleftrightarrow>
     (case Unmap a of IP4 w \<Rightarrow> drop_bit 8 w = 0xE00000 | IP6 w _ \<Rightarrow> drop_bit 112 w AND 0xFF0F = 0xFF02 | NoAddr \<Rightarrow> False)"

definition IsGlobalUnicast :: "Addr \<Rightarrow> bool" where
  "IsGlobalUnicast a \<longleftrightarrow> (let b = Unmap a in
     b \<noteq> NoAddr \<and> b \<noteq> IP4 0 \<and> b \<noteq> IP4 0xFFFFFFFF \<and> b \<noteq> IP6 0 [] \<and>
     \<not> IsLoopback b \<and> \<not> IsMulticast b \<and> \<not> IsLinkLocalUnicast b)"

definition IsPrivate :: "Addr \<Rightarrow> bool" where
  "IsPrivate a \<longleftrightarrow> (case Unmap a of
     IP4 w \<Rightarrow> drop_bit 24 w = 10 \<or> drop_bit 20 w = 0xAC1 \<or> drop_bit 16 w = 0xC0A8
   | IP6 w _ \<Rightarrow> drop_bit 121 w = 0x7E | NoAddr \<Rightarrow> False)"

subsection \<open>Prefixes\<close>

record Prefix =
  pf_Addr :: Addr
  pf_Bits :: nat

definition ParsePrefix :: "string \<Rightarrow> Prefix option" where
  "ParsePrefix s =
     (let bitsStr = rev (takeWhile (\<lambda>c. c \<noteq> CHR ''/'') (rev s)); addr = rev (dropWhile (\<lambda>c. c \<noteq> CHR ''/'') (rev s)) in
      if addr = [] then None
      else (case ParseAddr (butlast addr) of
        None \<Rightarrow> None
      | Some a \<Rightarrow>
          if Zone a \<noteq> [] then None
          else if length bitsStr > 1 \<and> \<not> (49 \<le> byte (hd bitsStr) \<and> byte (hd bitsStr) \<le> 57) then None
          else (case ParseInt bitsStr of
            None \<Rightarrow> None
          | Some n \<Rightarrow> if n < 0 \<or> n > (if Is6 a then 128 else 32) then None else Some \<lparr>pf_Addr = a, pf_Bits = nat n\<rparr>)))"

definition Masked :: "Prefix \<Rightarrow> Prefix" where
  "Masked p = p\<lparr>pf_Addr := (case pf_Addr p of
     IP4 w \<Rightarrow> IP4 (w AND NOT (mask (32 - pf_Bits p)))
   | IP6 w z \<Rightarrow> IP6 (w AND NOT (mask (128 - pf_Bits p))) []
   | NoAddr \<Rightarrow> NoAddr)\<rparr>"

definition prefix_Contains :: "Prefix \<Rightarrow> Addr \<Rightarrow> bool" where
  "prefix_Contains p a \<longleftrightarrow> (case (pf_Addr p, a) of
     (IP4 v, IP4 w) \<Rightarrow> drop_bit (32 - pf_Bits p) (w XOR v) = 0
   | (IP6 v _, IP6 w z) \<Rightarrow> z = [] \<and> drop_bit (128 - pf_Bits p) (w XOR v) = 0
   | _ \<Rightarrow> False)"

end
