(* ===== verification/Http_Security.thy ===== *)
theory Http_Security
  imports Net_Addr Schema
begin

text \<open>
  \<open>tools/http/security.go\<close> up to the transport: domain rules, host names, and the check of the addresses that a host
  name resolves to.  \<open>Executor\<close> of \<open>tools/http/http.go\<close> is the configuration that the checks read.  The
  resolver of the system is an argument, a function from host names to answers.
\<close>

text \<open>The errors of the package; a wrapped error is the one that it wraps, all other texts are \<open>HttpError\<close>.\<close>

datatype http_err = ErrDomainNotAllowed | ErrMethodNotAllowed | ErrUnsafeAddress | ErrPlaintextSecret
  | ErrRequestTooLarge | ErrSecretResolverRequired | ErrSecretResolution | ErrTooManyRedirects
  | ErrRedirectDowngrade | ErrRequestFailed | DeadlineExceeded | Canceled | HttpError string

record domainRule =
  dr_host :: string
  dr_wildcard :: bool

record Executor =
  ex_allowedDomains :: "domainRule list"
  ex_allowedMethods :: "string list"
  ex_allowedPorts :: "int list"
  ex_allowedCIDRs :: "Prefix list"
  ex_timeout :: int
  ex_maxRequest :: int
  ex_maxResponse :: int
  ex_maxHeaders :: int
  ex_maxRedirects :: int
  ex_disableRedirects :: bool
  ex_secretResolver :: "(string \<Rightarrow> string option) option"
  ex_userAgent :: string

subsection \<open>Host names and rules\<close>

definition lower_host :: "string \<Rightarrow> string" where
  "lower_host value = ToLower (TrimSuffix (TrimSpace value) ''.'')"

definition normalizeHostname :: "string \<Rightarrow> string" where
  "normalizeHostname value = (let v = lower_host value in
     case ParseAddr v of Some a \<Rightarrow> addr_String (Unmap a) | None \<Rightarrow> v)"

definition valid_label :: "string \<Rightarrow> bool" where
  "valid_label l \<longleftrightarrow> l \<noteq> [] \<and> length l \<le> 63 \<and> hd l \<noteq> CHR ''-'' \<and> last l \<noteq> CHR ''-'' \<and>
     list_all (\<lambda>c. alphanumeric c \<or> c = CHR ''-'') l"

definition validHostnameOrIP :: "string \<Rightarrow> bool" where
  "validHostnameOrIP value \<longleftrightarrow> value \<noteq> [] \<and> length value \<le> 253 \<and>
     (case ParseAddr value of
        Some a \<Rightarrow> Zone a = []
      | None \<Rightarrow> list_all (\<lambda>c. byte c < 128) value \<and> list_all valid_label (split_at (CHR ''.'') value))"

definition parseDomainRule :: "string \<Rightarrow> http_err + domainRule" where
  "parseDomainRule raw =
     (let value0 = lower_host raw in
      if value0 = [] \<or> value0 = ''*'' \<or> list_ex (\<lambda>c. c \<in> set ''/?#@'') value0
      then Inl (HttpError ''domain must be an exact hostname/IP or a *.example.com wildcard'')
      else
        (let wildcard = HasPrefix value0 ''*.''; value = (if wildcard then TrimPrefix value0 ''*.'' else value0) in
         if wildcard \<and> (CHR ''*'' \<in> set value \<or> CHR ''.'' \<notin> set value)
         then Inl (HttpError ''wildcards require a registrable-looking suffix such as *.example.com'')
         else if \<not> wildcard \<and> CHR ''*'' \<in> set value
         then Inl (HttpError ''wildcard is supported only as the leftmost *.'')
         else if \<not> validHostnameOrIP value then Inl (HttpError ''invalid or non-ASCII domain'')
         else if wildcard \<and> ParseAddr value \<noteq> None then Inl (HttpError ''IP literals cannot use wildcards'')
         else Inr \<lparr>dr_host = normalizeHostname value, dr_wildcard = wildcard\<rparr>))"

definition Match :: "domainRule \<Rightarrow> string \<Rightarrow> bool" where
  "Match r host0 \<longleftrightarrow> (let host = normalizeHostname host0 in
     if \<not> dr_wildcard r then host = dr_host r
     else length host > length (dr_host r) + 1 \<and> HasSuffix host (CHR ''.'' # dr_host r))"

definition rule_String :: "domainRule \<Rightarrow> string" where
  "rule_String r = (if dr_wildcard r then ''*.'' @ dr_host r else dr_host r)"

definition hostAllowed :: "Executor \<Rightarrow> string \<Rightarrow> bool" where
  "hostAllowed e host \<longleftrightarrow> list_ex (\<lambda>r. Match r host) (ex_allowedDomains e)"

subsection \<open>Addresses\<close>

definition allowed_cidr :: "string \<Rightarrow> http_err + Prefix" where
  "allowed_cidr value = (case ParsePrefix (TrimSpace value) of
     None \<Rightarrow> Inl (HttpError ''invalid explicitly allowed CIDR'')
   | Some p0 \<Rightarrow>
       (let p = Masked p0 in
        if Is4In6 (pf_Addr p) then
          (if pf_Bits p < 96 then Inl (HttpError ''invalid mapped IPv4 CIDR'')
           else Inr (Masked \<lparr>pf_Addr = Unmap (pf_Addr p), pf_Bits = pf_Bits p - 96\<rparr>))
        else Inr p))"

fun parseAllowedCIDRs :: "string list \<Rightarrow> http_err + Prefix list" where
  "parseAllowedCIDRs [] = Inr []"
| "parseAllowedCIDRs (v # vs) = (case allowed_cidr v of
     Inl e \<Rightarrow> Inl e
   | Inr p \<Rightarrow> (case parseAllowedCIDRs vs of Inl e \<Rightarrow> Inl e | Inr ps \<Rightarrow> Inr (p # ps)))"

definition cidr_Contains :: "Prefix \<Rightarrow> Addr \<Rightarrow> bool" where
  "cidr_Contains p a \<longleftrightarrow> prefix_Contains p (Unmap a)"

definition deniedAddressRanges :: "Prefix list" where
  "deniedAddressRanges = map (the \<circ> ParsePrefix)
    [''0.0.0.0/8'', ''10.0.0.0/8'', ''100.64.0.0/10'', ''127.0.0.0/8'', ''169.254.0.0/16'', ''172.16.0.0/12'',
     ''192.0.0.0/24'', ''192.0.2.0/24'', ''192.88.99.0/24'', ''192.168.0.0/16'', ''198.18.0.0/15'', ''198.51.100.0/24'',
     ''203.0.113.0/24'', ''224.0.0.0/4'', ''240.0.0.0/4'',
     ''::/96'', ''::1/128'', ''64:ff9b::/96'', ''64:ff9b:1::/48'', ''100::/64'', ''2001::/23'', ''2001:db8::/32'',
     ''2002::/16'', ''3fff::/20'', ''5f00::/16'', ''fc00::/7'', ''fe80::/10'', ''fec0::/10'', ''ff00::/8'']"

definition special_address :: "Addr \<Rightarrow> bool" where
  "special_address a \<longleftrightarrow> \<not> IsGlobalUnicast a \<or> IsPrivate a \<or> IsLoopback a \<or> IsLinkLocalUnicast a \<or>
     IsLinkLocalMulticast a \<or> IsMulticast a \<or> IsUnspecified a"

definition validateAddress :: "Executor \<Rightarrow> Addr \<Rightarrow> http_err + unit" where
  "validateAddress e address =
     (if \<not> IsValid address \<or> Zone address \<noteq> [] then Inl ErrUnsafeAddress
      else let a = Unmap address in
        if list_ex (\<lambda>p. cidr_Contains p a) (ex_allowedCIDRs e) then Inr ()
        else if special_address a then Inl ErrUnsafeAddress
        else if list_ex (\<lambda>p. prefix_Contains p a) deniedAddressRanges then Inl ErrUnsafeAddress
        else Inr ())"

text \<open>The loop over the answers of the resolver; \<open>seen\<close> are the addresses kept so far, in order.\<close>

fun keep_answers :: "Executor \<Rightarrow> (int list \<times> string) list \<Rightarrow> Addr list \<Rightarrow> http_err + Addr list" where
  "keep_answers e [] seen = Inr seen"
| "keep_answers e ((ip, zone) # rest) seen =
     (if zone \<noteq> [] then Inl ErrUnsafeAddress
      else (case AddrFromSlice ip of
        None \<Rightarrow> Inl ErrUnsafeAddress
      | Some a0 \<Rightarrow>
          (let a = Unmap a0 in
           case validateAddress e a of
             Inl err \<Rightarrow> Inl err
           | Inr _ \<Rightarrow> keep_answers e rest (if a \<in> set seen then seen else seen @ [a]))))"

definition maxResolvedIPs :: nat where
  "maxResolvedIPs = 32"

type_synonym resolver = "string \<Rightarrow> (int list \<times> string) list option"

definition resolveAndValidate :: "Executor \<Rightarrow> resolver \<Rightarrow> string \<Rightarrow> http_err + Addr list" where
  "resolveAndValidate e lookup hostname0 =
     (let hostname = normalizeHostname hostname0 in
      case ParseAddr hostname of
        Some literal0 \<Rightarrow>
          (let literal = Unmap literal0 in
           case validateAddress e literal of Inl err \<Rightarrow> Inl err | Inr _ \<Rightarrow> Inr [literal])
      | None \<Rightarrow>
          (case lookup hostname of
             None \<Rightarrow> Inl (HttpError ''HTTP destination DNS resolution failed'')
           | Some resolved \<Rightarrow>
               if resolved = [] \<or> length resolved > maxResolvedIPs
               then Inl (HttpError ''HTTP destination DNS returned an invalid number of addresses'')
               else (case keep_answers e resolved [] of
                 Inl err \<Rightarrow> Inl err
               | Inr addresses \<Rightarrow>
                   if addresses = [] then Inl (HttpError ''HTTP destination DNS returned no usable addresses'')
                   else Inr addresses)))"

end
