(* ===== verification/Http_Request.thy ===== *)
theory Http_Request
  imports Http_Security
begin

text \<open>
  \<open>tools/http/http.go\<close>, the part before anything is sent: the configuration, the strict contract of the input, the
  checks of method, URL, headers and secret references, and the assessment that the policy sees.
  \<open>url.Parse\<close>, \<open>URL.String\<close> and the resolution of a relative reference are arguments (\<open>url_lib\<close>), about which nothing is
  assumed; \<open>Hostname\<close>, \<open>Port\<close>, queries and escaping are modelled.
\<close>

subsection \<open>URLs\<close>

record URL =
  u_Scheme :: string
  u_Opaque :: string
  u_User :: bool
  u_Host :: string
  u_Path :: string
  u_RawQuery :: string
  u_Fragment :: string

record url_lib =
  ul_Parse :: "string \<Rightarrow> URL option"
  ul_String :: "URL \<Rightarrow> string"
  ul_Reference :: "URL \<Rightarrow> string \<Rightarrow> URL option"

definition splitHostPort :: "string \<Rightarrow> string \<times> string" where
  "splitHostPort hostPort =
     (let after = rev (takeWhile (\<lambda>c. c \<noteq> CHR '':'') (rev hostPort));
          before = butlast (rev (dropWhile (\<lambda>c. c \<noteq> CHR '':'') (rev hostPort)));
          (host, port) = (if CHR '':'' \<in> set hostPort \<and> list_all dec_digit after then (before, after) else (hostPort, []))
      in (if HasPrefix host ''['' \<and> HasSuffix host '']'' then butlast (tl host) else host, port))"

definition Hostname :: "URL \<Rightarrow> string" where
  "Hostname u = fst (splitHostPort (u_Host u))"

definition Port :: "URL \<Rightarrow> string" where
  "Port u = snd (splitHostPort (u_Host u))"

definition JoinHostPort :: "string \<Rightarrow> string \<Rightarrow> string" where
  "JoinHostPort host port = (if CHR '':'' \<in> set host then ''['' @ host @ '']:'' @ port else host @ '':'' @ port)"

fun QueryUnescape :: "string \<Rightarrow> string option" where
  "QueryUnescape [] = Some []"
| "QueryUnescape (c # s) =
     (if c = CHR ''%'' then
        (case s of
           a # b # r \<Rightarrow> (case (hex_value a, hex_value b) of
               (Some x, Some y) \<Rightarrow> map_option ((#) (char_of (x * 16 + y))) (QueryUnescape r)
             | _ \<Rightarrow> None)
         | _ \<Rightarrow> None)
      else map_option ((#) (if c = CHR ''+'' then CHR '' '' else c)) (QueryUnescape s))"

fun query_pairs :: "string list \<Rightarrow> (string \<times> string) list option" where
  "query_pairs [] = Some []"
| "query_pairs (part # rest) =
     (if CHR '';'' \<in> set part then None
      else if part = [] then query_pairs rest
      else (case (QueryUnescape (takeWhile (\<lambda>c. c \<noteq> CHR ''='') part), QueryUnescape (tl (dropWhile (\<lambda>c. c \<noteq> CHR ''='') part))) of
        (Some k, Some v) \<Rightarrow> map_option ((#) (k, v)) (query_pairs rest)
      | _ \<Rightarrow> None))"

definition ParseQuery :: "string \<Rightarrow> (string \<times> string) list option" where
  "ParseQuery qs = query_pairs (split_at (CHR ''&'') qs)"

definition escape_byte :: "char \<Rightarrow> string" where
  "escape_byte c = (if alphanumeric c \<or> c \<in> set ''-_.~'' then [c] else if c = CHR '' '' then ''+''
     else [CHR ''%'', ascii_upper (hex_digit (int (byte c div 16))), ascii_upper (hex_digit (int (byte c mod 16)))])"

definition QueryEscape :: "string \<Rightarrow> string" where
  "QueryEscape s = concat (map escape_byte s)"

text \<open>\<open>Values.Encode\<close>: sorted by name, the values of a name in their order.\<close>

definition query_Encode :: "(string \<times> string) list \<Rightarrow> string" where
  "query_Encode kvs = Join (map (\<lambda>(k, v). QueryEscape k @ ''='' @ QueryEscape v) (sort_key fst kvs)) ''&''"

definition effectivePort :: "URL \<Rightarrow> http_err + int" where
  "effectivePort u = (if Port u \<noteq> [] then
       (case ParseInt (Port u) of
          None \<Rightarrow> Inl (HttpError ''invalid HTTP destination port'')
        | Some p \<Rightarrow> if p < 1 \<or> p > 65535 then Inl (HttpError ''invalid HTTP destination port'') else Inr p)
     else if EqualFold (u_Scheme u) ''https'' then Inr 443 else Inr 80)"

subsection \<open>Names and values\<close>

definition token_char :: "char \<Rightarrow> bool" where
  "token_char c \<longleftrightarrow> alphanumeric c \<or> c \<in> set ''!#$%&'*+-.^_`|~''"

definition validToken :: "string \<Rightarrow> bool" where
  "validToken s \<longleftrightarrow> s \<noteq> [] \<and> list_all token_char s"

definition hasControl :: "string \<Rightarrow> bool" where
  "hasControl s \<longleftrightarrow> list_ex (\<lambda>c. byte c < 32 \<or> byte c = 127) s"

definition validHeaderValue :: "string \<Rightarrow> bool" where
  "validHeaderValue s \<longleftrightarrow> list_all (\<lambda>c. (byte c \<ge> 32 \<or> byte c = 9) \<and> byte c \<noteq> 127) s"

definition validSecretReference :: "string \<Rightarrow> bool" where
  "validSecretReference s \<longleftrightarrow> s \<noteq> [] \<and> length s \<le> 256 \<and> list_all (\<lambda>c. alphanumeric c \<or> c \<in> set ''._:/-'') s \<and> alphanumeric (hd s)"

definition validSecretPrefix :: "string \<Rightarrow> bool" where
  "validSecretPrefix s \<longleftrightarrow> s = [] \<or>
     length s \<le> 32 \<and> HasSuffix s '' '' \<and> count_list s (CHR '' '') = 1 \<and> validToken (TrimSuffix s '' '')"

definition sensitiveName :: "string \<Rightarrow> bool" where
  "sensitiveName name \<longleftrightarrow> (let lower = ToLower name in
     list_ex (Contains lower) [''authorization'', ''credential'', ''password'', ''passwd'', ''secret'', ''token'', ''api-key'',
       ''apikey'', ''api_key'', ''access-key'', ''signature''] \<or>
     list_ex (\<lambda>part. part = ''auth'' \<or> part = ''key'')
       (split_at (CHR ''-'') (map (\<lambda>c. if c = CHR ''_'' \<or> c = CHR ''.'' then CHR ''-'' else c) lower)))"

definition sensitiveHeader :: "string \<Rightarrow> bool" where
  "sensitiveHeader name \<longleftrightarrow> (let lower = ToLower name in
     lower \<in> set [''authorization'', ''cookie'', ''set-cookie''] \<or> sensitiveName lower)"

definition forbiddenRequestHeader :: "string \<Rightarrow> bool" where
  "forbiddenRequestHeader name \<longleftrightarrow> (let lower = ToLower name in
     lower \<in> set [''host'', ''content-length'', ''accept-encoding'', ''referer'', ''connection'', ''keep-alive'', ''te'', ''trailer'',
       ''transfer-encoding'', ''upgrade''] \<or> HasPrefix lower ''proxy-'')"

fun canonical_from :: "bool \<Rightarrow> string \<Rightarrow> string" where
  "canonical_from upper [] = []"
| "canonical_from upper (c # s) = (if upper then ascii_upper c else ascii_lower c) # canonical_from (c = CHR ''-'') s"

definition CanonicalHeaderKey :: "string \<Rightarrow> string" where
  "CanonicalHeaderKey s = (if list_all token_char s then canonical_from True s else s)"

definition validateCallerHeader :: "string \<Rightarrow> string \<Rightarrow> http_err + string" where
  "validateCallerHeader name value = (let canonical = CanonicalHeaderKey (TrimSpace name) in
     if \<not> validToken canonical \<or> \<not> validHeaderValue value then Inl (HttpError ''invalid HTTP header'')
     else if forbiddenRequestHeader canonical then Inl (HttpError ''HTTP header is controlled by the executor'')
     else if sensitiveHeader canonical then Inl ErrPlaintextSecret
     else Inr canonical)"

definition validateSecretHeader :: "string \<Rightarrow> string \<Rightarrow> http_err + string" where
  "validateSecretHeader name prefixText = (let canonical = CanonicalHeaderKey (TrimSpace name) in
     if \<not> validToken canonical \<or> forbiddenRequestHeader canonical then Inl (HttpError ''invalid secret-backed HTTP header'')
     else if \<not> validSecretPrefix prefixText then Inl (HttpError ''invalid prefix for secret-backed HTTP header'')
     else Inr canonical)"


subsection \<open>The URL of a request\<close>

definition maxURLBytes :: int where
  "maxURLBytes = 8192"

text \<open>The checks of \<open>validateURLStructure\<close>; it also sets the scheme to lower case.\<close>

definition validateURLStructure :: "URL \<Rightarrow> http_err + URL" where
  "validateURLStructure u =
     (let parsed = u\<lparr>u_Scheme := ToLower (u_Scheme u)\<rparr> in
      if u_Scheme parsed \<noteq> ''http'' \<and> u_Scheme parsed \<noteq> ''https'' then Inl (HttpError ''HTTP URL scheme must be http or https'')
      else if u_Opaque parsed \<noteq> [] \<or> u_Host parsed = [] \<or> Hostname parsed = []
      then Inl (HttpError ''HTTP URL must be an absolute hierarchical URL with a host'')
      else if u_User parsed then Inl ErrPlaintextSecret
      else if u_Fragment parsed \<noteq> [] then Inl (HttpError ''HTTP URL fragments are not allowed'')
      else if CHR ''%'' \<in> set (Hostname parsed) then Inl (HttpError ''scoped IPv6 destinations are not allowed'')
      else if \<not> validHostnameOrIP (normalizeHostname (Hostname parsed)) then Inl (HttpError ''invalid or non-ASCII HTTP hostname'')
      else (case ParseQuery (u_RawQuery parsed) of
        None \<Rightarrow> Inl (HttpError ''HTTP URL contains an invalid query string'')
      | Some qs \<Rightarrow>
          if list_ex (sensitiveName \<circ> fst) qs then Inl ErrPlaintextSecret
          else (case effectivePort parsed of Inl e \<Rightarrow> Inl e | Inr _ \<Rightarrow> Inr parsed)))"

definition normal_host :: "URL \<Rightarrow> string" where
  "normal_host u = (let host = normalizeHostname (Hostname u) in
     if CHR '':'' \<in> set host then (if Port u = [] then ''['' @ host @ '']'' else JoinHostPort host (Port u))
     else if Port u \<noteq> [] then JoinHostPort host (Port u) else host)"

definition parseRequestURL :: "url_lib \<Rightarrow> string \<Rightarrow> http_err + URL" where
  "parseRequestURL lib raw =
     (if raw = [] \<or> int (length raw) > maxURLBytes \<or> hasControl raw
      then Inl (HttpError ''HTTP URL is required, bounded to 8 KiB, and cannot contain control characters'')
      else (case ul_Parse lib raw of
        None \<Rightarrow> Inl (HttpError ''invalid HTTP URL'')
      | Some u \<Rightarrow> (case validateURLStructure (u\<lparr>u_Scheme := ToLower (u_Scheme u)\<rparr>) of
          Inl e \<Rightarrow> Inl e
        | Inr parsed \<Rightarrow> (case (if Port parsed \<noteq> [] then effectivePort parsed else Inr 0) of
            Inl e \<Rightarrow> Inl e
          | Inr _ \<Rightarrow> Inr (parsed\<lparr>u_Host := normal_host parsed\<rparr>)))))"

definition validateMethod :: "Executor \<Rightarrow> string \<Rightarrow> http_err + unit" where
  "validateMethod e method_name =
     (if \<not> validToken method_name \<or> method_name \<notin> set (ex_allowedMethods e) then Inl ErrMethodNotAllowed else Inr ())"

definition validateURL :: "Executor \<Rightarrow> URL \<Rightarrow> http_err + unit" where
  "validateURL e u =
     (if \<not> hostAllowed e (normalizeHostname (Hostname u)) then Inl ErrDomainNotAllowed
      else (case effectivePort u of
        Inl err \<Rightarrow> Inl err
      | Inr port \<Rightarrow>
          if ex_allowedPorts e \<noteq> [] \<and> port \<notin> set (ex_allowedPorts e) then Inl ErrDomainNotAllowed else Inr ()))"

subsection \<open>Configuration\<close>

record Config =
  cf_AllowedDomains :: "string list"
  cf_AllowedMethods :: "string list"
  cf_AllowedPorts :: "int list"
  cf_AllowedCIDRs :: "string list"
  cf_Timeout :: int
  cf_MaxRequestBytes :: int
  cf_MaxResponseBytes :: int
  cf_MaxResponseHeaderBytes :: int
  cf_MaxRedirects :: int
  cf_DisableRedirects :: bool
  cf_UserAgent :: string

definition DefaultTimeout :: int where
  "DefaultTimeout = seconds 30"

definition DefaultMaxRequestBytes :: int where
  "DefaultMaxRequestBytes = 1048576"

definition DefaultMaxResponseBytes :: int where
  "DefaultMaxResponseBytes = 4194304"

definition DefaultMaxHeaderBytes :: int where
  "DefaultMaxHeaderBytes = 65536"

definition DefaultMaxRedirects :: int where
  "DefaultMaxRedirects = 5"

definition maxConfiguredBytes :: int where
  "maxConfiguredBytes = 1073741824"

definition configuredLimit :: "int \<Rightarrow> int \<Rightarrow> http_err + int" where
  "configuredLimit value defaultValue =
     (if value = 0 then Inr defaultValue
      else if value < 1 \<or> value > maxConfiguredBytes then Inl (HttpError ''HTTP size limit must be between 1 byte and 1 GiB'')
      else Inr value)"

text \<open>The rules in order, each text form once.\<close>

fun domain_rules :: "string list \<Rightarrow> domainRule list \<Rightarrow> http_err + domainRule list" where
  "domain_rules [] seen = Inr seen"
| "domain_rules (v # vs) seen = (case parseDomainRule v of
     Inl e \<Rightarrow> Inl e
   | Inr r \<Rightarrow> domain_rules vs (if rule_String r \<in> set (map rule_String seen) then seen else seen @ [r]))"

definition result_bind :: "'e + 'a \<Rightarrow> ('a \<Rightarrow> 'e + 'b) \<Rightarrow> 'e + 'b" where
  "result_bind r f = (case r of Inl e \<Rightarrow> Inl e | Inr x \<Rightarrow> f x)"

definition ensure :: "bool \<Rightarrow> 'e \<Rightarrow> 'e + unit" where
  "ensure ok e = (if ok then Inr () else Inl e)"

definition http_New :: "Config \<Rightarrow> (string \<Rightarrow> string option) list \<Rightarrow> http_err + Executor" where
  "http_New config secretResolvers =
     result_bind (ensure (length secretResolvers \<le> 1) (HttpError ''at most one HTTP secret resolver may be configured'')) (\<lambda>_.
     result_bind (ensure (cf_AllowedDomains config \<noteq> []) (HttpError ''at least one HTTP destination domain is required'')) (\<lambda>_.
     result_bind (domain_rules (cf_AllowedDomains config) []) (\<lambda>domains.
     let methods = map (ToUpper \<circ> TrimSpace) (if cf_AllowedMethods config = [] then [''GET'', ''HEAD''] else cf_AllowedMethods config) in
     result_bind (ensure (list_all validToken methods) (HttpError ''invalid allowed HTTP method'')) (\<lambda>_.
     result_bind (ensure (list_all (\<lambda>p. 1 \<le> p \<and> p \<le> 65535) (cf_AllowedPorts config)) (HttpError ''invalid allowed HTTP port'')) (\<lambda>_.
     result_bind (parseAllowedCIDRs (cf_AllowedCIDRs config)) (\<lambda>cidrs.
     let timeout = (if cf_Timeout config = 0 then DefaultTimeout else cf_Timeout config) in
     result_bind (ensure (1000000 \<le> timeout \<and> timeout \<le> seconds 86400)
       (HttpError ''HTTP timeout must be between 1 millisecond and 24 hours'')) (\<lambda>_.
     result_bind (configuredLimit (cf_MaxRequestBytes config) DefaultMaxRequestBytes) (\<lambda>maxRequest.
     result_bind (configuredLimit (cf_MaxResponseBytes config) DefaultMaxResponseBytes) (\<lambda>maxResponse.
     result_bind (configuredLimit (cf_MaxResponseHeaderBytes config) DefaultMaxHeaderBytes) (\<lambda>maxHeaders.
     let maxRedirects = (if cf_MaxRedirects config = 0 then DefaultMaxRedirects else cf_MaxRedirects config) in
     result_bind (ensure (0 \<le> maxRedirects \<and> maxRedirects \<le> 20) (HttpError ''max redirects must be between 0 and 20'')) (\<lambda>_.
     result_bind (ensure (cf_UserAgent config = [] \<or> validHeaderValue (cf_UserAgent config) \<and> length (cf_UserAgent config) \<le> 256)
       (HttpError ''invalid HTTP user agent'')) (\<lambda>_.
     Inr \<lparr>ex_allowedDomains = domains, ex_allowedMethods = methods, ex_allowedPorts = cf_AllowedPorts config,
       ex_allowedCIDRs = cidrs, ex_timeout = timeout, ex_maxRequest = maxRequest, ex_maxResponse = maxResponse,
       ex_maxHeaders = maxHeaders, ex_maxRedirects = maxRedirects, ex_disableRedirects = cf_DisableRedirects config,
       ex_secretResolver = (case secretResolvers of [] \<Rightarrow> None | f # _ \<Rightarrow> Some f),
       ex_userAgent = cf_UserAgent config\<rparr>))))))))))))"

end
