(* ===== verification/Http_Input.thy ===== *)
theory Http_Input
  imports Http_Request "HOL-Library.AList"
begin

text \<open>
  The input of the HTTP tool: its strict JSON contract, base64 bodies, \<open>ParseAndValidate\<close> and the assessment.
  SHA-256 is an argument.
\<close>

record SecretReference =
  sr_Reference :: string
  sr_Header :: string
  sr_Prefix :: string

record Input =
  ip_Method :: string
  ip_URL :: string
  ip_Headers :: "(string \<times> string) list"
  ip_Body :: string
  ip_BodyBase64 :: string
  ip_SecretHeaders :: "SecretReference list"
  ip_TimeoutSeconds :: int
  ip_DryRun :: bool

definition no_reference :: SecretReference where
  "no_reference = \<lparr>sr_Reference = [], sr_Header = [], sr_Prefix = []\<rparr>"

definition no_input :: Input where
  "no_input = \<lparr>ip_Method = [], ip_URL = [], ip_Headers = [], ip_Body = [], ip_BodyBase64 = [], ip_SecretHeaders = [],
     ip_TimeoutSeconds = 0, ip_DryRun = False\<rparr>"

subsection \<open>Decoding\<close>

text \<open>
  \<open>Decode\<close> with \<open>DisallowUnknownFields\<close>: any unknown name and any value of a wrong type is an error; \<open>null\<close>
  leaves a text, number or boolean alone and empties a map or list.
\<close>

definition text_value :: "json \<Rightarrow> string \<Rightarrow> string option" where
  "text_value v old = (case v of JStr s \<Rightarrow> Some s | JNull \<Rightarrow> Some old | _ \<Rightarrow> None)"

fun decode_reference :: "(string \<times> json) list \<Rightarrow> SecretReference \<Rightarrow> SecretReference option" where
  "decode_reference [] r = Some r"
| "decode_reference ((k, v) # kvs) r =
     (if same_key ''reference'' k
      then Option.bind (text_value v (sr_Reference r)) (\<lambda>s. decode_reference kvs (r\<lparr>sr_Reference := s\<rparr>))
      else if same_key ''header'' k
      then Option.bind (text_value v (sr_Header r)) (\<lambda>s. decode_reference kvs (r\<lparr>sr_Header := s\<rparr>))
      else if same_key ''prefix'' k
      then Option.bind (text_value v (sr_Prefix r)) (\<lambda>s. decode_reference kvs (r\<lparr>sr_Prefix := s\<rparr>))
      else None)"

text \<open>A list is decoded over the elements that are already there.\<close>

fun decode_references :: "json list \<Rightarrow> SecretReference list \<Rightarrow> SecretReference list option" where
  "decode_references [] old = Some []"
| "decode_references (v # vs) old =
     (let r0 = (case old of [] \<Rightarrow> no_reference | r # _ \<Rightarrow> r) in
      case (case v of JObj kvs \<Rightarrow> decode_reference kvs r0 | JNull \<Rightarrow> Some r0 | _ \<Rightarrow> None) of
        None \<Rightarrow> None
      | Some r \<Rightarrow> map_option ((#) r) (decode_references vs (tl old)))"

fun decode_headers :: "(string \<times> json) list \<Rightarrow> (string \<times> string) list \<Rightarrow> (string \<times> string) list option" where
  "decode_headers [] hs = Some hs"
| "decode_headers ((k, v) # kvs) hs = Option.bind (text_value v []) (\<lambda>s. decode_headers kvs (AList.update k s hs))"

definition decode_member :: "string \<Rightarrow> json \<Rightarrow> Input \<Rightarrow> Input option" where
  "decode_member k v i =
     (if same_key ''method'' k then map_option (\<lambda>s. i\<lparr>ip_Method := s\<rparr>) (text_value v (ip_Method i))
      else if same_key ''url'' k then map_option (\<lambda>s. i\<lparr>ip_URL := s\<rparr>) (text_value v (ip_URL i))
      else if same_key ''headers'' k then
        (case v of JNull \<Rightarrow> Some (i\<lparr>ip_Headers := []\<rparr>)
         | JObj kvs \<Rightarrow> map_option (\<lambda>hs. i\<lparr>ip_Headers := hs\<rparr>) (decode_headers kvs (ip_Headers i)) | _ \<Rightarrow> None)
      else if same_key ''body'' k then map_option (\<lambda>s. i\<lparr>ip_Body := s\<rparr>) (text_value v (ip_Body i))
      else if same_key ''body_base64'' k then map_option (\<lambda>s. i\<lparr>ip_BodyBase64 := s\<rparr>) (text_value v (ip_BodyBase64 i))
      else if same_key ''secret_headers'' k then
        (case v of JNull \<Rightarrow> Some (i\<lparr>ip_SecretHeaders := []\<rparr>)
         | JArr vs \<Rightarrow> map_option (\<lambda>rs. i\<lparr>ip_SecretHeaders := rs\<rparr>) (decode_references vs (ip_SecretHeaders i)) | _ \<Rightarrow> None)
      else if same_key ''timeout_seconds'' k then
        (case v of JNull \<Rightarrow> Some i
         | JLit t \<Rightarrow> map_option (\<lambda>n. i\<lparr>ip_TimeoutSeconds := n\<rparr>) (ParseInt t) | _ \<Rightarrow> None)
      else if same_key ''dry_run'' k then
        (case v of JNull \<Rightarrow> Some i | JBool b \<Rightarrow> Some (i\<lparr>ip_DryRun := b\<rparr>) | _ \<Rightarrow> None)
      else None)"

fun decode_input :: "(string \<times> json) list \<Rightarrow> Input \<Rightarrow> Input option" where
  "decode_input [] i = Some i"
| "decode_input ((k, v) # kvs) i = Option.bind (decode_member k v i) (decode_input kvs)"

subsection \<open>Base64\<close>

definition base64_value :: "char \<Rightarrow> nat option" where
  "base64_value c = (let b = byte c in
     if 65 \<le> b \<and> b \<le> 90 then Some (b - 65)
     else if 97 \<le> b \<and> b \<le> 122 then Some (b - 71)
     else if 48 \<le> b \<and> b \<le> 57 then Some (b + 4)
     else if c = CHR ''+'' then Some 62 else if c = CHR ''/'' then Some 63 else None)"

text \<open>
  \<open>StdEncoding.Strict\<close>: groups of four with padding at the end only, and no stray bits before it.
\<close>

fun base64_groups :: "string \<Rightarrow> string option" where
  "base64_groups [] = Some []"
| "base64_groups (a # b # c # d # rest) =
     (case (base64_value a, base64_value b) of
        (Some w, Some x) \<Rightarrow>
          if c = CHR ''='' then
            (if d = CHR ''='' \<and> rest = [] \<and> x mod 16 = 0 then Some [char_of (w * 4 + x div 16)] else None)
          else (case base64_value c of
            None \<Rightarrow> None
          | Some y \<Rightarrow>
              if d = CHR ''='' then
                (if rest = [] \<and> y mod 4 = 0
                 then Some [char_of (w * 4 + x div 16), char_of (x mod 16 * 16 + y div 4)] else None)
              else (case base64_value d of
                None \<Rightarrow> None
              | Some z \<Rightarrow> map_option (\<lambda>bs. [char_of (w * 4 + x div 16), char_of (x mod 16 * 16 + y div 4),
                  char_of (y mod 4 * 64 + z)] @ bs) (base64_groups rest)))
      | _ \<Rightarrow> None)"
| "base64_groups _ = None"

definition DecodeString :: "string \<Rightarrow> string option" where
  "DecodeString s = base64_groups (filter (\<lambda>c. byte c \<noteq> 10 \<and> byte c \<noteq> 13) s)"

definition base64_char :: "nat \<Rightarrow> char" where
  "base64_char n = char_of (if n < 26 then n + 65 else if n < 52 then n + 71 else if n < 62 then n - 4 else if n = 62 then 43 else 47)"

fun EncodeToString :: "string \<Rightarrow> string" where
  "EncodeToString (a # b # c # rest) =
     map base64_char [byte a div 4, byte a mod 4 * 16 + byte b div 16, byte b mod 16 * 4 + byte c div 64, byte c mod 64] @
     EncodeToString rest"
| "EncodeToString [a, b] = map base64_char [byte a div 4, byte a mod 4 * 16 + byte b div 16, byte b mod 16 * 4] @ ''=''"
| "EncodeToString [a] = map base64_char [byte a div 4, byte a mod 4 * 16] @ ''==''"
| "EncodeToString [] = []"

definition bodyBytes :: "Input \<Rightarrow> http_err + string" where
  "bodyBytes i = (if ip_BodyBase64 i = [] then Inr (ip_Body i)
     else (case DecodeString (ip_BodyBase64 i) of
       None \<Rightarrow> Inl (HttpError ''body_base64 is not valid canonical base64'') | Some b \<Rightarrow> Inr b))"

subsection \<open>Validation\<close>

definition maxHeaderCount :: nat where
  "maxHeaderCount = 128"

definition maxSecretReferences :: nat where
  "maxSecretReferences = 16"

definition headers_size :: "(string \<times> string) list \<Rightarrow> int" where
  "headers_size hs = sum_list (map (\<lambda>(n, v). int (length n + length v + 4)) hs)"

definition checkRequestSize :: "Executor \<Rightarrow> url_lib \<Rightarrow> string \<Rightarrow> URL \<Rightarrow> (string \<times> string) list \<Rightarrow> string \<Rightarrow>
    (string \<times> string) list \<Rightarrow> http_err + unit" where
  "checkRequestSize e lib method_name u headers body secrets =
     ensure (int (length method_name + length (ul_String lib u) + length body) + headers_size headers + headers_size secrets
       \<le> ex_maxRequest e) ErrRequestTooLarge"

text \<open>The two loops: header names become canonical and unique.\<close>

fun caller_headers :: "(string \<times> string) list \<Rightarrow> (string \<times> string) list \<Rightarrow> http_err + (string \<times> string) list" where
  "caller_headers [] acc = Inr acc"
| "caller_headers ((n, v) # hs) acc = (case validateCallerHeader n v of
     Inl e \<Rightarrow> Inl e
   | Inr canonical \<Rightarrow>
       if canonical \<in> set (map fst acc) then Inl (HttpError ''duplicate HTTP header'')
       else caller_headers hs (acc @ [(canonical, v)]))"

fun secret_headers :: "string list \<Rightarrow> SecretReference list \<Rightarrow> SecretReference list \<Rightarrow> http_err + SecretReference list" where
  "secret_headers names [] acc = Inr acc"
| "secret_headers names (s # ss) acc =
     (let reference = TrimSpace (sr_Reference s) in
      if \<not> validSecretReference reference then Inl (HttpError ''invalid secret reference'')
      else (case validateSecretHeader (sr_Header s) (sr_Prefix s) of
        Inl e \<Rightarrow> Inl e
      | Inr canonical \<Rightarrow>
          if canonical \<in> set names then Inl (HttpError ''header cannot be both plaintext and secret-backed'')
          else if ToLower canonical \<in> set (map (ToLower \<circ> sr_Header) acc) then Inl (HttpError ''duplicate secret-backed HTTP header'')
          else secret_headers names ss (acc @ [s\<lparr>sr_Reference := reference, sr_Header := canonical\<rparr>])))"

definition valid_timeout :: "Executor \<Rightarrow> int \<Rightarrow> http_err + unit" where
  "valid_timeout e n =
     (if n < 0 then Inl (HttpError ''timeout_seconds cannot be negative'')
      else ensure (n = 0 \<or> n \<le> 86400 \<and> seconds n \<le> ex_timeout e)
        (HttpError ''timeout_seconds cannot exceed the configured timeout''))"

definition Classify :: "Input \<Rightarrow> Risk" where
  "Classify i = (if ip_SecretHeaders i \<noteq> [] then RiskSecretAccess else RiskExternalCommunication)"

definition ParseAndValidate :: "Executor \<Rightarrow> url_lib \<Rightarrow> string \<Rightarrow> http_err + Input \<times> Risk" where
  "ParseAndValidate e lib raw =
     (if int (length raw) > ex_maxRequest e * 2 + DefaultMaxHeaderBytes + maxURLBytes then Inl ErrRequestTooLarge else
      case Option.bind (object_members raw) (\<lambda>kvs. decode_input kvs no_input) of
        None \<Rightarrow> Inl (HttpError ''decode HTTP input'')
      | Some i \<Rightarrow>
      let method_name = ToUpper (TrimSpace (ip_Method i)) in
      case validateMethod e method_name of Inl err \<Rightarrow> Inl err | Inr _ \<Rightarrow>
      case parseRequestURL lib (ip_URL i) of Inl err \<Rightarrow> Inl err | Inr parsedURL \<Rightarrow>
      case validateURL e parsedURL of Inl err \<Rightarrow> Inl err | Inr _ \<Rightarrow>
      if ip_Body i \<noteq> [] \<and> ip_BodyBase64 i \<noteq> [] then Inl (HttpError ''body and body_base64 are mutually exclusive'') else
      case bodyBytes i of Inl err \<Rightarrow> Inl err | Inr body \<Rightarrow>
      if length (ip_Headers i) > maxHeaderCount then Inl (HttpError ''too many HTTP request headers'') else
      case caller_headers (ip_Headers i) [] of Inl err \<Rightarrow> Inl err | Inr headers \<Rightarrow>
      if length (ip_SecretHeaders i) > maxSecretReferences then Inl (HttpError ''too many HTTP secret references'') else
      case secret_headers (map fst headers) (ip_SecretHeaders i) [] of Inl err \<Rightarrow> Inl err | Inr secrets \<Rightarrow>
      case valid_timeout e (ip_TimeoutSeconds i) of Inl err \<Rightarrow> Inl err | Inr _ \<Rightarrow>
      case checkRequestSize e lib method_name parsedURL headers body [] of Inl err \<Rightarrow> Inl err | Inr _ \<Rightarrow>
      let input = i\<lparr>ip_Method := method_name, ip_URL := ul_String lib parsedURL, ip_Headers := headers, ip_SecretHeaders := secrets\<rparr> in
      Inr (input, Classify input))"

subsection \<open>Assessment\<close>

definition redacted :: string where
  "redacted = ''[REDACTED]''"

definition auditURLString :: "url_lib \<Rightarrow> string \<Rightarrow> string" where
  "auditURLString lib value = (case ul_Parse lib value of
     None \<Rightarrow> ''[INVALID URL]''
   | Some parsed \<Rightarrow> (case ParseQuery (u_RawQuery parsed) of
       None \<Rightarrow> ul_String lib (parsed\<lparr>u_RawQuery := redacted, u_Fragment := []\<rparr>)
     | Some qs \<Rightarrow>
         (let clean = parsed\<lparr>u_RawQuery := query_Encode (map (\<lambda>(k, _). (k, redacted)) qs), u_Fragment := []\<rparr>;
              first = ul_String lib clean; second = ul_String lib (clean\<lparr>u_RawQuery := redacted\<rparr>) in
          if int (length first) \<le> maxURLBytes then first
          else if int (length second) \<le> maxURLBytes then second
          else ''[REDACTED URL]'')))"

record Assessment =
  as_Method :: string
  as_URL :: string
  as_Risk :: Risk
  as_ApprovalRequired :: bool
  as_RequiredScopes :: "string list"
  as_SecretReferences :: "string list"
  as_RequestBodyBytes :: int
  as_RequestBodySHA256 :: string

definition assessment :: "url_lib \<Rightarrow> (string \<Rightarrow> string) \<Rightarrow> Input \<Rightarrow> string \<Rightarrow> Risk \<Rightarrow> Assessment" where
  "assessment lib digest i body risk =
     (let refs = map sr_Reference (ip_SecretHeaders i) in
      \<lparr>as_Method = ip_Method i, as_URL = auditURLString lib (ip_URL i), as_Risk = risk, as_ApprovalRequired = True,
       as_RequiredScopes = ''tool.http.request'' # (if refs = [] then [] else [''secret.resolve'']),
       as_SecretReferences = refs, as_RequestBodyBytes = int (length body), as_RequestBodySHA256 = digest body\<rparr>)"

definition Assess :: "Executor \<Rightarrow> url_lib \<Rightarrow> (string \<Rightarrow> string) \<Rightarrow> string \<Rightarrow> http_err + Assessment" where
  "Assess e lib digest raw =
     (case ParseAndValidate e lib raw of Inl err \<Rightarrow> Inl err | Inr (i, risk) \<Rightarrow>
      case bodyBytes i of Inl err \<Rightarrow> Inl err | Inr body \<Rightarrow> Inr (assessment lib digest i body risk))"

end
