(* ===== verification/Http_Tool.thy ===== *)
theory Http_Tool
  imports Http_Input
begin

text \<open>
  \<open>tools/http/http.go\<close> and the transport of \<open>security.go\<close>: what \<open>Execute\<close> sends, where to, and what it hands back.
  The loop over redirects is the one of \<open>net/http.Client\<close>, as its documentation describes it: every
  request of the chain starts from the headers of the first request, without \<open>Authorization\<close>, \<open>Cookie\<close>
  and the like once the chain has left the domain of the first request, and is passed to \<open>CheckRedirect\<close> before it is sent.
  The network is an argument: what the resolver answers, which connections succeed and what comes back,
  each of them for the hop it happens in, so answers may change between hops.
\<close>

record http_Request =
  rq_Method :: string
  rq_URL :: URL
  rq_Header :: "(string \<times> string) list"
  rq_Body :: string

record Response =
  rp_StatusCode :: int
  rp_Status :: string
  rp_Header :: "(string \<times> string list) list"
  rp_ContentLength :: int
  rp_Body :: "string \<times> http_err option"

record Hop =
  hp_Method :: string
  hp_URL :: string
  hp_ResolvedIPs :: "string list"
  hp_ConnectedIP :: string
  hp_StatusCode :: int
  hp_ErrorCode :: string

record network =
  nw_lookup :: "nat \<Rightarrow> resolver"
  nw_dial :: "nat \<Rightarrow> string \<Rightarrow> bool"
  nw_answer :: "nat \<Rightarrow> http_Request \<Rightarrow> http_err + Response"

subsection \<open>Redaction and errors\<close>

type_synonym secretRedactor = "string list"

definition redactor_sort :: "secretRedactor \<Rightarrow> secretRedactor" where
  "redactor_sort values = sort_key_desc length values"

definition RedactBytes :: "secretRedactor \<Rightarrow> string \<Rightarrow> string" where
  "RedactBytes r value = fold (\<lambda>secret s. if secret \<noteq> [] then ReplaceAll s secret redacted else s) r value"

definition ContainsString :: "secretRedactor \<Rightarrow> string \<Rightarrow> bool" where
  "ContainsString r value \<longleftrightarrow> list_ex (\<lambda>secret. secret \<noteq> [] \<and> Contains value secret) r"

definition errorCode :: "http_err option \<Rightarrow> string" where
  "errorCode err = (case err of
     None \<Rightarrow> []
   | Some DeadlineExceeded \<Rightarrow> ''TIMEOUT''
   | Some Canceled \<Rightarrow> ''CANCELLED''
   | Some ErrDomainNotAllowed \<Rightarrow> ''DOMAIN_NOT_ALLOWED''
   | Some ErrMethodNotAllowed \<Rightarrow> ''METHOD_NOT_ALLOWED''
   | Some ErrUnsafeAddress \<Rightarrow> ''UNSAFE_ADDRESS''
   | Some ErrRequestTooLarge \<Rightarrow> ''REQUEST_TOO_LARGE''
   | Some ErrPlaintextSecret \<Rightarrow> ''PLAINTEXT_SECRET''
   | Some ErrSecretResolverRequired \<Rightarrow> ''SECRET_RESOLVER_REQUIRED''
   | Some ErrSecretResolution \<Rightarrow> ''SECRET_RESOLUTION_FAILED''
   | Some ErrTooManyRedirects \<Rightarrow> ''REDIRECT_LIMIT''
   | Some ErrRedirectDowngrade \<Rightarrow> ''REDIRECT_DOWNGRADE''
   | Some _ \<Rightarrow> ''REQUEST_FAILED'')"

text \<open>The state of a context: none, or the error it ended with.\<close>

definition sanitizeExecutionError :: "http_err \<Rightarrow> http_err option \<Rightarrow> http_err option \<Rightarrow> http_err" where
  "sanitizeExecutionError err requestCtx parentCtx =
     (if parentCtx = Some Canceled then Canceled
      else if requestCtx = Some DeadlineExceeded then DeadlineExceeded
      else if requestCtx = Some Canceled then Canceled
      else if err \<in> set [ErrDomainNotAllowed, ErrMethodNotAllowed, ErrUnsafeAddress, ErrRequestTooLarge, ErrPlaintextSecret,
        ErrTooManyRedirects, ErrRedirectDowngrade] then err
      else ErrRequestFailed)"

text \<open>The first \<open>n\<close> bytes.\<close>

definition first_bytes :: "int \<Rightarrow> string \<Rightarrow> string" where
  "first_bytes n s = (if int (length s) \<le> n then s else take (nat n) s)"

definition readBounded :: "string \<times> http_err option \<Rightarrow> int \<Rightarrow> string \<times> bool \<times> http_err option" where
  "readBounded reader limit = (case reader of (content, err) \<Rightarrow>
     let value = first_bytes (limit + 1) content; readErr = (if int (length content) > limit then None else err) in
     if int (length value) > limit then (first_bytes limit value, True, readErr) else (value, False, readErr))"

subsection \<open>The transport\<close>

definition dial_candidates :: "string \<Rightarrow> Addr list \<Rightarrow> Addr list" where
  "dial_candidates net addresses = filter (\<lambda>a. \<not> (net = ''tcp4'' \<and> \<not> Is4 a) \<and> \<not> (net = ''tcp6'' \<and> \<not> Is6 a)) addresses"

definition concrete :: "Addr \<Rightarrow> int \<Rightarrow> string" where
  "concrete a port = JoinHostPort (addr_String a) (Itoa port)"

text \<open>The addresses that are dialled in turn, up to the first that answers, and that one.\<close>

fun dial :: "(string \<Rightarrow> bool) \<Rightarrow> int \<Rightarrow> Addr list \<Rightarrow> Addr list \<times> Addr option" where
  "dial connects port [] = ([], None)"
| "dial connects port (a # as) = (if connects (concrete a port) then ([a], Some a)
     else (case dial connects port as of (tried, r) \<Rightarrow> (a # tried, r)))"

text \<open>
  \<open>RoundTrip\<close>: the outcome, the request with its scheme in lower case, the hop for the audit and the
  addresses that were dialled.
\<close>

record trip =
  tr_Result :: "http_err + Response"
  tr_Request :: http_Request
  tr_Hop :: Hop
  tr_Dialled :: "(Addr \<times> int) list"

definition refused :: "http_Request \<Rightarrow> Hop \<Rightarrow> http_err \<Rightarrow> trip" where
  "refused req hop err = \<lparr>tr_Result = Inl err, tr_Request = req, tr_Hop = hop\<lparr>hp_ErrorCode := errorCode (Some err)\<rparr>, tr_Dialled = []\<rparr>"

definition connect :: "network \<Rightarrow> nat \<Rightarrow> http_Request \<Rightarrow> Hop \<Rightarrow> Addr list \<Rightarrow> int \<Rightarrow> trip" where
  "connect nw i req hop addresses port =
     (case dial (nw_dial nw i) port (dial_candidates ''tcp'' addresses) of (tried, connected) \<Rightarrow>
      let dialled = map (\<lambda>a. (a, port)) tried in
      case connected of
        None \<Rightarrow> (refused req hop (HttpError ''dial''))\<lparr>tr_Dialled := dialled\<rparr>
      | Some a \<Rightarrow>
          (let hop' = hop\<lparr>hp_ConnectedIP := addr_String a\<rparr> in
           case nw_answer nw i req of
             Inl err \<Rightarrow> (refused req hop' err)\<lparr>tr_Dialled := dialled\<rparr>
           | Inr response \<Rightarrow> \<lparr>tr_Result = Inr response, tr_Request = req,
               tr_Hop = hop'\<lparr>hp_StatusCode := rp_StatusCode response\<rparr>, tr_Dialled = dialled\<rparr>))"

definition RoundTrip :: "Executor \<Rightarrow> url_lib \<Rightarrow> network \<Rightarrow> secretRedactor \<Rightarrow> nat \<Rightarrow> http_Request \<Rightarrow> trip" where
  "RoundTrip e lib nw redactor i request =
     (let hop = \<lparr>hp_Method = rq_Method request,
            hp_URL = RedactBytes redactor (auditURLString lib (ul_String lib (rq_URL request))),
            hp_ResolvedIPs = [], hp_ConnectedIP = [], hp_StatusCode = 0, hp_ErrorCode = []\<rparr> in
      case validateMethod e (rq_Method request) of Inl err \<Rightarrow> refused request hop err | Inr _ \<Rightarrow>
      case validateURLStructure (rq_URL request) of Inl err \<Rightarrow> refused request hop err | Inr u \<Rightarrow>
      let req = request\<lparr>rq_URL := u\<rparr> in
      case validateURL e u of Inl err \<Rightarrow> refused req hop err | Inr _ \<Rightarrow>
      case resolveAndValidate e (nw_lookup nw i) (Hostname u) of Inl err \<Rightarrow> refused req hop err | Inr addresses \<Rightarrow>
      let hop' = hop\<lparr>hp_ResolvedIPs := map addr_String addresses\<rparr> in
      case effectivePort u of Inl err \<Rightarrow> refused req hop' err | Inr port \<Rightarrow>
      connect nw i req hop' addresses port)"

subsection \<open>Redirects\<close>

definition sameOrigin :: "URL \<Rightarrow> URL \<Rightarrow> bool" where
  "sameOrigin a b \<longleftrightarrow> (case (effectivePort a, effectivePort b) of
     (Inr p, Inr q) \<Rightarrow> EqualFold (u_Scheme a) (u_Scheme b) \<and>
       normalizeHostname (Hostname a) = normalizeHostname (Hostname b) \<and> p = q
   | _ \<Rightarrow> False)"

definition redirectPolicy :: "Executor \<Rightarrow> string list \<Rightarrow> http_Request \<Rightarrow> http_Request list \<Rightarrow> http_err + http_Request" where
  "redirectPolicy e secretHeaders request via =
     (if ex_disableRedirects e then Inl ErrTooManyRedirects
      else if int (length via) > ex_maxRedirects e then Inl ErrTooManyRedirects
      else
        case validateMethod e (rq_Method request) of Inl err \<Rightarrow> Inl err | Inr _ \<Rightarrow>
        case validateURLStructure (rq_URL request) of Inl err \<Rightarrow> Inl err | Inr u \<Rightarrow>
        case validateURL e u of Inl err \<Rightarrow> Inl err | Inr _ \<Rightarrow>
        let req = request\<lparr>rq_URL := u\<rparr> in
        if via = [] then Inr (req\<lparr>rq_Header := AList.delete ''Referer'' (rq_Header req)\<rparr>)
        else
          (let previous = rq_URL (last via) in
           if EqualFold (u_Scheme previous) ''https'' \<and> EqualFold (u_Scheme u) ''http'' then Inl ErrRedirectDowngrade
           else
             (let headers = (if sameOrigin previous u then rq_Header req else fold AList.delete secretHeaders (rq_Header req)) in
              Inr (req\<lparr>rq_Header := AList.delete ''Referer'' headers\<rparr>))))"

text \<open>\<open>net/http\<close>: which headers follow a redirect, and what the next request looks like.\<close>

definition sensitive_headers :: "string list" where
  "sensitive_headers = [''Authorization'', ''Www-Authenticate'', ''Cookie'', ''Cookie2'', ''Proxy-Authorization'', ''Proxy-Authenticate'']"

definition body_headers :: "string list" where
  "body_headers = [''Content-Encoding'', ''Content-Language'', ''Content-Location'', ''Content-Type'']"

definition isDomainOrSubdomain :: "string \<Rightarrow> string \<Rightarrow> bool" where
  "isDomainOrSubdomain sub parent \<longleftrightarrow> sub = parent \<or>
     (CHR '':'' \<notin> set sub \<and> CHR ''%'' \<notin> set sub \<and> HasSuffix sub (CHR ''.'' # parent))"

datatype next_request = Answer | BadLocation | Follow http_Request bool

definition location :: "Response \<Rightarrow> string" where
  "location response = (case map_of (rp_Header response) ''Location'' of Some (v # _) \<Rightarrow> v | _ \<Rightarrow> [])"

definition redirect_request :: "url_lib \<Rightarrow> http_Request \<Rightarrow> bool \<Rightarrow> http_Request \<Rightarrow> Response \<Rightarrow> next_request" where
  "redirect_request lib initial strip req response =
     (let code = rp_StatusCode response; keep = code = 307 \<or> code = 308 in
      if code \<notin> {301, 302, 303, 307, 308} \<or> location response = [] then Answer
      else (case ul_Reference lib (rq_URL req) (location response) of
        None \<Rightarrow> BadLocation
      | Some u \<Rightarrow>
          (let strip' = (strip \<or> u_Host (rq_URL initial) \<noteq> u_Host u \<and> \<not> isDomainOrSubdomain (Hostname u) (Hostname (rq_URL initial)));
               names = (if strip' then sensitive_headers else []) @ (if keep then [] else body_headers) in
           Follow \<lparr>rq_Method = (if keep \<or> rq_Method req = ''GET'' \<or> rq_Method req = ''HEAD'' then rq_Method req else ''GET''),
               rq_URL = u, rq_Header = fold AList.delete names (rq_Header initial),
               rq_Body = (if keep then rq_Body initial else [])\<rparr> strip')))"

subsection \<open>The chain of requests\<close>

lemma redirectPolicy_bound: "redirectPolicy e secrets req via = Inr req' \<Longrightarrow> int (length via) \<le> ex_maxRedirects e"
  by (auto simp: redirectPolicy_def split: if_splits)

text \<open>
  \<open>Client.Do\<close>: \<open>via\<close> are the requests sent before, oldest first.  The result is the final outcome and the trips made.
\<close>

function client_do :: "Executor \<Rightarrow> url_lib \<Rightarrow> network \<Rightarrow> secretRedactor \<Rightarrow> string list \<Rightarrow> http_Request \<Rightarrow>
    http_Request list \<Rightarrow> bool \<Rightarrow> http_Request \<Rightarrow> (http_err + Response) \<times> trip list" where
  "client_do e lib nw redactor secrets initial via strip req =
     (let t = RoundTrip e lib nw redactor (length via) req in
      case tr_Result t of
        Inl err \<Rightarrow> (Inl err, [t])
      | Inr response \<Rightarrow>
          (case redirect_request lib initial strip (tr_Request t) response of
             Answer \<Rightarrow> (Inr response, [t])
           | BadLocation \<Rightarrow> (Inl (HttpError ''Location''), [t])
           | Follow req1 strip' \<Rightarrow>
               (case redirectPolicy e secrets req1 (via @ [tr_Request t]) of
                  Inl err \<Rightarrow> (Inl err, [t])
                | Inr req2 \<Rightarrow>
                    (case client_do e lib nw redactor secrets initial (via @ [tr_Request t]) strip' req2 of
                       (outcome, trips) \<Rightarrow> (outcome, t # trips)))))"
  by pat_completeness auto

termination
  by (relation "measure (\<lambda>(e, _, _, _, _, _, via, _, _). nat (ex_maxRedirects e) + 1 - length via)")
    (auto dest!: redirectPolicy_bound)

declare client_do.simps [simp del]

subsection \<open>Secrets\<close>

definition maxSecretBytes :: int where
  "maxSecretBytes = 16384"

fun resolve_secrets :: "(string \<Rightarrow> string option) \<Rightarrow> SecretReference list \<Rightarrow> http_err + (string \<times> string) list \<times> secretRedactor" where
  "resolve_secrets f [] = Inr ([], [])"
| "resolve_secrets f (r # rs) = (case f (sr_Reference r) of
     None \<Rightarrow> Inl ErrSecretResolution
   | Some value \<Rightarrow>
       if value = [] \<or> int (length value) > maxSecretBytes \<or> \<not> validHeaderValue value then Inl ErrSecretResolution
       else (case resolve_secrets f rs of
         Inl e \<Rightarrow> Inl e
       | Inr (values, redactor) \<Rightarrow>
           Inr ((sr_Header r, sr_Prefix r @ value) # values, value # (sr_Prefix r @ value) # redactor)))"

definition resolveSecretHeaders :: "Executor \<Rightarrow> SecretReference list \<Rightarrow> http_err + (string \<times> string) list \<times> secretRedactor" where
  "resolveSecretHeaders e references =
     (if references = [] then Inr ([], [])
      else (case ex_secretResolver e of
        None \<Rightarrow> Inl ErrSecretResolverRequired
      | Some f \<Rightarrow> (case resolve_secrets f references of
          Inl err \<Rightarrow> Inl err | Inr (values, redactor) \<Rightarrow> Inr (values, redactor_sort redactor))))"

definition clean_value :: "url_lib \<Rightarrow> secretRedactor \<Rightarrow> string \<Rightarrow> string \<Rightarrow> string" where
  "clean_value lib redactor canonical value =
     (if ContainsString redactor value then redacted
      else if EqualFold canonical ''Location'' then auditURLString lib value
      else RedactBytes redactor value)"

definition sanitizeResponseHeaders :: "url_lib \<Rightarrow> (string \<times> string list) list \<Rightarrow> secretRedactor \<Rightarrow>
    (string \<times> string list) list \<times> string list" where
  "sanitizeResponseHeaders lib headers redactor =
     (map (\<lambda>(name, values). let canonical = CanonicalHeaderKey name in
        (canonical, if sensitiveHeader canonical then [redacted] else map (clean_value lib redactor canonical) values)) headers,
      sort (filter sensitiveHeader (map (CanonicalHeaderKey \<circ> fst) headers)))"

subsection \<open>Execution\<close>

record Output =
  op_Assessment :: Assessment
  op_StatusCode :: int
  op_Status :: string
  op_Headers :: "(string \<times> string list) list"
  op_RedactedResponseHeaders :: "string list"
  op_Body :: string
  op_BodyBase64 :: string
  op_BodyEncoding :: string
  op_BodyBytes :: int
  op_BodySHA256 :: string
  op_DeclaredResponseBodyBytes :: int
  op_Truncated :: bool
  op_TimedOut :: bool
  op_Cancelled :: bool
  op_DryRun :: bool
  op_UntrustedContent :: bool
  op_Hops :: "Hop list"
  op_ErrorCode :: string

definition start_output :: "Assessment \<Rightarrow> bool \<Rightarrow> Output" where
  "start_output a dryRun = \<lparr>op_Assessment = a, op_StatusCode = 0, op_Status = [], op_Headers = [], op_RedactedResponseHeaders = [],
     op_Body = [], op_BodyBase64 = [], op_BodyEncoding = [], op_BodyBytes = 0, op_BodySHA256 = [], op_DeclaredResponseBodyBytes = 0,
     op_Truncated = False, op_TimedOut = False, op_Cancelled = False, op_DryRun = dryRun, op_UntrustedContent = \<not> dryRun,
     op_Hops = [], op_ErrorCode = []\<rparr>"

text \<open>The ends of the two contexts as they are when the request is over.\<close>

record contexts =
  cx_request :: "http_err option"
  cx_parent :: "http_err option"

definition flag_contexts :: "contexts \<Rightarrow> Output \<Rightarrow> Output" where
  "flag_contexts cx out = out\<lparr>op_TimedOut := (cx_request cx = Some DeadlineExceeded),
     op_Cancelled := (cx_request cx = Some Canceled \<or> cx_parent cx = Some Canceled)\<rparr>"

definition failed_output :: "Output \<Rightarrow> http_err \<Rightarrow> Output \<times> http_err option" where
  "failed_output out err = (out\<lparr>op_ErrorCode := errorCode (Some err)\<rparr>, Some err)"

definition request_failed :: "contexts \<Rightarrow> Output \<Rightarrow> http_err \<Rightarrow> Output \<times> http_err option" where
  "request_failed cx out err =
     failed_output (flag_contexts cx out) (sanitizeExecutionError err (cx_request cx) (cx_parent cx))"

definition response_output :: "Executor \<Rightarrow> url_lib \<Rightarrow> (string \<Rightarrow> string) \<Rightarrow> contexts \<Rightarrow> secretRedactor \<Rightarrow> Output \<Rightarrow> Response \<Rightarrow>
    Output \<times> http_err option" where
  "response_output e lib digest cx redactor out response =
     (case readBounded (rp_Body response) (ex_maxResponse e) of (raw, truncated0, readErr) \<Rightarrow>
      let clean = RedactBytes redactor raw; long = int (length clean) > ex_maxResponse e;
          body = (if long then first_bytes (ex_maxResponse e) clean else clean);
          (headers, names) = sanitizeResponseHeaders lib (rp_Header response) redactor;
          out' = out\<lparr>op_StatusCode := rp_StatusCode response, op_Status := rp_Status response, op_Headers := headers,
            op_RedactedResponseHeaders := names, op_DeclaredResponseBodyBytes := rp_ContentLength response,
            op_BodyBytes := int (length body), op_BodySHA256 := digest body, op_Truncated := (truncated0 \<or> long),
            op_Body := (if ValidString body then body else []), op_BodyBase64 := (if ValidString body then [] else EncodeToString body),
            op_BodyEncoding := (if ValidString body then ''utf-8'' else ''base64'')\<rparr> in
      case readErr of None \<Rightarrow> (out', None) | Some err \<Rightarrow> request_failed cx out' err)"

definition initial_request :: "Executor \<Rightarrow> Input \<Rightarrow> URL \<Rightarrow> string \<Rightarrow> (string \<times> string) list \<Rightarrow> http_Request" where
  "initial_request e i u body resolved =
     (let headers = fold (\<lambda>(n, v). AList.update (CanonicalHeaderKey n) v) (ip_Headers i @ resolved) [];
          named = (if ex_userAgent e \<noteq> [] then AList.update ''User-Agent'' (ex_userAgent e) headers else headers) in
      \<lparr>rq_Method = ip_Method i, rq_URL = u, rq_Header = AList.delete ''Accept-Encoding'' named, rq_Body = body\<rparr>)"

text \<open>\<open>Execute\<close>: an error before anything is known of the output, or the output and the error, and the trips made.\<close>

definition Execute :: "Executor \<Rightarrow> url_lib \<Rightarrow> network \<Rightarrow> (string \<Rightarrow> string) \<Rightarrow> contexts \<Rightarrow> string \<Rightarrow>
    (http_err + Output \<times> http_err option) \<times> trip list" where
  "Execute e lib nw digest cx raw =
     (case ParseAndValidate e lib raw of Inl err \<Rightarrow> (Inl err, []) | Inr (i, risk) \<Rightarrow>
      case bodyBytes i of Inl err \<Rightarrow> (Inl err, []) | Inr body \<Rightarrow>
          (let out = start_output (assessment lib digest i body risk) (ip_DryRun i) in
           if ip_DryRun i then (Inr (out, None), [])
           else (case resolveSecretHeaders e (ip_SecretHeaders i) of
             Inl err \<Rightarrow> (Inr (failed_output out err), [])
           | Inr (resolved, redactor) \<Rightarrow>
               (case ul_Parse lib (ip_URL i) of
                  None \<Rightarrow> (Inl (HttpError ''construct HTTP request''), [])
                | Some u \<Rightarrow>
                    (case checkRequestSize e lib (ip_Method i) u (ip_Headers i) body resolved of
                       Inl err \<Rightarrow> (Inr (failed_output out err), [])
                     | Inr _ \<Rightarrow>
                         (let req = initial_request e i u body resolved; secrets = map (CanonicalHeaderKey \<circ> sr_Header) (ip_SecretHeaders i);
                              (outcome, trips) = client_do e lib nw redactor secrets req [] False req;
                              out' = out\<lparr>op_Hops := map tr_Hop trips\<rparr> in
                          case outcome of
                            Inl err \<Rightarrow> (Inr (request_failed cx out' err), trips)
                          | Inr response \<Rightarrow> (Inr (response_output e lib digest cx redactor out' response), trips)))))))"

end
