(* ===== verification/Http_Safety.thy ===== *)
theory Http_Safety
  imports Http_Tool
begin

text \<open>
  What the HTTP tool guarantees: where it connects to, how long a chain of redirects gets, where secrets go and what its
  output may show of them.
\<close>

subsection \<open>Which addresses are accepted\<close>

lemma deniedAddressRanges_eq [code]: "deniedAddressRanges =
  [\<lparr>pf_Addr = IP4 0, pf_Bits = 8\<rparr>, \<lparr>pf_Addr = IP4 0x0A000000, pf_Bits = 8\<rparr>, \<lparr>pf_Addr = IP4 0x64400000, pf_Bits = 10\<rparr>,
   \<lparr>pf_Addr = IP4 0x7F000000, pf_Bits = 8\<rparr>, \<lparr>pf_Addr = IP4 0xA9FE0000, pf_Bits = 16\<rparr>, \<lparr>pf_Addr = IP4 0xAC100000, pf_Bits = 12\<rparr>,
   \<lparr>pf_Addr = IP4 0xC0000000, pf_Bits = 24\<rparr>, \<lparr>pf_Addr = IP4 0xC0000200, pf_Bits = 24\<rparr>, \<lparr>pf_Addr = IP4 0xC0586300, pf_Bits = 24\<rparr>,
   \<lparr>pf_Addr = IP4 0xC0A80000, pf_Bits = 16\<rparr>, \<lparr>pf_Addr = IP4 0xC6120000, pf_Bits = 15\<rparr>, \<lparr>pf_Addr = IP4 0xC6336400, pf_Bits = 24\<rparr>,
   \<lparr>pf_Addr = IP4 0xCB007100, pf_Bits = 24\<rparr>, \<lparr>pf_Addr = IP4 0xE0000000, pf_Bits = 4\<rparr>, \<lparr>pf_Addr = IP4 0xF0000000, pf_Bits = 4\<rparr>,
   \<lparr>pf_Addr = IP6 0 [], pf_Bits = 96\<rparr>, \<lparr>pf_Addr = IP6 1 [], pf_Bits = 128\<rparr>,
   \<lparr>pf_Addr = IP6 0x0064FF9B000000000000000000000000 [], pf_Bits = 96\<rparr>,
   \<lparr>pf_Addr = IP6 0x0064FF9B000100000000000000000000 [], pf_Bits = 48\<rparr>,
   \<lparr>pf_Addr = IP6 0x01000000000000000000000000000000 [], pf_Bits = 64\<rparr>,
   \<lparr>pf_Addr = IP6 0x20010000000000000000000000000000 [], pf_Bits = 23\<rparr>,
   \<lparr>pf_Addr = IP6 0x20010DB8000000000000000000000000 [], pf_Bits = 32\<rparr>,
   \<lparr>pf_Addr = IP6 0x20020000000000000000000000000000 [], pf_Bits = 16\<rparr>,
   \<lparr>pf_Addr = IP6 0x3FFF0000000000000000000000000000 [], pf_Bits = 20\<rparr>,
   \<lparr>pf_Addr = IP6 0x5F000000000000000000000000000000 [], pf_Bits = 16\<rparr>,
   \<lparr>pf_Addr = IP6 0xFC000000000000000000000000000000 [], pf_Bits = 7\<rparr>,
   \<lparr>pf_Addr = IP6 0xFE800000000000000000000000000000 [], pf_Bits = 10\<rparr>,
   \<lparr>pf_Addr = IP6 0xFEC00000000000000000000000000000 [], pf_Bits = 10\<rparr>,
   \<lparr>pf_Addr = IP6 0xFF000000000000000000000000000000 [], pf_Bits = 8\<rparr>]"
  by code_simp

lemma xor_zero: "w XOR v = 0 \<longleftrightarrow> w = (v :: 'a::len word)"
  by (auto simp: bit_eq_iff bit_simps)

lemma denied4: "list_ex (\<lambda>p. prefix_Contains p (IP4 w)) deniedAddressRanges \<longleftrightarrow>
  drop_bit 24 w = 0 \<or> drop_bit 24 w = 10 \<or> drop_bit 22 w = 0x191 \<or> drop_bit 24 w = 127 \<or> drop_bit 16 w = 0xA9FE \<or>
  drop_bit 20 w = 0xAC1 \<or> drop_bit 8 w = 0xC00000 \<or> drop_bit 8 w = 0xC00002 \<or> drop_bit 8 w = 0xC05863 \<or> drop_bit 16 w = 0xC0A8 \<or>
  drop_bit 17 w = 0x6309 \<or> drop_bit 8 w = 0xC63364 \<or> drop_bit 8 w = 0xCB0071 \<or> drop_bit 28 w = 0xE \<or> drop_bit 28 w = 0xF"
  by (simp add: deniedAddressRanges_eq prefix_Contains_def xor_zero)

lemma denied6: "list_ex (\<lambda>p. prefix_Contains p (IP6 w [])) deniedAddressRanges \<longleftrightarrow>
  drop_bit 32 w = 0 \<or> w = 1 \<or> drop_bit 32 w = 0x0064FF9B0000000000000000 \<or> drop_bit 80 w = 0x0064FF9B0001 \<or>
  drop_bit 64 w = 0x0100000000000000 \<or> drop_bit 105 w = 0x100080 \<or> drop_bit 96 w = 0x20010DB8 \<or> drop_bit 112 w = 0x2002 \<or>
  drop_bit 108 w = 0x3FFF0 \<or> drop_bit 112 w = 0x5F00 \<or> drop_bit 121 w = 0x7E \<or> drop_bit 118 w = 0x3FA \<or>
  drop_bit 118 w = 0x3FB \<or> drop_bit 120 w = 0xFF"
  by (simp add: deniedAddressRanges_eq prefix_Contains_def xor_zero)

text \<open>The addresses of the host itself, of private, shared and link networks, multicast and reserved ones.\<close>

definition inside4 :: "32 word \<Rightarrow> bool" where
  "inside4 w \<longleftrightarrow> list_ex (\<lambda>(lo, hi). lo \<le> w \<and> w \<le> hi)
     [(0, 0x00FFFFFF), (0x0A000000, 0x0AFFFFFF), (0x64400000, 0x647FFFFF), (0x7F000000, 0x7FFFFFFF), (0xA9FE0000, 0xA9FEFFFF),
      (0xAC100000, 0xAC1FFFFF), (0xC0A80000, 0xC0A8FFFF), (0xE0000000, 0xEFFFFFFF), (0xF0000000, 0xFFFFFFFF)]"

definition inside6 :: "128 word \<Rightarrow> bool" where
  "inside6 w \<longleftrightarrow> w = 0 \<or> w = 1 \<or> list_ex (\<lambda>(lo, hi). lo \<le> w \<and> w \<le> hi)
     [(0xFC000000000000000000000000000000, 0xFDFFFFFFFFFFFFFFFFFFFFFFFFFFFFFF),
      (0xFE800000000000000000000000000000, 0xFEBFFFFFFFFFFFFFFFFFFFFFFFFFFFFF),
      (0xFEC00000000000000000000000000000, 0xFEFFFFFFFFFFFFFFFFFFFFFFFFFFFFFF),
      (0xFF000000000000000000000000000000, 0xFFFFFFFFFFFFFFFFFFFFFFFFFFFFFFFF)]"

text \<open>
  The IPv6 addresses behind which a gateway or relay finds the IPv4 address \<open>a\<close>: IPv4-compatible, translated
  (RFC 6052), relayed by 6to4 and tunnelled by Teredo; \<open>r\<close> are the bits that are free.
\<close>

definition embeds :: "32 word \<Rightarrow> 128 word \<Rightarrow> bool" where
  "embeds a w \<longleftrightarrow> w = ucast a \<or> w = push_bit 96 0x0064FF9B OR ucast a \<or>
     (\<exists>r. w = push_bit 112 0x2002 OR push_bit 80 (ucast a) OR (r AND mask 80)) \<or>
     (\<exists>r. w = push_bit 96 0x20010000 OR push_bit 64 (ucast a) OR (r AND mask 64))"

lemma drop_bit_range:
  fixes w :: "'a::len word"
  assumes "lo \<le> w" and "w \<le> hi" and "drop_bit n lo = drop_bit n hi"
  shows "drop_bit n w = drop_bit n lo"
proof -
  have u: "uint (drop_bit n x) = uint x div 2 ^ n" for x :: "'a word"
    by (simp only: unsigned_drop_bit_eq) (simp add: drop_bit_eq_div take_bit_int_eq_self)
  have "uint lo div 2 ^ n \<le> uint w div 2 ^ n" "uint w div 2 ^ n \<le> uint hi div 2 ^ n"
    using assms(1,2) by (simp_all add: word_le_def zdiv_mono1)
  with arg_cong [OF assms(3), of uint] have "uint (drop_bit n w) = uint (drop_bit n lo)" unfolding u by simp
  then show ?thesis by (simp only: word_uint_eq_iff)
qed

lemma inside4_denied: "inside4 w \<Longrightarrow> list_ex (\<lambda>p. prefix_Contains p (IP4 w)) deniedAddressRanges"
  unfolding inside4_def denied4
  using drop_bit_range [of 0 w "0x00FFFFFF" 24] drop_bit_range [of "0x0A000000" w "0x0AFFFFFF" 24]
    drop_bit_range [of "0x64400000" w "0x647FFFFF" 22] drop_bit_range [of "0x7F000000" w "0x7FFFFFFF" 24]
    drop_bit_range [of "0xA9FE0000" w "0xA9FEFFFF" 16] drop_bit_range [of "0xAC100000" w "0xAC1FFFFF" 20]
    drop_bit_range [of "0xC0A80000" w "0xC0A8FFFF" 16] drop_bit_range [of "0xE0000000" w "0xEFFFFFFF" 28]
    drop_bit_range [of "0xF0000000" w "0xFFFFFFFF" 28]
  by auto

lemma inside6_denied: "inside6 w \<Longrightarrow> list_ex (\<lambda>p. prefix_Contains p (IP6 w [])) deniedAddressRanges"
  unfolding inside6_def denied6
  using drop_bit_range [of "0xFC000000000000000000000000000000" w "0xFDFFFFFFFFFFFFFFFFFFFFFFFFFFFFFF" 121]
    drop_bit_range [of "0xFE800000000000000000000000000000" w "0xFEBFFFFFFFFFFFFFFFFFFFFFFFFFFFFF" 118]
    drop_bit_range [of "0xFEC00000000000000000000000000000" w "0xFEFFFFFFFFFFFFFFFFFFFFFFFFFFFFFF" 118]
    drop_bit_range [of "0xFF000000000000000000000000000000" w "0xFFFFFFFFFFFFFFFFFFFFFFFFFFFFFFFF" 120]
  by auto

lemma drop_ucast: "n \<ge> 32 \<Longrightarrow> drop_bit n (ucast (a :: 32 word) :: 128 word) = 0"
  by (auto simp: bit_eq_iff bit_simps dest: bit_imp_le_length)

lemma embeds_denied: "embeds a w \<Longrightarrow> list_ex (\<lambda>p. prefix_Contains p (IP6 w [])) deniedAddressRanges"
proof -
  have relayed: "drop_bit 112 (push_bit 112 0x2002 OR push_bit 80 (ucast a) OR (r AND mask 80)) = (0x2002 :: 128 word)" for r :: "128 word"
    by (rule bit_word_eqI) (auto simp: bit_simps dest: bit_imp_le_length)
  have tunnelled: "drop_bit 105 (push_bit 96 0x20010000 OR push_bit 64 (ucast a) OR (r AND mask 64)) = (0x100080 :: 128 word)" for r :: "128 word"
    by (rule bit_word_eqI) (auto simp: bit_simps dest: bit_imp_le_length)
  assume "embeds a w"
  then show ?thesis unfolding embeds_def denied6
    using relayed tunnelled by (auto simp: drop_ucast)
qed

lemma Unmap_idem [simp]: "Unmap (Unmap a) = Unmap a"
  by (auto simp: Unmap_def split: Addr.splits)

lemma validateAddress_InrD:
  assumes "validateAddress e a = Inr ()" and "ex_allowedCIDRs e = []"
  shows "a \<noteq> NoAddr" "Zone a = []" "\<not> special_address (Unmap a)"
    "\<not> list_ex (\<lambda>p. prefix_Contains p (Unmap a)) deniedAddressRanges"
  using assms by (auto simp: validateAddress_def IsValid_def Let_def split: if_splits)


subsection \<open>Where requests go\<close>

lemma keep_answers_ok:
  "keep_answers e rest seen = Inr as \<Longrightarrow> \<forall>a\<in>set seen. validateAddress e a = Inr () \<Longrightarrow> a \<in> set as \<Longrightarrow> validateAddress e a = Inr ()"
proof (induction e rest seen arbitrary: as rule: keep_answers.induct)
  case (2 e ip zone rest seen)
  then obtain a0 where a0: "zone = []" "AddrFromSlice ip = Some a0" "validateAddress e (Unmap a0) = Inr ()"
    "keep_answers e rest (if Unmap a0 \<in> set seen then seen else seen @ [Unmap a0]) = Inr as"
    by (auto simp: Let_def split: if_splits option.splits sum.splits)
  from "2.IH" [OF _ a0(2) refl a0(3,4)] a0(1,3) 2(3,4) show ?case by auto
qed simp

lemma resolve_ok: "resolveAndValidate e lookup h = Inr as \<Longrightarrow> a \<in> set as \<Longrightarrow> validateAddress e a = Inr ()"
  using keep_answers_ok [where seen = "[]"]
  by (auto simp: resolveAndValidate_def Let_def split: option.splits sum.splits if_splits)

text \<open>What the checks of one hop have established when it dials.\<close>

definition destination_ok :: "Executor \<Rightarrow> http_Request \<Rightarrow> Addr \<times> int \<Rightarrow> bool" where
  "destination_ok e req = (\<lambda>(a, port).
     validateMethod e (rq_Method req) = Inr () \<and> validateURL e (rq_URL req) = Inr () \<and> effectivePort (rq_URL req) = Inr port \<and>
     validateAddress e a = Inr ())"

lemma dial_tried: "dial f port as = (tried, r) \<Longrightarrow> set tried \<subseteq> set as"
  by (induction f port as arbitrary: tried r rule: dial.induct) (auto split: if_splits prod.splits)

lemma connect_sel: "tr_Request (connect nw i req hop as port) = req"
  "d \<in> set (tr_Dialled (connect nw i req hop as port)) \<Longrightarrow> snd d = port \<and> fst d \<in> set as"
  using dial_tried [where as = "dial_candidates ''tcp'' as"]
  by (auto simp: connect_def refused_def dial_candidates_def Let_def split: prod.splits option.splits sum.splits) blast+

lemma refused_sel [simp]: "tr_Request (refused req hop err) = req" "tr_Dialled (refused req hop err) = []"
  "tr_Result (refused req hop err) = Inl err"
  by (simp_all add: refused_def)

lemma RoundTrip_cases:
  assumes "RoundTrip e lib nw redactor i req = t"
  obtains (refused) err hop u where "t = refused req hop err \<or> t = refused (req\<lparr>rq_URL := u\<rparr>) hop err"
  | (connected) u hop as port where "t = connect nw i (req\<lparr>rq_URL := u\<rparr>) hop as port"
    "validateMethod e (rq_Method req) = Inr ()" "validateURLStructure (rq_URL req) = Inr u" "validateURL e u = Inr ()"
    "resolveAndValidate e (nw_lookup nw i) (Hostname u) = Inr as" "effectivePort u = Inr port"
proof -
  have "(\<exists>err hop u. t = refused req hop err \<or> t = refused (req\<lparr>rq_URL := u\<rparr>) hop err) \<or>
    (\<exists>u hop as port. t = connect nw i (req\<lparr>rq_URL := u\<rparr>) hop as port \<and> validateMethod e (rq_Method req) = Inr () \<and>
      validateURLStructure (rq_URL req) = Inr u \<and> validateURL e u = Inr () \<and>
      resolveAndValidate e (nw_lookup nw i) (Hostname u) = Inr as \<and> effectivePort u = Inr port)"
    using assms unfolding RoundTrip_def Let_def by (auto split: sum.splits)
  with that show thesis by blast
qed

lemma RoundTrip_ok:
  assumes "d \<in> set (tr_Dialled (RoundTrip e lib nw redactor i req))"
  shows "destination_ok e (tr_Request (RoundTrip e lib nw redactor i req)) d"
proof (rule RoundTrip_cases [OF refl, of e lib nw redactor i req], goal_cases refused connected)
  case refused
  with assms show ?case by auto
next
  case (connected u hop as port)
  with assms have "snd d = port" "fst d \<in> set as" by (auto dest: connect_sel(2))
  with connected show ?case by (cases d) (auto simp: destination_ok_def connect_sel(1) dest: resolve_ok)
qed

subsection \<open>Chains of requests\<close>

text \<open>One trip follows another: the redirect policy has accepted the request, given the one before it.\<close>

definition follows :: "Executor \<Rightarrow> url_lib \<Rightarrow> network \<Rightarrow> secretRedactor \<Rightarrow> string list \<Rightarrow> trip \<Rightarrow> trip \<Rightarrow> bool" where
  "follows e lib nw redactor secrets t t' \<longleftrightarrow> (\<exists>i q q' via. \<not> isl (tr_Result t) \<and>
     redirectPolicy e secrets q (via @ [tr_Request t]) = Inr q' \<and> t' = RoundTrip e lib nw redactor i q')"

lemma client_do_trips:
  "client_do e lib nw redactor secrets initial via strip req = (r, trips) \<Longrightarrow>
   trips \<noteq> [] \<and> hd trips = RoundTrip e lib nw redactor (length via) req \<and>
   (\<forall>t\<in>set trips. \<exists>i q. t = RoundTrip e lib nw redactor i q) \<and>
   successively (follows e lib nw redactor secrets) trips \<and>
   (length trips = 1 \<or> \<not> ex_disableRedirects e \<and> int (length via + length trips) \<le> ex_maxRedirects e + 1)"
proof (induction e lib nw redactor secrets initial via strip req arbitrary: r trips rule: client_do.induct)
  case (1 e lib nw redactor secrets initial via strip req)
  let ?t = "RoundTrip e lib nw redactor (length via) req"
  show ?case
  proof (cases "\<exists>response q strip' q'. tr_Result ?t = Inr response \<and>
      redirect_request lib initial strip (tr_Request ?t) response = Follow q strip' \<and>
      redirectPolicy e secrets q (via @ [tr_Request ?t]) = Inr q'")
    case True
    then obtain response q strip' q' where step: "tr_Result ?t = Inr response"
      "redirect_request lib initial strip (tr_Request ?t) response = Follow q strip'"
      "redirectPolicy e secrets q (via @ [tr_Request ?t]) = Inr q'" by blast
    let ?via = "via @ [tr_Request ?t]"
    obtain r1 trips1 where rest: "client_do e lib nw redactor secrets initial ?via strip' q' = (r1, trips1)" by fastforce
    with "1.prems" step have trips: "trips = ?t # trips1" by (subst (asm) client_do.simps) (simp add: Let_def)
    from "1.IH" [OF refl step rest] have IH: "trips1 \<noteq> []" "hd trips1 = RoundTrip e lib nw redactor (length ?via) q'"
      "\<forall>t\<in>set trips1. \<exists>i q. t = RoundTrip e lib nw redactor i q" "successively (follows e lib nw redactor secrets) trips1"
      "length trips1 = 1 \<or> int (length ?via + length trips1) \<le> ex_maxRedirects e + 1" by auto
    from step(1,3) IH(2) have "follows e lib nw redactor secrets ?t (hd trips1)" unfolding follows_def by auto
    moreover from step(3) have "\<not> ex_disableRedirects e" "int (length via) + 1 \<le> ex_maxRedirects e"
      using redirectPolicy_bound [OF step(3)] by (auto simp: redirectPolicy_def)
    ultimately show ?thesis using IH trips by (cases trips1) auto
  next
    case False
    with "1.prems" have "trips = [?t]"
      by (subst (asm) client_do.simps) (auto simp: Let_def split: sum.splits next_request.splits)
    then show ?thesis by auto
  qed
qed

lemma lower_schemes: "ToLower ''http'' = ''http''" "ToLower ''https'' = ''https''"
  by code_simp+

lemma structure_ok:
  "validateURLStructure u = Inr u' \<Longrightarrow> u' = u\<lparr>u_Scheme := ToLower (u_Scheme u)\<rparr> \<and> u_Scheme u' \<in> {''http'', ''https''}"
  by (auto simp: validateURLStructure_def Let_def split: if_splits option.splits sum.splits)

lemma structure_idem: "u_Scheme u \<in> {''http'', ''https''} \<Longrightarrow> validateURLStructure u = Inr u' \<Longrightarrow> u' = u"
  using structure_ok [of u u'] lower_schemes by auto

lemma policy_request:
  assumes "redirectPolicy e secrets q via = Inr q'"
  shows "u_Scheme (rq_URL q') \<in> {''http'', ''https''}"
  using assms structure_ok [of "rq_URL q"]
  by (auto simp: redirectPolicy_def result_bind_def Let_def split: if_splits sum.splits)

lemma RoundTrip_request:
  assumes "u_Scheme (rq_URL q) \<in> {''http'', ''https''}"
  shows "tr_Request (RoundTrip e lib nw redactor i q) = q"
proof -
  have "tr_Request (connect nw i (q\<lparr>rq_URL := rq_URL q\<rparr>) hop as port) = q" for hop as port by (simp add: connect_sel(1))
  with structure_idem [OF assms] show ?thesis unfolding RoundTrip_def Let_def
    by (auto split: sum.splits)
qed

lemma answered_scheme:
  assumes "\<not> isl (tr_Result (RoundTrip e lib nw redactor i q))"
  shows "u_Scheme (rq_URL (tr_Request (RoundTrip e lib nw redactor i q))) \<in> {''http'', ''https''}"
  using assms structure_ok [of "rq_URL q"]
  by (cases rule: RoundTrip_cases [OF refl, of e lib nw redactor i q]) (auto simp: connect_sel(1))

lemma follows_request:
  assumes "follows e lib nw redactor secrets t t'"
  obtains q via where "redirectPolicy e secrets q (via @ [tr_Request t]) = Inr (tr_Request t')"
  using assms policy_request RoundTrip_request unfolding follows_def by metis

lemma policy_InrD:
  assumes "redirectPolicy e secrets q (via @ [p]) = Inr q'"
  shows "\<not> (EqualFold (u_Scheme (rq_URL p)) ''https'' \<and> EqualFold (u_Scheme (rq_URL q')) ''http'')"
    "rq_Header q' = AList.delete ''Referer'' (if sameOrigin (rq_URL p) (rq_URL q') then rq_Header q
      else fold AList.delete secrets (rq_Header q))"
  using assms by (auto simp: redirectPolicy_def result_bind_def Let_def split: if_splits sum.splits)

lemma keys_delete: "fst ` set (AList.delete n hs) = fst ` set hs - {n}"
  by (force simp: AList.delete_eq)

lemma keys_fold_delete: "fst ` set (fold AList.delete names hs) = fst ` set hs - set names"
proof (induction names arbitrary: hs)
  case (Cons n names)
  then show ?case by (simp add: keys_delete) blast
qed simp

lemma same_scheme: "EqualFold s s"
  by (simp add: EqualFold_def)

lemma follows_scheme:
  assumes "follows e lib nw redactor secrets t t'" and "u_Scheme (rq_URL (tr_Request t)) = ''https''"
  shows "u_Scheme (rq_URL (tr_Request t')) = ''https''"
proof -
  from follows_request [OF assms(1)] obtain q via where q: "redirectPolicy e secrets q (via @ [tr_Request t]) = Inr (tr_Request t')" .
  from policy_request [OF this] policy_InrD(1) [OF q] assms(2) same_scheme show ?thesis by force
qed

lemma follows_secrets:
  assumes "follows e lib nw redactor secrets t t'" and "\<not> sameOrigin (rq_URL (tr_Request t)) (rq_URL (tr_Request t'))" and "n \<in> set secrets"
  shows "n \<notin> fst ` set (rq_Header (tr_Request t'))"
proof -
  from follows_request [OF assms(1)] obtain q via where q: "redirectPolicy e secrets q (via @ [tr_Request t]) = Inr (tr_Request t')" .
  from policy_InrD(2) [OF q] assms(2,3) show ?thesis by (simp add: keys_delete keys_fold_delete)
qed

lemma Execute_trips:
  assumes "Execute e lib nw digest cx raw = (r, trips)" and "trips \<noteq> []"
  obtains i risk redactor req outcome where "ParseAndValidate e lib raw = Inr (i, risk)"
    "client_do e lib nw redactor (map (CanonicalHeaderKey \<circ> sr_Header) (ip_SecretHeaders i)) req [] False req = (outcome, trips)"
  using assms unfolding Execute_def result_bind_def
  by (auto simp: Let_def split: sum.splits option.splits if_splits prod.splits)

lemma New_redirects: "http_New config rs = Inr e \<Longrightarrow> 0 \<le> ex_maxRedirects e \<and> ex_maxRedirects e \<le> 20"
  by (auto simp: http_New_def result_bind_def ensure_def Let_def split: sum.splits if_splits)

subsection \<open>Properties\<close>

text \<open>
  C12: the HTTP tool contacts only permitted destinations.  Whatever the resolver, the servers and the redirects do, every address
  that is dialled belongs to a request whose method, host and port are allowed, and passed the address check right
  before, in the hop in which it is dialled.
\<close>

theorem http_contacts_permitted:
  assumes "Execute e lib nw digest cx raw = (r, trips)" and "t \<in> set trips" and "(a, port) \<in> set (tr_Dialled t)"
  shows "validateAddress e a = Inr () \<and> validateMethod e (rq_Method (tr_Request t)) = Inr () \<and>
    validateURL e (rq_URL (tr_Request t)) = Inr () \<and> effectivePort (rq_URL (tr_Request t)) = Inr port"
proof -
  from assms(2) have "trips \<noteq> []" by auto
  from Execute_trips [OF assms(1) this] obtain redactor secrets req outcome where
    "client_do e lib nw redactor secrets req [] False req = (outcome, trips)" by metis
  from client_do_trips [OF this] assms(2) obtain i q where "t = RoundTrip e lib nw redactor i q" by blast
  with RoundTrip_ok [of "(a, port)" e lib nw redactor i q] assms(3) show ?thesis by (simp add: destination_ok_def)
qed

text \<open>
  C19: redirects end and do not weaken the transport.  An executor made by \<open>New\<close> sends at most as many
  requests as the configured number of redirects plus one, 21 at most, and after a request over HTTPS
  all further requests of the chain are over HTTPS.
\<close>

theorem redirects_bounded:
  assumes "http_New config rs = Inr e" and "Execute e lib nw digest cx raw = (r, trips)"
  shows "int (length trips) \<le> ex_maxRedirects e + 1 \<and> length trips \<le> 21 \<and>
    successively (\<lambda>t t'. u_Scheme (rq_URL (tr_Request t)) = ''https'' \<longrightarrow> u_Scheme (rq_URL (tr_Request t')) = ''https'') trips"
proof (cases "trips = []")
  case True
  with New_redirects [OF assms(1)] show ?thesis by simp
next
  case False
  from Execute_trips [OF assms(2) False] obtain redactor secrets req outcome where
    "client_do e lib nw redactor secrets req [] False req = (outcome, trips)" by metis
  note chain = client_do_trips [OF this]
  with New_redirects [OF assms(1)] have "int (length trips) \<le> ex_maxRedirects e + 1" by auto
  with New_redirects [OF assms(1)] chain show ?thesis
    by (auto intro: successively_mono follows_scheme)
qed

text \<open>
  C14: a redirect to another origin drops the secrets.  When a request of the chain goes to another scheme, host or port than
  the one before it, it carries none of the headers that the input backs by secrets.
\<close>

theorem secrets_dropped_across_origins:
  assumes "ParseAndValidate e lib raw = Inr (i, risk)" and "Execute e lib nw digest cx raw = (r, trips)"
    and "Suc k < length trips" and "s \<in> set (ip_SecretHeaders i)"
    and "\<not> sameOrigin (rq_URL (tr_Request (trips ! k))) (rq_URL (tr_Request (trips ! Suc k)))"
  shows "CanonicalHeaderKey (sr_Header s) \<notin> fst ` set (rq_Header (tr_Request (trips ! Suc k)))"
proof -
  from assms(3) have "trips \<noteq> []" by auto
  from Execute_trips [OF assms(2) this] assms(1) obtain redactor req outcome where
    "client_do e lib nw redactor (map (CanonicalHeaderKey \<circ> sr_Header) (ip_SecretHeaders i)) req [] False req = (outcome, trips)"
    by fastforce
  from client_do_trips [OF this] assms(3)
  have "follows e lib nw redactor (map (CanonicalHeaderKey \<circ> sr_Header) (ip_SecretHeaders i)) (trips ! k) (trips ! Suc k)"
    by (simp add: successively_conv_nth)
  from follows_secrets [OF this assms(5)] assms(4) show ?thesis by force
qed

end
