(* ===== verification/Http_Secrets.thy ===== *)
theory Http_Secrets
  imports Http_Safety
begin

text \<open>
  What the output of the HTTP tool shows of the secrets it was given, and the base64 form of bodies.
\<close>

subsection \<open>What the output shows of secrets\<close>

text \<open>A text without the byte \<open>x\<close> lies on one side of it.\<close>

lemma sublist_around: "x \<notin> set v \<Longrightarrow> v \<noteq> [] \<Longrightarrow> sublist v (xs @ x # ys) \<longleftrightarrow> sublist v xs \<or> sublist v ys"
proof (induction xs)
  case Nil
  then show ?case by (auto simp: sublist_Cons_right prefix_Cons)
next
  case (Cons c xs)
  have "prefix v (c # xs @ x # ys) \<longleftrightarrow> prefix v (c # xs)"
  proof
    assume "prefix v (c # xs @ x # ys)"
    then have "prefix v ((c # xs) @ x # ys)" by simp
    then consider "prefix v (c # xs)" | zs where "v = (c # xs) @ zs" "prefix zs (x # ys)" using prefix_append by blast
    then show "prefix v (c # xs)"
    proof cases
      case 2
      with Cons.prems(1) show ?thesis by (cases zs) (auto simp: prefix_Cons)
    qed
  qed (metis append_Cons prefix_prefix)
  with Cons show ?case by (auto simp: sublist_Cons_right)
qed

definition unmarked :: "string \<Rightarrow> bool" where
  "unmarked v \<longleftrightarrow> v \<noteq> [] \<and> CHR ''['' \<notin> set v \<and> CHR '']'' \<notin> set v \<and> \<not> sublist v ''REDACTED''"

lemma sublist_marker: "unmarked v \<Longrightarrow> sublist v (redacted @ s) \<longleftrightarrow> sublist v s"
proof -
  assume v: "unmarked v"
  then show ?thesis
    using sublist_around [of "CHR ''[''" v "[]" "''REDACTED'' @ CHR '']'' # s"] sublist_around [of "CHR '']''" v "''REDACTED''" s]
    by (simp add: unmarked_def redacted_def)
qed

lemma prefix_replaced: "CHR ''['' \<notin> set v \<Longrightarrow> prefix v (ReplaceAll s old redacted) \<Longrightarrow> prefix v s"
proof (induction s old redacted arbitrary: v rule: ReplaceAll.induct)
  case (2 c s old)
  show ?case
  proof (cases "old \<noteq> [] \<and> HasPrefix (c # s) old")
    case True
    with 2(3,4) show ?thesis by (auto simp: redacted_def prefix_Cons)
  next
    case False
    with 2(4) have "prefix v (c # ReplaceAll s old redacted)" by (auto split: if_splits)
    with 2(2) [OF False] 2(3) show ?thesis by (cases v) auto
  qed
qed simp

lemma ReplaceAll_keeps: "unmarked v \<Longrightarrow> sublist v (ReplaceAll s old redacted) \<Longrightarrow> sublist v s"
proof (induction s old redacted rule: ReplaceAll.induct)
  case (2 c s old)
  show ?case
  proof (cases "old \<noteq> [] \<and> HasPrefix (c # s) old")
    case True
    with 2(4) have "sublist v (ReplaceAll (drop (length old) (c # s)) old redacted)" using sublist_marker [OF 2(3)] by simp
    from 2(1) [OF True 2(3) this] show ?thesis by (blast intro: sublist_order.order_trans)
  next
    case False
    with 2(4) have "prefix v (c # ReplaceAll s old redacted) \<or> sublist v (ReplaceAll s old redacted)"
      by (auto simp: sublist_Cons_right split: if_splits)
    then show ?thesis
    proof
      assume "prefix v (c # ReplaceAll s old redacted)"
      with 2(3) prefix_replaced [of "tl v" s old] have "prefix v (c # s)"
        by (cases v) (auto simp: unmarked_def)
      then show ?thesis by (simp add: sublist_Cons_right)
    next
      assume "sublist v (ReplaceAll s old redacted)"
      from 2(2) [OF False 2(3) this] show ?thesis by (simp add: sublist_Cons_right)
    qed
  qed
qed simp

lemma ReplaceAll_removes: "unmarked v \<Longrightarrow> \<not> sublist v (ReplaceAll s v redacted)"
proof (induction s v redacted rule: ReplaceAll.induct)
  case (1 old)
  then show ?case by (simp add: unmarked_def)
next
  case (2 c s old)
  show ?case
  proof (cases "old \<noteq> [] \<and> HasPrefix (c # s) old")
    case True
    with 2(1) [OF True 2(3)] sublist_marker [OF 2(3)] show ?thesis by simp
  next
    case False
    with 2(3) have no: "\<not> prefix old (c # s)" by (auto simp: unmarked_def)
    have "\<not> prefix old (c # ReplaceAll s old redacted)"
      using no 2(3) prefix_replaced [of "tl old" s old] by (cases old) (auto simp: unmarked_def)
    with 2(2) [OF False 2(3)] False show ?thesis by (auto simp: sublist_Cons_right)
  qed
qed

lemma RedactBytes_removes: "v \<in> set r \<Longrightarrow> unmarked v \<Longrightarrow> \<not> sublist v (RedactBytes r s)"
proof (induction r arbitrary: s)
  case (Cons w r)
  let ?s = "if w \<noteq> [] then ReplaceAll s w redacted else s"
  have later: "\<not> sublist v (fold (\<lambda>x s. if x \<noteq> [] then ReplaceAll s x redacted else s) r s)" if "\<not> sublist v s" for s
    using that Cons.prems(2) by (induction r arbitrary: s) (auto dest: ReplaceAll_keeps)
  show ?case
  proof (cases "v = w")
    case True
    with Cons.prems(2) have "\<not> sublist v ?s" using ReplaceAll_removes by (auto simp: unmarked_def)
    from later [OF this] show ?thesis by (simp add: RedactBytes_def)
  next
    case False
    with Cons show ?thesis by (simp add: RedactBytes_def)
  qed
qed simp


lemma first_bytes_sublist: "sublist (first_bytes n s) s"
  by (simp add: first_bytes_def)

lemma response_body: "\<exists>s. sublist (op_Body (fst (response_output e lib digest cx redactor out response))) (RedactBytes redactor s)"
  unfolding response_output_def request_failed_def failed_output_def flag_contexts_def Let_def
  by (auto intro: first_bytes_sublist split: prod.split option.split)

lemma response_hops: "op_Hops (fst (response_output e lib digest cx redactor out response)) = op_Hops out"
  unfolding response_output_def request_failed_def failed_output_def flag_contexts_def Let_def
  by (auto split: prod.split option.split)

lemma hop_url: "\<exists>s. hp_URL (tr_Hop (RoundTrip e lib nw redactor i q)) = RedactBytes redactor s"
  unfolding RoundTrip_def refused_def connect_def Let_def
  by (auto split: sum.split prod.split option.split)

lemma Execute_shows:
  assumes "Execute e lib nw digest cx raw = (Inr (out, err), trips)" and "ParseAndValidate e lib raw = Inr (i, risk)"
    and "resolveSecretHeaders e (ip_SecretHeaders i) = Inr (resolved, redactor)"
  shows "(\<exists>s. sublist (op_Body out) (RedactBytes redactor s)) \<and>
    (op_Hops out = [] \<or> (\<exists>secrets req outcome. client_do e lib nw redactor secrets req [] False req = (outcome, trips) \<and> op_Hops out = map tr_Hop trips))"
proof (cases "op_Hops out = [] \<and> op_Body out = []")
  case False
  then obtain body u where ok: "bodyBytes i = Inr body" "\<not> ip_DryRun i" "ul_Parse lib (ip_URL i) = Some u"
    "checkRequestSize e lib (ip_Method i) u (ip_Headers i) body resolved = Inr ()"
    using assms(1) unfolding Execute_def assms(2)
    by (auto simp: assms(3) Let_def start_output_def failed_output_def split: sum.splits option.splits if_splits)
  let ?out = "start_output (assessment lib digest i body risk) False"
  let ?req = "initial_request e i u body resolved" and ?secrets = "map (CanonicalHeaderKey \<circ> sr_Header) (ip_SecretHeaders i)"
  obtain outcome ts where cd: "client_do e lib nw redactor ?secrets ?req [] False ?req = (outcome, ts)" by fastforce
  from assms(1) ok cd have out: "ts = trips"
    "(out, err) = (case outcome of Inl x \<Rightarrow> request_failed cx (?out\<lparr>op_Hops := map tr_Hop ts\<rparr>) x
      | Inr response \<Rightarrow> response_output e lib digest cx redactor (?out\<lparr>op_Hops := map tr_Hop ts\<rparr>) response)"
    unfolding Execute_def assms(2) by (auto simp: assms(3) Let_def split: sum.splits)
  have hops: "op_Hops out = map tr_Hop trips"
  proof (cases outcome)
    case (Inl x)
    with out show ?thesis by (auto simp: request_failed_def failed_output_def flag_contexts_def)
  next
    case (Inr response)
    with out have "fst (response_output e lib digest cx redactor (?out\<lparr>op_Hops := map tr_Hop ts\<rparr>) response) = out" by (metis fst_conv sum.case(2))
    with out(1) response_hops [of e lib digest cx redactor "?out\<lparr>op_Hops := map tr_Hop ts\<rparr>" response] show ?thesis by simp
  qed
  have "\<exists>s. sublist (op_Body out) (RedactBytes redactor s)"
  proof (cases outcome)
    case (Inl x)
    with out show ?thesis by (auto simp: request_failed_def failed_output_def flag_contexts_def start_output_def)
  next
    case (Inr response)
    with out have "fst (response_output e lib digest cx redactor (?out\<lparr>op_Hops := map tr_Hop ts\<rparr>) response) = out" by (metis fst_conv sum.case(2))
    with out(1) response_body [of e lib digest cx redactor "?out\<lparr>op_Hops := map tr_Hop ts\<rparr>" response] show ?thesis by simp
  qed
  with hops cd out(1) show ?thesis by blast
qed auto

text \<open>
  C15: the output does not show a secret.  No secret that was resolved for a request, alone or with its prefix, occurs in the text body of
  the output or in the URLs of its hops, as long as it shares no text with the marker that replaces it.
\<close>

theorem no_secret_in_output:
  assumes "ParseAndValidate e lib raw = Inr (i, risk)" and "resolveSecretHeaders e (ip_SecretHeaders i) = Inr (resolved, redactor)"
    and "Execute e lib nw digest cx raw = (Inr (out, err), trips)" and "v \<in> set redactor" and "unmarked v"
  shows "\<not> Contains (op_Body out) v \<and> \<not> list_ex (\<lambda>h. Contains (hp_URL h) v) (op_Hops out)"
proof
  note shown = Execute_shows [OF assms(3,1,2)]
  note clean = RedactBytes_removes [OF assms(4,5)]
  from shown obtain s where "sublist (op_Body out) (RedactBytes redactor s)" by blast
  with clean show "\<not> Contains (op_Body out) v" unfolding Contains_iff by (blast intro: sublist_order.order_trans)
  have "\<exists>s. hp_URL h = RedactBytes redactor s" if "h \<in> set (op_Hops out)" for h
  proof -
    from shown that obtain secrets req outcome where
      "client_do e lib nw redactor secrets req [] False req = (outcome, trips)" "op_Hops out = map tr_Hop trips" by auto
    with client_do_trips [of e lib nw redactor secrets req "[]" False req outcome trips] that hop_url show ?thesis by fastforce
  qed
  with clean show "\<not> list_ex (\<lambda>h. Contains (hp_URL h) v) (op_Hops out)" unfolding list_ex_iff Contains_iff by metis
qed

subsection \<open>Bodies\<close>

lemma base64_byte: "n < 64 \<Longrightarrow> byte (base64_char n) =
    (if n < 26 then n + 65 else if n < 52 then n + 71 else if n < 62 then n - 4 else if n = 62 then 43 else 47)"
  by (simp add: base64_char_def byte_def)

lemma base64_chars: "n < 64 \<Longrightarrow> base64_value (base64_char n) = Some n" "n < 64 \<Longrightarrow> base64_char n \<noteq> CHR ''=''"
  "n < 64 \<Longrightarrow> byte (base64_char n) \<noteq> 10 \<and> byte (base64_char n) \<noteq> 13"
proof -
  assume n: "n < 64"
  have last: "base64_char 62 = CHR ''+''" "base64_char 63 = CHR ''/''" by code_simp+
  consider "n < 26" | "26 \<le> n" "n < 52" | "52 \<le> n" "n < 62" | "n = 62" | "n = 63" using n by linarith
  then show "base64_value (base64_char n) = Some n"
  proof cases
    case 4
    then show ?thesis by (simp add: last base64_value_def byte_def)
  next
    case 5
    then show ?thesis by (simp add: last base64_value_def byte_def)
  next
    case 3
    then show ?thesis by (simp add: base64_value_def base64_byte Let_def) arith
  qed (simp_all add: base64_value_def base64_byte Let_def)
  show "base64_char n \<noteq> CHR ''=''"
  proof
    assume "base64_char n = CHR ''=''"
    from arg_cong [OF this, of byte] base64_byte [OF n] show False by (auto simp: byte_def split: if_splits)
  qed
  show "byte (base64_char n) \<noteq> 10 \<and> byte (base64_char n) \<noteq> 13" using base64_byte [OF n] by auto
qed

lemma byte_bound: "byte c < 256"
  by (simp add: byte_def)

lemma char_of_byte: "char_of (byte c) = c"
  by (simp add: byte_def)

lemma digit_pair: "y < k \<Longrightarrow> (x * k + y) div k = x" "y < k \<Longrightarrow> (x * k + y) mod k = y" for k :: nat
  by simp_all

lemma sextet_bounds:
  "byte a div 4 < 64" "byte a mod 4 * 16 < 64" "byte a mod 4 * 16 + byte b div 16 < 64" "byte b mod 16 * 4 < 64"
  "byte b mod 16 * 4 + byte c div 64 < 64" "byte c mod 64 < 64"
  using byte_bound [of a] byte_bound [of b] byte_bound [of c] by auto

lemma sextet_parts:
  "(byte a mod 4 * 16 + byte b div 16) div 16 = byte a mod 4" "(byte b mod 16 * 4 + byte c div 64) div 4 = byte b mod 16"
  "byte b div 16 mod 16 = byte b div 16" "byte c div 64 mod 4 = byte c div 64"
  using byte_bound [of b] byte_bound [of c] by (simp_all add: digit_pair less_mult_imp_div_less)

lemmas sextet_rules = sextet_bounds sextet_parts base64_chars char_of_byte

lemma encoded_bytes: "filter (\<lambda>c. byte c \<noteq> 10 \<and> byte c \<noteq> 13) (EncodeToString s) = EncodeToString s"
proof -
  have "byte CHR ''='' = 61" by code_simp
  then show ?thesis by (induction s rule: EncodeToString.induct) (simp_all add: sextet_rules)
qed

lemma base64_groups_encoded: "base64_groups (EncodeToString s) = Some s"
  by (induction s rule: EncodeToString.induct) (simp_all add: sextet_rules)

text \<open>
  A body survives base64.  What the tool writes into \<open>body_base64\<close> of its output for bytes that are not text is, as
  \<open>body_base64\<close> of an input, accepted by the strict decoder and gives the same bytes, for every body.
\<close>

theorem base64_roundtrip: "bodyBytes (i\<lparr>ip_Body := [], ip_BodyBase64 := EncodeToString s\<rparr>) = Inr s"
proof -
  have "DecodeString (EncodeToString s) = Some s" by (simp add: DecodeString_def encoded_bytes base64_groups_encoded)
  moreover have "s = []" if "EncodeToString s = []" using that by (cases s rule: EncodeToString.cases) simp_all
  ultimately show ?thesis by (auto simp: bodyBytes_def)
qed

end
