(* ===== verification/Http_Sample.thy ===== *)
theory Http_Sample
  imports Http_Secrets
begin

text \<open>
  The properties of the HTTP tool at a concrete input: an executor made by \<open>New\<close>, two hosts and a chain of three
  requests.
\<close>

subsection \<open>A concrete chain\<close>

definition sample_url :: "string \<Rightarrow> string \<Rightarrow> URL" where
  "sample_url host path = \<lparr>u_Scheme = ''https'', u_Opaque = [], u_User = False, u_Host = host, u_Path = path, u_RawQuery = [], u_Fragment = []\<rparr>"

definition sample_parse :: "string \<Rightarrow> URL option" where
  "sample_parse s = (if HasPrefix s ''https://''
     then Some (sample_url (takeWhile (\<lambda>c. c \<noteq> CHR ''/'') (drop 8 s)) (dropWhile (\<lambda>c. c \<noteq> CHR ''/'') (drop 8 s))) else None)"

definition sample_lib :: url_lib where
  "sample_lib = \<lparr>ul_Parse = sample_parse, ul_String = (\<lambda>u. ''https://'' @ u_Host u @ u_Path u), ul_Reference = (\<lambda>_. sample_parse)\<rparr>"

definition sample_config :: Config where
  "sample_config = \<lparr>cf_AllowedDomains = [''a.x'', ''b.x''], cf_AllowedMethods = [], cf_AllowedPorts = [], cf_AllowedCIDRs = [],
     cf_Timeout = 0, cf_MaxRequestBytes = 0, cf_MaxResponseBytes = 0, cf_MaxResponseHeaderBytes = 0, cf_MaxRedirects = 0,
     cf_DisableRedirects = False, cf_UserAgent = []\<rparr>"

definition sample_executor :: Executor where
  "sample_executor = \<lparr>ex_allowedDomains = [\<lparr>dr_host = ''a.x'', dr_wildcard = False\<rparr>, \<lparr>dr_host = ''b.x'', dr_wildcard = False\<rparr>],
     ex_allowedMethods = [''GET'', ''HEAD''], ex_allowedPorts = [], ex_allowedCIDRs = [], ex_timeout = 30000000000,
     ex_maxRequest = 1048576, ex_maxResponse = 4194304, ex_maxHeaders = 65536, ex_maxRedirects = 5, ex_disableRedirects = False,
     ex_secretResolver = Some (\<lambda>_. Some ''k3y''), ex_userAgent = []\<rparr>"

lemma sample_executor_New: "http_New sample_config [\<lambda>_. Some ''k3y''] = Inr sample_executor"
proof -
  have "domain_rules [''a.x'', ''b.x''] [] = Inr (ex_allowedDomains sample_executor)" by code_simp
  moreover have "map (ToUpper \<circ> TrimSpace) [''GET'', ''HEAD''] = [''GET'', ''HEAD'']" "list_all validToken [''GET'', ''HEAD'']" by code_simp+
  ultimately show ?thesis
    by (simp add: http_New_def sample_config_def result_bind_def ensure_def Let_def configuredLimit_def sample_executor_def
      DefaultTimeout_def DefaultMaxRequestBytes_def DefaultMaxResponseBytes_def DefaultMaxHeaderBytes_def DefaultMaxRedirects_def)
qed

definition sample_response :: "int \<Rightarrow> string \<Rightarrow> Response" where
  "sample_response code to = \<lparr>rp_StatusCode = code, rp_Status = ''status'', rp_Header = [(''Location'', [to])], rp_ContentLength = 0,
     rp_Body = (''the k3y'', None)\<rparr>"

text \<open>The first host redirects to a second, which redirects to itself.\<close>

definition sample_network :: network where
  "sample_network = \<lparr>nw_lookup = (\<lambda>_ _. Some [([93, 184, 216, 34], [])]), nw_dial = (\<lambda>_ _. True),
     nw_answer = (\<lambda>i _. Inr (if i = 0 then sample_response 307 ''https://b.x/''
       else if i = 1 then sample_response 307 ''https://b.x/again'' else sample_response 200 []))\<rparr>"

definition sample_input :: string where
  "sample_input = ''{\"method\":\"GET\",\"url\":\"https://a.x/\",\"secret_headers\":[{\"reference\":\"k\",\"header\":\"X-Api-Key\"}]}''"

definition sample_parsed :: Input where
  "sample_parsed = no_input\<lparr>ip_Method := ''GET'', ip_URL := ''https://a.x/'',
     ip_SecretHeaders := [\<lparr>sr_Reference = ''k'', sr_Header = ''X-Api-Key'', sr_Prefix = []\<rparr>]\<rparr>"

lemma sample_parsed_eq: "ParseAndValidate sample_executor sample_lib sample_input = Inr (sample_parsed, RiskSecretAccess)"
  by code_simp

lemma sample_secrets_eq: "resolveSecretHeaders sample_executor (ip_SecretHeaders sample_parsed) = Inr ([(''X-Api-Key'', ''k3y'')], [''k3y'', ''k3y''])"
  by code_simp

definition sample_request :: http_Request where
  "sample_request = \<lparr>rq_Method = ''GET'', rq_URL = sample_url ''a.x'' ''/'', rq_Header = [(''X-Api-Key'', ''k3y'')], rq_Body = []\<rparr>"

definition sample_trips :: "trip list" where
  "sample_trips = snd (client_do sample_executor sample_lib sample_network [''k3y'', ''k3y''] [''X-Api-Key''] sample_request [] False sample_request)"

lemma sample_trips_eq:
  "map (\<lambda>t. (Hostname (rq_URL (tr_Request t)), map_of (rq_Header (tr_Request t)) ''X-Api-Key'', tr_Dialled t)) sample_trips =
     [(''a.x'', Some ''k3y'', [(IP4 0x5DB8D822, 443)]), (''b.x'', None, [(IP4 0x5DB8D822, 443)]), (''b.x'', Some ''k3y'', [(IP4 0x5DB8D822, 443)])]"
  by code_simp

abbreviation sample_execution :: "(http_err + Output \<times> http_err option) \<times> trip list" where
  "sample_execution \<equiv> Execute sample_executor sample_lib sample_network id \<lparr>cx_request = None, cx_parent = None\<rparr> sample_input"

lemma sample_execution_trips: "snd sample_execution = sample_trips"
proof -
  have "ip_DryRun sample_parsed = False" "bodyBytes sample_parsed = Inr []" "ul_Parse sample_lib (ip_URL sample_parsed) = Some (sample_url ''a.x'' ''/'')"
    "checkRequestSize sample_executor sample_lib (ip_Method sample_parsed) (sample_url ''a.x'' ''/'') (ip_Headers sample_parsed) [] [(''X-Api-Key'', ''k3y'')] = Inr ()"
    "initial_request sample_executor sample_parsed (sample_url ''a.x'' ''/'') [] [(''X-Api-Key'', ''k3y'')] = sample_request"
    "map (CanonicalHeaderKey \<circ> sr_Header) (ip_SecretHeaders sample_parsed) = [''X-Api-Key'']" by code_simp+
  then show ?thesis
    by (simp add: Execute_def sample_parsed_eq sample_secrets_eq sample_trips_def Let_def split: prod.split sum.split)
qed



lemma sample_execution_eq: "sample_execution = (fst sample_execution, sample_trips)"
  by (metis prod.collapse sample_execution_trips)

lemma sample_trips3: obtains t u v where "sample_trips = [t, u, v]" "(IP4 0x5DB8D822, 443) \<in> set (tr_Dialled t)"
    "Hostname (rq_URL (tr_Request t)) = ''a.x''" "Hostname (rq_URL (tr_Request u)) = ''b.x''"
  using sample_trips_eq by (auto simp: Cons_eq_map_conv map_eq_Cons_conv)

theorem http_contacts_permitted_witness:
  "\<exists>t :: trip. validateURL sample_executor (rq_URL (tr_Request t)) = Inr () \<and> Hostname (rq_URL (tr_Request t)) = ''a.x'' \<and>
     (IP4 0x5DB8D822, 443) \<in> set (tr_Dialled t) \<and> validateAddress sample_executor (IP4 0x5DB8D822) = Inr ()"
proof -
  obtain t u v where t: "sample_trips = [t, u, v]" "(IP4 0x5DB8D822, 443) \<in> set (tr_Dialled t)" "Hostname (rq_URL (tr_Request t)) = ''a.x''"
    by (rule sample_trips3)
  have "t \<in> set sample_trips" unfolding t(1) by simp
  from http_contacts_permitted [OF sample_execution_eq this t(2)] t(2,3) show ?thesis by blast
qed

theorem redirects_bounded_witness: "length (snd sample_execution) = 3 \<and> length (snd sample_execution) \<le> 21"
  using redirects_bounded [OF sample_executor_New sample_execution_eq] arg_cong [OF sample_trips_eq, of length]
  by (simp add: sample_execution_trips)

theorem secrets_dropped_across_origins_witness:
  "\<exists>t u v. snd sample_execution = [t, u, v] \<and> Hostname (rq_URL (tr_Request u)) = ''b.x'' \<and>
     CanonicalHeaderKey ''X-Api-Key'' \<notin> fst ` set (rq_Header (tr_Request u))"
proof -
  obtain t u v where t: "sample_trips = [t, u, v]" "Hostname (rq_URL (tr_Request t)) = ''a.x''" "Hostname (rq_URL (tr_Request u)) = ''b.x''"
    by (rule sample_trips3)
  have "normalizeHostname ''a.x'' \<noteq> normalizeHostname ''b.x''" by code_simp
  with t(2,3) have "\<not> sameOrigin (rq_URL (tr_Request t)) (rq_URL (tr_Request u))" by (simp add: sameOrigin_def split: sum.split)
  moreover have "\<lparr>sr_Reference = ''k'', sr_Header = ''X-Api-Key'', sr_Prefix = []\<rparr> \<in> set (ip_SecretHeaders sample_parsed)"
    by (simp add: sample_parsed_def no_input_def)
  ultimately have "CanonicalHeaderKey ''X-Api-Key'' \<notin> fst ` set (rq_Header (tr_Request u))"
    using secrets_dropped_across_origins [OF sample_parsed_eq sample_execution_eq, of 0 "\<lparr>sr_Reference = ''k'', sr_Header = ''X-Api-Key'', sr_Prefix = []\<rparr>"]
    by (simp add: t(1))
  with t(1,3) show ?thesis unfolding sample_execution_trips by blast
qed

theorem no_secret_in_output_witness:
  "case fst sample_execution of Inl _ \<Rightarrow> True | Inr (out, _) \<Rightarrow> \<not> Contains (op_Body out) ''k3y''"
proof -
  have "sublist ''k3y'' ''REDACTED'' \<longleftrightarrow> Contains ''REDACTED'' ''k3y''" by (simp add: Contains_iff)
  moreover have "\<not> Contains ''REDACTED'' ''k3y''" by code_simp
  ultimately have "unmarked ''k3y''" by (simp add: unmarked_def)
  with no_secret_in_output [OF sample_parsed_eq sample_secrets_eq, of sample_network id "\<lparr>cx_request = None, cx_parent = None\<rparr>" _ _ _ "''k3y''"]
  show ?thesis using sample_execution_eq by (auto split: sum.split)
qed

end
