(* ===== verification/Go_Path.thy ===== *)
theory Go_Path
  imports Go_Strings
begin

text \<open>
  \<open>path/filepath\<close> on Unix, as far as the tools use it.  A path is a text; \<open>elements\<close> are the names that
  remain of it when empty names and dots are removed and \<open>..\<close> is resolved against the name before
  it, and the lexical functions of the package are functions of the elements.
\<close>

definition IsAbs :: "string \<Rightarrow> bool" where
  "IsAbs path \<longleftrightarrow> HasPrefix path ''/''"

text \<open>The loop of \<open>Clean\<close>; \<open>acc\<close> are the names kept so far, the last first.\<close>

fun clean_elements :: "bool \<Rightarrow> string list \<Rightarrow> string list \<Rightarrow> string list" where
  "clean_elements rooted [] acc = rev acc"
| "clean_elements rooted (p # ps) acc =
     (if p = [] \<or> p = ''.'' then clean_elements rooted ps acc
      else if p = ''..'' then
        (case acc of
           [] \<Rightarrow> clean_elements rooted ps (if rooted then [] else [p])
         | a # as \<Rightarrow> clean_elements rooted ps (if a = ''..'' then p # acc else as))
      else clean_elements rooted ps (p # acc))"

definition elements :: "string \<Rightarrow> string list" where
  "elements path = clean_elements (IsAbs path) (split_at (CHR ''/'') path) []"

definition path_of :: "bool \<Rightarrow> string list \<Rightarrow> string" where
  "path_of rooted ps = (if rooted then CHR ''/'' # Join ps ''/'' else if ps = [] then ''.'' else Join ps ''/'')"

definition Clean :: "string \<Rightarrow> string" where
  "Clean path = path_of (IsAbs path) (elements path)"

definition path_Join :: "string list \<Rightarrow> string" where
  "path_Join es = (case dropWhile (\<lambda>e. e = []) es of [] \<Rightarrow> [] | xs \<Rightarrow> Clean (Join xs ''/''))"

definition Dir :: "string \<Rightarrow> string" where
  "Dir path = Clean (rev (dropWhile (\<lambda>c. \<not> slash c) (rev path)))"

definition Ext :: "string \<Rightarrow> string" where
  "Ext path = (let r = rev path; n = takeWhile (\<lambda>c. c \<noteq> CHR ''.'' \<and> \<not> slash c) r in
     case drop (length n) r of c # _ \<Rightarrow> if slash c then [] else CHR ''.'' # rev n | [] \<Rightarrow> [])"

text \<open>
  \<open>Rel\<close>: both paths are cleaned, the names they share are skipped, and the way goes up over the rest
  of the base and down over the rest of the target.  \<open>names\<close> splits a path that has been cleaned.
\<close>

definition names :: "string \<Rightarrow> string list" where
  "names path = (let p = TrimPrefix path ''/'' in if p = [] then [] else split_at (CHR ''/'') p)"

fun skip_common :: "string list \<Rightarrow> string list \<Rightarrow> string list \<times> string list" where
  "skip_common (a # as) (b # bs) = (if a = b then skip_common as bs else (a # as, b # bs))"
| "skip_common as bs = (as, bs)"

definition Rel :: "string \<Rightarrow> string \<Rightarrow> string option" where
  "Rel basepath targpath =
     (let base0 = Clean basepath; targ = Clean targpath; base = (if base0 = ''.'' then [] else base0) in
      if targ = base0 then Some ''.''
      else if IsAbs base \<noteq> IsAbs targ then None
      else (case skip_common (names base) (names targ) of
        ([], ts) \<Rightarrow> Some (Join ts ''/'')
      | (b # bs, ts) \<Rightarrow> if b = ''..'' then None else Some (Join (map (\<lambda>_. ''..'') (b # bs) @ ts) ''/'')))"

definition IsLocal :: "string \<Rightarrow> bool" where
  "IsLocal path \<longleftrightarrow> \<not> IsAbs path \<and> path \<noteq> [] \<and>
     (let p = (if list_ex (\<lambda>x. x = ''.'' \<or> x = ''..'') (split_at (CHR ''/'') path) then Clean path else path) in
      p \<noteq> ''..'' \<and> \<not> HasPrefix p ''../'')"

text \<open>The test by which the tools decide that a path is a directory or lies below it.\<close>

definition goes_up :: "string \<Rightarrow> bool" where
  "goes_up relative \<longleftrightarrow> relative = ''..'' \<or> HasPrefix relative ''../''"

subsection \<open>Splitting and joining\<close>

lemma split_at_neq_Nil [simp]: "split_at c s \<noteq> []"
  by (induction s) (auto split: list.splits)

lemma split_at_parts: "p \<in> set (split_at c s) \<Longrightarrow> c \<notin> set p"
  by (induction s arbitrary: p) (fastforce split: if_splits list.splits)+

lemma split_at_none: "c \<notin> set p \<Longrightarrow> split_at c p = [p]"
  by (induction p) (auto split: list.splits)

lemma split_at_append: "c \<notin> set p \<Longrightarrow> split_at c (p @ c # s) = p # split_at c s"
  by (induction p) (auto split: list.splits)

lemma split_at_Join: "ps \<noteq> [] \<Longrightarrow> list_all (\<lambda>p. c \<notin> set p) ps \<Longrightarrow> split_at c (Join ps [c]) = ps"
  by (induction ps "[c]" rule: Join.induct) (auto simp: split_at_none split_at_append)

lemma Join_eq_Nil: "list_all (\<lambda>p. p \<noteq> []) ps \<Longrightarrow> Join ps sep = [] \<longleftrightarrow> ps = []"
  by (cases "(ps, sep)" rule: Join.cases) auto

lemma Join_head: "ps \<noteq> [] \<Longrightarrow> hd ps \<noteq> [] \<Longrightarrow> Join ps sep \<noteq> [] \<and> hd (Join ps sep) = hd (hd ps)"
  by (cases "(ps, sep)" rule: Join.cases) auto

subsection \<open>Elements\<close>

text \<open>A name that an element can be; a clean list has \<open>..\<close> at its start only, and not at all when it is rooted.\<close>

definition plain_name :: "string \<Rightarrow> bool" where
  "plain_name p \<longleftrightarrow> p \<noteq> [] \<and> p \<noteq> ''.'' \<and> CHR ''/'' \<notin> set p"

definition clean_list :: "bool \<Rightarrow> string list \<Rightarrow> bool" where
  "clean_list rooted ps \<longleftrightarrow> list_all plain_name ps \<and>
     (\<forall>xs ys. ps = xs @ ''..'' # ys \<longrightarrow> \<not> rooted \<and> set xs \<subseteq> {''..''})"

lemma clean_list_Nil [simp]: "clean_list rooted []"
  by (simp add: clean_list_def)

lemma clean_list_prefix: "clean_list rooted (ps @ rs) \<Longrightarrow> clean_list rooted ps"
  unfolding clean_list_def by (metis append.assoc append_Cons list_all_append)

lemma clean_list_snoc:
  assumes "clean_list rooted ps" and "plain_name p" and "p \<noteq> ''..''"
  shows "clean_list rooted (ps @ [p])"
proof -
  have "\<not> rooted \<and> set xs \<subseteq> {''..''}" if "ps @ [p] = xs @ ''..'' # ys" for xs ys
    using that assms(1,3) by (cases ys rule: rev_cases) (auto simp: clean_list_def)
  with assms show ?thesis by (simp add: clean_list_def)
qed

lemma clean_list_last:
  assumes "clean_list rooted (ps @ [''..''])"
  shows "\<not> rooted" "ps = [] \<or> last ps = ''..''"
  using assms by (auto simp: clean_list_def dest: last_in_set)

lemma clean_list_up:
  assumes "clean_list False ps" and "ps = [] \<or> last ps = ''..''"
  shows "clean_list False (ps @ [''..''])"
proof -
  have all: "set ps \<subseteq> {''..''}"
    using assms by (cases ps rule: rev_cases) (auto simp: clean_list_def)
  have "set xs \<subseteq> {''..''}" if "ps @ [''..''] = xs @ ''..'' # ys" for xs ys
    using that all by (cases ys rule: rev_cases) auto
  with assms(1) show ?thesis by (simp add: clean_list_def plain_name_def)
qed

lemma clean_elements_clean:
  "clean_list rooted (rev acc) \<Longrightarrow> list_all (\<lambda>p. CHR ''/'' \<notin> set p) ps \<Longrightarrow> clean_list rooted (clean_elements rooted ps acc)"
proof (induction rooted ps acc rule: clean_elements.induct)
  case (2 rooted p ps acc)
  show ?case
  proof (cases acc)
    case Nil
    with 2 show ?thesis using clean_list_snoc [of rooted "[]" p] clean_list_up [of "[]"] by (auto simp: plain_name_def)
  next
    case (Cons a as)
    have pop: "clean_list rooted (rev as)" using 2(5) Cons clean_list_prefix by auto
    have up: "clean_list rooted (rev acc @ [''..''])" if "a = ''..''"
      using 2(5) that Cons clean_list_last(1) [of rooted "rev as"] clean_list_up [of "rev acc"] by (cases rooted) auto
    show ?thesis
      using 2 Cons clean_list_snoc [of rooted "rev acc" p] pop up by (auto simp: plain_name_def)
  qed
qed simp

lemma clean_elements_id: "clean_list rooted (rev acc @ ps) \<Longrightarrow> clean_elements rooted ps acc = rev acc @ ps"
proof (induction rooted ps acc rule: clean_elements.induct)
  case (2 rooted p ps acc)
  have plain: "plain_name p" using 2(5) by (auto simp: clean_list_def)
  have pre: "clean_list rooted (rev acc @ [p])" using 2(5) clean_list_prefix [of rooted "rev acc @ [p]" ps] by simp
  show ?case
  proof (cases "p = ''..''")
    case True
    with pre clean_list_last [of rooted "rev acc"] have "\<not> rooted" "acc = [] \<or> hd acc = ''..''"
      by (auto simp: last_rev)
    with 2 True show ?thesis by (cases acc) auto
  next
    case False
    with 2 plain show ?thesis by (simp add: plain_name_def)
  qed
qed simp

lemma elements_clean: "clean_list (IsAbs p) (elements p)"
  unfolding elements_def by (rule clean_elements_clean) (auto simp: list_all_iff dest: split_at_parts)

lemma IsAbs_path_of: assumes "clean_list rooted ps" shows "IsAbs (path_of rooted ps) \<longleftrightarrow> rooted"
proof (cases "rooted \<or> ps = []")
  case False
  with assms have "hd ps \<noteq> []" "hd (hd ps) \<noteq> CHR ''/''"
    by (auto simp: clean_list_def plain_name_def list_all_iff dest!: bspec [OF _ hd_in_set] dest: hd_in_set)
  with False Join_head [of ps "''/''"] show ?thesis by (cases "Join ps ''/''") (auto simp: IsAbs_def path_of_def)
qed (auto simp: IsAbs_def path_of_def)

lemma elements_path_of: assumes "clean_list rooted ps" shows "elements (path_of rooted ps) = ps"
proof -
  have parts: "list_all (\<lambda>p. CHR ''/'' \<notin> set p) ps" using assms by (auto simp: clean_list_def plain_name_def list_all_iff)
  have "clean_elements rooted ps [] = ps" using clean_elements_id [of rooted "[]" ps] assms by simp
  then show ?thesis using parts IsAbs_path_of [OF assms] split_at_Join [OF _ parts]
    by (cases "ps = []") (auto simp: elements_def path_of_def)
qed

lemma names_path_of: assumes "clean_list rooted ps" and "rooted \<or> ps \<noteq> []" shows "names (path_of rooted ps) = ps"
proof -
  have parts: "list_all (\<lambda>p. CHR ''/'' \<notin> set p) ps" "list_all (\<lambda>p. p \<noteq> []) ps"
    using assms(1) by (auto simp: clean_list_def plain_name_def list_all_iff)
  have "TrimPrefix (path_of rooted ps) ''/'' = Join ps ''/''"
    using IsAbs_path_of [OF assms(1)] assms(2) by (auto simp: TrimPrefix_def path_of_def IsAbs_def split: if_splits)
  with parts split_at_Join [OF _ parts(1)] show ?thesis by (auto simp: names_def Join_eq_Nil)
qed

lemma IsAbs_Clean [simp]: "IsAbs (Clean p) = IsAbs p"
  by (simp add: Clean_def IsAbs_path_of elements_clean)

lemma elements_Clean [simp]: "elements (Clean p) = elements p"
  by (simp add: Clean_def elements_path_of elements_clean)

lemma Clean_Clean [simp]: "Clean (Clean p) = Clean p"
  by (simp add: Clean_def [of "Clean p"]) (simp add: Clean_def)

subsection \<open>Relative paths\<close>

lemma skip_common_append: "skip_common as bs = (xs, ys) \<Longrightarrow> \<exists>zs. as = zs @ xs \<and> bs = zs @ ys"
proof (induction as bs rule: skip_common.induct)
  case (1 a as b bs)
  then show ?case by (cases "a = b") (auto intro: exI [of _ "a # _"])
qed auto

lemma skip_common_differ: "skip_common as bs = (x # xs, y # ys) \<Longrightarrow> x \<noteq> y"
  by (induction as bs rule: skip_common.induct) (auto split: if_splits)

lemma skip_common_prefix: "skip_common as bs = ([], ys) \<longleftrightarrow> bs = as @ ys"
  by (induction as bs rule: skip_common.induct) auto

lemma goes_up_Join:
  assumes "list_all plain_name ps"
  shows "goes_up (Join ps ''/'') \<longleftrightarrow> (\<exists>rs. ps = ''..'' # rs)"
proof (cases "(ps, ''/'')" rule: Join.cases)
  case (3 x y xs sep)
  have "prefix ''../'' (x @ CHR ''/'' # t) \<longleftrightarrow> x = ''..''" if "CHR ''/'' \<notin> set x" "x \<noteq> []" for t
    using that by (cases x rule: remdups_adj.cases) (auto simp: Cons_eq_append_conv append_eq_Cons_conv, case_tac xs, auto)
  with 3 assms show ?thesis by (auto simp: goes_up_def plain_name_def append_eq_Cons_conv Cons_eq_append_conv)
qed (use assms in \<open>auto simp: goes_up_def plain_name_def prefix_def\<close>)

lemma Clean_inj: assumes "IsAbs p = IsAbs q" shows "Clean p = Clean q \<longleftrightarrow> elements p = elements q"
proof
  assume "Clean p = Clean q"
  from arg_cong [OF this, of elements] show "elements p = elements q" by simp
qed (simp add: Clean_def assms)

lemma Clean_abs_neq_dot: "IsAbs p \<Longrightarrow> Clean p \<noteq> ''.''"
  by (simp add: Clean_def path_of_def)

lemma names_Clean_abs: "IsAbs p \<Longrightarrow> names (Clean p) = elements p"
  using names_path_of [OF elements_clean, of p] by (simp add: Clean_def)

text \<open>Between two absolute paths there is always a way, and it goes up exactly when the target is not below the base.\<close>

lemma Rel_below: assumes "IsAbs b" and "elements t = elements b @ rest" and "IsAbs t"
  shows "Rel b t = Some (if rest = [] then ''.'' else Join rest ''/'')"
  using assms skip_common_prefix [of "elements b" "elements t" rest]
  by (auto simp: Rel_def Clean_inj Clean_abs_neq_dot names_Clean_abs)

lemma Rel_above: assumes "IsAbs b" and "IsAbs t" and "\<not> prefix (elements b) (elements t)"
  shows "\<exists>r. Rel b t = Some r \<and> goes_up r"
proof -
  obtain bs ts where split: "skip_common (elements b) (elements t) = (bs, ts)" by fastforce
  with assms(3) obtain x xs where bs: "bs = x # xs" using skip_common_prefix [of "elements b" "elements t" ts] by (cases bs) auto
  obtain zs where zs: "elements b = zs @ bs" "elements t = zs @ ts" using skip_common_append [OF split] by auto
  have plain: "list_all plain_name ts" "x \<noteq> ''..''"
    using elements_clean [of t] elements_clean [of b] zs bs assms by (auto simp: clean_list_def)
  have "list_all plain_name (map (\<lambda>_. ''..'') bs @ ts)" using plain(1) by (auto simp: plain_name_def list_all_iff)
  from goes_up_Join [OF this] have "goes_up (Join (map (\<lambda>_. ''..'') bs @ ts) ''/'')" by (simp add: bs)
  moreover have "elements b \<noteq> elements t" using assms(3) by auto
  ultimately show ?thesis using assms split bs plain(2)
    by (auto simp: Rel_def Clean_inj Clean_abs_neq_dot names_Clean_abs)
qed

lemma clean_list_rooted: "clean_list True ps \<longleftrightarrow> list_all plain_name ps \<and> ''..'' \<notin> set ps"
  by (auto simp: clean_list_def in_set_conv_decomp)

lemma clean_list_up_first: assumes "clean_list rooted ps" and "''..'' \<in> set ps" shows "hd ps = ''..''"
proof -
  from assms(2) obtain xs ys where ps: "ps = xs @ ''..'' # ys" by (auto simp: in_set_conv_decomp)
  with assms(1) have "set xs \<subseteq> {''..''}" by (simp add: clean_list_def)
  with ps show ?thesis by (cases xs) auto
qed

lemma clean_elements_subset: "set (clean_elements rooted ps acc) \<subseteq> set ps \<union> set acc"
  by (induction rooted ps acc rule: clean_elements.induct) (auto split: list.splits if_splits)

lemma Rel_inside:
  assumes "IsAbs b" and "IsAbs t"
  shows "(\<exists>r. Rel b t = Some r \<and> \<not> goes_up r) \<longleftrightarrow> prefix (elements b) (elements t)"
proof (cases "prefix (elements b) (elements t)")
  case True
  then obtain rest where rest: "elements t = elements b @ rest" by (auto simp: prefix_def)
  have "list_all plain_name rest" "''..'' \<notin> set rest"
    using elements_clean [of t] assms(2) rest by (auto simp: clean_list_rooted)
  then have "\<not> goes_up (Join rest ''/'')" using goes_up_Join by auto
  with True Rel_below [OF assms(1) rest assms(2)] show ?thesis by (auto simp: goes_up_def)
next
  case False
  with Rel_above [OF assms] show ?thesis by auto
qed

lemma IsLocal_elements: assumes "IsLocal p" shows "''..'' \<notin> set (elements p)" "\<not> IsAbs p"
proof -
  show abs: "\<not> IsAbs p" using assms by (simp add: IsLocal_def)
  show "''..'' \<notin> set (elements p)"
  proof
    assume dots: "''..'' \<in> set (elements p)"
    with clean_list_up_first [OF elements_clean, of p] obtain rs where rs: "elements p = ''..'' # rs" by (cases "elements p") auto
    then have "goes_up (Clean p)"
      using goes_up_Join [of "elements p"] elements_clean [of p] abs by (auto simp: Clean_def path_of_def clean_list_def)
    moreover have "''..'' \<in> set (split_at (CHR ''/'') p)"
      using dots clean_elements_subset unfolding elements_def by fastforce
    ultimately show False using assms by (auto simp: IsLocal_def goes_up_def Let_def list_ex_iff split: if_splits)
  qed
qed

end
