(* ===== verification/Shell_Input.thy ===== *)
theory Shell_Input
  imports Go_Path Schema Http_Input "HOL-Library.Word"
begin

unbundle bit_operations_syntax

text \<open>
  \<open>tools/shell/shell.go\<close>, first part: the input of the shell tool, what it asks of the operating system (the record
  \<open>system\<close>, an argument), the classification of commands and \<open>ParseAndValidate\<close>, on Unix.  A file may be another one each time it is
  opened: \<open>sy_Open\<close> and \<open>sy_Stat\<close> take the number of the call within one request.  SHA-256 in hexadecimal digits is an argument.
\<close>

record shell_Input =
  si_Command :: string
  si_Args :: "string list option"
  si_WorkingDir :: string
  si_Environment :: "(string \<times> string) list"
  si_TimeoutSeconds :: int
  si_DryRun :: bool
  si_ExecutableSHA256 :: string

record shell_Executor =
  se_workspaces :: "string list"
  se_allowedEnv :: "string list"
  se_redactedValues :: "string list"

datatype shell_err = ShellError string | ShellTimedOut | ShellExited int

text \<open>An open file: \<open>Stat\<close> may fail, and reading gives \<open>fl_Data\<close> and then an error or the end of the file.\<close>

record file_info =
  fi_Regular :: bool
  fi_Perm :: "9 word"
  fi_Size :: int

record open_file =
  fl_Info :: "file_info option"
  fl_Data :: string
  fl_ReadFails :: bool
  fl_SeekFails :: bool

text \<open>
  \<open>sy_TempDir\<close> is the new private directory, \<open>sy_Fault\<close> which calls of the staging fail and \<open>sy_Reread\<close> what reading the
  private copy yields.
\<close>

record system =
  sy_Getwd :: "string option"
  sy_EvalSymlinks :: "string \<Rightarrow> string option"
  sy_LookPath :: "string \<Rightarrow> string option"
  sy_Open :: "nat \<Rightarrow> string \<Rightarrow> open_file option"
  sy_Stat :: "nat \<Rightarrow> string \<Rightarrow> file_info option"
  sy_Environ :: "string list"
  sy_TempDir :: "string option"
  sy_Fault :: "string \<Rightarrow> bool"
  sy_Reread :: "string \<Rightarrow> string option"

definition Abs :: "system \<Rightarrow> string \<Rightarrow> string option" where
  "Abs sys path = (if IsAbs path then Some (Clean path) else map_option (\<lambda>wd. path_Join [wd, path]) (sy_Getwd sys))"

subsection \<open>Limits and lists\<close>

definition maxOutputBytes :: int where
  "maxOutputBytes = 1048576"

definition maxCommandBytes :: int where
  "maxCommandBytes = 1024"

definition maxWorkingDirBytes :: int where
  "maxWorkingDirBytes = 2048"

definition maxArgumentCount :: int where
  "maxArgumentCount = 128"

definition maxArgumentBytes :: int where
  "maxArgumentBytes = 4096"

definition maxArgumentsBytes :: int where
  "maxArgumentsBytes = 8192"

definition maxEnvironmentCount :: int where
  "maxEnvironmentCount = 64"

definition maxEnvironmentBytes :: int where
  "maxEnvironmentBytes = 2048"

definition maxEnvironmentValue :: int where
  "maxEnvironmentValue = 1024"

definition maxExecutableBytes :: int where
  "maxExecutableBytes = 268435456"

definition readOnlyCommands :: "string list" where
  "readOnlyCommands = [''pwd'', ''ls'', ''cat'', ''head'', ''tail'', ''wc'', ''rg'', ''grep'', ''stat'', ''uname'', ''whoami'']"

definition destructiveCommands :: "string list" where
  "destructiveCommands = [''rm'', ''rmdir'', ''dd'', ''mkfs'', ''diskutil'', ''shutdown'', ''reboot'', ''kill'', ''killall'',
     ''truncate'', ''format'', ''del'', ''erase'']"

definition privilegedCommands :: "string list" where
  "privilegedCommands = [''sudo'', ''sudo.exe'', ''su'', ''doas'', ''pkexec'', ''runas'', ''runas.exe'', ''env'', ''xargs'', ''nice'',
     ''nohup'', ''setsid'']"

definition deniedInterpreter :: "string \<Rightarrow> bool" where
  "deniedInterpreter base \<longleftrightarrow> base \<in> set [''sh'', ''bash'', ''zsh'', ''fish'', ''dash'', ''cmd'', ''cmd.exe'', ''powershell'',
     ''powershell.exe'', ''pwsh'', ''osascript'']"

definition deniedExecutableExtension :: "string \<Rightarrow> bool" where
  "deniedExecutableExtension extension \<longleftrightarrow>
     extension \<in> set [''.bat'', ''.cmd'', ''.ps1'', ''.vbs'', ''.vbe'', ''.js'', ''.jse'', ''.wsf'', ''.wsh'']"

subsection \<open>Classification\<close>

definition strictReadOnlyShape :: "string \<Rightarrow> string list \<Rightarrow> bool" where
  "strictReadOnlyShape base arguments \<longleftrightarrow>
     (if base = ''uname'' then list_all (\<lambda>a. a \<in> set [''-a'', ''-s'', ''-n'', ''-r'', ''-v'', ''-m'', ''-p'', ''-i'', ''-o'']) arguments
      else arguments = [])"

definition arguments :: "shell_Input \<Rightarrow> string list" where
  "arguments i = (case si_Args i of None \<Rightarrow> [] | Some as \<Rightarrow> as)"

definition shell_Classify :: "shell_Input \<Rightarrow> Risk" where
  "shell_Classify i = (let base = ToLower (Base (si_Command i)) in
     if base \<in> set privilegedCommands then RiskPrivileged
     else if base \<in> set destructiveCommands then RiskDestructive
     else if base \<in> set readOnlyCommands then
       (if strictReadOnlyShape base (arguments i) then RiskReadOnly else RiskStateChanging)
     else RiskStateChanging)"

subsection \<open>Decoding\<close>

definition no_shell_input :: shell_Input where
  "no_shell_input = \<lparr>si_Command = [], si_Args = None, si_WorkingDir = [], si_Environment = [], si_TimeoutSeconds = 0,
     si_DryRun = False, si_ExecutableSHA256 = []\<rparr>"

fun decode_texts :: "json list \<Rightarrow> string list \<Rightarrow> string list option" where
  "decode_texts [] old = Some []"
| "decode_texts (v # vs) old =
     (case text_value v (case old of [] \<Rightarrow> [] | s # _ \<Rightarrow> s) of
        None \<Rightarrow> None
      | Some s \<Rightarrow> map_option ((#) s) (decode_texts vs (tl old)))"

definition shell_member :: "string \<Rightarrow> json \<Rightarrow> shell_Input \<Rightarrow> shell_Input option" where
  "shell_member k v i =
     (if same_key ''command'' k then map_option (\<lambda>s. i\<lparr>si_Command := s\<rparr>) (text_value v (si_Command i))
      else if same_key ''args'' k then
        (case v of JNull \<Rightarrow> Some (i\<lparr>si_Args := None\<rparr>)
         | JArr vs \<Rightarrow> map_option (\<lambda>as. i\<lparr>si_Args := Some as\<rparr>) (decode_texts vs (arguments i)) | _ \<Rightarrow> None)
      else if same_key ''working_directory'' k then map_option (\<lambda>s. i\<lparr>si_WorkingDir := s\<rparr>) (text_value v (si_WorkingDir i))
      else if same_key ''environment'' k then
        (case v of JNull \<Rightarrow> Some (i\<lparr>si_Environment := []\<rparr>)
         | JObj kvs \<Rightarrow> map_option (\<lambda>es. i\<lparr>si_Environment := es\<rparr>) (decode_headers kvs (si_Environment i)) | _ \<Rightarrow> None)
      else if same_key ''timeout_seconds'' k then
        (case v of JNull \<Rightarrow> Some i
         | JLit t \<Rightarrow> map_option (\<lambda>n. i\<lparr>si_TimeoutSeconds := n\<rparr>) (ParseInt t) | _ \<Rightarrow> None)
      else if same_key ''dry_run'' k then
        (case v of JNull \<Rightarrow> Some i | JBool b \<Rightarrow> Some (i\<lparr>si_DryRun := b\<rparr>) | _ \<Rightarrow> None)
      else if same_key ''executable_sha256'' k then
        map_option (\<lambda>s. i\<lparr>si_ExecutableSHA256 := s\<rparr>) (text_value v (si_ExecutableSHA256 i))
      else None)"

fun decode_shell :: "(string \<times> json) list \<Rightarrow> shell_Input \<Rightarrow> shell_Input option" where
  "decode_shell [] i = Some i"
| "decode_shell ((k, v) # kvs) i = (case shell_member k v i of None \<Rightarrow> None | Some i' \<Rightarrow> decode_shell kvs i')"

subsection \<open>The executable\<close>

definition NUL :: char where
  "NUL = char_of (0 :: nat)"

definition script :: "open_file \<Rightarrow> bool" where
  "script f \<longleftrightarrow> take 2 (fl_Data f) = ''#!''"

definition head_unreadable :: "open_file \<Rightarrow> bool" where
  "head_unreadable f \<longleftrightarrow> length (fl_Data f) < 2 \<and> (fl_ReadFails f \<or> fl_Data f = [])"

text \<open>The checks on the open file, in their order, and its digest.\<close>

definition inspect_executable :: "(string \<Rightarrow> string) \<Rightarrow> open_file \<Rightarrow> string \<Rightarrow> shell_err + string" where
  "inspect_executable sha f approvedDigest = (case fl_Info f of
     None \<Rightarrow> Inl (ShellError ''shell executable must be a regular file'')
   | Some info \<Rightarrow>
       if \<not> fi_Regular info then Inl (ShellError ''shell executable must be a regular file'')
       else if fi_Size info < 1 \<or> fi_Size info > maxExecutableBytes then Inl (ShellError ''shell executable size'')
       else if fi_Perm info AND 73 = 0 then Inl (ShellError ''shell executable is not executable'')
       else if head_unreadable f then Inl (ShellError ''inspect shell executable'')
       else if script f then Inl (ShellError ''script interpreters are denied; invoke a native binary directly'')
       else if fl_SeekFails f then Inl (ShellError ''inspect shell executable'')
       else if fl_ReadFails f then Inl (ShellError ''hash shell executable'')
       else (let digest = sha (fl_Data f) in
         if approvedDigest \<noteq> [] \<and> \<not> EqualFold approvedDigest digest then Inl (ShellError ''shell executable changed after approval'')
         else Inr digest))"

definition resolveExecutable :: "system \<Rightarrow> (string \<Rightarrow> string) \<Rightarrow> nat \<Rightarrow> string \<Rightarrow> string \<Rightarrow> shell_err + string \<times> string" where
  "resolveExecutable sys sha k command approvedDigest =
     (case Option.bind (sy_LookPath sys command) (Abs sys) of
        None \<Rightarrow> Inl (ShellError ''resolve shell executable'')
      | Some absolute \<Rightarrow> (case sy_EvalSymlinks sys absolute of
          None \<Rightarrow> Inl (ShellError ''resolve shell executable symlinks'')
        | Some resolved \<Rightarrow>
            if int (length resolved) > maxCommandBytes then Inl (ShellError ''resolved command exceeds 1024 bytes'')
            else if deniedExecutableExtension (ToLower (Ext resolved))
            then Inl (ShellError ''script and command-wrapper executables are denied; invoke a native binary directly'')
            else (case sy_Open sys k resolved of
              None \<Rightarrow> if shell_Classify (no_shell_input\<lparr>si_Command := resolved\<rparr>) = RiskPrivileged
                then Inr (Clean resolved, replicate 64 (CHR ''0'')) else Inl (ShellError ''open shell executable'')
            | Some f \<Rightarrow> (case inspect_executable sha f approvedDigest of
                Inl err \<Rightarrow> Inl err | Inr digest \<Rightarrow> Inr (Clean resolved, digest)))))"

definition inside :: "string \<Rightarrow> string \<Rightarrow> bool" where
  "inside directory path \<longleftrightarrow> (case Rel directory path of None \<Rightarrow> False | Some relative \<Rightarrow> \<not> goes_up relative)"

definition trustedDirectories :: "string list" where
  "trustedDirectories = [''/bin'', ''/usr/bin'', ''/sbin'', ''/usr/sbin'']"

definition trustedExecutablePath :: "system \<Rightarrow> nat \<Rightarrow> string \<Rightarrow> bool" where
  "trustedExecutablePath sys k resolved \<longleftrightarrow> (case sy_Stat sys k resolved of
     None \<Rightarrow> False
   | Some info \<Rightarrow> fi_Regular info \<and> fi_Perm info AND 18 = 0 \<and> list_ex (\<lambda>d. inside d resolved) trustedDirectories)"

subsection \<open>Validation\<close>

definition validateWorkingDirectory :: "shell_Executor \<Rightarrow> system \<Rightarrow> string \<Rightarrow> shell_err + string" where
  "validateWorkingDirectory e sys value =
     (if value = [] then Inr (hd (se_workspaces e))
      else (case Option.bind (Abs sys value) (sy_EvalSymlinks sys) of
        None \<Rightarrow> Inl (ShellError ''resolve working directory'')
      | Some resolved0 \<Rightarrow>
          (let resolved = Clean resolved0 in
           if list_ex (\<lambda>w. inside w resolved) (se_workspaces e) then Inr resolved
           else Inl (ShellError ''working directory is outside allowed workspaces''))))"

text \<open>The loops over the arguments and the environment; \<open>n\<close> are the bytes counted so far.\<close>

fun valid_arguments :: "int \<Rightarrow> string list \<Rightarrow> shell_err + unit" where
  "valid_arguments n [] = Inr ()"
| "valid_arguments n (a # as) =
     (if NUL \<in> set a then Inl (ShellError ''arguments cannot contain NUL'')
      else if int (length a) > maxArgumentBytes then Inl (ShellError ''an argument exceeds 4096 bytes'')
      else let n' = n + int (length a) in
        if n' > maxArgumentsBytes then Inl (ShellError ''arguments exceed 8192 total bytes'')
        else valid_arguments n' as)"

definition secret_like :: "string \<Rightarrow> bool" where
  "secret_like name \<longleftrightarrow> (let upper = ToUpper name in
     Contains upper ''TOKEN'' \<or> Contains upper ''SECRET'' \<or> Contains upper ''PASSWORD'' \<or> Contains upper ''PRIVATE_KEY'')"

fun valid_environment :: "shell_Executor \<Rightarrow> int \<Rightarrow> (string \<times> string) list \<Rightarrow> shell_err + unit" where
  "valid_environment e n [] = Inr ()"
| "valid_environment e n ((name, value) # es) =
     (if EqualFold name ''PATH'' then Inl (ShellError ''PATH cannot be overridden by a tool request'')
      else if name \<notin> set (se_allowedEnv e) \<or> CHR ''='' \<in> set name \<or> NUL \<in> set name \<or> NUL \<in> set value
      then Inl (ShellError ''environment variable is not allowed'')
      else if int (length value) > maxEnvironmentValue then Inl (ShellError ''environment variable exceeds 1024 bytes'')
      else let n' = n + int (length name + length value) in
        if n' > maxEnvironmentBytes then Inl (ShellError ''environment exceeds 2048 total bytes'')
        else if secret_like name then Inl (ShellError ''secret-like environment variable requires a secret reference'')
        else valid_environment e n' es)"

definition hex_text :: "string \<Rightarrow> bool" where
  "hex_text s \<longleftrightarrow> length s = 64 \<and> list_all (\<lambda>c. c \<in> set ''0123456789abcdefABCDEF'') s"

definition shell_timeout :: "int \<Rightarrow> int" where
  "shell_timeout n = (if n = 0 then 120 else n)"

definition shell_ParseAndValidate :: "shell_Executor \<Rightarrow> system \<Rightarrow> (string \<Rightarrow> string) \<Rightarrow> string \<Rightarrow> shell_err + shell_Input \<times> Risk" where
  "shell_ParseAndValidate e sys sha raw =
     (case Option.bind (object_members raw) (\<lambda>kvs. decode_shell kvs no_shell_input) of
        None \<Rightarrow> Inl (ShellError ''decode shell input'')
      | Some i \<Rightarrow>
      if si_Command i = [] \<or> NUL \<in> set (si_Command i) then Inl (ShellError ''command is required and cannot contain NUL'') else
      if int (length (si_Command i)) > maxCommandBytes then Inl (ShellError ''command exceeds 1024 bytes'') else
      case si_Args i of None \<Rightarrow> Inl (ShellError ''args is required and must be an array'') | Some args \<Rightarrow>
      if int (length args) > maxArgumentCount then Inl (ShellError ''args exceeds 128 entries'') else
      if Base (si_Command i) \<noteq> si_Command i \<and> \<not> IsAbs (si_Command i)
      then Inl (ShellError ''command must be a binary name or absolute path'') else
      case valid_arguments 0 args of Inl err \<Rightarrow> Inl err | Inr _ \<Rightarrow>
      if si_ExecutableSHA256 i \<noteq> [] \<and> \<not> hex_text (si_ExecutableSHA256 i)
      then Inl (ShellError ''executable_sha256 must contain 64 hexadecimal characters'') else
      case resolveExecutable sys sha 0 (si_Command i) (si_ExecutableSHA256 i) of Inl err \<Rightarrow> Inl err | Inr (command, digest) \<Rightarrow>
      if deniedInterpreter (ToLower (Base command)) then Inl (ShellError ''shell interpreter is denied; structured invocation is required'') else
      let timeout = shell_timeout (si_TimeoutSeconds i) in
      if timeout < 1 \<or> timeout > 3600 then Inl (ShellError ''timeout_seconds must be between 1 and 3600'') else
      case validateWorkingDirectory e sys (si_WorkingDir i) of Inl err \<Rightarrow> Inl err | Inr workingDir \<Rightarrow>
      if int (length workingDir) > maxWorkingDirBytes then Inl (ShellError ''working_directory exceeds 2048 bytes'') else
      if int (length (si_Environment i)) > maxEnvironmentCount then Inl (ShellError ''environment exceeds 64 entries'') else
      case valid_environment e 0 (si_Environment i) of Inl err \<Rightarrow> Inl err | Inr _ \<Rightarrow>
      let input = i\<lparr>si_Command := command, si_ExecutableSHA256 := digest, si_TimeoutSeconds := timeout, si_WorkingDir := workingDir\<rparr>;
          risk = shell_Classify input in
      Inr (input, if risk = RiskReadOnly \<and> \<not> trustedExecutablePath sys 1 command then RiskStateChanging else risk))"

subsection \<open>The executor\<close>

definition resolve_workspace :: "system \<Rightarrow> string \<Rightarrow> shell_err + string" where
  "resolve_workspace sys w = (case Abs sys w of
     None \<Rightarrow> Inl (ShellError ''resolve workspace'')
   | Some a \<Rightarrow> (case sy_EvalSymlinks sys a of None \<Rightarrow> Inl (ShellError ''resolve workspace symlinks'') | Some r \<Rightarrow> Inr (Clean r)))"

fun resolve_workspaces :: "system \<Rightarrow> string list \<Rightarrow> shell_err + string list" where
  "resolve_workspaces sys [] = Inr []"
| "resolve_workspaces sys (w # ws) = (case resolve_workspace sys w of
     Inl err \<Rightarrow> Inl err
   | Inr r \<Rightarrow> (case resolve_workspaces sys ws of Inl err \<Rightarrow> Inl err | Inr rs \<Rightarrow> Inr (r # rs)))"

definition shell_New :: "system \<Rightarrow> string list \<Rightarrow> string list \<Rightarrow> string list \<Rightarrow> shell_err + shell_Executor" where
  "shell_New sys workspaces additionalAllowedEnv redactedValues =
     (if workspaces = [] then Inl (ShellError ''at least one shell workspace is required'')
      else (case resolve_workspaces sys workspaces of
        Inl err \<Rightarrow> Inl err
      | Inr resolved \<Rightarrow> Inr \<lparr>se_workspaces = resolved,
          se_allowedEnv = [''PATH'', ''HOME'', ''TMPDIR'', ''LANG'', ''LC_ALL'', ''CI'', ''TERM'', ''NO_COLOR''] @ additionalAllowedEnv,
          se_redactedValues = redactedValues\<rparr>))"

end
