(* ===== verification/Shell_Exec.thy ===== *)
theory Shell_Exec
  imports Shell_Input
begin

text \<open>
  \<open>tools/shell/shell.go\<close>, second part: staging of the approved executable, the environment, the bounded output buffers,
  redaction, and \<open>Execute\<close>.  What is started is a value \<open>launch\<close>; what the process does is a function of it.
\<close>

subsection \<open>Buffers\<close>

record limitedBuffer =
  lb_buffer :: string
  lb_limit :: int
  lb_truncated :: bool

definition newLimitedBuffer :: "int \<Rightarrow> limitedBuffer" where
  "newLimitedBuffer limit = \<lparr>lb_buffer = [], lb_limit = limit, lb_truncated = False\<rparr>"

definition buffer_Write :: "string \<Rightarrow> limitedBuffer \<Rightarrow> limitedBuffer" where
  "buffer_Write value b =
     (let remaining = lb_limit b - int (length (lb_buffer b)) in
      if remaining \<le> 0 then b\<lparr>lb_truncated := True\<rparr>
      else if int (length value) > remaining
      then b\<lparr>lb_buffer := lb_buffer b @ take (nat remaining) value, lb_truncated := True\<rparr>
      else b\<lparr>lb_buffer := lb_buffer b @ value\<rparr>)"

subsection \<open>Redaction and environment\<close>

fun redact_values :: "string list \<Rightarrow> string \<Rightarrow> string" where
  "redact_values [] value = value"
| "redact_values (secret # secrets) value =
     redact_values secrets (if secret \<noteq> [] then ReplaceAll value secret redacted else value)"

definition redact :: "shell_Executor \<Rightarrow> string \<Rightarrow> string" where
  "redact e value = redact_values (se_redactedValues e) value"

definition redactArguments :: "shell_Executor \<Rightarrow> string list \<Rightarrow> string list" where
  "redactArguments e as = map (redact e) as"

text \<open>\<open>strings.Cut\<close> at the first equals sign.\<close>

definition cut_entry :: "string \<Rightarrow> (string \<times> string) option" where
  "cut_entry entry = (case dropWhile (\<lambda>c. c \<noteq> CHR ''='') entry of
     [] \<Rightarrow> None | _ # value \<Rightarrow> Some (takeWhile (\<lambda>c. c \<noteq> CHR ''='') entry, value))"

definition inherited :: "shell_Executor \<Rightarrow> string list \<Rightarrow> (string \<times> string) list" where
  "inherited e environ =
     fold (\<lambda>entry values. case cut_entry entry of
       None \<Rightarrow> values
     | Some (name, value) \<Rightarrow>
         if name \<in> set (se_allowedEnv e) \<and> \<not> secret_like name then AList.update name value values else values) environ []"

definition environment_values :: "shell_Executor \<Rightarrow> string list \<Rightarrow> (string \<times> string) list \<Rightarrow> (string \<times> string) list" where
  "environment_values e environ overrides = fold (\<lambda>(name, value). AList.update name value) overrides (inherited e environ)"

definition filteredEnvironment :: "shell_Executor \<Rightarrow> string list \<Rightarrow> (string \<times> string) list \<Rightarrow> string list" where
  "filteredEnvironment e environ overrides =
     map (\<lambda>(name, value). name @ ''='' @ value) (sort_key fst (environment_values e environ overrides))"

subsection \<open>Staging\<close>

definition verifyExecutableDigest :: "system \<Rightarrow> (string \<Rightarrow> string) \<Rightarrow> string \<Rightarrow> string \<Rightarrow> shell_err + string" where
  "verifyExecutableDigest sys sha written approvedDigest = (case sy_Reread sys written of
     None \<Rightarrow> Inl (ShellError ''verify approved executable copy'')
   | Some copy \<Rightarrow>
       if int (length copy) > maxExecutableBytes \<or> \<not> EqualFold approvedDigest (sha copy)
       then Inl (ShellError ''private executable copy failed digest verification'') else Inr copy)"

text \<open>The path of the private copy and its bytes.\<close>

definition stageApprovedExecutable :: "system \<Rightarrow> (string \<Rightarrow> string) \<Rightarrow> nat \<Rightarrow> string \<Rightarrow> string \<Rightarrow> shell_err + string \<times> string" where
  "stageApprovedExecutable sys sha k command approvedDigest =
     (if length approvedDigest \<noteq> 64 then Inl (ShellError ''approved executable digest is required'')
      else case sy_Open sys k command of None \<Rightarrow> Inl (ShellError ''open approved executable'') | Some source \<Rightarrow>
      case fl_Info source of None \<Rightarrow> Inl (ShellError ''approved executable must remain a regular file'') | Some info \<Rightarrow>
      if \<not> fi_Regular info then Inl (ShellError ''approved executable must remain a regular file'') else
      if fi_Size info < 1 \<or> fi_Size info > maxExecutableBytes then Inl (ShellError ''approved executable size'') else
      case sy_TempDir sys of None \<Rightarrow> Inl (ShellError ''create private executable directory'') | Some stageDir \<Rightarrow>
      if sy_Fault sys ''chmod'' then Inl (ShellError ''protect private executable directory'') else
      if sy_Fault sys ''create'' then Inl (ShellError ''create private executable copy'') else
      if fl_ReadFails source \<or> sy_Fault sys ''write'' then Inl (ShellError ''copy approved executable'') else
      if sy_Fault sys ''close'' then Inl (ShellError ''close approved executable copy'') else
      if int (length (fl_Data source)) \<noteq> fi_Size info then Inl (ShellError ''approved executable changed while it was staged'') else
      if \<not> EqualFold approvedDigest (sha (fl_Data source)) then Inl (ShellError ''shell executable changed after approval'') else
      if sy_Fault sys ''protect'' then Inl (ShellError ''protect approved executable copy'') else
      case verifyExecutableDigest sys sha (fl_Data source) approvedDigest of Inl err \<Rightarrow> Inl err | Inr copy \<Rightarrow>
      if sy_Fault sys ''seal'' then Inl (ShellError ''seal private executable directory'') else
      Inr (path_Join [stageDir, Base command], copy))"

subsection \<open>Execution\<close>

text \<open>
  What is started: the file, the bytes of a private copy (\<open>None\<close> for a file in a protected directory), \<open>argv\<close>,
  the directory, the environment, and the time limit in seconds.
\<close>

record launch =
  la_Path :: string
  la_Bytes :: "string option"
  la_Argv :: "string list"
  la_Dir :: string
  la_Env :: "string list"
  la_Timeout :: int

text \<open>What the process does: its writes (\<open>True\<close> for standard output), the error of \<open>Run\<close>, and the end of the context.\<close>

datatype process_error = ExitError int | StartError

record process_run =
  pc_Writes :: "(bool \<times> string) list"
  pc_Error :: "process_error option"
  pc_Deadline :: bool
  pc_Cancelled :: bool

record shell_Output =
  so_Command :: string
  so_Args :: "string list"
  so_WorkingDir :: string
  so_Stdout :: string
  so_Stderr :: string
  so_ExitCode :: int
  so_TimedOut :: bool
  so_Truncated :: bool
  so_DryRun :: bool

text \<open>The reports of \<open>progressWriter\<close>: one for each write that is not empty.\<close>

definition progress_reports :: "shell_Executor \<Rightarrow> (bool \<times> string) list \<Rightarrow> (string \<times> string) list" where
  "progress_reports e writes =
     map (\<lambda>(out, s). (if out then ''stdout'' else ''stderr'', redact e s)) (filter (\<lambda>(_, s). s \<noteq> []) writes)"

definition buffered :: "bool \<Rightarrow> (bool \<times> string) list \<Rightarrow> limitedBuffer" where
  "buffered stream writes =
     fold (\<lambda>(out, s) b. if out = stream then buffer_Write s b else b) writes (newLimitedBuffer maxOutputBytes)"

definition exit_code :: "process_run \<Rightarrow> int option" where
  "exit_code p = (case pc_Error p of
     None \<Rightarrow> Some 0
   | Some (ExitError n) \<Rightarrow> Some n
   | Some StartError \<Rightarrow> if pc_Deadline p \<or> pc_Cancelled p then Some (- 1) else None)"

definition finished :: "shell_Executor \<Rightarrow> shell_Input \<Rightarrow> process_run \<Rightarrow> shell_Output option \<times> shell_err option" where
  "finished e i p = (case exit_code p of
     None \<Rightarrow> (None, Some (ShellError ''execute binary''))
   | Some exitCode \<Rightarrow>
       (let out = buffered True (pc_Writes p); errs = buffered False (pc_Writes p) in
        (Some \<lparr>so_Command = redact e (si_Command i), so_Args = redactArguments e (arguments i), so_WorkingDir = si_WorkingDir i,
           so_Stdout = redact e (lb_buffer out), so_Stderr = redact e (lb_buffer errs), so_ExitCode = exitCode,
           so_TimedOut = pc_Deadline p, so_Truncated = lb_truncated out \<or> lb_truncated errs, so_DryRun = False\<rparr>,
         if pc_Deadline p then Some ShellTimedOut else if pc_Error p \<noteq> None then Some (ShellExited exitCode) else None)))"

definition dry_output :: "shell_Executor \<Rightarrow> shell_Input \<Rightarrow> shell_Output" where
  "dry_output e i = \<lparr>so_Command = redact e (si_Command i), so_Args = redactArguments e (arguments i), so_WorkingDir = si_WorkingDir i,
     so_Stdout = [], so_Stderr = [], so_ExitCode = 0, so_TimedOut = False, so_Truncated = False, so_DryRun = True\<rparr>"

text \<open>The file that is started for an input that has been validated.\<close>

definition execution_command :: "system \<Rightarrow> (string \<Rightarrow> string) \<Rightarrow> shell_Input \<Rightarrow> shell_err + string \<times> string option" where
  "execution_command sys sha i =
     (if trustedExecutablePath sys 2 (si_Command i) then Inr (si_Command i, None)
      else (case stageApprovedExecutable sys sha 3 (si_Command i) (si_ExecutableSHA256 i) of
        Inl err \<Rightarrow> Inl err | Inr (path, copy) \<Rightarrow> Inr (path, Some copy)))"

definition launch_of :: "shell_Executor \<Rightarrow> system \<Rightarrow> shell_Input \<Rightarrow> string \<times> string option \<Rightarrow> launch" where
  "launch_of e sys i c = \<lparr>la_Path = fst c, la_Bytes = snd c, la_Argv = si_Command i # arguments i, la_Dir = si_WorkingDir i,
     la_Env = filteredEnvironment e (sy_Environ sys) (si_Environment i), la_Timeout = si_TimeoutSeconds i\<rparr>"

text \<open>\<open>Execute\<close>: what was started, the reports, the output and the error.\<close>

definition shell_Execute :: "shell_Executor \<Rightarrow> system \<Rightarrow> (string \<Rightarrow> string) \<Rightarrow> (launch \<Rightarrow> process_run) \<Rightarrow> string \<Rightarrow>
    launch option \<times> (string \<times> string) list \<times> shell_Output option \<times> shell_err option" where
  "shell_Execute e sys sha proc raw =
     (case shell_ParseAndValidate e sys sha raw of Inl err \<Rightarrow> (None, [], None, Some err) | Inr (i, risk) \<Rightarrow>
      if risk = RiskPrivileged then (None, [], None, Some (ShellError ''privilege escalation is denied at execution time'')) else
      if si_DryRun i then (None, [], Some (dry_output e i), None) else
      case execution_command sys sha i of Inl err \<Rightarrow> (None, [], None, Some err) | Inr c \<Rightarrow>
      let l = launch_of e sys i c; p = proc l in
      (Some l, progress_reports e (pc_Writes p), finished e i p))"

end
