(* ===== verification/Shell_Safety.thy ===== *)
theory Shell_Safety
  imports Shell_Exec Policy
begin

text \<open>
  What the shell tool can start: the theorems about \<open>Execute\<close>, the workspace test, the output buffers and the commands that
  the policy lets pass without approval.
\<close>

subsection \<open>Workspaces\<close>

lemma inside_iff: "IsAbs d \<Longrightarrow> IsAbs p \<Longrightarrow> inside d p \<longleftrightarrow> prefix (elements d) (elements p)"
  using Rel_inside [of d p] by (auto simp: inside_def split: option.splits)

lemma inside_abs: "IsAbs d \<Longrightarrow> inside d p \<Longrightarrow> IsAbs p"
proof -
  assume "IsAbs d" and "inside d p"
  then have "Clean p = Clean d \<or> IsAbs (Clean d) = IsAbs (Clean p)"
    by (auto simp: inside_def Rel_def Let_def Clean_abs_neq_dot simp del: IsAbs_Clean split: if_splits option.splits)
  with \<open>IsAbs d\<close> show ?thesis by (metis IsAbs_Clean)
qed

text \<open>
  C35: the workspace test is exact.  The test on the text of the relative path, which the tools use to confine working directories and
  trusted programs, holds exactly when the names of the directory are the first names of the path,
  for all absolute paths; in particular \<open>..\<close> and a longer name with the same beginning do not pass.
\<close>

theorem workspace_test_exact:
  assumes "IsAbs directory"
  shows "inside directory path \<longleftrightarrow> IsAbs path \<and> prefix (elements directory) (elements path)"
  using assms inside_iff inside_abs by blast

theorem workspace_test_exact_witness:
  "inside ''/home/w'' ''/home/w/a/../b'' \<and> \<not> inside ''/home/w'' ''/home/w/../x'' \<and> \<not> inside ''/home/w'' ''/home/w2''"
proof -
  have "IsAbs ''/home/w''" by code_simp
  note test = workspace_test_exact [OF this]
  show ?thesis unfolding test by code_simp
qed

subsection \<open>What validation establishes\<close>

text \<open>The documented behaviour of \<open>Getwd\<close> and \<open>EvalSymlinks\<close> that the tool relies on: absolute paths stay absolute, and
  links are resolved to clean paths.\<close>

definition documented_system :: "system \<Rightarrow> bool" where
  "documented_system sys \<longleftrightarrow> (\<forall>p r. IsAbs p \<longrightarrow> sy_EvalSymlinks sys p = Some r \<longrightarrow> IsAbs r) \<and>
     (\<forall>wd. sy_Getwd sys = Some wd \<longrightarrow> IsAbs wd) \<and> (\<forall>p r. sy_EvalSymlinks sys p = Some r \<longrightarrow> Clean r = r)"

lemma IsAbs_Join: "IsAbs wd \<Longrightarrow> IsAbs (path_Join [wd, p])"
proof -
  assume abs: "IsAbs wd"
  then have "wd \<noteq> []" "IsAbs (wd @ t)" for t by (auto simp: IsAbs_def)
  then show ?thesis by (simp add: path_Join_def)
qed

lemma Abs_absolute: "documented_system sys \<Longrightarrow> Abs sys p = Some r \<Longrightarrow> IsAbs r"
  by (auto simp: Abs_def documented_system_def IsAbs_Join split: if_splits)

lemma validated:
  assumes "shell_ParseAndValidate e sys sha raw = Inr (i, risk)"
  obtains i0 where "Option.bind (object_members raw) (\<lambda>kvs. decode_shell kvs no_shell_input) = Some i0"
    "resolveExecutable sys sha 0 (si_Command i0) (si_ExecutableSHA256 i0) = Inr (si_Command i, si_ExecutableSHA256 i)"
    "validateWorkingDirectory e sys (si_WorkingDir i0) = Inr (si_WorkingDir i)"
    "\<not> deniedInterpreter (ToLower (Base (si_Command i)))" "1 \<le> si_TimeoutSeconds i" "si_TimeoutSeconds i \<le> 3600"
    "valid_environment e 0 (si_Environment i) = Inr ()" "valid_arguments 0 (arguments i) = Inr ()"
    "risk = (if shell_Classify i = RiskReadOnly \<and> \<not> trustedExecutablePath sys 1 (si_Command i) then RiskStateChanging else shell_Classify i)"
proof -
  from assms obtain i0 where i0: "Option.bind (object_members raw) (\<lambda>kvs. decode_shell kvs no_shell_input) = Some i0"
    by (cases "Option.bind (object_members raw) (\<lambda>kvs. decode_shell kvs no_shell_input)") (auto simp: shell_ParseAndValidate_def)
  show thesis
    by (rule that [OF i0]) (use assms i0 in \<open>auto simp: shell_ParseAndValidate_def Let_def arguments_def
      split: option.splits if_splits sum.splits prod.splits\<close>)
qed

lemma validated_input:
  assumes "shell_ParseAndValidate e sys sha raw = Inr (i, risk)"
  shows "\<exists>v. validateWorkingDirectory e sys v = Inr (si_WorkingDir i)" "\<not> deniedInterpreter (ToLower (Base (si_Command i)))"
    "1 \<le> si_TimeoutSeconds i \<and> si_TimeoutSeconds i \<le> 3600" "valid_environment e 0 (si_Environment i) = Inr ()"
    "risk = (if shell_Classify i = RiskReadOnly \<and> \<not> trustedExecutablePath sys 1 (si_Command i) then RiskStateChanging else shell_Classify i)"
  by (rule validated [OF assms], blast+)+

lemma EvalSymlinks_absolute: "documented_system sys \<Longrightarrow> IsAbs p \<Longrightarrow> sy_EvalSymlinks sys p = Some r \<Longrightarrow> IsAbs r"
  by (simp add: documented_system_def)

lemma resolve_workspaces_abs:
  "documented_system sys \<Longrightarrow> resolve_workspaces sys ws = Inr rs \<Longrightarrow> length rs = length ws \<and> list_all IsAbs rs"
proof (induction sys ws arbitrary: rs rule: resolve_workspaces.induct)
  case (2 sys w ws)
  then obtain r rs' where *: "resolve_workspace sys w = Inr r" "resolve_workspaces sys ws = Inr rs'" "rs = r # rs'"
    by (auto split: sum.splits)
  from *(1) have "IsAbs r"
    using EvalSymlinks_absolute [OF 2(2)] Abs_absolute [OF 2(2), of w] by (auto simp: resolve_workspace_def split: option.splits)
  with 2(1) [OF *(1) 2(2) *(2)] * show ?case by simp
qed simp

lemma New_workspaces:
  "documented_system sys \<Longrightarrow> shell_New sys ws extra values = Inr e \<Longrightarrow> se_workspaces e \<noteq> [] \<and> list_all IsAbs (se_workspaces e)"
  using resolve_workspaces_abs [of sys ws] by (auto simp: shell_New_def split: if_splits sum.splits)

lemma working_directory_inside:
  assumes "documented_system sys" and "se_workspaces e \<noteq> []" and "list_all IsAbs (se_workspaces e)"
    and "validateWorkingDirectory e sys v = Inr d"
  shows "list_ex (\<lambda>w. prefix (elements w) (elements d)) (se_workspaces e)"
proof (cases "v = []")
  case True
  with assms(2,4) show ?thesis by (cases "se_workspaces e") (auto simp: validateWorkingDirectory_def)
next
  case False
  with assms(4) have "list_ex (\<lambda>w. inside w d) (se_workspaces e)"
    by (auto simp: validateWorkingDirectory_def Let_def split: option.splits if_splits)
  then obtain w where w: "w \<in> set (se_workspaces e)" "inside w d" by (auto simp: list_ex_iff)
  with assms(3) have "IsAbs w" by (auto simp: list_all_iff)
  with w inside_abs [of w d] inside_iff [of w d] show ?thesis by (auto simp: list_ex_iff)
qed

lemma launched:
  assumes "shell_Execute e sys sha proc raw = (Some l, rest)"
  obtains i risk c where "shell_ParseAndValidate e sys sha raw = Inr (i, risk)" "risk \<noteq> RiskPrivileged"
    "execution_command sys sha i = Inr c" "l = launch_of e sys i c"
  using assms by (auto simp: shell_Execute_def Let_def split: sum.splits if_splits prod.splits)

lemma not_privileged: "shell_Classify i \<noteq> RiskPrivileged \<Longrightarrow> ToLower (Base (si_Command i)) \<notin> set privilegedCommands"
  by (auto simp: shell_Classify_def Let_def)

subsection \<open>The environment\<close>

definition harmless_name :: "shell_Executor \<Rightarrow> string \<Rightarrow> bool" where
  "harmless_name e name \<longleftrightarrow> name \<in> set (se_allowedEnv e) \<and> \<not> secret_like name \<and> CHR ''='' \<notin> set name"

lemma cut_entry_name: "cut_entry entry = Some (name, value) \<Longrightarrow> CHR ''='' \<notin> set name"
  by (auto simp: cut_entry_def split: list.splits dest: set_takeWhileD)

lemma cut_entry_join: "CHR ''='' \<notin> set name \<Longrightarrow> cut_entry (name @ CHR ''='' # value) = Some (name, value)"
  by (auto simp: cut_entry_def dropWhile_append takeWhile_append)

lemma inherited_harmless: "fst ` set (inherited e environ) \<subseteq> {n. harmless_name e n}"
proof -
  have "fst ` set vs \<subseteq> {n. harmless_name e n} \<Longrightarrow> fst ` set (fold (\<lambda>entry values. case cut_entry entry of
       None \<Rightarrow> values
     | Some (name, value) \<Rightarrow>
         if name \<in> set (se_allowedEnv e) \<and> \<not> secret_like name then AList.update name value values else values) environ vs)
     \<subseteq> {n. harmless_name e n}" for vs
  proof (induction environ arbitrary: vs)
    case (Cons entry environ)
    show ?case
    proof (cases "cut_entry entry")
      case (Some nv)
      then have "CHR ''='' \<notin> set (fst nv)" using cut_entry_name by (cases nv) simp
      with Cons Some show ?thesis by (simp add: case_prod_beta dom_update harmless_name_def)
    qed (use Cons in simp)
  qed simp
  then show ?thesis by (simp add: inherited_def)
qed

lemma valid_environment_names:
  "valid_environment e n es = Inr () \<Longrightarrow> list_all (\<lambda>(name, _). harmless_name e name \<and> \<not> EqualFold name ''PATH'') es"
  by (induction e n es rule: valid_environment.induct) (auto simp: harmless_name_def Let_def split: if_splits)

lemma overrides_harmless:
  assumes "fst ` set vs \<subseteq> {n. harmless_name e n}" and "list_all (\<lambda>(name, _). harmless_name e name \<and> \<not> EqualFold name ''PATH'') es"
  shows "fst ` set (fold (\<lambda>(name, value). AList.update name value) es vs) \<subseteq> {n. harmless_name e n}"
    "map_of (fold (\<lambda>(name, value). AList.update name value) es vs) ''PATH'' = map_of vs ''PATH''"
  using assms
proof (induction es arbitrary: vs)
  case (Cons x es)
  obtain name val where x: "x = (name, val)" by fastforce
  case 1
  with Cons(1) [of "AList.update name val vs"] x show ?case by (simp add: dom_update)
  case 2
  with x have "name \<noteq> ''PATH''" by (auto simp: EqualFold_def)
  with 2 Cons(2) [of "AList.update name val vs"] x show ?case by (simp add: dom_update update_conv')
qed simp_all

lemma environment_harmless:
  assumes "valid_environment e 0 es = Inr ()"
  shows "fst ` set (environment_values e environ es) \<subseteq> {n. harmless_name e n}"
    "map_of (environment_values e environ es) ''PATH'' = map_of (inherited e environ) ''PATH''"
  using overrides_harmless [OF inherited_harmless valid_environment_names [OF assms]] by (simp_all add: environment_values_def)

definition harmless_entry :: "shell_Executor \<Rightarrow> string \<Rightarrow> bool" where
  "harmless_entry e entry = (case cut_entry entry of
     None \<Rightarrow> False | Some (name, _) \<Rightarrow> name \<in> set (se_allowedEnv e) \<and> \<not> secret_like name)"

lemma filtered_harmless:
  assumes "valid_environment e 0 es = Inr ()"
  shows "list_all (harmless_entry e) (filteredEnvironment e environ es)"
proof -
  have "harmless_entry e (fst nv @ CHR ''='' # snd nv)" if "nv \<in> set (environment_values e environ es)" for nv
    using environment_harmless(1) [OF assms] that by (force simp: harmless_name_def harmless_entry_def cut_entry_join)
  then show ?thesis by (auto simp: filteredEnvironment_def list_all_iff)
qed

subsection \<open>What is started\<close>

text \<open>
  C17: the shell tool starts only confined programs.  Whatever the input, the files and the links are, a process that \<open>Execute\<close> starts works in a
  directory of a workspace, is neither a shell nor a program that raises privileges by its resolved
  name, has a time limit of at most an hour, and gets allowed variables only, none that looks
  like a secret.  The paths the operating system returns are taken to be absolute and clean, as documented.
\<close>

theorem shell_launch_confined:
  assumes "documented_system sys0" and "shell_New sys0 ws extra values = Inr e" and "documented_system sys"
    and "shell_Execute e sys sha proc raw = (Some l, rest)"
  shows "list_ex (\<lambda>w. prefix (elements w) (elements (la_Dir l))) (se_workspaces e) \<and>
    ToLower (Base (hd (la_Argv l))) \<notin> set privilegedCommands \<and> \<not> deniedInterpreter (ToLower (Base (hd (la_Argv l)))) \<and>
    1 \<le> la_Timeout l \<and> la_Timeout l \<le> 3600 \<and> list_all (harmless_entry e) (la_Env l)"
proof -
  from launched [OF assms(4)] obtain i risk c where i: "shell_ParseAndValidate e sys sha raw = Inr (i, risk)"
    "risk \<noteq> RiskPrivileged" and l: "l = launch_of e sys i c" by metis
  note v = validated_input [OF i(1)]
  note ws = New_workspaces [OF assms(1,2)]
  have "shell_Classify i \<noteq> RiskPrivileged" using v(5) i(2) by auto
  with v(1) working_directory_inside [OF assms(3) conjunct1 [OF ws] conjunct2 [OF ws]] not_privileged v(2,3) filtered_harmless [OF v(4)]
  show ?thesis by (auto simp: l launch_of_def)
qed

lemma trusted_inside: "trustedExecutablePath sys k p \<Longrightarrow> list_ex (\<lambda>d. prefix (elements d) (elements p)) trustedDirectories"
proof -
  assume "trustedExecutablePath sys k p"
  then obtain d where d: "d \<in> set trustedDirectories" "inside d p" by (auto simp: trustedExecutablePath_def list_ex_iff split: option.splits)
  moreover have "IsAbs d" using d(1) by (auto simp: trustedDirectories_def IsAbs_def)
  ultimately show ?thesis using inside_abs [of d p] inside_iff [of d p] by (auto simp: list_ex_iff)
qed

lemma resolved_digest:
  assumes "documented_system sys" and "resolveExecutable sys sha k c d = Inr (command, digest)" and "d \<noteq> []"
    and "shell_Classify i \<noteq> RiskPrivileged" and "si_Command i = command"
  shows "EqualFold d digest"
  using assms
  by (auto simp: resolveExecutable_def inspect_executable_def documented_system_def shell_Classify_def Let_def
      split: option.splits sum.splits if_splits)

lemma staged_digest: "stageApprovedExecutable sys sha k c d = Inr (path, copy) \<Longrightarrow> EqualFold d (sha copy)"
  by (auto simp: stageApprovedExecutable_def verifyExecutableDigest_def split: option.splits sum.splits if_splits)

text \<open>
  C16: the approved program is the one that runs.  When the input names the digest of the executable, as an approved one does, what
  \<open>Execute\<close> starts is a private copy whose bytes have that digest, even if the file is exchanged at any moment
  between the checks, or it is the resolved file itself in a system directory, writable neither by its group nor by others.
\<close>

theorem approved_bytes_run:
  assumes "documented_system sys" and "shell_Execute e sys sha proc raw = (Some l, rest)"
    and "Option.bind (object_members raw) (\<lambda>kvs. decode_shell kvs no_shell_input) = Some i" and "si_ExecutableSHA256 i \<noteq> []"
  shows "case la_Bytes l of
      Some bytes \<Rightarrow> EqualFold (si_ExecutableSHA256 i) (sha bytes)
    | None \<Rightarrow> la_Path l = hd (la_Argv l) \<and> list_ex (\<lambda>d. prefix (elements d) (elements (la_Path l))) trustedDirectories \<and>
        (\<exists>info. sy_Stat sys 2 (la_Path l) = Some info \<and> fi_Regular info \<and> fi_Perm info AND 18 = 0)"
proof -
  from launched [OF assms(2)] obtain j risk c where j: "shell_ParseAndValidate e sys sha raw = Inr (j, risk)"
    "risk \<noteq> RiskPrivileged" and c: "execution_command sys sha j = Inr c" and l: "l = launch_of e sys j c" by metis
  have resolved: "resolveExecutable sys sha 0 (si_Command i) (si_ExecutableSHA256 i) = Inr (si_Command j, si_ExecutableSHA256 j)"
    by (rule validated [OF j(1)]) (use assms(3) in simp)
  have "shell_Classify j \<noteq> RiskPrivileged" using validated_input(5) [OF j(1)] j(2) by auto
  from resolved_digest [OF assms(1) resolved assms(4) this] have fold: "EqualFold (si_ExecutableSHA256 i) (si_ExecutableSHA256 j)" by simp
  show ?thesis
  proof (cases "trustedExecutablePath sys 2 (si_Command j)")
    case True
    with c trusted_inside [OF True] show ?thesis
      by (auto simp: l launch_of_def execution_command_def trustedExecutablePath_def split: option.splits)
  next
    case False
    with c obtain path copy where "c = (path, Some copy)" "stageApprovedExecutable sys sha 3 (si_Command j) (si_ExecutableSHA256 j) = Inr (path, copy)"
      by (auto simp: execution_command_def split: sum.splits)
    with fold staged_digest show ?thesis by (force simp: l launch_of_def EqualFold_def)
  qed
qed

text \<open>
  C18: commands that need no approval.  A validated command whose risk the policy answers with \<open>allow\<close> is one of the listed
  read-only programs in a system directory, without arguments, or \<open>uname\<close> with its options.
\<close>

theorem auto_allowed_shell:
  assumes "shell_ParseAndValidate e sys sha raw = Inr (i, risk)" and "rq_Risk request = risk"
    and "rs_Decision (Evaluate engine request) = DecisionAllow"
  shows "ToLower (Base (si_Command i)) \<in> set readOnlyCommands \<and> (arguments i = [] \<or> ToLower (Base (si_Command i)) = ''uname'') \<and>
    list_ex (\<lambda>d. prefix (elements d) (elements (si_Command i))) trustedDirectories"
proof -
  have "risk = RiskReadOnly \<or> risk = RiskLow"
    using assms(2,3) by (auto simp: Evaluate_def evaluate_request_def result_def split: if_splits Risk.splits)
  with validated_input(5) [OF assms(1)] have ro: "shell_Classify i = RiskReadOnly" and "trustedExecutablePath sys 1 (si_Command i)"
    by (auto simp: shell_Classify_def Let_def split: if_splits)
  with trusted_inside show ?thesis
    by (fastforce simp: shell_Classify_def strictReadOnlyShape_def Let_def split: if_splits)
qed

subsection \<open>Output\<close>

definition buffer_of :: "int \<Rightarrow> string \<Rightarrow> limitedBuffer" where
  "buffer_of limit s = \<lparr>lb_buffer = take (nat limit) s, lb_limit = limit, lb_truncated = (int (length s) > limit)\<rparr>"

lemma buffer_Write_of: "0 \<le> limit \<Longrightarrow> s \<noteq> [] \<Longrightarrow> buffer_Write s (buffer_of limit t) = buffer_of limit (t @ s)"
  by (cases "int (length t) \<le> limit") (auto simp: buffer_Write_def buffer_of_def Let_def nat_diff_distrib')

text \<open>
  Output is cut at the limit and not before.  After any sequence of writes the buffer holds the first bytes of what was written, up to the limit,
  and it is marked truncated exactly when more was written.
\<close>

theorem limited_buffer:
  assumes "0 \<le> limit" and "[] \<notin> set writes"
  shows "fold buffer_Write writes (newLimitedBuffer limit) =
    \<lparr>lb_buffer = take (nat limit) (concat writes), lb_limit = limit, lb_truncated = (int (length (concat writes)) > limit)\<rparr>"
proof -
  have "fold buffer_Write writes (buffer_of limit t) = buffer_of limit (t @ concat writes)" for t
    using assms(2) by (induction writes arbitrary: t) (auto simp: buffer_Write_of assms(1))
  from this [of "[]"] assms(1) show ?thesis by (simp add: newLimitedBuffer_def buffer_of_def)
qed

end
