(* ===== verification/Shell_Sample.thy ===== *)
theory Shell_Sample
  imports Shell_Safety
begin

text \<open>A workspace, a program outside the system directories, and one execution, on which the theorems are applied.\<close>

definition sample_digest :: "string \<Rightarrow> string" where
  "sample_digest s = replicate 64 (case s of c # _ \<Rightarrow> if c = CHR ''a'' then CHR ''a'' else CHR ''b'' | [] \<Rightarrow> CHR ''c'')"

definition program :: open_file where
  "program = \<lparr>fl_Info = Some \<lparr>fi_Regular = True, fi_Perm = 493, fi_Size = 3\<rparr>, fl_Data = ''abc'', fl_ReadFails = False, fl_SeekFails = False\<rparr>"

definition sample_system :: system where
  "sample_system = \<lparr>sy_Getwd = Some ''/'', sy_EvalSymlinks = (\<lambda>p. Some (Clean p)), sy_LookPath = Some,
     sy_Open = (\<lambda>_ _. Some program), sy_Stat = (\<lambda>_ _. fl_Info program), sy_Environ = [''PATH=/bin'', ''HOME=/h'', ''X_TOKEN=1''],
     sy_TempDir = Some ''/tmp/v'', sy_Fault = (\<lambda>_. False), sy_Reread = Some\<rparr>"

definition sample_shell :: shell_Executor where
  "sample_shell = \<lparr>se_workspaces = [''/w''], se_allowedEnv = [''PATH'', ''HOME'', ''TMPDIR'', ''LANG'', ''LC_ALL'', ''CI'', ''TERM'', ''NO_COLOR''],
     se_redactedValues = [''s3cret'']\<rparr>"

definition sample_command :: string where
  "sample_command = ''{\"command\":\"/o/t\",\"args\":[\"x\"],\"executable_sha256\":\"'' @ replicate 64 (CHR ''A'') @ ''\"}''"

definition sample_process :: "launch \<Rightarrow> process_run" where
  "sample_process l = \<lparr>pc_Writes = [(True, ''s3c''), (True, ''ret'')], pc_Error = None, pc_Deadline = False, pc_Cancelled = False\<rparr>"

lemma sample_documented: "documented_system sample_system"
proof -
  have "IsAbs ''/''" by code_simp
  then show ?thesis by (simp add: documented_system_def sample_system_def)
qed

lemma sample_shell_New: "shell_New sample_system [''/w''] [] [''s3cret''] = Inr sample_shell"
  by code_simp

definition sample_launch :: launch where
  "sample_launch = \<lparr>la_Path = ''/tmp/v/t'', la_Bytes = Some ''abc'', la_Argv = [''/o/t'', ''x''], la_Dir = ''/w'',
     la_Env = [''HOME=/h'', ''PATH=/bin''], la_Timeout = 120\<rparr>"

lemma sample_run: "shell_Execute sample_shell sample_system sample_digest sample_process sample_command =
   (Some sample_launch, [(''stdout'', ''s3c''), (''stdout'', ''ret'')],
    Some \<lparr>so_Command = ''/o/t'', so_Args = [''x''], so_WorkingDir = ''/w'', so_Stdout = ''[REDACTED]'', so_Stderr = [], so_ExitCode = 0,
      so_TimedOut = False, so_Truncated = False, so_DryRun = False\<rparr>, None)"
  by code_simp


theorem shell_launch_confined_witness:
  "ToLower (Base (hd (la_Argv sample_launch))) \<notin> set privilegedCommands \<and> list_all (harmless_entry sample_shell) (la_Env sample_launch)"
  using shell_launch_confined [OF sample_documented sample_shell_New sample_documented sample_run] by blast

theorem approved_bytes_run_witness: "EqualFold (replicate 64 (CHR ''A'')) (sample_digest ''abc'')"
proof -
  have input: "Option.bind (object_members sample_command) (\<lambda>kvs. decode_shell kvs no_shell_input) =
      Some (no_shell_input\<lparr>si_Command := ''/o/t'', si_Args := Some [''x''], si_ExecutableSHA256 := replicate 64 (CHR ''A'')\<rparr>)"
    by code_simp
  from approved_bytes_run [OF sample_documented sample_run this] show ?thesis by (simp add: sample_launch_def)
qed

definition local_request :: Request where
  "local_request = \<lparr>rq_Source = \<lparr>so_Kind = ''local'', so_ConnectorID = [], so_InstanceID = []\<rparr>, rq_TrustLevel = TrustLocal, rq_ActorID = [],
     rq_ConnectorID = [], rq_ChannelID = [], rq_DeviceID = [], rq_AgentID = [], rq_ToolName = ''shell'',
     rq_ToolArguments = ''{\"command\":\"/bin/pwd\",\"args\":[]}'', rq_Workspace = [], rq_At = 0, rq_ConversationID = [],
     rq_ApprovalID = [], rq_Risk = RiskReadOnly, rq_RequestedScopes = [], rq_SideEffects = []\<rparr>"

theorem auto_allowed_shell_witness: "rs_Decision (Evaluate NewEngine local_request) = DecisionAllow \<and> ''pwd'' \<in> set readOnlyCommands"
proof -
  have parsed: "shell_ParseAndValidate sample_shell sample_system sample_digest (rq_ToolArguments local_request) =
      Inr (no_shell_input\<lparr>si_Command := ''/bin/pwd'', si_Args := Some [], si_ExecutableSHA256 := sample_digest ''a'',
        si_TimeoutSeconds := 120, si_WorkingDir := ''/w''\<rparr>, RiskReadOnly)" by code_simp
  have "rq_Risk local_request = RiskReadOnly" by (simp add: local_request_def)
  note ok = auto_allowed_shell [OF parsed this, of NewEngine]
  have allow: "rs_Decision (Evaluate NewEngine local_request) = DecisionAllow" by code_simp
  have "ToLower (Base ''/bin/pwd'') = ''pwd''" by code_simp
  with ok [OF allow] allow show ?thesis by simp
qed

end
