(* ===== verification/Fs_Root.thy ===== *)
theory Fs_Root
  imports Go_Path "HOL-Library.Word" "HOL-Library.AList"
begin

text \<open>
  A directory tree and the operations of \<open>os.Root\<close> on it, as documented: a path is followed name by name
  below the root, links are followed at every name but, for some operations, the last one, and a
  path or link that would leave the root is an error.  A tree lists its entries by the names of their
  paths; the root itself is not listed.
\<close>

datatype node = Regular string "9 word" | Directory | Symlink string | Special

type_synonym tree = "(string list \<times> node) list"

datatype fs_err = ErrOutsideWorkspace | ErrTooLarge | ErrFsConflict | ErrUnsupportedType | ErrNotExist | ErrExist | FsError string

definition lookup :: "tree \<Rightarrow> string list \<Rightarrow> node option" where
  "lookup t p = (if p = [] then Some Directory else map_of t p)"

definition maxSymlinks :: nat where
  "maxSymlinks = 255"

text \<open>
  The place a path leads to: \<open>cur\<close> are the names of the directory reached so far, \<open>n\<close> the links that may still be followed.
  The last name need not exist.
\<close>

function follow :: "nat \<Rightarrow> tree \<Rightarrow> bool \<Rightarrow> string list \<Rightarrow> string list \<Rightarrow> fs_err + string list" where
  "follow n t links cur [] = Inr cur"
| "follow n t links cur (p # ps) =
     (if p = [] \<or> p = ''.'' then follow n t links cur ps
      else if p = ''..'' then (if cur = [] then Inl (FsError ''path escapes from parent'') else follow n t links (butlast cur) ps)
      else (case lookup t (cur @ [p]) of
        None \<Rightarrow> if ps = [] then Inr (cur @ [p]) else Inl ErrNotExist
      | Some (Symlink target) \<Rightarrow>
          if ps = [] \<and> \<not> links then Inr (cur @ [p])
          else if n = 0 then Inl (FsError ''too many levels of symbolic links'')
          else if IsAbs target then Inl (FsError ''path escapes from parent'')
          else follow (n - 1) t links cur (split_at (CHR ''/'') target @ ps)
      | Some Directory \<Rightarrow> follow n t links (cur @ [p]) ps
      | Some _ \<Rightarrow> if ps = [] then Inr (cur @ [p]) else Inl (FsError ''not a directory'')))"
  by pat_completeness auto

termination by (relation "measures [\<lambda>(n, _, _, _, _). n, \<lambda>(_, _, _, _, ps). length ps]") auto

definition place :: "tree \<Rightarrow> bool \<Rightarrow> string \<Rightarrow> fs_err + string list" where
  "place t links path =
     (if IsAbs path then Inl (FsError ''path escapes from parent'') else follow maxSymlinks t links [] (split_at (CHR ''/'') path))"

definition node_at :: "tree \<Rightarrow> bool \<Rightarrow> string \<Rightarrow> fs_err + string list \<times> node" where
  "node_at t links path = (case place t links path of
     Inl e \<Rightarrow> Inl e
   | Inr p \<Rightarrow> (case lookup t p of None \<Rightarrow> Inl ErrNotExist | Some n \<Rightarrow> Inr (p, n)))"

definition root_Lstat :: "tree \<Rightarrow> string \<Rightarrow> fs_err + node" where
  "root_Lstat t path = (case node_at t False path of Inl e \<Rightarrow> Inl e | Inr (_, n) \<Rightarrow> Inr n)"

definition root_Open :: "tree \<Rightarrow> string \<Rightarrow> fs_err + string list \<times> node" where
  "root_Open t path = node_at t True path"

definition below :: "string list \<Rightarrow> string list \<Rightarrow> bool" where
  "below d p \<longleftrightarrow> take (length d) p = d"

definition children :: "tree \<Rightarrow> string list \<Rightarrow> string list" where
  "children t d = map (\<lambda>(p, _). last p) (filter (\<lambda>(p, _). p \<noteq> [] \<and> butlast p = d) t)"

subsection \<open>Changes\<close>

text \<open>\<open>OpenFile\<close> with \<open>O_CREATE | O_EXCL\<close>: the new empty file.\<close>

definition root_Create :: "tree \<Rightarrow> string \<Rightarrow> 9 word \<Rightarrow> fs_err + string list \<times> tree" where
  "root_Create t path mode = (case place t False path of
     Inl e \<Rightarrow> Inl e
   | Inr p \<Rightarrow> if lookup t p = None then Inr (p, (p, Regular [] mode) # t) else Inl ErrExist)"

text \<open>Writing to a file that was opened; the handle stays with the file.\<close>

definition put_data :: "tree \<Rightarrow> string list \<Rightarrow> string \<Rightarrow> tree" where
  "put_data t p data = map (\<lambda>(q, n). (q, if q = p then (case n of Regular _ mode \<Rightarrow> Regular data mode | _ \<Rightarrow> n) else n)) t"

definition root_Remove :: "tree \<Rightarrow> string \<Rightarrow> fs_err + tree" where
  "root_Remove t path = (case node_at t False path of
     Inl e \<Rightarrow> Inl e
   | Inr (p, n) \<Rightarrow>
       if p = [] then Inl (FsError ''cannot remove the root'')
       else if n = Directory \<and> children t p \<noteq> [] then Inl (FsError ''directory not empty'')
       else Inr (filter (\<lambda>(q, _). q \<noteq> p) t))"

definition root_RemoveAll :: "tree \<Rightarrow> string \<Rightarrow> fs_err + tree" where
  "root_RemoveAll t path = (case place t False path of
     Inl e \<Rightarrow> Inl e
   | Inr p \<Rightarrow> if p = [] then Inl (FsError ''cannot remove the root'') else Inr (filter (\<lambda>(q, _). \<not> below p q) t))"

definition rekey :: "string list \<Rightarrow> string list \<Rightarrow> string list \<Rightarrow> string list" where
  "rekey p q r = (if below p r then q @ drop (length p) r else r)"

text \<open>\<open>Rename\<close> replaces a target that is not a directory, or an empty one by a directory.\<close>

definition root_Rename :: "tree \<Rightarrow> string \<Rightarrow> string \<Rightarrow> fs_err + tree" where
  "root_Rename t from to = (case node_at t False from of
     Inl e \<Rightarrow> Inl e
   | Inr (p, n) \<Rightarrow> (case place t False to of
       Inl e \<Rightarrow> Inl e
     | Inr q \<Rightarrow>
         if p = [] \<or> q = [] then Inl (FsError ''cannot rename the root'')
         else if p = q then Inr t
         else if n = Directory \<and> below p q then Inl (FsError ''invalid argument'')
         else if (lookup t q = Some Directory) \<noteq> (n = Directory) \<and> lookup t q \<noteq> None then Inl (FsError ''not a directory'')
         else if lookup t q = Some Directory \<and> children t q \<noteq> [] then Inl (FsError ''directory not empty'')
         else Inr (map (\<lambda>(r, m). (rekey p q r, m)) (filter (\<lambda>(r, _). r \<noteq> q) t))))"

fun make_dirs :: "nat \<Rightarrow> tree \<Rightarrow> string list \<Rightarrow> string list \<Rightarrow> fs_err + tree" where
  "make_dirs n t cur [] = Inr t"
| "make_dirs n t cur (p # ps) =
     (case follow n t True cur [p] of
        Inl e \<Rightarrow> Inl e
      | Inr q \<Rightarrow> (case lookup t q of
          None \<Rightarrow> if q = cur @ [p] then make_dirs n ((q, Directory) # t) q ps else Inl ErrExist
        | Some Directory \<Rightarrow> make_dirs n t q ps
        | Some _ \<Rightarrow> Inl (FsError ''not a directory'')))"

definition root_MkdirAll :: "tree \<Rightarrow> string \<Rightarrow> fs_err + tree" where
  "root_MkdirAll t path =
     (if IsAbs path then Inl (FsError ''path escapes from parent'') else make_dirs maxSymlinks t [] (split_at (CHR ''/'') path))"

subsection \<open>Well-formed trees\<close>

definition parent_ok :: "tree \<Rightarrow> string list \<Rightarrow> bool" where
  "parent_ok t p \<longleftrightarrow> p \<noteq> [] \<and> list_all plain_name p \<and> ''..'' \<notin> set p \<and> (butlast p = [] \<or> (butlast p, Directory) \<in> set t)"

definition wf_tree :: "tree \<Rightarrow> bool" where
  "wf_tree t \<longleftrightarrow> distinct (map fst t) \<and> (\<forall>p\<in>fst ` set t. parent_ok t p)"

lemma wf_treeI: "distinct (map fst t) \<Longrightarrow> (\<And>p n. (p, n) \<in> set t \<Longrightarrow> parent_ok t p) \<Longrightarrow> wf_tree t"
  by (auto simp: wf_tree_def)

lemma wf_treeD:
  assumes "wf_tree t"
  shows "distinct (map fst t)" "(p, n) \<in> set t \<Longrightarrow> parent_ok t p"
  using assms by (auto simp: wf_tree_def)

lemma lookup_iff: "wf_tree t \<Longrightarrow> lookup t p = Some n \<longleftrightarrow> (if p = [] then n = Directory else (p, n) \<in> set t)"
  by (auto simp: lookup_def wf_tree_def map_of_eq_Some_iff)

lemma lookup_None: "lookup t p = None \<longleftrightarrow> p \<noteq> [] \<and> p \<notin> fst ` set t"
  by (auto simp: lookup_def map_of_eq_None_iff)

lemma below_iff: "below d p \<longleftrightarrow> prefix d p"
  by (auto simp: below_def prefix_def) (metis append_take_drop_id)

text \<open>Everything above an entry is a directory.\<close>

lemma ancestor_Directory:
  assumes "wf_tree t" and "(d @ s, n) \<in> set t" and "s \<noteq> []" and "d \<noteq> []"
  shows "(d, Directory) \<in> set t"
  using assms(2,3)
proof (induction s arbitrary: n rule: rev_induct)
  case (snoc x s)
  from wf_treeD(2) [OF assms(1) snoc(2)] have "s = [] \<and> (d, Directory) \<in> set t \<or> (d @ s, Directory) \<in> set t"
    using assms(4) by (auto simp: parent_ok_def butlast_append split: if_splits)
  with snoc(1) show ?case by (cases "s = []") auto
qed simp

lemma ancestor_child:
  assumes "wf_tree t" and "(d @ s, n) \<in> set t" and "s \<noteq> []"
  shows "children t d \<noteq> []"
proof -
  obtain x s' where s: "s = x # s'" using assms(3) by (cases s) auto
  have "\<exists>m. (d @ [x], m) \<in> set t"
    using ancestor_Directory [OF assms(1), of "d @ [x]" s' n] assms(2) s by (cases "s' = []") auto
  then show ?thesis by (fastforce simp: children_def filter_empty_conv)
qed

text \<open>A path leads to a place whose directory exists.\<close>

definition place_ok :: "tree \<Rightarrow> string list \<Rightarrow> bool" where
  "place_ok t q \<longleftrightarrow> q = [] \<or> parent_ok t q"

lemma directory_ok: "wf_tree t \<Longrightarrow> lookup t d = Some Directory \<Longrightarrow> place_ok t d"
  by (auto simp: place_ok_def lookup_iff dest: wf_treeD(2) split: if_splits)

lemma directory_up: "wf_tree t \<Longrightarrow> lookup t d = Some Directory \<Longrightarrow> lookup t (butlast d) = Some Directory"
  using wf_treeD(2) [of t d Directory] by (auto simp: lookup_iff parent_ok_def split: if_splits)

lemma directory_entry:
  "wf_tree t \<Longrightarrow> lookup t d = Some Directory \<Longrightarrow> plain_name p \<Longrightarrow> p \<noteq> ''..'' \<Longrightarrow> parent_ok t (d @ [p])"
  using directory_ok [of t d] by (auto simp: parent_ok_def place_ok_def lookup_iff split: if_splits)

lemma follow_ok:
  "follow n t links cur ps = Inr q \<Longrightarrow> wf_tree t \<Longrightarrow> lookup t cur = Some Directory \<Longrightarrow> list_all (\<lambda>p. CHR ''/'' \<notin> set p) ps \<Longrightarrow> place_ok t q"
proof (induction n t links cur ps rule: follow.induct)
  case (2 n t links cur p ps)
  show ?case
  proof (cases "p = [] \<or> p = ''.'' \<or> p = ''..''")
    case True
    with 2 directory_up [OF 2(6,7)] show ?thesis by (auto split: if_splits)
  next
    case False
    then have entry: "place_ok t (cur @ [p])" using directory_entry [OF 2(6,7)] 2(8) by (simp add: place_ok_def plain_name_def)
    have "list_all (\<lambda>p. CHR ''/'' \<notin> set p) (split_at (CHR ''/'') target)" for target
      by (auto simp: list_all_iff dest: split_at_parts)
    with False entry 2 show ?thesis by (auto split: option.splits node.splits if_splits)
  qed
qed (simp add: directory_ok)

lemma place_okI: "place t links path = Inr q \<Longrightarrow> wf_tree t \<Longrightarrow> place_ok t q"
  unfolding place_def
  by (auto simp: lookup_def list_all_iff split: if_splits dest: split_at_parts intro!: follow_ok [of _ t links "[]" _ q])

subsection \<open>Changes keep trees well-formed\<close>

lemma parent_ok_mono: "parent_ok t p \<Longrightarrow> set t \<subseteq> set t' \<Longrightarrow> parent_ok t' p"
  by (auto simp: parent_ok_def)

lemma wf_insert:
  assumes "wf_tree t" and "place_ok t q" and "lookup t q = None"
  shows "wf_tree ((q, n) # t)"
proof (rule wf_treeI)
  from assms show "distinct (map fst ((q, n) # t))" by (auto simp: lookup_None wf_tree_def)
  fix p m assume "(p, m) \<in> set ((q, n) # t)"
  with assms wf_treeD(2) [OF assms(1)] show "parent_ok ((q, n) # t) p"
    by (auto simp: place_ok_def lookup_None intro: parent_ok_mono [of t])
qed

lemma root_Create_wf: "root_Create t path mode = Inr (p, t') \<Longrightarrow> wf_tree t \<Longrightarrow> wf_tree t'"
  by (auto simp: root_Create_def split: sum.splits if_splits intro: wf_insert place_okI)

lemma put_data_wf: assumes "wf_tree t" shows "wf_tree (put_data t p data)"
proof (rule wf_treeI)
  have keys: "map fst (put_data t p data) = map fst t" by (auto simp: put_data_def)
  with assms show "distinct (map fst (put_data t p data))" by (simp add: wf_tree_def)
  have dirs: "(d, Directory) \<in> set (put_data t p data)" if "(d, Directory) \<in> set t" for d
    using that by (force simp: put_data_def image_iff split: prod.splits)
  fix q n assume "(q, n) \<in> set (put_data t p data)"
  then obtain m where "(q, m) \<in> set t" by (auto simp: put_data_def)
  from wf_treeD(2) [OF assms this] dirs show "parent_ok (put_data t p data) q" by (auto simp: parent_ok_def)
qed

lemma wf_filter:
  assumes "wf_tree t" and "\<And>p n. (p, n) \<in> set t \<Longrightarrow> P p \<Longrightarrow> butlast p = [] \<or> P (butlast p)"
  shows "wf_tree (filter (\<lambda>(p, _). P p) t)"
proof (rule wf_treeI)
  from assms(1) show "distinct (map fst (filter (\<lambda>(p, _). P p) t))" by (auto simp: wf_tree_def intro: distinct_map_filter)
  fix p n assume "(p, n) \<in> set (filter (\<lambda>(p, _). P p) t)"
  with assms(2) [of p n] wf_treeD(2) [OF assms(1), of p n] show "parent_ok (filter (\<lambda>(p, _). P p) t) p"
    by (auto simp: parent_ok_def)
qed

lemma root_Remove_wf: assumes "root_Remove t path = Inr t'" and "wf_tree t" shows "wf_tree t'"
proof -
  from assms(1) obtain p n where p: "lookup t p = Some n" "p \<noteq> []" "n = Directory \<longrightarrow> children t p = []"
    and t': "t' = filter (\<lambda>(q, _). q \<noteq> p) t"
    by (auto simp: root_Remove_def node_at_def split: sum.splits if_splits option.splits)
  have "butlast q \<noteq> p" if q: "(q, m) \<in> set t" for q m
  proof
    assume b: "butlast q = p"
    have "q \<noteq> []" using wf_treeD(2) [OF assms(2) q] by (simp add: parent_ok_def)
    with b have "q = p @ [last q]" by (metis append_butlast_last_id)
    with q have "children t p \<noteq> []" "(p, Directory) \<in> set t"
      using ancestor_child [OF assms(2), of p "[last q]" m] ancestor_Directory [OF assms(2), of p "[last q]" m] p(2) by auto
    with p assms(2) show False by (auto simp: lookup_iff wf_tree_def dest: eq_key_imp_eq_value)
  qed
  then show ?thesis unfolding t' by (intro wf_filter [OF assms(2)]) auto
qed

lemma root_RemoveAll_wf: "root_RemoveAll t path = Inr t' \<Longrightarrow> wf_tree t \<Longrightarrow> wf_tree t'"
  by (auto simp: root_RemoveAll_def below_iff split: sum.splits if_splits
      intro!: wf_filter dest: prefix_order.trans [OF _ prefixeq_butlast])

lemma make_dirs_wf: "make_dirs n t cur ps = Inr t' \<Longrightarrow> wf_tree t \<Longrightarrow> lookup t cur = Some Directory \<Longrightarrow>
    list_all (\<lambda>p. CHR ''/'' \<notin> set p) ps \<Longrightarrow> wf_tree t'"
proof (induction n t cur ps rule: make_dirs.induct)
  case (2 n t cur p ps)
  then obtain q where q: "follow n t True cur [p] = Inr q" by (auto split: sum.splits)
  have "place_ok t q" using follow_ok [OF q] 2 by simp
  show ?case
  proof (cases "lookup t q")
    case None
    with wf_insert [OF 2(4) \<open>place_ok t q\<close> None] q 2 show ?thesis
      by (auto simp: lookup_def split: if_splits)
  next
    case (Some m)
    with q 2 show ?thesis by (auto split: node.splits)
  qed
qed simp

lemma root_MkdirAll_wf: "root_MkdirAll t path = Inr t' \<Longrightarrow> wf_tree t \<Longrightarrow> wf_tree t'"
  unfolding root_MkdirAll_def
  by (auto simp: list_all_iff lookup_def split: if_splits dest: split_at_parts intro!: make_dirs_wf [of _ t "[]" _ t'])

text \<open>What a rename that changes something has found.\<close>

definition movable :: "tree \<Rightarrow> string list \<Rightarrow> node \<Rightarrow> string list \<Rightarrow> bool" where
  "movable t p n q \<longleftrightarrow> (p, n) \<in> set t \<and> parent_ok t q \<and> p \<noteq> q \<and> \<not> prefix p q \<and> (\<forall>s m. s \<noteq> [] \<longrightarrow> (q @ s, m) \<notin> set t)"

definition moved :: "tree \<Rightarrow> string list \<Rightarrow> string list \<Rightarrow> tree" where
  "moved t p q = map (\<lambda>(r, m). (rekey p q r, m)) (filter (\<lambda>(r, _). r \<noteq> q) t)"

lemma root_Rename_InrD:
  assumes "root_Rename t from to = Inr t'" and "wf_tree t"
  obtains p n q where "node_at t False from = Inr (p, n)" "place t False to = Inr q"
    "p = q \<and> t' = t \<or> movable t p n q \<and> t' = moved t p q"
proof -
  from assms(1) obtain p n q where pq: "node_at t False from = Inr (p, n)" "place t False to = Inr q" "p \<noteq> []" "q \<noteq> []"
    "p \<noteq> q \<Longrightarrow> \<not> (n = Directory \<and> below p q)" "p \<noteq> q \<Longrightarrow> \<not> ((lookup t q = Some Directory) \<noteq> (n = Directory) \<and> lookup t q \<noteq> None)"
    "p \<noteq> q \<Longrightarrow> \<not> (lookup t q = Some Directory \<and> children t q \<noteq> [])" "t' = (if p = q then t else moved t p q)"
    by (auto simp: root_Rename_def moved_def split: sum.splits if_splits)
  have p: "(p, n) \<in> set t" using pq(1,3) assms(2) by (auto simp: node_at_def lookup_iff split: sum.splits option.splits if_splits)
  have q: "parent_ok t q" using place_okI [OF pq(2) assms(2)] pq(4) by (simp add: place_ok_def)
  have "movable t p n q" if "p \<noteq> q"
  proof -
    have "n = Directory" if "prefix p q"
    proof -
      from that \<open>p \<noteq> q\<close> obtain s where s: "q = p @ s" "s \<noteq> []" by (auto simp: prefix_def)
      then have "butlast q = p @ butlast s" by (simp add: butlast_append)
      with q pq(3) have "(p @ butlast s, Directory) \<in> set t" by (simp add: parent_ok_def)
      then have "(p, Directory) \<in> set t" using ancestor_Directory [OF assms(2) _ _ pq(3)] by (cases "butlast s = []") auto
      with p assms(2) show ?thesis by (auto simp: wf_tree_def dest: eq_key_imp_eq_value)
    qed
    moreover have "(q @ s, m) \<notin> set t" if "s \<noteq> []" for s m
      using ancestor_Directory [OF assms(2) _ that pq(4)] ancestor_child [OF assms(2) _ that] pq(7) \<open>p \<noteq> q\<close> pq(4) assms(2)
      by (auto simp: lookup_iff)
    ultimately show ?thesis using p q pq(5) that by (auto simp: movable_def below_iff)
  qed
  with pq show thesis by (intro that [of p n q]) auto
qed

lemma rekey_below: "rekey p q (p @ s) = q @ s"
  by (simp add: rekey_def below_iff)

lemma rekey_other: "\<not> prefix p r \<Longrightarrow> rekey p q r = r"
  by (simp add: rekey_def below_iff)

lemma movable_inj:
  assumes "movable t p n q" shows "inj_on (rekey p q) (fst ` set t - {q})"
proof (rule inj_onI)
  fix r r' assume r: "r \<in> fst ` set t - {q}" "r' \<in> fst ` set t - {q}" "rekey p q r = rekey p q r'"
  have no: "\<not> prefix q x" if "x \<in> fst ` set t - {q}" for x using assms that by (auto simp: movable_def elim!: prefixE)
  show "r = r'"
    using r(3) no [OF r(1)] no [OF r(2)]
    by (cases "prefix p r"; cases "prefix p r'") (auto simp: rekey_other rekey_below elim!: prefixE)
qed

lemma moved_mem: "(k, m) \<in> set (moved t p q) \<longleftrightarrow> (\<exists>r. (r, m) \<in> set t \<and> r \<noteq> q \<and> k = rekey p q r)"
  by (auto simp: moved_def image_iff)

lemma moved_wf: assumes "movable t p n q" and "wf_tree t" shows "wf_tree (moved t p q)"
proof (rule wf_treeI)
  have "distinct (map fst (filter (\<lambda>(r, _). r \<noteq> q) t))" using assms(2) by (auto simp: wf_tree_def intro: distinct_map_filter)
  moreover have "fst ` set (filter (\<lambda>(r, _). r \<noteq> q) t) \<subseteq> fst ` set t - {q}" by auto
  ultimately have "distinct (map (rekey p q) (map fst (filter (\<lambda>(r, _). r \<noteq> q) t)))"
    using inj_on_subset [OF movable_inj [OF assms(1)]] unfolding distinct_map [of "rekey p q"] by simp
  then show "distinct (map fst (moved t p q))" by (simp add: moved_def comp_def case_prod_beta)
  note mv = assms(1) [unfolded movable_def]
  fix k m assume "(k, m) \<in> set (moved t p q)"
  then obtain r where r: "(r, m) \<in> set t" "r \<noteq> q" "k = rekey p q r" by (auto simp: moved_mem)
  note ok = wf_treeD(2) [OF assms(2) r(1)]
  have keep: "(d, Directory) \<in> set (moved t p q)" if "(d, Directory) \<in> set t" "\<not> prefix p d" "d \<noteq> q" for d
    using that by (auto simp: moved_mem intro!: exI [of _ d] simp: rekey_other)
  show "parent_ok (moved t p q) k"
  proof (cases "prefix p r")
    case False
    have "butlast r \<noteq> q" using r(1) mv ok by (metis append_butlast_last_id list.distinct(1) parent_ok_def)
    moreover have "\<not> prefix p (butlast r)" using False prefix_order.trans prefixeq_butlast by blast
    ultimately show ?thesis using ok keep False r(3) by (auto simp: parent_ok_def rekey_other)
  next
    case True
    then obtain s where s: "r = p @ s" by (auto simp: prefix_def)
    show ?thesis
    proof (cases "s = []")
      case True
      have "\<not> prefix p (butlast q)" using mv prefix_order.trans prefixeq_butlast by blast
      moreover have "butlast q \<noteq> q" using mv by (auto simp: parent_ok_def) (metis append_butlast_last_id append_self_conv list.distinct(1))
      ultimately show ?thesis using mv keep True s r(3) by (auto simp: parent_ok_def rekey_below [of p q "[]", simplified])
    next
      case False
      have "p \<noteq> []" using mv wf_treeD(2) [OF assms(2), of p n] by (auto simp: parent_ok_def)
      with ok s False have dir: "(p @ butlast s, Directory) \<in> set t" by (auto simp: parent_ok_def butlast_append)
      have "p @ butlast s \<noteq> q" using mv by auto
      with dir have "(q @ butlast s, Directory) \<in> set (moved t p q)" by (auto simp: moved_mem intro!: exI [of _ "p @ butlast s"] simp: rekey_below)
      with ok mv s False r(3) show ?thesis by (auto simp: parent_ok_def rekey_below butlast_append)
    qed
  qed
qed

lemma root_Rename_wf: "root_Rename t from to = Inr t' \<Longrightarrow> wf_tree t \<Longrightarrow> wf_tree t'"
  by (erule root_Rename_InrD) (auto intro: moved_wf)

end
