(* ===== verification/Fs_Input.thy ===== *)
theory Fs_Input
  imports Fs_Root Shell_Input
begin

text \<open>
  \<open>tools/filesystem/filesystem.go\<close>, first part: the executor, the input with its strict contract per operation,
  \<open>resolve\<close> and \<open>ParseAndValidate\<close>.  Regular expressions are an argument: \<open>rx pattern\<close> is the compiled
  expression, a function to the start of the first match, or \<open>None\<close>.
\<close>

subsection \<open>Data\<close>

definition OperationRead :: string where "OperationRead = ''read''"

definition OperationList :: string where "OperationList = ''list''"

definition OperationSearch :: string where "OperationSearch = ''search''"

definition OperationWrite :: string where "OperationWrite = ''write''"

definition OperationPatch :: string where "OperationPatch = ''patch''"

definition OperationMove :: string where "OperationMove = ''move''"

definition OperationDelete :: string where "OperationDelete = ''delete''"

lemmas operations = OperationRead_def OperationList_def OperationSearch_def OperationWrite_def OperationPatch_def
  OperationMove_def OperationDelete_def

definition EncodingUTF8 :: string where "EncodingUTF8 = ''utf8''"

definition EncodingBase64 :: string where "EncodingBase64 = ''base64''"

definition SearchContents :: string where "SearchContents = ''contents''"

definition SearchNames :: string where "SearchNames = ''names''"

record ExactPatch =
  ep_OldText :: string
  ep_NewText :: string
  ep_ExpectedOccurrences :: int

record fs_Input =
  fx_Operation :: string
  fx_Path :: string
  fx_Destination :: string
  fx_Content :: string
  fx_Encoding :: string
  fx_ExpectedSHA256 :: string
  fx_MustNotExist :: bool
  fx_Patches :: "ExactPatch list"
  fx_Query :: string
  fx_Regex :: bool
  fx_CaseSensitive :: bool
  fx_SearchMode :: string
  fx_Recursive :: bool
  fx_MaxBytes :: int
  fx_MaxResults :: int
  fx_CreateParents :: bool
  fx_Overwrite :: bool
  fx_DryRun :: bool

record workspace =
  ws_path :: string
  ws_aliases :: "string list"

record fs_Executor =
  xe_workspaces :: "workspace list"
  xe_maxReadBytes :: int
  xe_maxWriteBytes :: int
  xe_maxSearchFileBytes :: int
  xe_maxHashBytes :: int
  xe_maxSearchResults :: int
  xe_maxSearchFiles :: int
  xe_maxListEntries :: int
  xe_writeMode :: "9 word"

type_synonym regexps = "string \<Rightarrow> (string \<Rightarrow> nat option) option"

subsection \<open>Classification\<close>

definition fs_Classify :: "fs_Input \<Rightarrow> Risk" where
  "fs_Classify i =
     (if fx_Operation i \<in> set [OperationRead, OperationList, OperationSearch] then RiskReadOnly
      else if fx_Operation i = OperationDelete then RiskDestructive
      else if fx_Operation i = OperationMove then (if fx_Overwrite i then RiskDestructive else RiskStateChanging)
      else RiskStateChanging)"

definition RequiresApproval :: "fs_Input \<Rightarrow> bool" where
  "RequiresApproval i \<longleftrightarrow> fs_Classify i \<noteq> RiskReadOnly"

subsection \<open>Decoding\<close>

definition no_patch :: ExactPatch where
  "no_patch = \<lparr>ep_OldText = [], ep_NewText = [], ep_ExpectedOccurrences = 0\<rparr>"

definition no_fs_input :: fs_Input where
  "no_fs_input = \<lparr>fx_Operation = [], fx_Path = [], fx_Destination = [], fx_Content = [], fx_Encoding = [], fx_ExpectedSHA256 = [],
     fx_MustNotExist = False, fx_Patches = [], fx_Query = [], fx_Regex = False, fx_CaseSensitive = False, fx_SearchMode = [],
     fx_Recursive = False, fx_MaxBytes = 0, fx_MaxResults = 0, fx_CreateParents = False, fx_Overwrite = False, fx_DryRun = False\<rparr>"

definition int_value :: "json \<Rightarrow> int \<Rightarrow> int option" where
  "int_value v old = (case v of JLit t \<Rightarrow> ParseInt t | JNull \<Rightarrow> Some old | _ \<Rightarrow> None)"

definition bool_value :: "json \<Rightarrow> bool \<Rightarrow> bool option" where
  "bool_value v old = (case v of JBool b \<Rightarrow> Some b | JNull \<Rightarrow> Some old | _ \<Rightarrow> None)"

fun decode_patch :: "(string \<times> json) list \<Rightarrow> ExactPatch \<Rightarrow> ExactPatch option" where
  "decode_patch [] r = Some r"
| "decode_patch ((k, v) # kvs) r =
     (if same_key ''old_text'' k
      then Option.bind (text_value v (ep_OldText r)) (\<lambda>s. decode_patch kvs (r\<lparr>ep_OldText := s\<rparr>))
      else if same_key ''new_text'' k
      then Option.bind (text_value v (ep_NewText r)) (\<lambda>s. decode_patch kvs (r\<lparr>ep_NewText := s\<rparr>))
      else if same_key ''expected_occurrences'' k
      then Option.bind (int_value v (ep_ExpectedOccurrences r)) (\<lambda>n. decode_patch kvs (r\<lparr>ep_ExpectedOccurrences := n\<rparr>))
      else None)"

fun decode_patches :: "json list \<Rightarrow> ExactPatch list \<Rightarrow> ExactPatch list option" where
  "decode_patches [] old = Some []"
| "decode_patches (v # vs) old =
     (let r0 = (case old of [] \<Rightarrow> no_patch | r # _ \<Rightarrow> r) in
      case (case v of JObj kvs \<Rightarrow> decode_patch kvs r0 | JNull \<Rightarrow> Some r0 | _ \<Rightarrow> None) of
        None \<Rightarrow> None
      | Some r \<Rightarrow> map_option ((#) r) (decode_patches vs (tl old)))"

definition fs_member :: "string \<Rightarrow> json \<Rightarrow> fs_Input \<Rightarrow> fs_Input option" where
  "fs_member k v i =
     (if same_key ''operation'' k then map_option (\<lambda>s. i\<lparr>fx_Operation := s\<rparr>) (text_value v (fx_Operation i))
      else if same_key ''path'' k then map_option (\<lambda>s. i\<lparr>fx_Path := s\<rparr>) (text_value v (fx_Path i))
      else if same_key ''destination'' k then map_option (\<lambda>s. i\<lparr>fx_Destination := s\<rparr>) (text_value v (fx_Destination i))
      else if same_key ''content'' k then map_option (\<lambda>s. i\<lparr>fx_Content := s\<rparr>) (text_value v (fx_Content i))
      else if same_key ''encoding'' k then map_option (\<lambda>s. i\<lparr>fx_Encoding := s\<rparr>) (text_value v (fx_Encoding i))
      else if same_key ''expected_sha256'' k then map_option (\<lambda>s. i\<lparr>fx_ExpectedSHA256 := s\<rparr>) (text_value v (fx_ExpectedSHA256 i))
      else if same_key ''must_not_exist'' k then map_option (\<lambda>b. i\<lparr>fx_MustNotExist := b\<rparr>) (bool_value v (fx_MustNotExist i))
      else if same_key ''patches'' k then
        (case v of JNull \<Rightarrow> Some (i\<lparr>fx_Patches := []\<rparr>)
         | JArr vs \<Rightarrow> map_option (\<lambda>ps. i\<lparr>fx_Patches := ps\<rparr>) (decode_patches vs (fx_Patches i)) | _ \<Rightarrow> None)
      else if same_key ''query'' k then map_option (\<lambda>s. i\<lparr>fx_Query := s\<rparr>) (text_value v (fx_Query i))
      else if same_key ''regex'' k then map_option (\<lambda>b. i\<lparr>fx_Regex := b\<rparr>) (bool_value v (fx_Regex i))
      else if same_key ''case_sensitive'' k then map_option (\<lambda>b. i\<lparr>fx_CaseSensitive := b\<rparr>) (bool_value v (fx_CaseSensitive i))
      else if same_key ''search_mode'' k then map_option (\<lambda>s. i\<lparr>fx_SearchMode := s\<rparr>) (text_value v (fx_SearchMode i))
      else if same_key ''recursive'' k then map_option (\<lambda>b. i\<lparr>fx_Recursive := b\<rparr>) (bool_value v (fx_Recursive i))
      else if same_key ''max_bytes'' k then map_option (\<lambda>n. i\<lparr>fx_MaxBytes := n\<rparr>) (int_value v (fx_MaxBytes i))
      else if same_key ''max_results'' k then map_option (\<lambda>n. i\<lparr>fx_MaxResults := n\<rparr>) (int_value v (fx_MaxResults i))
      else if same_key ''create_parents'' k then map_option (\<lambda>b. i\<lparr>fx_CreateParents := b\<rparr>) (bool_value v (fx_CreateParents i))
      else if same_key ''overwrite'' k then map_option (\<lambda>b. i\<lparr>fx_Overwrite := b\<rparr>) (bool_value v (fx_Overwrite i))
      else if same_key ''dry_run'' k then map_option (\<lambda>b. i\<lparr>fx_DryRun := b\<rparr>) (bool_value v (fx_DryRun i))
      else None)"

fun decode_fs :: "(string \<times> json) list \<Rightarrow> fs_Input \<Rightarrow> fs_Input option" where
  "decode_fs [] i = Some i"
| "decode_fs ((k, v) # kvs) i = (case fs_member k v i of None \<Rightarrow> None | Some i' \<Rightarrow> decode_fs kvs i')"

text \<open>The fields of an operation, compared with the names of the object as they are written.\<close>

definition specific_fields :: "string \<Rightarrow> string list option" where
  "specific_fields operation =
     (if operation = OperationRead then Some [''encoding'', ''max_bytes'']
      else if operation = OperationList then Some [''recursive'', ''max_results'']
      else if operation = OperationSearch then Some [''query'', ''regex'', ''case_sensitive'', ''search_mode'', ''recursive'', ''max_results'']
      else if operation = OperationWrite
      then Some [''content'', ''encoding'', ''expected_sha256'', ''must_not_exist'', ''create_parents'', ''dry_run'']
      else if operation = OperationPatch then Some [''patches'', ''expected_sha256'', ''dry_run'']
      else if operation = OperationMove then Some [''destination'', ''expected_sha256'', ''overwrite'', ''dry_run'']
      else if operation = OperationDelete then Some [''expected_sha256'', ''recursive'', ''dry_run'']
      else None)"

definition validateOperationFields :: "(string \<times> json) list \<Rightarrow> string \<Rightarrow> fs_err + unit" where
  "validateOperationFields kvs operation = (case specific_fields operation of
     None \<Rightarrow> Inl (FsError ''unsupported filesystem operation'')
   | Some specific \<Rightarrow>
       if list_all (\<lambda>(k, _). k \<in> set (''operation'' # ''path'' # specific)) kvs then Inr ()
       else Inl (FsError ''field is not valid for operation''))"

subsection \<open>Paths\<close>

text \<open>The number of the workspace, the path below it and the absolute path.\<close>

definition alias_match :: "string \<Rightarrow> string \<Rightarrow> string option" where
  "alias_match cleaned alias = (case Rel alias cleaned of
     None \<Rightarrow> None
   | Some relative \<Rightarrow> if relative = ''.'' \<or> IsLocal relative then Some relative else None)"

fun first_alias :: "string \<Rightarrow> string list \<Rightarrow> string option" where
  "first_alias cleaned [] = None"
| "first_alias cleaned (a # as) = (case alias_match cleaned a of Some r \<Rightarrow> Some r | None \<Rightarrow> first_alias cleaned as)"

fun first_workspace :: "string \<Rightarrow> nat \<Rightarrow> workspace list \<Rightarrow> fs_err + nat \<times> string \<times> string" where
  "first_workspace cleaned n [] = Inl ErrOutsideWorkspace"
| "first_workspace cleaned n (w # ws) = (case first_alias cleaned (ws_aliases w) of
     Some relative \<Rightarrow> Inr (n, relative, path_Join [ws_path w, relative])
   | None \<Rightarrow> first_workspace cleaned (Suc n) ws)"

definition resolve :: "fs_Executor \<Rightarrow> string \<Rightarrow> fs_err + nat \<times> string \<times> string" where
  "resolve e value =
     (if value = [] \<or> NUL \<in> set value then Inl (FsError ''path is required and cannot contain NUL'')
      else if IsAbs value then first_workspace (Clean value) 0 (xe_workspaces e)
      else if \<not> IsLocal value then Inl ErrOutsideWorkspace
      else let relative = Clean value in Inr (0, relative, path_Join [ws_path (hd (xe_workspaces e)), relative]))"

subsection \<open>Contents\<close>

text \<open>\<open>StdEncoding\<close>, which unlike the strict decoder ignores stray bits before the padding.\<close>

fun base64_lax :: "string \<Rightarrow> string option" where
  "base64_lax [] = Some []"
| "base64_lax (a # b # c # d # rest) =
     (case (base64_value a, base64_value b) of
        (Some w, Some x) \<Rightarrow>
          if c = CHR ''='' then (if d = CHR ''='' \<and> rest = [] then Some [char_of (w * 4 + x div 16)] else None)
          else (case base64_value c of
            None \<Rightarrow> None
          | Some y \<Rightarrow>
              if d = CHR ''='' then
                (if rest = [] then Some [char_of (w * 4 + x div 16), char_of (x mod 16 * 16 + y div 4)] else None)
              else (case base64_value d of
                None \<Rightarrow> None
              | Some z \<Rightarrow> map_option (\<lambda>bs. [char_of (w * 4 + x div 16), char_of (x mod 16 * 16 + y div 4),
                  char_of (y mod 4 * 64 + z)] @ bs) (base64_lax rest)))
      | _ \<Rightarrow> None)"
| "base64_lax _ = None"

definition decodeContent :: "string \<Rightarrow> string \<Rightarrow> fs_err + string" where
  "decodeContent content encoding =
     (if encoding = EncodingBase64 then
        (case base64_lax (filter (\<lambda>c. byte c \<noteq> 10 \<and> byte c \<noteq> 13) content) of
           None \<Rightarrow> Inl (FsError ''decode base64 content'') | Some data \<Rightarrow> Inr data)
      else if \<not> ValidString content then Inl (FsError ''utf8 content contains invalid encoding'')
      else Inr content)"

definition encodeContent :: "string \<Rightarrow> string \<Rightarrow> string" where
  "encodeContent content encoding = (if encoding = EncodingBase64 then EncodeToString content else content)"

subsection \<open>Validation\<close>

definition maxPatchEdits :: nat where
  "maxPatchEdits = 100"

definition rejectFields :: "bool list \<Rightarrow> fs_err + unit" where
  "rejectFields present = ensure (list_all Not present) (FsError ''field is not valid for this operation'')"

definition in_range :: "int \<Rightarrow> int \<Rightarrow> string \<Rightarrow> fs_err + int" where
  "in_range value limit name =
     (let v = (if value = 0 then limit else value) in if v < 1 \<or> v > limit then Inl (FsError name) else Inr v)"

fun valid_patches :: "int \<Rightarrow> ExactPatch list \<Rightarrow> fs_err + ExactPatch list" where
  "valid_patches limit [] = Inr []"
| "valid_patches limit (p # ps) =
     (let n = (if ep_ExpectedOccurrences p = 0 then 1 else ep_ExpectedOccurrences p) in
      if ep_OldText p = [] then Inl (FsError ''patch old_text cannot be empty'')
      else if n < 1 \<or> n > 10000 then Inl (FsError ''patch expected_occurrences must be between 1 and 10000'')
      else if int (length (ep_OldText p)) > limit \<or> int (length (ep_NewText p)) > limit then Inl ErrTooLarge
      else (case valid_patches limit ps of Inl err \<Rightarrow> Inl err | Inr rest \<Rightarrow> Inr (p\<lparr>ep_ExpectedOccurrences := n\<rparr> # rest)))"

definition search_pattern :: "fs_Input \<Rightarrow> string" where
  "search_pattern i = (if fx_CaseSensitive i then fx_Query i else ''(?i)'' @ fx_Query i)"

text \<open>The cases of the switch over the operation.\<close>

definition valid_read :: "fs_Executor \<Rightarrow> fs_Input \<Rightarrow> fs_err + fs_Input" where
  "valid_read e i =
     (case rejectFields [fx_Destination i \<noteq> [], fx_Content i \<noteq> [], fx_Patches i \<noteq> [], fx_Query i \<noteq> [], fx_Recursive i,
        fx_CreateParents i, fx_Overwrite i, fx_MustNotExist i, fx_DryRun i] of
        Inl err \<Rightarrow> Inl err
      | Inr _ \<Rightarrow> (case in_range (fx_MaxBytes i) (xe_maxReadBytes e) ''max_bytes'' of
          Inl err \<Rightarrow> Inl err | Inr n \<Rightarrow> Inr (i\<lparr>fx_MaxBytes := n\<rparr>)))"

definition valid_list :: "fs_Executor \<Rightarrow> fs_Input \<Rightarrow> fs_err + fs_Input" where
  "valid_list e i =
     (case rejectFields [fx_Destination i \<noteq> [], fx_Content i \<noteq> [], fx_Patches i \<noteq> [], fx_Query i \<noteq> [], fx_MaxBytes i \<noteq> 0,
        fx_CreateParents i, fx_Overwrite i, fx_MustNotExist i, fx_DryRun i] of
        Inl err \<Rightarrow> Inl err
      | Inr _ \<Rightarrow> (case in_range (fx_MaxResults i) (xe_maxListEntries e) ''max_results'' of
          Inl err \<Rightarrow> Inl err | Inr n \<Rightarrow> Inr (i\<lparr>fx_MaxResults := n\<rparr>)))"

definition valid_search :: "fs_Executor \<Rightarrow> regexps \<Rightarrow> fs_Input \<Rightarrow> fs_err + fs_Input" where
  "valid_search e rx i =
     (if fx_Query i = [] then Inl (FsError ''query is required for search'')
      else if int (length (fx_Query i)) > 16384 then Inl (FsError ''query cannot exceed 16384 bytes'')
      else case rejectFields [fx_Destination i \<noteq> [], fx_Content i \<noteq> [], fx_Patches i \<noteq> [], fx_MaxBytes i \<noteq> 0,
        fx_CreateParents i, fx_Overwrite i, fx_MustNotExist i, fx_DryRun i] of Inl err \<Rightarrow> Inl err | Inr _ \<Rightarrow>
      let mode = (if fx_SearchMode i = [] then SearchContents else fx_SearchMode i) in
      if mode \<noteq> SearchContents \<and> mode \<noteq> SearchNames then Inl (FsError ''search_mode must be contents or names'')
      else case in_range (fx_MaxResults i) (xe_maxSearchResults e) ''max_results'' of Inl err \<Rightarrow> Inl err | Inr n \<Rightarrow>
      if fx_Regex i \<and> rx (search_pattern i) = None then Inl (FsError ''compile search expression'')
      else Inr (i\<lparr>fx_SearchMode := mode, fx_MaxResults := n\<rparr>))"

definition valid_write :: "fs_Executor \<Rightarrow> fs_Input \<Rightarrow> fs_err + fs_Input" where
  "valid_write e i =
     (case rejectFields [fx_Destination i \<noteq> [], fx_Patches i \<noteq> [], fx_Query i \<noteq> [], fx_Recursive i, fx_MaxBytes i \<noteq> 0,
        fx_MaxResults i \<noteq> 0, fx_Overwrite i] of
        Inl err \<Rightarrow> Inl err
      | Inr _ \<Rightarrow> (case decodeContent (fx_Content i) (fx_Encoding i) of
          Inl err \<Rightarrow> Inl err
        | Inr content \<Rightarrow> if int (length content) > xe_maxWriteBytes e then Inl ErrTooLarge else Inr i))"

definition valid_patch :: "fs_Executor \<Rightarrow> fs_Input \<Rightarrow> fs_err + fs_Input" where
  "valid_patch e i =
     (if fx_Patches i = [] \<or> length (fx_Patches i) > maxPatchEdits then Inl (FsError ''patches must contain between 1 and 100 exact edits'')
      else if fx_Encoding i \<noteq> EncodingUTF8 then Inl (FsError ''patch only supports utf8 files'')
      else case rejectFields [fx_Destination i \<noteq> [], fx_Content i \<noteq> [], fx_Query i \<noteq> [], fx_Recursive i, fx_MaxBytes i \<noteq> 0,
        fx_MaxResults i \<noteq> 0, fx_Overwrite i, fx_MustNotExist i] of Inl err \<Rightarrow> Inl err | Inr _ \<Rightarrow>
      case valid_patches (xe_maxWriteBytes e) (fx_Patches i) of Inl err \<Rightarrow> Inl err | Inr ps \<Rightarrow> Inr (i\<lparr>fx_Patches := ps\<rparr>))"

definition valid_move :: "fs_Executor \<Rightarrow> fs_Input \<Rightarrow> fs_err + fs_Input" where
  "valid_move e i =
     (if fx_Destination i = [] then Inl (FsError ''destination is required for move'')
      else if int (length (fx_Destination i)) > 4096 then Inl (FsError ''destination cannot exceed 4096 bytes'')
      else case resolve e (fx_Destination i) of Inl err \<Rightarrow> Inl err | Inr _ \<Rightarrow>
      case rejectFields [fx_Content i \<noteq> [], fx_Patches i \<noteq> [], fx_Query i \<noteq> [], fx_Recursive i, fx_MaxBytes i \<noteq> 0,
        fx_MaxResults i \<noteq> 0, fx_CreateParents i, fx_MustNotExist i] of Inl err \<Rightarrow> Inl err | Inr _ \<Rightarrow> Inr i)"

definition valid_delete :: "fs_Input \<Rightarrow> fs_err + fs_Input" where
  "valid_delete i =
     (case rejectFields [fx_Destination i \<noteq> [], fx_Content i \<noteq> [], fx_Patches i \<noteq> [], fx_Query i \<noteq> [], fx_MaxBytes i \<noteq> 0,
        fx_MaxResults i \<noteq> 0, fx_CreateParents i, fx_Overwrite i, fx_MustNotExist i] of Inl err \<Rightarrow> Inl err | Inr _ \<Rightarrow> Inr i)"

definition valid_operation :: "fs_Executor \<Rightarrow> regexps \<Rightarrow> fs_Input \<Rightarrow> fs_err + fs_Input" where
  "valid_operation e rx i =
     (if fx_Operation i = OperationRead then valid_read e i
      else if fx_Operation i = OperationList then valid_list e i
      else if fx_Operation i = OperationSearch then valid_search e rx i
      else if fx_Operation i = OperationWrite then valid_write e i
      else if fx_Operation i = OperationPatch then valid_patch e i
      else if fx_Operation i = OperationMove then valid_move e i
      else if fx_Operation i = OperationDelete then valid_delete i
      else Inl (FsError ''unsupported filesystem operation''))"

definition fs_ParseAndValidate :: "fs_Executor \<Rightarrow> regexps \<Rightarrow> string \<Rightarrow> fs_err + fs_Input \<times> Risk" where
  "fs_ParseAndValidate e rx raw =
     (case object_members raw of None \<Rightarrow> Inl (FsError ''decode filesystem input'') | Some kvs \<Rightarrow>
      case decode_fs kvs no_fs_input of None \<Rightarrow> Inl (FsError ''decode filesystem input'') | Some i \<Rightarrow>
      case validateOperationFields kvs (fx_Operation i) of Inl err \<Rightarrow> Inl err | Inr _ \<Rightarrow>
      if int (length (fx_Path i)) > 4096 then Inl (FsError ''path cannot exceed 4096 bytes'') else
      case resolve e (fx_Path i) of Inl err \<Rightarrow> Inl err | Inr _ \<Rightarrow>
      if fx_ExpectedSHA256 i \<noteq> [] \<and> \<not> hex_text (fx_ExpectedSHA256 i)
      then Inl (FsError ''expected_sha256 must contain 64 hexadecimal characters'') else
      let i' = i\<lparr>fx_ExpectedSHA256 := ToLower (fx_ExpectedSHA256 i),
            fx_Encoding := (if fx_Encoding i = [] then EncodingUTF8 else fx_Encoding i)\<rparr> in
      if fx_Encoding i' \<noteq> EncodingUTF8 \<and> fx_Encoding i' \<noteq> EncodingBase64 then Inl (FsError ''encoding must be utf8 or base64'') else
      case valid_operation e rx i' of Inl err \<Rightarrow> Inl err | Inr input \<Rightarrow> Inr (input, fs_Classify input))"

subsection \<open>The executor\<close>

record fs_Config =
  fc_Workspaces :: "string list"
  fc_MaxReadBytes :: int
  fc_MaxWriteBytes :: int
  fc_MaxSearchFileBytes :: int
  fc_MaxHashBytes :: int
  fc_MaxSearchResults :: int
  fc_MaxSearchFiles :: int
  fc_MaxListEntries :: int
  fc_WriteMode :: "32 word"

definition or_default :: "int \<Rightarrow> int \<Rightarrow> int" where
  "or_default v d = (if v \<le> 0 then d else v)"

text \<open>
  The loop over the workspaces; \<open>opens\<close> says whether a path is a directory that can be opened as a root.  Another name of
  a workspace that is open already becomes an alias of it.
\<close>

definition add_alias :: "string \<Rightarrow> string \<Rightarrow> workspace list \<Rightarrow> workspace list" where
  "add_alias resolved absolute ws =
     map (\<lambda>w. if ws_path w = resolved \<and> absolute \<notin> set (ws_aliases w) then w\<lparr>ws_aliases := ws_aliases w @ [absolute]\<rparr> else w) ws"

definition add_workspace :: "string \<Rightarrow> string \<Rightarrow> workspace list \<Rightarrow> workspace list" where
  "add_workspace resolved absolute ws =
     (if resolved \<in> set (map ws_path ws) then add_alias resolved absolute ws
      else ws @ [\<lparr>ws_path = resolved, ws_aliases = resolved # (if absolute \<noteq> resolved then [absolute] else [])\<rparr>])"

fun open_workspaces :: "system \<Rightarrow> (string \<Rightarrow> bool) \<Rightarrow> string list \<Rightarrow> workspace list \<Rightarrow> fs_err + workspace list" where
  "open_workspaces sys opens [] ws = Inr ws"
| "open_workspaces sys opens (v # vs) ws =
     (case Abs sys v of None \<Rightarrow> Inl (FsError ''resolve workspace'') | Some absolute0 \<Rightarrow>
      let absolute = Clean absolute0 in
      case sy_EvalSymlinks sys absolute of None \<Rightarrow> Inl (FsError ''resolve workspace'') | Some resolved0 \<Rightarrow>
      let resolved = Clean resolved0 in
      if \<not> opens resolved then Inl (FsError ''workspace is not a directory'')
      else open_workspaces sys opens vs (add_workspace resolved absolute ws))"

definition NewWithConfig :: "system \<Rightarrow> (string \<Rightarrow> bool) \<Rightarrow> fs_Config \<Rightarrow> fs_err + fs_Executor" where
  "NewWithConfig sys opens c =
     (if fc_Workspaces c = [] then Inl (FsError ''at least one filesystem workspace is required'')
      else let mode = (if fc_WriteMode c = 0 then 384 else fc_WriteMode c) in
      if mode AND NOT 511 \<noteq> 0 then Inl (FsError ''write mode may only contain permission bits'')
      else (case open_workspaces sys opens (fc_Workspaces c) [] of
        Inl err \<Rightarrow> Inl err
      | Inr ws \<Rightarrow> Inr \<lparr>xe_workspaces = sort_key_desc (length \<circ> ws_path) ws,
          xe_maxReadBytes = or_default (fc_MaxReadBytes c) 1048576, xe_maxWriteBytes = or_default (fc_MaxWriteBytes c) 1048576,
          xe_maxSearchFileBytes = or_default (fc_MaxSearchFileBytes c) 1048576, xe_maxHashBytes = or_default (fc_MaxHashBytes c) 67108864,
          xe_maxSearchResults = or_default (fc_MaxSearchResults c) 1000, xe_maxSearchFiles = or_default (fc_MaxSearchFiles c) 10000,
          xe_maxListEntries = or_default (fc_MaxListEntries c) 10000, xe_writeMode = ucast mode\<rparr>))"

end
