(* ===== verification/Fs_Tool.thy ===== *)
theory Fs_Tool
  imports Fs_Input
begin

text \<open>
  \<open>tools/filesystem/filesystem.go\<close>, second part: reading, listing, searching, writing, patching, moving and deleting below a workspace, and
  \<open>Execute\<close>.  A call of the operating system that fails, or a context that has ended, is an argument:
  \<open>io\<close> says for the name of a call and the path whether it fails.  Random names, SHA-256 in hexadecimal
  digits and the lower case of a text are arguments too.
\<close>

type_synonym io = "string \<Rightarrow> string \<Rightarrow> bool"

record Entry =
  en_Path :: string
  en_Name :: string
  en_Type :: string
  en_Size :: int

record fs_Match =
  ma_Path :: string
  ma_Line :: int
  ma_Column :: int
  ma_Snippet :: string

record fs_Output =
  fo_Operation :: string
  fo_Workspace :: string
  fo_Path :: string
  fo_Destination :: string
  fo_Risk :: Risk
  fo_ApprovalRequired :: bool
  fo_Content :: string
  fo_Encoding :: string
  fo_Entries :: "Entry list"
  fo_Matches :: "fs_Match list"
  fo_SHA256 :: string
  fo_PreviousSHA256 :: string
  fo_Bytes :: int
  fo_FilesScanned :: int
  fo_FilesSkipped :: int
  fo_Truncated :: bool
  fo_DryRun :: bool

subsection \<open>Reading\<close>

definition readRegular :: "io \<Rightarrow> (string \<Rightarrow> string) \<Rightarrow> tree \<Rightarrow> string \<Rightarrow> int \<Rightarrow> fs_err + string \<times> string \<times> 9 word" where
  "readRegular io sha t relative limit =
     (if io ''ctx'' relative then Inl (FsError ''context'')
      else case root_Open t relative of Inl err \<Rightarrow> Inl err | Inr (p, n) \<Rightarrow>
      if io ''stat'' relative then Inl (FsError ''stat'') else
      case n of
        Regular data mode \<Rightarrow>
          if int (length data) > limit then Inl ErrTooLarge
          else if io ''read'' relative then Inl (FsError ''read'')
          else Inr (data, sha data, mode)
      | _ \<Rightarrow> Inl ErrUnsupportedType)"

definition typeName :: "node \<Rightarrow> string" where
  "typeName n = (case n of Regular _ _ \<Rightarrow> ''file'' | Directory \<Rightarrow> ''directory'' | Symlink _ \<Rightarrow> ''symlink'' | Special \<Rightarrow> ''other'')"

definition node_size :: "node \<Rightarrow> int" where
  "node_size n = (case n of Regular data _ \<Rightarrow> int (length data) | Symlink target \<Rightarrow> int (length target) | _ \<Rightarrow> 0)"

text \<open>\<open>Open\<close> and \<open>ReadDir(n)\<close>: the first names of a directory, sorted.\<close>

definition read_names :: "io \<Rightarrow> tree \<Rightarrow> string \<Rightarrow> int \<Rightarrow> fs_err + string list" where
  "read_names io t directory n = (case root_Open t directory of
     Inl err \<Rightarrow> Inl err
   | Inr (p, m) \<Rightarrow>
       if m \<noteq> Directory then Inl (FsError ''not a directory'')
       else if io ''readdir'' directory then Inl (FsError ''readdir'')
       else Inr (take (nat n) (children t p)))"

subsection \<open>Listing\<close>

text \<open>The loop over the names of one directory; \<open>walk\<close> lists a directory below it.\<close>

fun list_entries :: "(string \<Rightarrow> Entry list \<Rightarrow> fs_err + Entry list \<times> bool) \<Rightarrow> io \<Rightarrow> tree \<Rightarrow> string \<Rightarrow> bool \<Rightarrow> int \<Rightarrow>
    string \<Rightarrow> string list \<Rightarrow> Entry list \<Rightarrow> fs_err + Entry list \<times> bool" where
  "list_entries walk io t wsPath recursive limit directory [] result = Inr (result, False)"
| "list_entries walk io t wsPath recursive limit directory (name # rest) result =
     (if int (length result) \<ge> limit then Inr (result, True)
      else if io ''ctx'' directory then Inl (FsError ''context'')
      else let child = path_Join [directory, name] in
        case root_Lstat t child of
          Inl err \<Rightarrow> Inl err
        | Inr n \<Rightarrow>
            let result' = result @ [\<lparr>en_Path = path_Join [wsPath, child], en_Name = name, en_Type = typeName n, en_Size = node_size n\<rparr>] in
            if recursive \<and> n = Directory then
              (case walk child result' of
                 Inl err \<Rightarrow> Inl err
               | Inr (result'', True) \<Rightarrow> Inr (result'', True)
               | Inr (result'', False) \<Rightarrow> list_entries walk io t wsPath recursive limit directory rest result'')
            else list_entries walk io t wsPath recursive limit directory rest result')"

primrec list_walk :: "nat \<Rightarrow> io \<Rightarrow> tree \<Rightarrow> string \<Rightarrow> bool \<Rightarrow> int \<Rightarrow> string \<Rightarrow> Entry list \<Rightarrow> fs_err + Entry list \<times> bool" where
  "list_walk 0 io t wsPath recursive limit directory result = Inl (FsError ''fuel'')"
| "list_walk (Suc n) io t wsPath recursive limit directory result =
     (if io ''ctx'' directory then Inl (FsError ''context'')
      else case read_names io t directory (limit - int (length result) + 1) of
        Inl err \<Rightarrow> Inl err
      | Inr found \<Rightarrow>
          list_entries (list_walk n io t wsPath recursive limit) io t wsPath recursive limit directory (sort found) result)"

definition fs_list :: "io \<Rightarrow> tree \<Rightarrow> string \<Rightarrow> string \<Rightarrow> bool \<Rightarrow> int \<Rightarrow> fs_err + Entry list \<times> bool" where
  "fs_list io t wsPath relative recursive limit = list_walk (Suc (nat limit)) io t wsPath recursive limit relative []"

subsection \<open>Searching\<close>

text \<open>\<open>strings.Index\<close>.\<close>

fun Index :: "string \<Rightarrow> string \<Rightarrow> nat option" where
  "Index [] sub = (if sub = [] then Some 0 else None)"
| "Index (c # s) sub = (if HasPrefix (c # s) sub then Some 0 else map_option Suc (Index s sub))"

definition newMatcher :: "regexps \<Rightarrow> (string \<Rightarrow> string) \<Rightarrow> fs_Input \<Rightarrow> (string \<Rightarrow> nat option) option" where
  "newMatcher rx lower i =
     (if fx_Regex i then rx (search_pattern i)
      else Some (\<lambda>value. if fx_CaseSensitive i then Index value (fx_Query i) else Index (lower value) (lower (fx_Query i))))"

definition truncateSnippet :: "string \<Rightarrow> string" where
  "truncateSnippet value = (if int (length value) \<le> 512 then value else take 512 value @ map char_of [226 :: nat, 128, 166])"

text \<open>
  The matches of one line from column \<open>base\<close> on, appended to \<open>result\<close>; the flag says that the limit was reached.
\<close>

function line_matches :: "(string \<Rightarrow> nat option) \<Rightarrow> int \<Rightarrow> string \<Rightarrow> int \<Rightarrow> string \<Rightarrow> int \<Rightarrow> string \<Rightarrow> fs_Match list \<Rightarrow> fs_Match list \<times> bool" where
  "line_matches matcher limit path line text base remaining result =
     (case matcher remaining of
        None \<Rightarrow> (result, False)
      | Some start \<Rightarrow>
          let result' = result @ [\<lparr>ma_Path = path, ma_Line = line, ma_Column = base + int start + 1, ma_Snippet = truncateSnippet text\<rparr>] in
          if int (length result') \<ge> limit then (result', True)
          else if start + 1 > length remaining then (result', False)
          else line_matches matcher limit path line text (base + int start + 1) (drop (start + 1) remaining) result')"
  by pat_completeness auto

termination by (relation "measure (\<lambda>(_, _, _, _, _, _, remaining, _). length remaining)") auto

fun file_matches :: "(string \<Rightarrow> nat option) \<Rightarrow> int \<Rightarrow> string \<Rightarrow> int \<Rightarrow> string list \<Rightarrow> fs_Match list \<Rightarrow> fs_Match list \<times> bool" where
  "file_matches matcher limit path line [] result = (result, False)"
| "file_matches matcher limit path line (text # texts) result =
     (case line_matches matcher limit path line text 0 text result of
        (result', True) \<Rightarrow> (result', True)
      | (result', False) \<Rightarrow> file_matches matcher limit path (line + 1) texts result')"

record search_state =
  ss_result :: "fs_Match list"
  ss_filesScanned :: int
  ss_filesSkipped :: int
  ss_entriesVisited :: int
  ss_truncated :: bool

text \<open>What a search is made of: the executor, the failures, the digest, the tree, the workspace, the input and the matcher.\<close>

record search =
  sc_e :: fs_Executor
  sc_io :: io
  sc_sha :: "string \<Rightarrow> string"
  sc_tree :: tree
  sc_ws :: string
  sc_input :: fs_Input
  sc_matcher :: "string \<Rightarrow> nat option"

definition inspect :: "search \<Rightarrow> string \<Rightarrow> node \<Rightarrow> search_state \<Rightarrow> fs_err + search_state" where
  "inspect s path n st =
     (if int (length (ss_result st)) \<ge> fx_MaxResults (sc_input s) \<or> ss_filesScanned st + ss_filesSkipped st \<ge> xe_maxSearchFiles (sc_e s)
      then Inr (st\<lparr>ss_truncated := True\<rparr>)
      else case n of
        Regular content _ \<Rightarrow>
          if fx_SearchMode (sc_input s) = SearchNames then
            (let st' = st\<lparr>ss_filesScanned := ss_filesScanned st + 1\<rparr> in
             case sc_matcher s (Base path) of
               None \<Rightarrow> Inr st'
             | Some start \<Rightarrow> Inr (st'\<lparr>ss_result := ss_result st @
                 [\<lparr>ma_Path = path_Join [sc_ws s, path], ma_Line = 0, ma_Column = int start + 1, ma_Snippet = Base path\<rparr>]\<rparr>))
          else if int (length content) > xe_maxSearchFileBytes (sc_e s) then Inr (st\<lparr>ss_filesSkipped := ss_filesSkipped st + 1\<rparr>)
          else (case readRegular (sc_io s) (sc_sha s) (sc_tree s) path (xe_maxSearchFileBytes (sc_e s)) of
            Inl err \<Rightarrow> if err = ErrTooLarge then Inr (st\<lparr>ss_filesSkipped := ss_filesSkipped st + 1\<rparr>) else Inl err
          | Inr (data, _, _) \<Rightarrow>
              (let st' = st\<lparr>ss_filesScanned := ss_filesScanned st + 1\<rparr> in
               if \<not> ValidString data then Inr (st'\<lparr>ss_filesSkipped := ss_filesSkipped st + 1\<rparr>)
               else (case file_matches (sc_matcher s) (fx_MaxResults (sc_input s)) (path_Join [sc_ws s, path]) 1
                   (split_at (char_of (10 :: nat)) data) (ss_result st) of
                 (result, stop) \<Rightarrow> Inr (st'\<lparr>ss_result := result, ss_truncated := ss_truncated st \<or> stop\<rparr>))))
      | _ \<Rightarrow> Inr st)"

fun search_entries :: "(string \<Rightarrow> search_state \<Rightarrow> fs_err + search_state) \<Rightarrow> search \<Rightarrow> string \<Rightarrow> string list \<Rightarrow> search_state \<Rightarrow> fs_err + search_state" where
  "search_entries walk s directory [] st = Inr st"
| "search_entries walk s directory (name # rest) st =
     (let st1 = st\<lparr>ss_entriesVisited := ss_entriesVisited st + 1\<rparr> in
      if ss_truncated st1 then Inr st1
      else let path = path_Join [directory, name] in
        case root_Lstat (sc_tree s) path of
          Inl err \<Rightarrow> Inl err
        | Inr n \<Rightarrow> (case (if n = Directory then (if fx_Recursive (sc_input s) then walk path st1 else Inr st1) else inspect s path n st1) of
            Inl err \<Rightarrow> Inl err
          | Inr st2 \<Rightarrow> search_entries walk s directory rest st2))"

text \<open>
  One directory.  A walk that returns early because the search is truncated does not reach the last statement, which
  sets the flag that is set already.
\<close>

primrec search_walk :: "nat \<Rightarrow> search \<Rightarrow> string \<Rightarrow> search_state \<Rightarrow> fs_err + search_state" where
  "search_walk 0 s directory st = Inl (FsError ''fuel'')"
| "search_walk (Suc k) s directory st =
     (if sc_io s ''ctx'' directory then Inl (FsError ''context'')
      else let remaining = xe_maxSearchFiles (sc_e s) - ss_entriesVisited st in
        if remaining \<le> 0 then Inr (st\<lparr>ss_truncated := True\<rparr>)
        else case read_names (sc_io s) (sc_tree s) directory (remaining + 1) of
          Inl err \<Rightarrow> Inl err
        | Inr found \<Rightarrow>
            (let overflow = int (length found) > remaining; kept = (if overflow then take (nat remaining) found else found) in
             case search_entries (search_walk k s) s directory (sort kept) st of
               Inl err \<Rightarrow> Inl err
             | Inr st' \<Rightarrow> Inr (if overflow then st'\<lparr>ss_truncated := True\<rparr> else st')))"

definition fs_search :: "fs_Executor \<Rightarrow> regexps \<Rightarrow> (string \<Rightarrow> string) \<Rightarrow> io \<Rightarrow> (string \<Rightarrow> string) \<Rightarrow> tree \<Rightarrow> string \<Rightarrow> string \<Rightarrow> fs_Input \<Rightarrow>
    fs_err + search_state" where
  "fs_search e rx lower io sha t wsPath relative i =
     (case newMatcher rx lower i of None \<Rightarrow> Inl (FsError ''compile search expression'') | Some matcher \<Rightarrow>
      let s = \<lparr>sc_e = e, sc_io = io, sc_sha = sha, sc_tree = t, sc_ws = wsPath, sc_input = i, sc_matcher = matcher\<rparr>;
          st = \<lparr>ss_result = [], ss_filesScanned = 0, ss_filesSkipped = 0, ss_entriesVisited = 0, ss_truncated = False\<rparr> in
      case root_Lstat t relative of
        Inl err \<Rightarrow> Inl err
      | Inr n \<Rightarrow> if n \<noteq> Directory then inspect s relative n st
          else search_walk (Suc (nat (xe_maxSearchFiles e))) s relative st)"

subsection \<open>Writing\<close>

text \<open>The digest, the mode and whether the file exists.\<close>

definition existingHash :: "fs_Executor \<Rightarrow> io \<Rightarrow> (string \<Rightarrow> string) \<Rightarrow> tree \<Rightarrow> string \<Rightarrow> fs_err + string \<times> 9 word \<times> bool" where
  "existingHash e io sha t relative = (case root_Lstat t relative of
     Inl err \<Rightarrow> if err = ErrNotExist then Inr ([], xe_writeMode e, False) else Inl err
   | Inr (Regular _ _) \<Rightarrow> (case readRegular io sha t relative (xe_maxHashBytes e) of
       Inl err \<Rightarrow> Inl err | Inr (data, hash, mode) \<Rightarrow> Inr (hash, mode, True))
   | Inr _ \<Rightarrow> Inl ErrUnsupportedType)"

definition checkExpected :: "string \<Rightarrow> bool \<Rightarrow> fs_Input \<Rightarrow> fs_err + unit" where
  "checkExpected actual exists i =
     (if fx_MustNotExist i \<and> exists then Inl ErrFsConflict
      else if fx_ExpectedSHA256 i \<noteq> [] \<and> (\<not> exists \<or> actual \<noteq> fx_ExpectedSHA256 i) then Inl ErrFsConflict
      else Inr ())"

text \<open>The loop that looks for an unused name; \<open>nonces\<close> are the random names that are drawn, ten at most.\<close>

fun allocate :: "tree \<Rightarrow> string \<Rightarrow> string \<Rightarrow> 9 word \<Rightarrow> string list \<Rightarrow> fs_err + string \<times> string list \<times> tree" where
  "allocate t parent base mode [] = Inl (FsError ''could not allocate a temporary file'')"
| "allocate t parent base mode (nonce # nonces) =
     (let temporary = path_Join [parent, ''.'' @ base @ ''.veqri-'' @ nonce] in
      case root_Create t temporary mode of
        Inr (p, t') \<Rightarrow> Inr (temporary, p, t')
      | Inl err \<Rightarrow> if err = ErrExist then allocate t parent base mode nonces else Inl err)"

definition cleanup :: "io \<Rightarrow> string \<Rightarrow> tree \<Rightarrow> tree" where
  "cleanup io temporary t =
     (if io ''remove'' temporary then t else case root_Remove t temporary of Inl _ \<Rightarrow> t | Inr t' \<Rightarrow> t')"

definition atomicWrite :: "io \<Rightarrow> string list \<Rightarrow> tree \<Rightarrow> string \<Rightarrow> string \<Rightarrow> 9 word \<Rightarrow> (fs_err + unit) \<times> tree" where
  "atomicWrite io nonces t relative data mode =
     (if io ''ctx'' relative then (Inl (FsError ''context''), t)
      else case allocate t (Dir relative) (Base relative) mode (take 10 nonces) of
        Inl err \<Rightarrow> (Inl err, t)
      | Inr (temporary, p, t1) \<Rightarrow>
          if io ''write'' temporary then (Inl (FsError ''write''), cleanup io temporary t1)
          else let t2 = put_data t1 p data in
          if io ''sync'' temporary then (Inl (FsError ''sync''), cleanup io temporary t2)
          else if io ''close'' temporary then (Inl (FsError ''close''), cleanup io temporary t2)
          else if io ''ctx'' temporary then (Inl (FsError ''context''), cleanup io temporary t2)
          else if io ''rename'' temporary then (Inl (FsError ''rename''), cleanup io temporary t2)
          else case root_Rename t2 temporary relative of
            Inl err \<Rightarrow> (Inl err, cleanup io temporary t2)
          | Inr t3 \<Rightarrow> (Inr (), t3))"

text \<open>The digests before and after and the number of bytes.\<close>

type_synonym written = "(fs_err + string \<times> string \<times> int) \<times> tree"

definition make_parents :: "io \<Rightarrow> tree \<Rightarrow> string \<Rightarrow> bool \<Rightarrow> fs_err + tree" where
  "make_parents io t relative createParents =
     (if \<not> createParents then Inr t
      else if io ''mkdir'' relative then Inl (FsError ''mkdir'') else root_MkdirAll t (Dir relative))"

definition fs_write :: "fs_Executor \<Rightarrow> io \<Rightarrow> (string \<Rightarrow> string) \<Rightarrow> string list \<Rightarrow> tree \<Rightarrow> string \<Rightarrow> string \<Rightarrow> fs_Input \<Rightarrow> written" where
  "fs_write e io sha nonces t relative data i =
     (case existingHash e io sha t relative of Inl err \<Rightarrow> (Inl err, t) | Inr (previous, mode, exists) \<Rightarrow>
      case checkExpected previous exists i of Inl err \<Rightarrow> (Inl err, t) | Inr _ \<Rightarrow>
      if fx_DryRun i then (Inr (previous, sha data, int (length data)), t)
      else case make_parents io t relative (fx_CreateParents i) of Inl err \<Rightarrow> (Inl err, t) | Inr t1 \<Rightarrow>
      case atomicWrite io nonces t1 relative data mode of
        (Inl err, t2) \<Rightarrow> (Inl err, t2)
      | (Inr _, t2) \<Rightarrow> (Inr (previous, sha data, int (length data)), t2))"

subsection \<open>Patching\<close>

text \<open>\<open>bytes.Count\<close> for a text that is not empty: occurrences that do not overlap.\<close>

function Count :: "string \<Rightarrow> string \<Rightarrow> int" where
  "Count [] sep = 0"
| "Count (c # s) sep =
     (if sep \<noteq> [] \<and> HasPrefix (c # s) sep then 1 + Count (drop (length sep) (c # s)) sep else Count s sep)"
  by pat_completeness auto

termination by (relation "measure (length \<circ> fst)") auto

fun apply_patches :: "int \<Rightarrow> string \<Rightarrow> ExactPatch list \<Rightarrow> fs_err + string" where
  "apply_patches limit content [] = Inr content"
| "apply_patches limit content (p # ps) =
     (if Count content (ep_OldText p) \<noteq> ep_ExpectedOccurrences p then Inl ErrFsConflict
      else let updated = ReplaceAll content (ep_OldText p) (ep_NewText p) in
        if int (length updated) > limit then Inl ErrTooLarge else apply_patches limit updated ps)"

definition fs_patch :: "fs_Executor \<Rightarrow> io \<Rightarrow> (string \<Rightarrow> string) \<Rightarrow> string list \<Rightarrow> tree \<Rightarrow> string \<Rightarrow> fs_Input \<Rightarrow> written" where
  "fs_patch e io sha nonces t relative i =
     (case readRegular io sha t relative (xe_maxWriteBytes e) of Inl err \<Rightarrow> (Inl err, t) | Inr (data, previous, mode) \<Rightarrow>
      if fx_ExpectedSHA256 i \<noteq> [] \<and> previous \<noteq> fx_ExpectedSHA256 i then (Inl ErrFsConflict, t)
      else if \<not> ValidString data then (Inl (FsError ''patch target is not valid utf8''), t)
      else case apply_patches (xe_maxWriteBytes e) data (fx_Patches i) of Inl err \<Rightarrow> (Inl err, t) | Inr updated \<Rightarrow>
      if fx_DryRun i then (Inr (previous, sha updated, int (length updated)), t)
      else case atomicWrite io nonces t relative updated mode of
        (Inl err, t1) \<Rightarrow> (Inl err, t1)
      | (Inr _, t1) \<Rightarrow> (Inr (previous, sha updated, int (length updated)), t1))"

subsection \<open>Moving and deleting\<close>

text \<open>The digest and size of a regular file; other objects have none.\<close>

definition regular_digest :: "fs_Executor \<Rightarrow> io \<Rightarrow> (string \<Rightarrow> string) \<Rightarrow> tree \<Rightarrow> string \<Rightarrow> node \<Rightarrow> fs_err + string \<times> int" where
  "regular_digest e io sha t path n = (case n of
     Regular data _ \<Rightarrow> (case readRegular io sha t path (xe_maxHashBytes e) of
       Inl err \<Rightarrow> Inl err | Inr (_, hash, _) \<Rightarrow> Inr (hash, int (length data)))
   | _ \<Rightarrow> Inr ([], 0))"

definition destination_free :: "fs_Input \<Rightarrow> fs_err + node \<Rightarrow> fs_err + unit" where
  "destination_free i found = (case found of
     Inr n \<Rightarrow> if \<not> fx_Overwrite i then Inl ErrFsConflict
       else if n = Directory then Inl (FsError ''overwriting a directory is denied'') else Inr ()
   | Inl err \<Rightarrow> if err = ErrNotExist then Inr () else Inl err)"

definition fs_move :: "fs_Executor \<Rightarrow> io \<Rightarrow> (string \<Rightarrow> string) \<Rightarrow> tree \<Rightarrow> bool \<Rightarrow> string \<Rightarrow> string \<Rightarrow> fs_Input \<Rightarrow> written" where
  "fs_move e io sha t sameWorkspace source destination i =
     (if \<not> sameWorkspace then (Inl (FsError ''moves between workspace roots are denied''), t)
      else if source = ''.'' \<or> destination = ''.'' then (Inl (FsError ''moving a workspace root is denied''), t)
      else if io ''ctx'' source then (Inl (FsError ''context''), t)
      else case root_Lstat t source of Inl err \<Rightarrow> (Inl err, t) | Inr n \<Rightarrow>
      case regular_digest e io sha t source n of Inl err \<Rightarrow> (Inl err, t) | Inr (hash, sz) \<Rightarrow>
      case destination_free i (root_Lstat t destination) of Inl err \<Rightarrow> (Inl err, t) | Inr _ \<Rightarrow>
      if fx_ExpectedSHA256 i \<noteq> [] \<and> hash \<noteq> fx_ExpectedSHA256 i then (Inl ErrFsConflict, t)
      else if fx_DryRun i then (Inr (hash, hash, sz), t)
      else if io ''rename'' source then (Inl (FsError ''rename''), t)
      else case root_Rename t source destination of Inl err \<Rightarrow> (Inl err, t) | Inr t' \<Rightarrow> (Inr (hash, hash, sz), t'))"

definition fs_delete :: "fs_Executor \<Rightarrow> io \<Rightarrow> (string \<Rightarrow> string) \<Rightarrow> tree \<Rightarrow> string \<Rightarrow> fs_Input \<Rightarrow> (fs_err + string \<times> int) \<times> tree" where
  "fs_delete e io sha t relative i =
     (if relative = ''.'' then (Inl (FsError ''deleting a workspace root is denied''), t)
      else if io ''ctx'' relative then (Inl (FsError ''context''), t)
      else case root_Lstat t relative of Inl err \<Rightarrow> (Inl err, t) | Inr n \<Rightarrow>
      case regular_digest e io sha t relative n of Inl err \<Rightarrow> (Inl err, t) | Inr (hash, sz) \<Rightarrow>
      if fx_ExpectedSHA256 i \<noteq> [] \<and> hash \<noteq> fx_ExpectedSHA256 i then (Inl ErrFsConflict, t)
      else if n \<noteq> Directory \<and> fx_Recursive i then (Inl (FsError ''recursive is only valid when deleting a directory''), t)
      else if fx_DryRun i then (Inr (hash, sz), t)
      else if io ''remove'' relative then (Inl (FsError ''remove''), t)
      else case (if n = Directory \<and> fx_Recursive i then root_RemoveAll t relative else root_Remove t relative) of
        Inl err \<Rightarrow> (Inl err, t) | Inr t' \<Rightarrow> (Inr (hash, sz), t'))"

subsection \<open>Execution\<close>

definition fs_start :: "fs_Executor \<Rightarrow> nat \<Rightarrow> string \<Rightarrow> Risk \<Rightarrow> fs_Input \<Rightarrow> fs_Output" where
  "fs_start e k absolute risk i = \<lparr>fo_Operation = fx_Operation i, fo_Workspace = ws_path (xe_workspaces e ! k), fo_Path = absolute,
     fo_Destination = [], fo_Risk = risk, fo_ApprovalRequired = RequiresApproval i, fo_Content = [], fo_Encoding = [], fo_Entries = [],
     fo_Matches = [], fo_SHA256 = [], fo_PreviousSHA256 = [], fo_Bytes = 0, fo_FilesScanned = 0, fo_FilesSkipped = 0,
     fo_Truncated = False, fo_DryRun = fx_DryRun i\<rparr>"

text \<open>The three operations that do not change files.\<close>

definition fs_inspect :: "fs_Executor \<Rightarrow> regexps \<Rightarrow> (string \<Rightarrow> string) \<Rightarrow> io \<Rightarrow> (string \<Rightarrow> string) \<Rightarrow> tree \<Rightarrow> string \<Rightarrow> fs_Input \<Rightarrow> fs_Output \<Rightarrow>
    fs_err + fs_Output" where
  "fs_inspect e rx lower io sha t relative i out =
     (if fx_Operation i = OperationRead then
        (case readRegular io sha t relative (fx_MaxBytes i) of
           Inl err \<Rightarrow> Inl err
         | Inr (data, hash, _) \<Rightarrow>
             if fx_Encoding i = EncodingUTF8 \<and> \<not> ValidString data then Inl (FsError ''file is not valid utf8; request base64 encoding'')
             else Inr (out\<lparr>fo_Content := encodeContent data (fx_Encoding i), fo_Encoding := fx_Encoding i, fo_SHA256 := hash,
               fo_Bytes := int (length data)\<rparr>))
      else if fx_Operation i = OperationList then
        (case fs_list io t (fo_Workspace out) relative (fx_Recursive i) (fx_MaxResults i) of
           Inl err \<Rightarrow> Inl err
         | Inr (entries, truncated) \<Rightarrow> Inr (out\<lparr>fo_Entries := entries, fo_Truncated := truncated\<rparr>))
      else
        (case fs_search e rx lower io sha t (fo_Workspace out) relative i of
           Inl err \<Rightarrow> Inl err
         | Inr st \<Rightarrow> Inr (out\<lparr>fo_Matches := ss_result st, fo_FilesScanned := ss_filesScanned st,
             fo_FilesSkipped := ss_filesSkipped st, fo_Truncated := ss_truncated st\<rparr>)))"

definition with_digests :: "fs_Output \<Rightarrow> written \<Rightarrow> (fs_err + fs_Output) \<times> tree" where
  "with_digests out w = (case w of
     (Inl err, t) \<Rightarrow> (Inl err, t)
   | (Inr (previous, hash, bytes), t) \<Rightarrow> (Inr (out\<lparr>fo_PreviousSHA256 := previous, fo_SHA256 := hash, fo_Bytes := bytes\<rparr>), t))"

text \<open>The four that do; \<open>k\<close> is the workspace of the path.\<close>

definition fs_change :: "fs_Executor \<Rightarrow> io \<Rightarrow> (string \<Rightarrow> string) \<Rightarrow> string list \<Rightarrow> tree \<Rightarrow> nat \<Rightarrow> string \<Rightarrow> fs_Input \<Rightarrow> fs_Output \<Rightarrow>
    (fs_err + fs_Output) \<times> tree" where
  "fs_change e io sha nonces t k relative i out =
     (if fx_Operation i = OperationWrite then
        (case decodeContent (fx_Content i) (fx_Encoding i) of
           Inl err \<Rightarrow> (Inl err, t)
         | Inr data \<Rightarrow> with_digests out (fs_write e io sha nonces t relative data i))
      else if fx_Operation i = OperationPatch then with_digests out (fs_patch e io sha nonces t relative i)
      else if fx_Operation i = OperationMove then
        (case resolve e (fx_Destination i) of
           Inl err \<Rightarrow> (Inl err, t)
         | Inr (k', relative', absolute') \<Rightarrow>
             with_digests (out\<lparr>fo_Destination := absolute'\<rparr>) (fs_move e io sha t (k = k') relative relative' i))
      else
        (case fs_delete e io sha t relative i of
           (Inl err, t') \<Rightarrow> (Inl err, t')
         | (Inr (previous, bytes), t') \<Rightarrow> (Inr (out\<lparr>fo_PreviousSHA256 := previous, fo_Bytes := bytes\<rparr>), t')))"

text \<open>\<open>Execute\<close> on the trees of the workspaces.\<close>

definition fs_Execute :: "fs_Executor \<Rightarrow> regexps \<Rightarrow> (string \<Rightarrow> string) \<Rightarrow> io \<Rightarrow> (string \<Rightarrow> string) \<Rightarrow> string list \<Rightarrow> string \<Rightarrow> tree list \<Rightarrow>
    (fs_err + fs_Output) \<times> tree list" where
  "fs_Execute e rx lower io sha nonces raw ts =
     (case fs_ParseAndValidate e rx raw of Inl err \<Rightarrow> (Inl err, ts) | Inr (i, risk) \<Rightarrow>
      case resolve e (fx_Path i) of Inl err \<Rightarrow> (Inl err, ts) | Inr (k, relative, absolute) \<Rightarrow>
      let out = fs_start e k absolute risk i in
      if fx_Operation i \<in> set [OperationRead, OperationList, OperationSearch]
      then (fs_inspect e rx lower io sha (ts ! k) relative i out, ts)
      else (case fs_change e io sha nonces (ts ! k) k relative i out of (r, t) \<Rightarrow> (r, ts[k := t])))"

end
