(* ===== verification/Fs_Safety.thy ===== *)
theory Fs_Safety
  imports Fs_Tool Shell_Safety Http_Secrets
begin

text \<open>
  What the filesystem tool can reach and change: the theorems on paths, on trees that stay well-formed, on what a write or patch
  leaves behind, and on the bounds of listings.
\<close>

subsection \<open>Paths\<close>

lemma clean_elements_append:
  "clean_elements b (ps @ qs) acc = clean_elements b qs (rev (clean_elements b ps acc))"
  by (induction b ps acc rule: clean_elements.induct) (auto split: list.splits)

lemma up_stays: "\<exists>rs. clean_elements False qs (acc @ [''..'']) = ''..'' # rs"
proof (induction qs arbitrary: acc)
  case (Cons q qs)
  show ?case
  proof (cases acc)
    case Nil
    with Cons [of "[q]"] Cons [of "[]"] show ?thesis by auto
  next
    case (Cons a as)
    with Cons.IH [of "q # acc"] Cons.IH [of acc] Cons.IH [of as] show ?thesis by auto
  qed
qed simp

lemma clean_elements_below:
  assumes "''..'' \<notin> set acc" and "''..'' \<notin> set (clean_elements False qs acc)"
  shows "clean_elements b qs (acc @ base) = rev base @ clean_elements False qs acc"
  using assms
proof (induction qs arbitrary: acc)
  case (Cons q qs)
  show ?case
  proof (cases "q = ''..'' \<and> acc = []")
    case True
    with Cons(3) up_stays [of qs "[]"] show ?thesis by auto
  next
    case False
    with Cons(2,3) Cons(1) [of acc] Cons(1) [of "q # acc"] Cons(1) [of "tl acc"] show ?thesis by (cases acc) (auto split: if_splits)
  qed
qed simp

lemma elements_Join:
  assumes "IsAbs w" and "\<not> IsAbs r" and "''..'' \<notin> set (elements r)"
  shows "elements (path_Join [w, r]) = elements w @ elements r"
proof -
  have w: "w \<noteq> []" "IsAbs (w @ CHR ''/'' # r)" using assms(1) by (auto simp: IsAbs_def)
  have parts: "split_at (CHR ''/'') (w @ CHR ''/'' # r) = split_at (CHR ''/'') w @ split_at (CHR ''/'') r"
    by (induction w) (auto split: list.splits)
  have "elements (w @ CHR ''/'' # r) = clean_elements True (split_at (CHR ''/'') r) ([] @ rev (elements w))"
    using assms(1) w(2) by (simp add: elements_def parts clean_elements_append)
  also have "\<dots> = elements w @ elements r"
    using clean_elements_below [of "[]" "split_at (CHR ''/'') r" True "rev (elements w)"] assms(2,3) by (simp add: elements_def)
  finally show ?thesis using w(1) by (simp add: path_Join_def)
qed

definition absolute_executor :: "fs_Executor \<Rightarrow> bool" where
  "absolute_executor e \<longleftrightarrow> xe_workspaces e \<noteq> [] \<and> list_all (\<lambda>w. IsAbs (ws_path w)) (xe_workspaces e)"

lemma local_elements: "relative = ''.'' \<or> IsLocal relative \<Longrightarrow> \<not> IsAbs relative \<and> ''..'' \<notin> set (elements relative)"
proof -
  have "\<not> IsAbs ''.''" "elements ''.'' = []" by code_simp+
  then show "relative = ''.'' \<or> IsLocal relative \<Longrightarrow> ?thesis" using IsLocal_elements [of relative] by auto
qed

lemma first_alias_local: "first_alias c as = Some r \<Longrightarrow> r = ''.'' \<or> IsLocal r"
  by (induction as) (auto simp: alias_match_def split: option.splits if_splits)

lemma first_workspace_in:
  "first_workspace c n ws = Inr (k, relative, absolute) \<Longrightarrow>
     n \<le> k \<and> k < n + length ws \<and> (relative = ''.'' \<or> IsLocal relative) \<and> absolute = path_Join [ws_path (ws ! (k - n)), relative]"
proof (induction c n ws rule: first_workspace.induct)
  case (2 c n w ws)
  then show ?case by (cases "first_alias c (ws_aliases w)") (auto dest: first_alias_local simp: nth_Cons')
qed simp

lemma resolve_in:
  assumes "xe_workspaces e \<noteq> []" and "resolve e v = Inr (k, relative, absolute)"
  shows "k < length (xe_workspaces e) \<and> \<not> IsAbs relative \<and> ''..'' \<notin> set (elements relative) \<and>
    absolute = path_Join [ws_path (xe_workspaces e ! k), relative]"
proof (cases "IsAbs v")
  case True
  with assms(2) have "first_workspace (Clean v) 0 (xe_workspaces e) = Inr (k, relative, absolute)"
    by (auto simp: resolve_def split: if_splits)
  from first_workspace_in [OF this] local_elements show ?thesis by auto
next
  case False
  with assms(2) have "IsLocal v" "k = 0" "relative = Clean v" "absolute = path_Join [ws_path (hd (xe_workspaces e)), relative]"
    by (auto simp: resolve_def Let_def split: if_splits)
  with IsLocal_elements [of v] assms(1) show ?thesis by (auto simp: hd_conv_nth)
qed

lemma add_workspace_abs:
  "IsAbs resolved \<Longrightarrow> list_all (\<lambda>w. IsAbs (ws_path w)) ws \<Longrightarrow>
     list_all (\<lambda>w. IsAbs (ws_path w)) (add_workspace resolved absolute ws) \<and> add_workspace resolved absolute ws \<noteq> []"
  by (auto simp: add_workspace_def add_alias_def list_all_iff)

lemma open_workspaces_abs:
  "documented_system sys \<Longrightarrow> open_workspaces sys opens vs ws = Inr ws' \<Longrightarrow> list_all (\<lambda>w. IsAbs (ws_path w)) ws \<Longrightarrow>
     list_all (\<lambda>w. IsAbs (ws_path w)) ws' \<and> (vs \<noteq> [] \<or> ws \<noteq> [] \<longrightarrow> ws' \<noteq> [])"
proof (induction sys opens vs ws rule: open_workspaces.induct)
  case (2 sys opens v vs ws)
  from 2(3) obtain a r where ar: "Abs sys v = Some a" "sy_EvalSymlinks sys (Clean a) = Some r"
    "open_workspaces sys opens vs (add_workspace (Clean r) (Clean a) ws) = Inr ws'" "opens (Clean r)"
    by (auto simp: Let_def split: option.splits if_splits)
  have "IsAbs (Clean r)" using EvalSymlinks_absolute [OF 2(2) _ ar(2)] Abs_absolute [OF 2(2) ar(1)] by simp
  from add_workspace_abs [OF this 2(4), of "Clean a"] 2(1) [OF ar(1) refl ar(2) refl _ 2(2) ar(3)] ar(4) show ?case by auto
qed simp

lemma New_absolute: "documented_system sys \<Longrightarrow> NewWithConfig sys opens c = Inr e \<Longrightarrow> absolute_executor e"
  using open_workspaces_abs [of sys opens "fc_Workspaces c" "[]"]
  by (auto simp: NewWithConfig_def absolute_executor_def Let_def list_all_iff sort_key_desc_def simp flip: set_empty
      split: if_splits sum.splits)

text \<open>
  C21: paths stay in their workspace.  For every path it accepts, \<open>resolve\<close> returns a workspace of the executor, a relative path
  that never goes up, and an absolute path whose names are those of the workspace followed by those of the relative path.
\<close>

theorem resolve_confined:
  assumes "documented_system sys" and "NewWithConfig sys opens c = Inr e" and "resolve e v = Inr (k, relative, absolute)"
  shows "k < length (xe_workspaces e) \<and> \<not> IsAbs relative \<and> ''..'' \<notin> set (elements relative) \<and>
    elements absolute = elements (ws_path (xe_workspaces e ! k)) @ elements relative"
proof -
  note abs = New_absolute [OF assms(1,2)]
  then have ne: "xe_workspaces e \<noteq> []" by (simp add: absolute_executor_def)
  note ws = resolve_in [OF ne assms(3)]
  then have "IsAbs (ws_path (xe_workspaces e ! k))" using abs by (auto simp: absolute_executor_def list_all_length)
  with ws elements_Join show ?thesis by blast
qed

subsection \<open>Atomic writes\<close>

lemma lookup_Cons: "p \<noteq> [] \<Longrightarrow> lookup ((p, n) # t) r = (if r = p then Some n else lookup t r)"
  by (auto simp: lookup_def)

text \<open>A new regular file changes the way of no path.\<close>

lemma follow_new: "lookup t p = None \<Longrightarrow> follow n ((p, Regular d m) # t) links cur ps = Inr q \<longleftrightarrow> follow n t links cur ps = Inr q"
proof (induction n t links cur ps rule: follow.induct)
  case (2 n t links cur x ps)
  have "p \<noteq> []" using 2(5) by (simp add: lookup_None)
  note look = lookup_Cons [OF this, of "Regular d m" t "cur @ [x]"]
  show ?case
  proof (cases "x = [] \<or> x = ''.'' \<or> x = ''..''")
    case True
    with 2 show ?thesis by auto
  next
    case False
    with 2 look show ?thesis by (auto split: option.splits node.splits)
  qed
qed simp

lemma place_new: "lookup t p = None \<Longrightarrow> place ((p, Regular d m) # t) links path = Inr q \<longleftrightarrow> place t links path = Inr q"
  by (simp add: place_def follow_new)

lemma put_data_new: "lookup t p = None \<Longrightarrow> put_data ((p, Regular x m) # t) p data = (p, Regular data m) # t"
  by (auto simp: put_data_def lookup_None intro!: map_idI split: prod.splits) (metis fst_conv image_eqI)

lemma allocate_InrD:
  "allocate t parent base mode ns = Inr (temporary, p, t1) \<Longrightarrow>
     place t False temporary = Inr p \<and> lookup t p = None \<and> t1 = (p, Regular [] mode) # t"
  by (induction t parent base mode ns rule: allocate.induct)
    (auto simp: root_Create_def Let_def split: sum.splits if_splits)

lemma cleanup_new:
  assumes "wf_tree t" and "place t False temporary = Inr p" and "lookup t p = None"
  shows "cleanup io temporary ((p, Regular x m) # t) \<in> {t, (p, Regular x m) # t}"
proof -
  have "p \<noteq> []" using assms(3) by (simp add: lookup_None)
  then have "node_at ((p, Regular x m) # t) False temporary = Inr (p, Regular x m)"
    using place_new [OF assms(3), of x m False temporary p] assms(2) by (simp add: node_at_def lookup_Cons)
  moreover have "filter (\<lambda>(q, _). q \<noteq> p) t = t" using assms(3) by (force simp: lookup_None filter_id_conv)
  ultimately show ?thesis using \<open>p \<noteq> []\<close> by (simp add: cleanup_def root_Remove_def)
qed

lemma moved_file:
  assumes "wf_tree t" and "movable t p (Regular d m) q"
  shows "lookup (moved t p q) r = (if r = q then Some (Regular d m) else if r = p then None else lookup t r)"
proof -
  note mv = assms(2) [unfolded movable_def]
  have p: "p \<noteq> []" "q \<noteq> []" using mv wf_treeD(2) [OF assms(1)] by (auto simp: parent_ok_def)
  have leaf: "rekey p q x = (if x = p then q else x)" if x: "(x, n) \<in> set t" for x n
  proof (cases "prefix p x \<and> x \<noteq> p")
    case True
    then obtain s where "x = p @ s" "s \<noteq> []" by (auto simp: prefix_def)
    with ancestor_Directory [OF assms(1) _ _ p(1)] x have "(p, Directory) \<in> set t" by auto
    with mv assms(1) show ?thesis by (auto simp: wf_tree_def dest: eq_key_imp_eq_value)
  qed (auto simp: rekey_other rekey_below [of p q "[]", simplified])
  have mem: "(k, n) \<in> set (moved t p q) \<longleftrightarrow> (if k = q then n = Regular d m else k \<noteq> p \<and> (k, n) \<in> set t)" for k n
  proof -
    have "(r, n) \<in> set t \<and> r \<noteq> q \<and> k = rekey p q r \<longleftrightarrow> (r, n) \<in> set t \<and> r \<noteq> q \<and> k = (if r = p then q else r)" for r
      using leaf [of r n] by (cases "(r, n) \<in> set t") simp_all
    then have "(k, n) \<in> set (moved t p q) \<longleftrightarrow> (\<exists>r. (r, n) \<in> set t \<and> r \<noteq> q \<and> k = (if r = p then q else r))"
      by (simp add: moved_mem)
    also have "\<dots> \<longleftrightarrow> (if k = q then (p, n) \<in> set t else k \<noteq> p \<and> (k, n) \<in> set t)" using mv by auto
    finally show ?thesis using mv eq_key_imp_eq_value [OF wf_treeD(1) [OF assms(1)], of p n "Regular d m"] by auto
  qed
  have wf: "wf_tree (moved t p q)" by (rule moved_wf [OF assms(2,1)])
  have "lookup (moved t p q) r = Some n \<longleftrightarrow> (if r = q then Some (Regular d m) else if r = p then None else lookup t r) = Some n" for n
    using p by (auto simp: lookup_iff [OF wf] lookup_iff [OF assms(1)] mem)
  then show ?thesis by (metis option.exhaust)
qed

lemma atomicWrite_done:
  assumes "atomicWrite io nonces t relative data mode = (Inr (), t')" and "wf_tree t"
  obtains q where "place t False relative = Inr q" "q \<noteq> []" "wf_tree t'"
    "\<And>r. lookup t' r = (if r = q then Some (Regular data mode) else lookup t r)"
proof -
  from assms(1) obtain temporary p t1 where a: "allocate t (Dir relative) (Base relative) mode (take 10 nonces) = Inr (temporary, p, t1)"
    and r: "root_Rename (put_data t1 p data) temporary relative = Inr t'"
    by (auto simp: atomicWrite_def Let_def split: if_splits sum.splits)
  note new = allocate_InrD [OF a]
  define t2 where "t2 = (p, Regular data mode) # t"
  have t2: "put_data t1 p data = t2" using new put_data_new by (simp add: t2_def)
  have p: "p \<noteq> []" using new by (simp add: lookup_None)
  have wf: "wf_tree t2" unfolding t2_def using wf_insert [OF assms(2) place_okI [OF _ assms(2)]] new by blast
  from root_Rename_InrD [OF r [unfolded t2] wf] obtain p' n q where pq: "node_at t2 False temporary = Inr (p', n)"
    "place t2 False relative = Inr q" "p' = q \<and> t' = t2 \<or> movable t2 p' n q \<and> t' = moved t2 p' q" by metis
  have at: "p' = p" "n = Regular data mode"
    using pq(1) new place_new [of t p data mode False temporary p] p by (auto simp: node_at_def t2_def lookup_Cons split: sum.splits option.splits)
  have q: "place t False relative = Inr q" using pq(2) place_new [of t p data mode] new by (simp add: t2_def)
  have "q \<noteq> []" using pq(3) at p by (auto simp: movable_def parent_ok_def)
  moreover have "lookup t' r = (if r = q then Some (Regular data mode) else lookup t r)" for r
    using pq(3) at p new moved_file [OF wf, of p data mode q r] by (auto simp: t2_def lookup_Cons)
  moreover have "wf_tree t'" using root_Rename_wf [OF r [unfolded t2] wf] .
  ultimately show thesis using q by (intro that) auto
qed

lemma atomicWrite_failed:
  assumes "atomicWrite io nonces t relative data mode = (Inl err, t')" and "wf_tree t"
  shows "t' = t \<or> (\<exists>p x. lookup t p = None \<and> place_ok t p \<and> t' = (p, Regular x mode) # t)"
proof (cases "allocate t (Dir relative) (Base relative) mode (take 10 nonces)")
  case (Inr a)
  obtain temporary p t1 where a: "a = (temporary, p, t1)" by (cases a)
  note new = allocate_InrD [OF Inr [unfolded a]]
  then have t1: "t1 = (p, Regular [] mode) # t" "put_data t1 p data = (p, Regular data mode) # t" using put_data_new by simp_all
  have "t' = t \<or> t' = cleanup io temporary t1 \<or> t' = cleanup io temporary (put_data t1 p data)"
    using assms(1) Inr a by (auto simp: atomicWrite_def Let_def split: if_splits sum.splits)
  then have "t' = t \<or> (\<exists>x. t' = cleanup io temporary ((p, Regular x mode) # t))" using t1 by metis
  with cleanup_new [OF assms(2), of temporary p io _ mode] new place_okI [OF _ assms(2), of False temporary p] show ?thesis by fastforce
qed (use assms(1) in \<open>auto simp: atomicWrite_def split: if_splits\<close>)

lemma make_dirs_keeps: "make_dirs n t cur ps = Inr t' \<Longrightarrow> lookup t p = Some m \<Longrightarrow> lookup t' p = Some m"
proof (induction n t cur ps rule: make_dirs.induct)
  case (2 n t cur x ps)
  then obtain q where q: "follow n t True cur [x] = Inr q" by (auto split: sum.splits)
  show ?case
  proof (cases "lookup t q")
    case None
    then have "q \<noteq> []" "p \<noteq> q" using 2(4) by (metis lookup_None, metis option.distinct(1))
    then have "lookup ((q, Directory) # t) p = Some m" using 2(4) by (simp add: lookup_Cons)
    with q None 2 show ?thesis by (auto split: if_splits)
  next
    case (Some k)
    with q 2 show ?thesis by (auto split: node.splits)
  qed
qed simp

lemma make_parents_keeps:
  "make_parents io t relative c = Inr t' \<Longrightarrow> (wf_tree t \<longrightarrow> wf_tree t') \<and> (lookup t p = Some m \<longrightarrow> lookup t' p = Some m)"
  using make_dirs_keeps [of _ t _ _ t' p m] root_MkdirAll_wf [of t _ t']
  by (auto simp: make_parents_def root_MkdirAll_def split: if_splits)

lemma make_parents_wf: "make_parents io t relative c = Inr t' \<Longrightarrow> wf_tree t \<Longrightarrow> wf_tree t'"
  using make_parents_keeps by blast

text \<open>A path that leads to a file, or to nothing, leads there after the file is written.\<close>

lemma follow_written:
  assumes "\<And>r. lookup t' r = (if r = q then Some (Regular d m) else lookup t r)" and "\<And>s. lookup t q \<noteq> Some (Symlink s)"
    and "lookup t q \<noteq> Some Directory" and "wf_tree t"
  shows "follow n t False cur ps = Inr q \<Longrightarrow> lookup t cur = Some Directory \<Longrightarrow> follow n t' links cur ps = Inr q"
  using assms
proof (induction n t False cur ps rule: follow.induct)
  case (2 n t cur x ps)
  show ?case
  proof (cases "x = [] \<or> x = ''.'' \<or> x = ''..''")
    case True
    with 2 directory_up [OF 2(10) 2(6)] show ?thesis by (auto split: if_splits)
  next
    case False
    show ?thesis
    proof (cases "cur @ [x] = q")
      case True
      with False 2(5,7,8,9) have "ps = []" by (auto split: option.splits node.splits if_splits)
      with False True 2(7) show ?thesis by simp
    next
      case other: False
      with 2(7) have "lookup t' (cur @ [x]) = lookup t (cur @ [x])" by simp
      with False other 2 show ?thesis by (auto split: option.splits node.splits if_splits)
    qed
  qed
qed simp

lemma place_written:
  assumes "\<And>r. lookup t' r = (if r = q then Some (Regular d m) else lookup t r)" and "\<And>s. lookup t q \<noteq> Some (Symlink s)"
    and "lookup t q \<noteq> Some Directory" and "wf_tree t" and "place t False path = Inr q"
  shows "place t' links path = Inr q"
  using follow_written [OF assms(1-4), of maxSymlinks "[]" _ links] assms(5) by (auto simp: place_def lookup_def split: if_splits)

subsection \<open>Changes\<close>

lemma existing_kind:
  assumes "existingHash e io sha t relative = Inr (previous, mode, exists)" and "place t False relative = Inr q"
  shows "lookup t q \<noteq> Some (Symlink s)" "lookup t q \<noteq> Some Directory"
  using assms by (auto simp: existingHash_def root_Lstat_def node_at_def split: sum.splits option.splits node.splits if_splits)

lemma fs_write_done:
  assumes "fs_write e io sha nonces t relative data i = (Inr (previous, hash, bytes), t')" and "\<not> fx_DryRun i"
  obtains mode exists t1 where "existingHash e io sha t relative = Inr (previous, mode, exists)" "checkExpected previous exists i = Inr ()"
    "make_parents io t relative (fx_CreateParents i) = Inr t1" "atomicWrite io nonces t1 relative data mode = (Inr (), t')"
    "hash = sha data" "bytes = int (length data)"
  using assms by (auto simp: fs_write_def split: sum.splits prod.splits if_splits)


lemma atomicWrite_failed_keeps:
  "atomicWrite io nonces t relative data mode = (Inl err, t') \<Longrightarrow> wf_tree t \<Longrightarrow> lookup t p = Some n \<Longrightarrow> lookup t' p = Some n"
  using atomicWrite_failed [of io nonces t relative data mode err t']
  by (metis lookup_Cons lookup_None option.distinct(1))

lemma fs_write_failed_keeps:
  assumes "fs_write e io sha nonces t relative data i = (Inl err, t')" and "wf_tree t" and "lookup t p = Some n"
  shows "lookup t' p = Some n"
proof (cases "t' = t")
  case False
  with assms(1) obtain t1 mode where "make_parents io t relative (fx_CreateParents i) = Inr t1"
    "atomicWrite io nonces t1 relative data mode = (Inl err, t')"
    by (auto simp: fs_write_def split: sum.splits prod.splits if_splits)
  with make_parents_keeps [of io t relative _ t1 p n] atomicWrite_failed_keeps [of io nonces t1 relative data mode err t' p n] assms(2,3)
  show ?thesis by blast
qed (use assms(3) in simp)

lemma fs_patch_failed_keeps:
  assumes "fs_patch e io sha nonces t relative i = (Inl err, t')" and "wf_tree t" and "lookup t p = Some n"
  shows "lookup t' p = Some n"
proof (cases "t' = t")
  case False
  with assms(1) obtain data mode where "atomicWrite io nonces t relative data mode = (Inl err, t')"
    by (auto simp: fs_patch_def split: sum.splits prod.splits if_splits)
  with atomicWrite_failed_keeps assms(2,3) show ?thesis by blast
qed (use assms(3) in simp)

lemma fs_move_failed: "fs_move e io sha t same s d i = (Inl err, t') \<Longrightarrow> t' = t"
  by (auto simp: fs_move_def split: sum.splits prod.splits if_splits)

lemma fs_delete_failed: "fs_delete e io sha t relative i = (Inl err, t') \<Longrightarrow> t' = t"
  by (auto simp: fs_delete_def split: sum.splits prod.splits if_splits)

lemma with_digests_fst: "with_digests out w = (Inl err, t') \<Longrightarrow> w = (Inl err, t')"
  by (auto simp: with_digests_def split: sum.splits prod.splits)


lemma change_wf: assumes "wf_tree t" and "fs_change e io sha nonces t k relative i out = (r, t')" shows "wf_tree t'"
proof -
  have atomic: "wf_tree t''" if "wf_tree s" "atomicWrite io nonces s relative data mode = (res, t'')" for s data mode res t''
  proof (cases res)
    case (Inl err)
    with that atomicWrite_failed [of io nonces s relative data mode err t''] wf_insert show ?thesis by blast
  next
    case (Inr u)
    with that show ?thesis by (auto elim: atomicWrite_done)
  qed
  have written: "wf_tree t''" if "fs_write e io sha nonces t relative data i = (res, t'')" for data res t''
    using that assms(1) by (auto simp: fs_write_def split: sum.splits prod.splits if_splits intro: atomic dest!: make_parents_wf)
  have patched: "wf_tree t''" if "fs_patch e io sha nonces t relative i = (res, t'')" for res t''
    using that assms(1) by (auto simp: fs_patch_def split: sum.splits prod.splits if_splits intro: atomic)
  have renamed: "wf_tree t''" if "fs_move e io sha t same relative d i = (res, t'')" for same d res t''
    using that assms(1) root_Rename_wf by (auto simp: fs_move_def split: sum.splits prod.splits if_splits)
  have deleted: "wf_tree t''" if "fs_delete e io sha t relative i = (res, t'')" for res t''
    using that assms(1) root_Remove_wf root_RemoveAll_wf by (auto simp: fs_delete_def split: sum.splits prod.splits if_splits)
  have snd_with: "snd (with_digests out w) = snd w" for out w by (auto simp: with_digests_def split: sum.splits prod.splits)
  have "t' = snd (fs_change e io sha nonces t k relative i out)" using assms(2) by simp
  moreover note written [OF surjective_pairing] patched [OF surjective_pairing] renamed [OF surjective_pairing] deleted [OF surjective_pairing]
  ultimately show ?thesis using assms(1) by (auto simp: fs_change_def snd_with case_prod_beta split: if_splits sum.splits)
qed


lemma change_dry:
  assumes "fx_DryRun i"
  shows "snd (fs_change e io sha nonces t k relative i out) = t"
proof -
  have "snd (with_digests out w) = snd w" for out w by (auto simp: with_digests_def split: sum.splits prod.splits)
  moreover have "snd (fs_write e io sha nonces t relative data i) = t" for data
    using assms by (auto simp: fs_write_def split: sum.splits)
  moreover have "snd (fs_patch e io sha nonces t relative i) = t"
    using assms by (auto simp: fs_patch_def split: sum.splits)
  moreover have "snd (fs_move e io sha t same relative d i) = t" for same d
    using assms by (auto simp: fs_move_def split: sum.splits)
  moreover have "snd (fs_delete e io sha t relative i) = t"
    using assms by (auto simp: fs_delete_def split: sum.splits)
  ultimately show ?thesis by (auto simp: fs_change_def case_prod_beta split: sum.splits)
qed

text \<open>
  C22: looking does not touch.  A request that needs no approval, and any dry run, leaves all workspaces as they are.
\<close>

theorem execute_untouched:
  assumes "fs_ParseAndValidate e rx raw = Inr (i, risk)" and "\<not> RequiresApproval i \<or> fx_DryRun i"
    and "fs_Execute e rx lower io sha nonces raw ts = (r, ts')"
  shows "ts' = ts"
proof -
  have "fx_Operation i \<in> set [OperationRead, OperationList, OperationSearch] \<or> fx_DryRun i"
    using assms(2) by (auto simp: RequiresApproval_def fs_Classify_def split: if_splits)
  moreover have "ts[k := snd (fs_change e io sha nonces (ts ! k) k relative i out)] = ts" if "fx_DryRun i" for k relative out
    using change_dry [OF that] by simp
  ultimately show ?thesis using assms(1,3)
    by (auto simp: fs_Execute_def Let_def case_prod_beta split: sum.splits if_splits)
qed

subsection \<open>Listings\<close>

text \<open>The failure that stands for fuel that has run out is none of the failures of the operations below.\<close>

definition no_fuel :: fs_err where
  "no_fuel = FsError ''fuel''"

lemma follow_fuel: "follow n t links cur ps \<noteq> Inl no_fuel"
  by (induction n t links cur ps rule: follow.induct) (auto simp: no_fuel_def split: option.splits node.splits)

lemma node_at_fuel: "node_at t links path \<noteq> Inl no_fuel"
  using follow_fuel by (auto simp: node_at_def place_def no_fuel_def split: sum.splits option.splits if_splits)

lemma root_Lstat_fuel: "root_Lstat t path \<noteq> Inl no_fuel"
  using node_at_fuel by (auto simp: root_Lstat_def split: sum.splits)

lemma read_names_fuel: "read_names io t directory n \<noteq> Inl no_fuel"
  using node_at_fuel by (auto simp: read_names_def root_Open_def no_fuel_def split: sum.splits if_splits)

definition bounded_result :: "int \<Rightarrow> Entry list \<Rightarrow> fs_err + Entry list \<times> bool \<Rightarrow> bool" where
  "bounded_result limit got r = (case r of
     Inl err \<Rightarrow> err \<noteq> no_fuel
   | Inr (got', _) \<Rightarrow> length got \<le> length got' \<and> int (length got') \<le> limit)"

lemma list_entries_bounded:
  assumes "\<And>child got. int (length got) \<le> limit \<Longrightarrow> length start < length got \<Longrightarrow> bounded_result limit got (walk child got)"
  shows "length start \<le> length got \<Longrightarrow> int (length got) \<le> limit \<Longrightarrow>
    bounded_result limit got (list_entries walk io t ws recursive limit directory ns got)"
proof (induction ns arbitrary: got)
  case (Cons name ns)
  show ?case
  proof (cases "int (length got) \<ge> limit \<or> io ''ctx'' directory")
    case True
    with Cons show ?thesis by (auto simp: bounded_result_def no_fuel_def)
  next
    case False
    show ?thesis
    proof (cases "root_Lstat t (path_Join [directory, name])")
      case (Inl err)
      with False root_Lstat_fuel [of t "path_Join [directory, name]"] show ?thesis by (simp add: bounded_result_def)
    next
      case (Inr n)
      let ?r = "got @ [\<lparr>en_Path = path_Join [ws, path_Join [directory, name]], en_Name = name, en_Type = typeName n, en_Size = node_size n\<rparr>]"
      have r: "int (length ?r) \<le> limit" "length start < length ?r" using False Cons(2) by auto
      note walk = assms [OF r, of "path_Join [directory, name]"]
      have rest: "bounded_result limit got' (list_entries walk io t ws recursive limit directory ns got')"
        if "length ?r \<le> length got'" "int (length got') \<le> limit" for got'
        using Cons(1) [of got'] that r by simp
      show ?thesis
      proof (cases "recursive \<and> n = Directory")
        case True
        show ?thesis
        proof (cases "walk (path_Join [directory, name]) ?r")
          case (Inl err)
          with Inr False True walk show ?thesis by (simp add: bounded_result_def Let_def)
        next
          case found: (Inr rb)
          obtain got' b where rb: "rb = (got', b)" by fastforce
          with walk found have "length ?r \<le> length got'" "int (length got') \<le> limit" by (auto simp: bounded_result_def)
          with rest [OF this] Inr False True found rb show ?thesis
            by (cases b) (auto simp: bounded_result_def Let_def split: sum.splits)
        qed
      next
        case nodir: False
        with Inr False rest [of ?r] r show ?thesis by (auto simp: bounded_result_def Let_def split: sum.splits)
      qed
    qed
  qed
qed (simp add: bounded_result_def)

lemma list_walk_bounded:
  "int (length got) \<le> limit \<Longrightarrow> limit - int (length got) < int n \<Longrightarrow>
     bounded_result limit got (list_walk n io t ws recursive limit directory got)"
proof (induction n arbitrary: directory got)
  case (Suc n)
  have "bounded_result limit got' (list_walk n io t ws recursive limit child got')"
    if "int (length got') \<le> limit" "length got < length got'" for child got'
    using Suc(1) [of got' child] Suc(3) that by simp
  then have "bounded_result limit got (list_entries (list_walk n io t ws recursive limit) io t ws recursive limit directory ns got)" for ns
    using list_entries_bounded [of limit got "list_walk n io t ws recursive limit" got] Suc(2) by simp
  moreover have "bounded_result limit got (Inl (FsError ''context''))" by (simp add: bounded_result_def no_fuel_def)
  ultimately show ?case using read_names_fuel [of io t directory "limit - int (length got) + 1"]
    by (cases "read_names io t directory (limit - int (length got) + 1)") (auto simp: bounded_result_def)
qed simp

lemma line_matches_bounded:
  "int (length got) < limit \<Longrightarrow> line_matches matcher limit path line tx base remaining got = (got', stop) \<Longrightarrow>
     int (length got') \<le> limit \<and> (\<not> stop \<longrightarrow> int (length got') < limit)"
proof (induction matcher limit path line tx base remaining got arbitrary: got' stop rule: line_matches.induct)
  case (1 matcher limit path line tx base remaining got)
  show ?case
  proof (cases "matcher remaining")
    case None
    with 1(2,3) show ?thesis by (auto simp: line_matches.simps [of matcher limit path line tx base remaining])
  next
    case (Some start)
    with 1(3) show ?thesis
      using 1(1) [OF Some refl] 1(2)
      by (subst (asm) line_matches.simps) (auto simp: Let_def split: if_splits)
  qed
qed

lemma file_matches_bounded:
  "int (length got) < limit \<Longrightarrow> file_matches matcher limit path line txs got = (got', stop) \<Longrightarrow> int (length got') \<le> limit"
proof (induction matcher limit path line txs got arbitrary: got' stop rule: file_matches.induct)
  case (2 matcher limit path line tx txs got)
  obtain r b where r: "line_matches matcher limit path line tx 0 tx got = (r, b)" by fastforce
  note bound = line_matches_bounded [OF 2(2) r]
  show ?case using bound 2(3) r 2(1) [OF r [symmetric]] by (cases b) auto
qed simp

lemma readRegular_fuel: "readRegular io sha t path n \<noteq> Inl no_fuel"
  using node_at_fuel by (auto simp: readRegular_def root_Open_def no_fuel_def split: sum.splits node.splits if_splits)

definition search_ok :: "search \<Rightarrow> search_state \<Rightarrow> fs_err + search_state \<Rightarrow> bool" where
  "search_ok s st r = (case r of
     Inl err \<Rightarrow> err \<noteq> no_fuel
   | Inr st' \<Rightarrow> ss_entriesVisited st \<le> ss_entriesVisited st' \<and> int (length (ss_result st')) \<le> fx_MaxResults (sc_input s))"

lemma inspect_ok: "int (length (ss_result st)) \<le> fx_MaxResults (sc_input s) \<Longrightarrow> search_ok s st (inspect s path n st)"
  using readRegular_fuel [of "sc_io s" "sc_sha s" "sc_tree s" path "xe_maxSearchFileBytes (sc_e s)"]
    file_matches_bounded [of "ss_result st" "fx_MaxResults (sc_input s)"]
  by (auto simp: search_ok_def inspect_def Let_def split: node.splits option.splits sum.splits if_splits prod.splits)

lemma search_ok_trans: "search_ok s st' r \<Longrightarrow> ss_entriesVisited st \<le> ss_entriesVisited st' \<Longrightarrow> search_ok s st r"
  by (auto simp: search_ok_def split: sum.splits)

lemma search_entries_ok:
  assumes "\<And>child st'. ss_entriesVisited st < ss_entriesVisited st' \<Longrightarrow> int (length (ss_result st')) \<le> fx_MaxResults (sc_input s) \<Longrightarrow>
      search_ok s st' (walk child st')"
  shows "ss_entriesVisited st \<le> ss_entriesVisited st' \<Longrightarrow> int (length (ss_result st')) \<le> fx_MaxResults (sc_input s) \<Longrightarrow>
    search_ok s st' (search_entries walk s directory ns st')"
proof (induction ns arbitrary: st')
  case (Cons name ns)
  let ?st = "st'\<lparr>ss_entriesVisited := ss_entriesVisited st' + 1\<rparr>" and ?path = "path_Join [directory, name]"
  show ?case
  proof (cases "ss_truncated st'")
    case False
    show ?thesis
    proof (cases "root_Lstat (sc_tree s) ?path")
      case (Inl err)
      with False root_Lstat_fuel [of "sc_tree s" ?path] show ?thesis by (simp add: search_ok_def Let_def)
    next
      case (Inr n)
      let ?next = "if n = Directory then (if fx_Recursive (sc_input s) then walk ?path ?st else Inr ?st) else inspect s ?path n ?st"
      have "search_ok s ?st ?next" using assms [of ?st ?path] inspect_ok [of ?st s ?path n] Cons(2,3) by (auto simp: search_ok_def)
      then have next_ok: "search_ok s st' ?next" by (rule search_ok_trans) simp
      have step: "search_entries walk s directory (name # ns) st' =
          (case ?next of Inl err \<Rightarrow> Inl err | Inr st2 \<Rightarrow> search_entries walk s directory ns st2)"
        using Inr False by (simp add: Let_def)
      show ?thesis
      proof (cases ?next)
        case (Inl err)
        with next_ok show ?thesis unfolding step Inl by (simp add: search_ok_def)
      next
        case (Inr st2)
        with next_ok have st2: "ss_entriesVisited st' \<le> ss_entriesVisited st2" "int (length (ss_result st2)) \<le> fx_MaxResults (sc_input s)"
          by (simp_all add: search_ok_def)
        with Cons(1) [of st2] Cons(2) show ?thesis unfolding step Inr by (auto intro: search_ok_trans)
      qed
    qed
  qed (use Cons in \<open>simp add: search_ok_def Let_def\<close>)
qed (simp add: search_ok_def)

lemma search_walk_ok:
  "int (length (ss_result st)) \<le> fx_MaxResults (sc_input s) \<Longrightarrow> 0 < k \<Longrightarrow> xe_maxSearchFiles (sc_e s) - ss_entriesVisited st < int k \<Longrightarrow>
     search_ok s st (search_walk k s directory st)"
proof (induction k arbitrary: directory st)
  case (Suc k)
  let ?rem = "xe_maxSearchFiles (sc_e s) - ss_entriesVisited st"
  show ?case
  proof (cases "sc_io s ''ctx'' directory \<or> ?rem \<le> 0")
    case True
    with Suc(2) show ?thesis by (auto simp: search_ok_def no_fuel_def)
  next
    case False
    have "search_ok s st' (search_walk k s child st')"
      if "ss_entriesVisited st < ss_entriesVisited st'" "int (length (ss_result st')) \<le> fx_MaxResults (sc_input s)" for child st'
      using Suc(1) [of st' child] Suc(4) that False by auto
    then have "search_ok s st (search_entries (search_walk k s) s directory ns st)" for ns
      using search_entries_ok [of st s "search_walk k s" st] Suc(2) by simp
    note entries = this
    show ?thesis
    proof (cases "read_names (sc_io s) (sc_tree s) directory (?rem + 1)")
      case (Inl err)
      with False read_names_fuel [of "sc_io s" "sc_tree s" directory "?rem + 1"] show ?thesis by (simp add: search_ok_def Let_def)
    next
      case (Inr found)
      let ?ns = "sort (if int (length found) > ?rem then take (nat ?rem) found else found)"
      from False Inr entries [of ?ns] show ?thesis
        by (cases "search_entries (search_walk k s) s directory ?ns st") (auto simp: search_ok_def Let_def)
    qed
  qed
qed simp

text \<open>
  C33: listings and searches end and are bounded.  For every tree, with its links and however deep, a listing and a search end without exhausting the
  fuel of the model, and they return no more entries and matches than the limit of the request.
\<close>

theorem lookups_bounded:
  assumes "0 < fx_MaxResults i"
  shows "(case fs_list io t ws relative recursive (fx_MaxResults i) of
      Inl err \<Rightarrow> err \<noteq> no_fuel | Inr (entries, _) \<Rightarrow> int (length entries) \<le> fx_MaxResults i) \<and>
    (case fs_search e rx lower io sha t ws relative i of
      Inl err \<Rightarrow> err \<noteq> no_fuel | Inr st \<Rightarrow> int (length (ss_result st)) \<le> fx_MaxResults i)"
proof
  show "case fs_list io t ws relative recursive (fx_MaxResults i) of
      Inl err \<Rightarrow> err \<noteq> no_fuel | Inr (entries, _) \<Rightarrow> int (length entries) \<le> fx_MaxResults i"
    using list_walk_bounded [of "[]" "fx_MaxResults i" "Suc (nat (fx_MaxResults i))" io t ws recursive relative] assms
    by (auto simp: fs_list_def bounded_result_def split: sum.splits)
  show "case fs_search e rx lower io sha t ws relative i of
      Inl err \<Rightarrow> err \<noteq> no_fuel | Inr st \<Rightarrow> int (length (ss_result st)) \<le> fx_MaxResults i"
  proof (cases "newMatcher rx lower i")
    case (Some matcher)
    define s where "s = \<lparr>sc_e = e, sc_io = io, sc_sha = sha, sc_tree = t, sc_ws = ws, sc_input = i, sc_matcher = matcher\<rparr>"
    define st :: search_state where
      "st = \<lparr>ss_result = [], ss_filesScanned = 0, ss_filesSkipped = 0, ss_entriesVisited = 0, ss_truncated = False\<rparr>"
    have "search_ok s st (inspect s relative n st)" for n
      by (rule inspect_ok) (use assms in \<open>simp add: s_def st_def\<close>)
    moreover have "search_ok s st (search_walk (Suc (nat (xe_maxSearchFiles e))) s relative st)"
      by (rule search_walk_ok) (use assms in \<open>simp_all add: s_def st_def\<close>)
    moreover have "sc_input s = i" by (simp add: s_def)
    moreover have "fs_search e rx lower io sha t ws relative i = (case root_Lstat t relative of
        Inl err \<Rightarrow> Inl err
      | Inr n \<Rightarrow> if n \<noteq> Directory then inspect s relative n st else search_walk (Suc (nat (xe_maxSearchFiles e))) s relative st)"
      by (simp only: fs_search_def Some option.case s_def st_def Let_def)
    ultimately have "search_ok s st (fs_search e rx lower io sha t ws relative i)" using root_Lstat_fuel [of t relative]
      by (cases "root_Lstat t relative") (simp_all add: search_ok_def [of s st "Inl _"] del: search_walk.simps)
    with \<open>sc_input s = i\<close> show ?thesis by (auto simp: search_ok_def split: sum.splits)
  qed (simp add: fs_search_def no_fuel_def)
qed

subsection \<open>Patches and contents\<close>

text \<open>
  A patch is applied whole.  After a successful patch the file holds the content that was read with all edits applied in order, each at exactly the expected
  number of places, within the size limit; everything else in the workspace is as before.
\<close>

theorem patch_exact:
  assumes "wf_tree t" and "fs_patch e io sha nonces t relative i = (Inr (previous, hash, bytes), t')" and "\<not> fx_DryRun i"
  shows "\<exists>data updated mode q. readRegular io sha t relative (xe_maxWriteBytes e) = Inr (data, previous, mode) \<and>
    apply_patches (xe_maxWriteBytes e) data (fx_Patches i) = Inr updated \<and> hash = sha updated \<and> bytes = int (length updated) \<and>
    place t False relative = Inr q \<and> (\<forall>r. lookup t' r = (if r = q then Some (Regular updated mode) else lookup t r))"
proof -
  from assms(2,3) obtain data mode updated where p: "readRegular io sha t relative (xe_maxWriteBytes e) = Inr (data, previous, mode)"
    "apply_patches (xe_maxWriteBytes e) data (fx_Patches i) = Inr updated" "hash = sha updated" "bytes = int (length updated)"
    and w: "atomicWrite io nonces t relative updated mode = (Inr (), t')"
    by (auto simp: fs_patch_def split: sum.splits prod.splits if_splits)
  from atomicWrite_done [OF w assms(1)] obtain q where "place t False relative = Inr q"
    "\<And>r. lookup t' r = (if r = q then Some (Regular updated mode) else lookup t r)" by metis
  with p show ?thesis by blast
qed

lemma base64_lax_strict: "base64_groups s = Some x \<Longrightarrow> base64_lax s = Some x"
  by (induction s arbitrary: x rule: base64_groups.induct) (auto split: option.splits if_splits)

text \<open>
  C34: contents survive the encodings.  The text that \<open>read\<close> returns for a file, in an encoding in which it can be returned, is decoded by
  \<open>write\<close> to the same bytes.
\<close>

theorem content_roundtrip:
  assumes "encoding = EncodingBase64 \<or> ValidString data"
  shows "decodeContent (encodeContent data encoding) encoding = Inr data"
  using assms base64_lax_strict [OF base64_groups_encoded] by (auto simp: decodeContent_def encodeContent_def encoded_bytes)

end
