(* ===== verification/Fs_Sample.thy ===== *)
theory Fs_Sample
  imports Fs_Safety
begin

text \<open>A workspace with a directory, a file and a link to it, on which the theorems about the filesystem tool are applied.\<close>

definition link_system :: system where
  "link_system = \<lparr>sy_Getwd = None, sy_EvalSymlinks = (\<lambda>p. Some (Clean p)), sy_LookPath = (\<lambda>_. None), sy_Open = (\<lambda>_ _. None),
     sy_Stat = (\<lambda>_ _. None), sy_Environ = [], sy_TempDir = None, sy_Fault = (\<lambda>_. False), sy_Reread = (\<lambda>_. None)\<rparr>"

definition link_config :: fs_Config where
  "link_config = \<lparr>fc_Workspaces = [''/w''], fc_MaxReadBytes = 0, fc_MaxWriteBytes = 0, fc_MaxSearchFileBytes = 0, fc_MaxHashBytes = 0,
     fc_MaxSearchResults = 0, fc_MaxSearchFiles = 9, fc_MaxListEntries = 9, fc_WriteMode = 0\<rparr>"

definition link_executor :: fs_Executor where
  "link_executor = \<lparr>xe_workspaces = [\<lparr>ws_path = ''/w'', ws_aliases = [''/w'']\<rparr>], xe_maxReadBytes = 1048576, xe_maxWriteBytes = 1048576,
     xe_maxSearchFileBytes = 1048576, xe_maxHashBytes = 67108864, xe_maxSearchResults = 1000, xe_maxSearchFiles = 9,
     xe_maxListEntries = 9, xe_writeMode = 384\<rparr>"

definition link_tree :: tree where
  "link_tree = [([''d''], Directory), ([''d'', ''f''], Regular ''ab'' 420), ([''l''], Symlink ''d/f'')]"

definition no_failure :: io where
  "no_failure = (\<lambda>_ _. False)"

definition link_Execute :: "string \<Rightarrow> tree list \<Rightarrow> (fs_err + fs_Output) \<times> tree list" where
  "link_Execute = fs_Execute link_executor (\<lambda>_. None) id no_failure id [''00'']"

lemma link_documented: "documented_system link_system"
  by (simp add: documented_system_def link_system_def)

lemma link_New: "NewWithConfig link_system (\<lambda>_. True) link_config = Inr link_executor"
  by code_simp

lemma link_wf: "wf_tree link_tree"
  by (auto simp: wf_tree_def link_tree_def parent_ok_def plain_name_def)

definition patch_request :: string where
  "patch_request = ''{\"operation\":\"patch\",\"path\":\"l\",\"patches\":[{\"old_text\":\"a\",\"new_text\":\"x\"}]}''"


theorem resolve_confined_witness: "elements ''/w/d'' = elements ''/w'' @ elements ''d''"
proof -
  have "resolve link_executor ''/w/x/../d'' = Inr (0, ''d'', ''/w/d'')" by code_simp
  from resolve_confined [OF link_documented link_New this] show ?thesis by (simp add: link_executor_def)
qed

theorem content_roundtrip_witness: "decodeContent (encodeContent ''ab'' EncodingBase64) EncodingBase64 = Inr ''ab''"
  using content_roundtrip [of EncodingBase64 "''ab''"] by simp

definition written_tree :: tree where
  "written_tree = [([''d'', ''f''], Regular ''new'' 420), ([''d''], Directory), ([''l''], Symlink ''d/f'')]"




theorem execute_untouched_witness: "snd (link_Execute ''{\"operation\":\"list\",\"path\":\".\"}'' [link_tree]) = [link_tree]"
proof -
  let ?raw = "''{\"operation\":\"list\",\"path\":\".\"}''"
  have "fs_ParseAndValidate link_executor (\<lambda>_. None) ?raw =
      Inr (no_fs_input\<lparr>fx_Operation := OperationList, fx_Path := ''.'', fx_Encoding := EncodingUTF8, fx_MaxResults := 9\<rparr>, RiskReadOnly)"
    by code_simp
  moreover have "\<not> RequiresApproval (no_fs_input\<lparr>fx_Operation := OperationList, fx_Path := ''.'', fx_Encoding := EncodingUTF8, fx_MaxResults := 9\<rparr>)"
    by code_simp
  ultimately show ?thesis
    using execute_untouched [OF _ _ surjective_pairing, of link_executor "\<lambda>_. None" ?raw _ _ id no_failure id "[''00'']" "[link_tree]"]
    by (simp add: link_Execute_def)
qed

theorem lookups_bounded_witness:
  "case fs_list no_failure link_tree ''/w'' ''.'' True 1 of Inl err \<Rightarrow> err \<noteq> no_fuel | Inr (entries, _) \<Rightarrow> int (length entries) \<le> 1"
  using conjunct1 [OF lookups_bounded [of "no_fs_input\<lparr>fx_MaxResults := 1\<rparr>" no_failure link_tree "''/w''" "''.''" True]]
  by (auto split: sum.splits)

end
