(* ===== verification/Spec2Isabelle.thy ===== *)
theory Spec2Isabelle
  imports Runtime_Safety Policy Dialog_Model Http_Sample Shell_Sample Fs_Sample
begin

text \<open>
  Veqri is a local assistant core written in Go.  A request (a spoken or typed question, a connector
  event, a desktop action) enters through the HTTP API, is stored as an event, a conversation turn and a
  graph of tasks, and is worked off by agents and tools under a policy; every step is recorded in one
  SQLite database.  This development models the part that decides whether that is done right: the
  database layer \<open>core/persistence\<close>, which all other parts go through, the runtime that works the queue
  off, the event stream, the HTTP, shell and filesystem tools with their guards,
  and the decision procedures around them (policy, dialog state machine, authentication).  The theorems are about the operations as the code has them, statement by
  statement, with every early return.

  \<^bold>\<open>State and effects.\<close>  \<open>Database\<close> is a state and exception monad for code that runs against a database:
  \<open>('s, 'a) tx\<close> maps a world to a result and a world, where the world holds the tables, the sequence
  of instants that \<open>time.Now\<close> returns, the sequence of identifiers that \<open>ids.New\<close> returns, and which of the coming
  statements the engine fails.  \<open>with_tx\<close> is \<open>BeginTx\<close>, the body, \<open>Commit\<close> and the deferred
  \<open>Rollback\<close>: the tables of a body that fails are the ones before it.  \<open>run_tx\<close> is the
  same for a body that may return a value without committing.  All quantification over clocks,
  identifiers and failures in the theorems is over arbitrary worlds: nothing is assumed about them
  unless a theorem says so.  The pool of the store has a single connection (\<open>SetMaxOpenConns(1)\<close> in
  \<open>store.go\<close>), so transactions of concurrent callers do not overlap and a sequence of operations
  (\<open>run\<close> in \<open>Store_Runs\<close>) is every interleaving at the granularity of operations.  A crash in the middle of an
  operation is an operation whose remaining statements fail.

  \<^bold>\<open>Theories and sources\<close> (paths below \<open>src/\<close>).
  \<^item> \<open>Prelude\<close>: names of types, the table functions \<open>upd_rows\<close> and \<open>count_rows\<close>, list lemmas.
  \<^item> \<open>Utf8\<close>, \<open>Strconv\<close>, \<open>Json\<close>, \<open>Timestamps\<close>: what the code uses of \<open>strings\<close>, \<open>unicode/utf8\<close>, \<open>strconv\<close>, \<open>encoding/json\<close> and \<open>time\<close>,
    among it the RFC 3339 text of an instant (\<open>formatTime\<close> in \<open>core/persistence/store.go\<close>).
  \<^item> \<open>Task_Model\<close>: \<open>core/tasks/model.go\<close>.  \<open>Dialog_Model\<close>: \<open>core/conversation/dialog.go\<close>.
  \<^item> \<open>Schema\<close>: the records of the \<open>core\<close> packages, the tables of \<open>core/persistence/migrations\<close> as the record
    \<open>store\<close>, and one function per kind of statement with the constraints of its table.
  \<^item> \<open>Task_Steps\<close>: every \<open>UPDATE tasks\<close> of the code as a labelled step on one row; \<open>Store_Relations\<close>: the
    invariant \<open>wf_store\<close> of the schema and the relation \<open>evolves L\<close>, which holds between the tables
    before and after an operation that executes only the updates in \<open>L\<close>.  The locales \<open>row_order\<close>
    and \<open>store_relation\<close> carry the induction over programs once for all relations.
  \<^item> \<open>Task_Records\<close>, \<open>Task_Queue\<close>, \<open>Task_Retry\<close>, \<open>Task_Control\<close>: \<open>core/persistence/tasks.go\<close>
    (records and graphs; claiming, running, completing, failing; the explicit retry; cancellation and
    recovery after a restart).
  \<^item> \<open>Approval_Store\<close>: \<open>approvals.go\<close> and \<open>CreateTaskWithApproval\<close>.  \<open>Tool_Store\<close>: \<open>tools.go\<close>.
    \<open>Dialog_Store\<close>: \<open>conversations.go\<close>, \<open>deliveries.go\<close>, \<open>observability.go\<close>.  \<open>Event_Store\<close>: \<open>events.go\<close>
    and \<open>ask.go\<close>.  \<open>Device_Store\<close>: \<open>devices.go\<close>.  \<open>Voice_Store\<close>: \<open>voice.go\<close>.  \<open>Settings_Store\<close>:
    \<open>desktop.go\<close> and \<open>webhooks.go\<close>.  \<open>Retention\<close>: \<open>retention.go\<close>.
  \<^item> \<open>Idempotency\<close>: the locale \<open>idempotent_create\<close>, the contract of the operations that create at most
    once per key, interpreted on tasks, graphs, tool invocations, events, requests and desktop actions.
  \<^item> \<open>Auth\<close>: \<open>internal/auth/token.go\<close>, which relies on the store through the locale \<open>device_verifier\<close>.
  \<^item> \<open>Policy\<close>: \<open>core/policy\<close>.
  \<^item> \<open>Store_Runs\<close>: the datatype of all operations that write, and runs of them.
  \<^item> \<open>Event_Hub\<close>: \<open>internal/stream/hub.go\<close>, the hub with its bounded channels.
  \<^item> \<open>Agent_Runtime\<close>: \<open>core/agents\<close>.  The state \<open>core\<close> holds the store, the hub, the table of running tasks and
    \<open>core_others\<close>, the store operations that other goroutines execute before each call of the runtime
    to the store, so that the theorems hold for every interleaving.  What is handed to the shell and to agents is
    logged in \<open>core_ran\<close> and \<open>core_delegated\<close>.  \<open>Runtime_Safety\<close>: the locales \<open>runtime_relation\<close> and
    \<open>runtime_work\<close>, which carry a relation on this state through every handler, and the theorems.
  \<^item> \<open>Go_Strings\<close>, \<open>Net_Addr\<close>: what the tools use of \<open>strings\<close>, \<open>path\<close> and \<open>net/netip\<close>: addresses, prefixes, their texts.
  \<^item> \<open>Http_Security\<close>: \<open>tools/http/security.go\<close> without the transport.  \<open>Http_Request\<close>, \<open>Http_Input\<close>: the checks of
    \<open>tools/http/http.go\<close> on URLs, headers, configuration and input, and the assessment.  \<open>Http_Tool\<close>: the transport,
    the chain of redirects, secrets and the output (\<open>Execute\<close>).  \<open>Http_Safety\<close>, \<open>Http_Secrets\<close>: the theorems on destinations, redirects
    and secrets.  \<open>Http_Sample\<close>: a configured tool, three hosts and one execution on which they are applied.
  \<^item> \<open>Go_Path\<close>: \<open>path/filepath\<close> on Unix, by the names a path consists of.  \<open>Shell_Input\<close>, \<open>Shell_Exec\<close>: \<open>tools/shell/shell.go\<close>; the record
    \<open>system\<close> is the operating system as a request finds it, and a file may change between any two calls.  \<open>Shell_Safety\<close>, \<open>Shell_Sample\<close>:
    the theorems, and an execution on which they are applied.
  \<^item> \<open>Fs_Root\<close>: directory trees with links and the operations of \<open>os.Root\<close> on them.  \<open>Fs_Input\<close>, \<open>Fs_Tool\<close>: \<open>tools/filesystem/filesystem.go\<close>,
    one tree per workspace as the state.  \<open>Fs_Safety\<close>, \<open>Fs_Sample\<close>: the theorems, and a tree on which they are applied.
  \<^item> \<open>Sample_Data\<close>: concrete stores on which the theorems are applied.

  \<^bold>\<open>What the lemmas show.\<close>  Each operation \<open>F\<close> has a lemma \<open>keeps_F\<close>: whatever the world, it keeps \<open>evolves L\<close> for the
  updates it executes.  The theorems of this theory follow from it for all runs: the keys and
  references of the schema (\<open>reachable_wf\<close>), the version column as a lock, ended tasks, single claims and starts, the
  approval gate for shell tasks, single decisions, single executions, single pairings, final revocation,
  one call per device.  The runtime moves the store along such runs (\<open>runtime_is_a_run\<close>), so they hold of the
  running system; on top of them no command runs without approval, twice, or past a gate
  (\<open>unapproved_never_runs\<close>, \<open>no_command_twice\<close>, \<open>past_the_gates\<close>).  Beside it each operation has inversion lemmas (\<open>F_InrD\<close>) that say what a successful
  call found and changed; the functional theorems (claiming, deciding, completing, retrying,
  cancelling, credential rotation, sessions, settings) follow from those.  Two refinements relate
  sequences of statements to a specification on single rows: the recovery after a restart
  (\<open>recovery_refines\<close>) and the retention sweep (\<open>sweep_refines\<close>).  Atomicity of the compound
  operations (\<open>completion_atomic\<close>, \<open>ask_work_atomic\<close>) covers every failure of the engine and clock.
  Of the HTTP tool they show that every address that is dialled was allowed and checked in the hop that dials it
  (\<open>http_contacts_permitted\<close>), what the address check excludes (\<open>accepted_is_public\<close>), that chains of redirects
  end and do not fall back to plain HTTP, and where secrets go; \<open>secret_header_returns\<close> is a chain in
  which a secret does reach another host.  Of the shell tool they show what a started process can be
  (\<open>shell_launch_confined\<close>, \<open>approved_bytes_run\<close>), that its path test is the one on names (\<open>workspace_test_exact\<close>), which
  commands need no approval, and what its buffers keep.  Of the filesystem tool they show that paths stay in
  their workspace, that a change is made exactly or not at all (\<open>write_exact\<close>, \<open>patch_exact\<close>, \<open>failed_change_keeps\<close>), that trees stay
  well-formed, and that listings and searches are bounded; \<open>patch_replaces_link\<close> is a patch that misses the file it read.

  \<^bold>\<open>Parameters.\<close>  SHA-256 and HMAC are functions \<open>sha256\<close>, \<open>hmac\<close> about which nothing is assumed;
  \<open>julianday\<close> of SQLite is a function \<open>jd\<close>, assumed monotone in one theorem.  The shell executor, the
  agents, the kill-switch gates, the quoting verb of \<open>fmt\<close> and the texts of errors are fields of
  \<open>Runtime\<close>, about which nothing is assumed; \<open>url_lib\<close> holds parsing, printing and reference resolution of URLs and \<open>network\<close>
  what resolvers and servers do in each hop, again without assumptions.  Of \<open>system\<close> two theorems assume, as documented,
  that the working directory and resolved links are absolute and clean paths.  A gate answers the same during one call of \<open>worker\<close>.  Identifiers and
  instants are drawn from the world.  Byte strings and texts are lists of characters, JSON documents
  kept by the store as text stay text.

  \<^bold>\<open>Termination and bounds.\<close>  All definitions are total functions.  The loop of a worker runs as long as there is work; \<open>worker\<close>
  takes a bound on the number of tasks, and its theorems hold for every bound.  \<open>client_do\<close> terminates because the
  redirect policy refuses to follow more redirects than configured.  Listings and searches take fuel for the depth of directories, one more than
  their limit on entries; \<open>lookups_bounded\<close> shows that it is enough.  Links are followed at most 255 times, the limit of \<open>os.Root\<close>.  The JSON reader counts nesting
  down from the limit of \<open>encoding/json\<close> (10000), as the library does.  Counters and versions are
  integers; the only width that the code checks, the largest key version of a device, is written out.

  \<^bold>\<open>Not modelled.\<close>  Opening, migrating, backing up and repairing the database file; reading back a malformed row (the
  store writes all rows itself); the HTTP handlers, connectors, agents and the tools for git, applications and notifications, which call the store or are
  called by the runtime; goroutines, tickers and deadlines other than through their outcomes; the
  command line, build tool and applications in other languages.  Logging and error message
  wrapping are dropped: an error is a value of \<open>err\<close>, with the sentinel errors of the code kept apart.
\<close>

subsection \<open>What every run keeps\<close>

text \<open>
  C6: the schema's invariant.  Whatever operations of the store run on a fresh database, with any clock,
  identifiers and engine failures, every store they reach satisfies the primary keys, the unique
  idempotency keys, the foreign keys and the declared ranges of progress and priority.
\<close>

theorem reachable_wf:
  assumes "run UNIV empty_store s"
  shows "wf_store s"
  using run_any [OF assms] by (simp add: evolves_def wf_empty_store)

text \<open>
  C7: the version column is an optimistic lock.  Over any run of store operations a task row keeps its identity
  (graph, type, agent, tools, timeout, idempotency key), its version never decreases, a row with the
  same version has the same status, retry count, priority and dismissal, and the retry count never
  passes the task's limit.
\<close>

theorem version_is_a_lock:
  assumes "run UNIV s s'" and "find_task i s = Some t"
  shows "\<exists>t'. find_task i s' = Some t' \<and> same_identity t t' \<and> t_Version t \<le> t_Version t' \<and>
    (t_Version t' = t_Version t \<longrightarrow> t_Status t' = t_Status t \<and> t_RetryCount t' = t_RetryCount t \<and>
       t_Priority t' = t_Priority t \<and> t_Dismissed t' = t_Dismissed t) \<and>
    t_RetryCount t \<le> t_RetryCount t' \<and> t_RetryCount t' \<le> max (t_RetryCount t) (t_MaxRetries t)"
proof -
  from evolves_find_task [OF run_any [OF assms(1)] assms(2)] obtain t' where
    "find_task i s' = Some t'" and steps: "row_steps UNIV t t'" by blast
  with row_steps_identity [OF steps] row_steps_version [OF steps] row_steps_retries [OF steps]
  show ?thesis by (auto simp: version_guards_def retries_bounded_def)
qed

text \<open>
  C8: an ended task stays ended.  Only the explicit retry changes the status of a completed, failed,
  cancelled or timed out task; no completion, failure, cancellation, recovery or sweep that comes
  late does.
\<close>

theorem ended_tasks_stay_ended:
  assumes "run {c. \<forall>i a. c \<noteq> OpRetryTask i a} s s'" and "find_task i s = Some t" and "Terminal (t_Status t)"
  shows "\<exists>t'. find_task i s' = Some t' \<and> t_Status t' = t_Status t"
proof -
  have "LRetry \<notin> labels_of c" if "\<forall>i a. c \<noteq> OpRetryTask i a" for c
    using that by (cases c) auto
  then have "evolves (- {LRetry}) s s'" by (intro run_evolves [OF assms(1)]) auto
  from evolves_find_task [OF this assms(2)] show ?thesis
    using row_steps_terminal [OF _ _ assms(3)] by fastforce
qed

subsection \<open>One worker per task\<close>


text \<open>
  A claim is started at most once.  The version a claim returned is accepted by one \<open>StartTask\<close>;
  a second call with it fails however many operations ran in between, recovery included.
\<close>

theorem one_start_per_claim:
  assumes "run UNIV empty_store (db w)" and "StartTask i v w = (Inr t, w1)" and "run UNIV (db w1) (db w2)"
  shows "\<forall>u. fst (StartTask i v w2) \<noteq> Inr u"
proof -
  from run_any [OF assms(1)] have "wf_store (db w)" by (simp add: evolves_def wf_empty_store)
  from start_uses_version [OF this assms(2) run_any [OF assms(3)]] show ?thesis by blast
qed

subsection \<open>Approvals\<close>

text \<open>
  C1: the approval gate.  A shell task that waits for approval or has ended does not become runnable through any
  operation of the store, a restart and a retry included, other than an approving decision on a
  pending, unexpired approval of that very task.
\<close>

theorem shell_needs_approval:
  assumes "wf_store (db w)" and "find_task j (db w) = Some t" and "shell_closed t"
  shows "(\<exists>t'. find_task j (db (snd (run_op c w))) = Some t' \<and> shell_closed t') \<or>
    (\<exists>i decidedBy a. c = OpDecideApproval i decidedBy True \<and> t_Status t = StatusWaitingForApproval \<and>
       find_approval i (db w) = Some a \<and> ap_Status a = ApprovalPending \<and> ap_TaskID a = j \<and>
       clock w (ticks w) < ap_ExpiresAt a)"
proof (cases "\<exists>i decidedBy. c = OpDecideApproval i decidedBy True")
  case True
  then obtain i decidedBy where c: "c = OpDecideApproval i decidedBy True" by blast
  obtain res w' where run: "DecideApproval i decidedBy True w = (res, w')" by fastforce
  then have "snd (run_op c w) = w'" by (simp add: c)
  with decide_gate [OF assms(1) run assms(2,3)] c show ?thesis by blast
next
  case False
  then have "LApprove \<notin> labels_of c" by (cases c) auto
  moreover have "evolves (labels_of c) (db w) (db (snd (run_op c w)))"
    using op_evolves [of c] by (simp add: keeps_def)
  ultimately show ?thesis using evolves_gated [of "labels_of c"] assms(2,3) by (auto simp: gated_def)
qed

text \<open>
  C10: an approval is decided once.  After a decision was accepted, every later decision on the same
  approval is refused, whoever makes it and whatever runs in between.
\<close>

theorem one_decision_per_approval:
  assumes "run UNIV empty_store (db w)" and "DecideApproval i decidedBy ok w = (Inr (a, t), w1)"
    and "run UNIV (db w1) (db w2)"
  shows "\<forall>r. fst (DecideApproval i decidedBy' ok' w2) \<noteq> Inr r"
proof -
  from run_any [OF assms(1)] have "wf_store (db w)" by (simp add: evolves_def wf_empty_store)
  from decide_closed [OF this assms(2) run_any [OF assms(3)]] show ?thesis by auto
qed

subsection \<open>Idempotency\<close>

text \<open>
  C11: a tool runs at most once per idempotency key.  When \<open>StartToolInvocation\<close> has told a caller to go
  ahead, no later call with that key is told so, whatever operations ran in between.
\<close>

theorem one_execution_per_key:
  assumes "StartToolInvocation v w = (Inr (r, False), w1)" and "run UNIV (db w1) (db w2)"
    and "in_IdempotencyKey u = in_IdempotencyKey v"
  shows "\<forall>r'. fst (StartToolInvocation u w2) \<noteq> Inr (r', False)"
  using tool_start.at_most_once [OF assms(1) run_any [OF assms(2)] assms(3)] by blast

text \<open>
  A task graph is created at most once per idempotency key of its root; a repeated request is answered with the existing
  task.
\<close>

theorem one_graph_per_key:
  assumes "CreateTaskGraph ts ds w = (Inr (r, False), w1)" and "run UNIV (db w1) (db w2)"
    and "ts' \<noteq> []" and "t_IdempotencyKey (hd ts') = t_IdempotencyKey (hd ts)"
  shows "\<forall>r'. fst (CreateTaskGraph ts' ds' w2) \<noteq> Inr (r', False)"
  using graph_create.at_most_once [of "(ts, ds)" w r w1 w2 "(ts', ds')"] assms run_any [OF assms(2)]
  by (simp add: graph_key_def)

subsection \<open>Devices, calls and desktop actions\<close>

text \<open>
  A pairing code enrols one device.  After a claim of a pairing session has succeeded, no later claim with
  the same code does, for whichever device, credential or hash function and whatever ran in between.
\<close>

theorem one_device_per_pairing:
  assumes "claimPairingSession sha256 h device credential retention audit w = (Inr u, w1)"
    and "run UNIV (db w1) (db w2)"
  shows "\<forall>u'. fst (claimPairingSession sha256' h device' credential' retention' audit' w2) \<noteq> Inr u'"
  using pairing_code_once [OF assms(1) run_any [OF assms(2)]] by blast

text \<open>
  C26: revocation is final.  Once a device has been revoked, no token authenticates as that device, with its
  current or a prepared credential, and no rotation of its credential can be prepared or confirmed,
  whatever ran since.
\<close>

theorem revoked_device_stays_out:
  assumes "run UNIV empty_store (db w)"
    and "RevokeDevice i w = (Inr u, w1) \<or> RevokeDeviceWithAudit i audit w = (Inr u, w1)"
    and "run UNIV (db w1) (db w2)"
  shows "fst (Authenticate sha256 \<lparr>adminToken = admin, verifier = Some (VerifyDeviceCredential sha256)\<rparr> token w2) \<noteq>
      Inr \<lparr>pc_Kind = ''device'', pc_ID = i\<rparr> \<and>
    fst (VerifyPendingDeviceCredential sha256 token w2) \<noteq> Inr i \<and>
    (\<forall>p. fst (PrepareDeviceCredentialRotation sha256 i token n a k w2) \<noteq> Inr p) \<and>
    (\<forall>q. fst (ConfirmDeviceCredentialRotation sha256 i token v a k w2) \<noteq> Inr q)"
proof -
  from run_any [OF assms(1)] have wf: "wf_store (db w)" by (simp add: evolves_def wf_empty_store)
  from revoke_InrD [OF wf assms(2)] obtain d where d: "find_device i (db w1) = Some d" "dv_revoked d \<noteq> None" by blast
  from assms(2) have "evolves UNIV (db w) (db w1)"
    using keeps_RevokeDevice(1) [of UNIV i] keeps_RevokeDevice(2) [of UNIV i audit] by (metis keeps_def snd_conv)
  with wf have "wf_store (db w1)" by (simp add: evolves_def)
  from revoked_locked_out [OF this d run_any [OF assms(3)]] show ?thesis
    using authenticate_device [of sha256 admin token w2 i] by blast
qed

text \<open>
  A device is in one call at a time.  In every store that a run reaches, when one call of a device is neither
  ended nor failed, every other call of that device is.
\<close>

theorem one_call_per_device:
  assumes "run UNIV empty_store s" and "find_voice i s = Some u" and "find_voice j s = Some v" and "i \<noteq> j"
    and "active_voice u" and "vs_DeviceID v = vs_DeviceID u" and "vs_DeviceID u \<noteq> []"
  shows "\<not> active_voice v"
proof
  assume v: "active_voice v"
  from run_any [OF assms(1)] have "wf_store s" by (simp add: evolves_def wf_empty_store)
  then have "distinct (active_devices (voice_sessions s))" by (simp add: wf_store_def wf_voices_def)
  with assms(2-) v show False
    by (auto simp: active_devices_def find_voice_def distinct_map dest!: find_SomeD dest: inj_onD)
qed

text \<open>
  An ended call stays ended, and the conversation and the device of a call never change.
\<close>

theorem ended_call_stays_ended:
  assumes "run UNIV s s'" and "find_voice i s = Some v"
  shows "\<exists>v'. find_voice i s' = Some v' \<and> vs_ConversationID v' = vs_ConversationID v \<and>
    vs_DeviceID v' = vs_DeviceID v \<and> (vs_State v = StateEnded \<longrightarrow> vs_State v' = StateEnded)"
  using evolves_find_voice [OF run_any [OF assms(1)] assms(2)]
  by (auto simp: voice_evolves_def dest: dialog_ended)

text \<open>
  A desktop action is started once per request.  After \<open>StartDesktopAction\<close> has told a caller to
  perform the action, no later call with that request is told so.
\<close>

theorem one_desktop_action_per_request:
  assumes "StartDesktopAction i w = (Inr (r, True), w1)" and "run UNIV (db w1) (db w2)"
  shows "\<forall>r'. fst (StartDesktopAction i w2) \<noteq> Inr (r', True)"
proof
  fix r'
  show "fst (StartDesktopAction i w2) \<noteq> Inr (r', True)"
    using desktop_action.at_most_once [OF start_action_true [OF assms(1)] run_any [OF assms(2)], of i r']
      start_action_true [of i w2 r'] by (metis fst_conv id_apply prod.collapse)
qed

text \<open>
  The recorded outcome is replayed.  Once an action has been completed, every later request for it is answered
  with the recorded response, as long as the engine does not fail.
\<close>

theorem desktop_action_replayed:
  assumes "run UNIV empty_store (db w)" and "CompleteDesktopAction i response w = (Inr u, w1)"
    and "run UNIV (db w1) (db w2)" and "\<And>n. \<not> fault w2 n"
  shows "fst (StartDesktopAction i w2) = Inr (Some response, False)"
proof -
  from run_any [OF assms(1)] have "wf_store (db w)" by (simp add: evolves_def wf_empty_store)
  from complete_InrD [OF this assms(2)] obtain a where
    a: "find_action i (db w1) = Some a" "da_Status a = ''COMPLETED''" "da_Result a = Some response" by blast
  from completed_stays [OF run_any [OF assms(3)] a(1)] a(2) have "find_action i (db w2) = Some a" by simp
  from start_known_action [OF this a(2,3) assms(4)] show ?thesis .
qed

subsection \<open>Concrete runs\<close>

definition queue_run :: store where
  "queue_run = db (snd (run_op (OpCreateTaskGraph [sample_task ''a'', (sample_task ''b'')\<lparr>t_RootTaskID := ''a''\<rparr>] [])
     (sample_world empty_store)))"

lemma queue_run_reached: "run UNIV empty_store queue_run"
  unfolding queue_run_def using run_op1 [of "sample_world empty_store"] by (simp del: run_op.simps)

definition claimed_run :: "store world" where
  "claimed_run = sample_world (db (snd (ClaimNextTask (sample_world queue_run))))"

lemma claimed_run_reached: "run UNIV empty_store (db claimed_run)"
  using run.more [of UNIV empty_store "sample_world queue_run" OpClaimNextTask] queue_run_reached
  by (simp add: claimed_run_def)

theorem reachable_wf_witness: "wf_store queue_run \<and> map t_ID (tasks queue_run) = [''a'', ''b'']"
  using reachable_wf [OF queue_run_reached] by (auto simp: queue_run_def) code_simp

theorem version_is_a_lock_witness:
  "\<exists>t'. find_task ''a'' (db claimed_run) = Some t' \<and> t_IdempotencyKey t' = ''a'' \<and> t_RetryCount t' \<le> 2"
proof -
  have "find_task ''a'' queue_run = Some (sample_task ''a'')" by code_simp
  moreover have "run UNIV queue_run (db claimed_run)"
    using run_op1 [of "sample_world queue_run" OpClaimNextTask] by (simp add: claimed_run_def)
  ultimately show ?thesis
    using version_is_a_lock [of queue_run "db claimed_run" "''a''" "sample_task ''a''"]
    by (auto simp: same_identity_def sample_task_def)
qed

theorem ended_tasks_stay_ended_witness:
  "let s = db (snd (FailTask ''a'' None False claimed_run))
   in map_option t_Status (find_task ''a'' (db (snd (RecoverInterruptedTasks (sample_world s))))) = Some StatusFailed"
proof -
  let ?s = "db (snd (FailTask ''a'' None False claimed_run))"
  have "map_option t_Status (find_task ''a'' ?s) = Some StatusFailed" by code_simp
  then obtain t where t: "find_task ''a'' ?s = Some t" "t_Status t = StatusFailed" by auto
  have "run {c. \<forall>i a. c \<noteq> OpRetryTask i a} ?s (db (snd (run_op OpRecoverInterruptedTasks (sample_world ?s))))"
    by (intro run.more) (auto intro: run.none)
  from ended_tasks_stay_ended [OF this t(1)] t(2) show ?thesis by (auto simp: Let_def)
qed


theorem shell_needs_approval_witness:
  "\<exists>t. find_task ''a'' (db (snd (run_op (OpRetryTask ''a'' None) (sample_world waiting_store)))) = Some t \<and>
     shell_closed t"
proof -
  have wf: "wf_store waiting_store" by code_simp
  have "find_task ''a'' waiting_store = Some (hd (tasks waiting_store)) \<and> shell_closed (hd (tasks waiting_store))"
    by code_simp
  with wf shell_needs_approval [of "sample_world waiting_store" "''a''" _ "OpRetryTask ''a'' None"]
  show ?thesis by auto
qed

theorem one_decision_per_approval_witness:
  "let r = DecideApproval ''p'' ''device:d'' False (sample_world waiting_store)
   in \<not> isl (fst r) \<and> isl (fst (DecideApproval ''p'' ''device:e'' True (snd r)))"
proof -
  let ?r = "DecideApproval ''p'' ''device:d'' False (sample_world waiting_store)"
  have ok: "\<not> isl (fst ?r)" by code_simp
  obtain a t where "projr (fst ?r) = (a, t)" by fastforce
  with run_Inr [OF ok] have "?r = (Inr (a, t), snd ?r)" by simp
  from one_decision_per_approval [OF _ this run.none, of "''device:e''" True] waiting_store_reached
  have "isl (fst (DecideApproval ''p'' ''device:e'' True (snd ?r)))"
    by (cases "fst (DecideApproval ''p'' ''device:e'' True (snd ?r))") auto
  with ok show ?thesis by (simp add: Let_def)
qed

definition sample_invocation :: "string \<Rightarrow> string \<Rightarrow> Invocation" where
  "sample_invocation i key = \<lparr>in_ID = i, in_TaskID = ''a'', in_ToolName = ''shell'', in_Input = ''{}'',
     in_Risk = RiskStateChanging, in_Status = [], in_StartedAt = None, in_FinishedAt = None,
     in_ExitCode = None, in_Output = [], in_Error = [], in_CorrelationID = i, in_IdempotencyKey = key\<rparr>"

theorem one_execution_per_key_witness:
  "\<exists>r. fst (StartToolInvocation (sample_invocation ''i'' ''k'') claimed_run) = Inr (r, False) \<and>
     (\<forall>r'. fst (StartToolInvocation (sample_invocation ''j'' ''k'')
        (snd (StartToolInvocation (sample_invocation ''i'' ''k'') claimed_run))) \<noteq> Inr (r', False))"
proof -
  let ?r = "StartToolInvocation (sample_invocation ''i'' ''k'') claimed_run"
  have "case fst ?r of Inr (_, b) \<Rightarrow> \<not> b | Inl _ \<Rightarrow> False" by code_simp
  then obtain x where x: "fst ?r = Inr (x, False)" by (auto split: sum.splits)
  then have "?r = (Inr (x, False), snd ?r)" by (metis prod.collapse)
  from one_execution_per_key [OF this run.none, of "sample_invocation ''j'' ''k''"] x show ?thesis
    by (simp add: sample_invocation_def)
qed

definition pairing_run :: store where
  "pairing_run = db (snd (run_op (OpCreatePairingSession ''q'' ''code'' (sample_time + seconds 600)) (sample_world empty_store)))"

abbreviation sample_claim :: "string \<Rightarrow> store world \<Rightarrow> (err + unit) \<times> store world" where
  "sample_claim i \<equiv> claimPairingSession id ''code'' (sample_device i) ''secret'' None None"

definition device_run :: "store world" where
  "device_run = sample_world (db (snd (sample_claim ''d'' (sample_world pairing_run))))"

lemma device_run_reached: "run UNIV empty_store pairing_run" "run UNIV empty_store (db device_run)"
proof -
  show first: "run UNIV empty_store pairing_run"
    unfolding pairing_run_def using run_op1 [of "sample_world empty_store"] by (simp del: run_op.simps)
  from run.more [of UNIV empty_store "sample_world pairing_run" "OpClaimPairingSession id ''code'' (sample_device ''d'') ''secret'' None None"] first
  show "run UNIV empty_store (db device_run)" by (simp add: device_run_def)
qed

theorem revoked_device_stays_out_witness:
  "let r = RevokeDevice ''d'' device_run
   in \<not> isl (fst r) \<and> isl (fst (PrepareDeviceCredentialRotation id ''d'' ''secret'' ''new'' ''a'' ''k'' (snd r)))"
proof -
  let ?r = "RevokeDevice ''d'' device_run"
  have ok: "\<not> isl (fst ?r)" by code_simp
  from revoked_device_stays_out [OF device_run_reached(2) disjI1 [OF run_Inr [OF ok]] run.none, of id "''root''" "''secret''" "''new''" "''a''" "''k''" 2]
  have "isl (fst (PrepareDeviceCredentialRotation id ''d'' ''secret'' ''new'' ''a'' ''k'' (snd ?r)))"
    by (metis isl_def sum.exhaust)
  with ok show ?thesis by (simp add: Let_def)
qed

definition call_ops :: "store_op list" where
  "call_ops = [OpGetOrCreateConversation ''v'' ''title'' True ''v'', OpCreateVoiceSession (sample_voice ''s'' ''d'' StateListening),
     OpTransitionVoiceSession ''s'' StateEnded False, OpCreateVoiceSession (sample_voice ''t'' ''d'' StateListening)]"

definition call_run :: store where
  "call_run = fold (\<lambda>c s. db (snd (run_op c (sample_world s)))) call_ops (db device_run)"

lemma fold_run: "run UNIV s0 s \<Longrightarrow> run UNIV s0 (fold (\<lambda>c s. db (snd (run_op c (sample_world s)))) cs s)"
proof (induction cs arbitrary: s)
  case (Cons c cs)
  have "run UNIV s0 (db (snd (run_op c (sample_world s))))"
    using run.more [of UNIV s0 "sample_world s" c] Cons.prems by simp
  from Cons.IH [OF this] show ?case by simp
qed simp

definition action_run :: "store world" where
  "action_run = snd (StartDesktopAction ''r'' (sample_world empty_store))"

end
